(* ===== verification/Prelude.thy ===== *)
theory Prelude
  imports "HOL-Library.Word" "HOL-Library.AList" "HOL-Library.Multiset"
begin

text \<open>
  The vocabulary shared by every component: names for the machine integers of the code,
  the collections of rewrite rules the component proofs extend, and generic lemmas on
  association lists (the model of the hash maps and of the sorted vectors of pairs), on
  sorting by key and on splitting lists at the first element with a property.
\<close>

unbundle bit_operations_syntax

type_synonym u8 = "8 word"
type_synonym u16 = "16 word"
type_synonym u32 = "32 word"
type_synonym u64 = "64 word"

text \<open>A C++ \<^verbatim>\<open>int\<close> that holds a Unix descriptor; \<open>-1\<close> is the invalid one.\<close>

type_synonym fd = int

text \<open>
  \<^verbatim>\<open>meta::traits::default_value<int>::value\<close> in UtilitiesInfra/default_traits.hpp is \<open>-1\<close>.
\<close>

abbreviation (input) null_fd :: fd where
  "null_fd \<equiv> - 1"

named_theorems table_simps \<open>what the table operations do to the abstract map\<close>
named_theorems inv_intros \<open>preservation of the component invariants\<close>
named_theorems frame_simps \<open>parts of a state an operation leaves unchanged\<close>

subsection \<open>Association lists\<close>

abbreviation keys :: "('k \<times> 'v) list \<Rightarrow> 'k list" where
  "keys xs \<equiv> map fst xs"

lemma map_of_distinct_mset:
  assumes "distinct (keys xs)" and "mset xs = mset ys"
  shows "map_of xs = map_of ys"
proof (rule map_of_inject_set [THEN iffD2])
  have "mset (keys xs) = mset (keys ys)"
    using assms(2) by (metis mset_map)
  then show "distinct (keys ys)"
    using assms(1) mset_eq_imp_distinct_iff by blast
  show "set xs = set ys"
    using assms(2) by (rule mset_eq_setD)
qed (rule assms(1))

lemma map_of_sort_key:
  "distinct (keys xs) \<Longrightarrow> map_of (sort_key fst xs) = map_of xs"
  by (rule map_of_distinct_mset [symmetric]) simp_all

lemma distinct_keys_sort_key [simp]:
  "distinct (keys (sort_key fst xs)) = distinct (keys xs)"
proof -
  have "mset (keys (sort_key fst xs)) = mset (keys xs)"
    by (simp add: mset_map)
  then show ?thesis
    by (rule mset_eq_imp_distinct_iff)
qed

lemma sorted_keys_sort_key [simp]: "sorted (keys (sort_key fst xs))"
  by (rule sorted_sort_key)

lemma keys_map_value: "keys (map (\<lambda>(k, v). (k, f k v)) xs) = keys xs"
  by (induction xs) auto

lemma keys_filter_sorted: "sorted (keys xs) \<Longrightarrow> sorted (keys (filter P xs))"
  by (induction xs) auto

lemma keys_filter_distinct: "distinct (keys xs) \<Longrightarrow> distinct (keys (filter P xs))"
  by (induction xs) auto

lemma map_of_filter_key:
  "map_of (filter (\<lambda>p. fst p \<noteq> k) xs) = (map_of xs)(k := None)"
  by (induction xs) (auto simp: fun_eq_iff)

lemma length_filter_key_distinct:
  assumes "distinct (keys xs)" and "k \<in> set (keys xs)"
  shows "Suc (length (filter (\<lambda>p. fst p \<noteq> k) xs)) = length xs"
  using assms
proof (induction xs)
  case Nil
  then show ?case by simp
next
  case (Cons p xs)
  show ?case
  proof (cases "fst p = k")
    case True
    with Cons.prems have "\<forall>q \<in> set xs. fst q \<noteq> k"
      by (auto simp: image_iff)
    then have "filter (\<lambda>p. fst p \<noteq> k) xs = xs"
      by (simp add: filter_id_conv)
    with True show ?thesis by simp
  next
    case False
    with Cons show ?thesis by simp
  qed
qed

lemma filter_key_absent:
  "k \<notin> set (keys xs) \<Longrightarrow> filter (\<lambda>p. fst p \<noteq> k) xs = xs"
  by (induction xs) auto

lemma map_of_eq_None_keys: "map_of xs k = None \<longleftrightarrow> k \<notin> set (keys xs)"
  by (simp add: map_of_eq_None_iff)

lemma map_of_snoc_absent:
  "k \<notin> set (keys xs) \<Longrightarrow> map_of (xs @ [(k, v)]) = (map_of xs)(k \<mapsto> v)"
  by (induction xs) (auto simp: fun_eq_iff)

lemma distinct_keys_update:
  "distinct (keys xs) \<Longrightarrow> distinct (keys (AList.update k v xs))"
  by (rule distinct_update)

lemma update_map_of: "map_of (AList.update k v xs) = (map_of xs)(k \<mapsto> v)"
  by (simp add: update_conv')

lemma delete_map_of: "map_of (AList.delete k xs) = (map_of xs)(k := None)"
  by (simp add: delete_conv')

lemma distinct_keys_delete:
  "distinct (keys xs) \<Longrightarrow> distinct (keys (AList.delete k xs))"
  by (simp add: distinct_delete)

end
