(* ===== verification/SharedState.thy ===== *)
theory SharedState
  imports Prelude
begin

text \<open>
  The locking discipline of the shared containers (UtilitiesInfra/shared_lookup_table.hpp,
  UtilitiesInfra/shared_queue.hpp). An object is its content and the state of its mutex;
  a member function that takes a scoped lock runs only when the mutex is free and leaves
  it free. The objects live in a store indexed by their address, because the assignment
  operators compare addresses and lock two objects. A step that has to wait for a mutex
  is \<open>None\<close>. The content operations themselves are in LookupTable and SharedQueue.
\<close>

record 'a shared =
  content :: 'a
  locked :: bool

definition fresh_shared :: "'a \<Rightarrow> 'a shared" where
  "fresh_shared c = \<lparr>content = c, locked = False\<rparr>"

text \<open>A member function under \<^verbatim>\<open>lock_guard\<close> or \<^verbatim>\<open>unique_lock lck{sh_mutex}\<close>.\<close>

definition with_lock :: "('a \<Rightarrow> 'r \<times> 'a) \<Rightarrow> 'a shared \<Rightarrow> ('r \<times> 'a shared) option" where
  "with_lock f s =
     (if locked s then None
      else (case f (content s) of (r, c) \<Rightarrow> Some (r, s\<lparr>content := c\<rparr>)))"

text \<open>
  The copy constructor locks the other object for the time of the copy; the new object's
  own mutex is fresh.
\<close>

definition copy_construct :: "'a shared \<Rightarrow> ('a shared) option" where
  "copy_construct other = (if locked other then None else Some (fresh_shared (content other)))"

text \<open>
  The move constructor: \<open>rest\<close> is what the moved-from container holds afterwards, which
  the language leaves unspecified.
\<close>

definition move_construct :: "'a \<Rightarrow> 'a shared \<Rightarrow> ('a shared \<times> 'a shared) option" where
  "move_construct rest other =
     (if locked other then None
      else Some (fresh_shared (content other), other\<lparr>content := rest\<rparr>))"

text \<open>
  \<^verbatim>\<open>operator=\<close>: \<^verbatim>\<open>std::lock(m_mutex, other.m_mutex)\<close> locks both mutexes; no guard adopts
  them and nothing unlocks them before the return.
\<close>

definition copy_assign ::
    "nat \<Rightarrow> nat \<Rightarrow> (nat \<Rightarrow> 'a shared) \<Rightarrow> (nat \<Rightarrow> 'a shared) option" where
  "copy_assign this other st =
     (if this = other then Some st
      else if locked (st this) \<or> locked (st other) then None
      else Some (st(this := (st this)\<lparr>content := content (st other), locked := True\<rparr>,
                    other := (st other)\<lparr>locked := True\<rparr>)))"

definition move_assign ::
    "'a \<Rightarrow> nat \<Rightarrow> nat \<Rightarrow> (nat \<Rightarrow> 'a shared) \<Rightarrow> (nat \<Rightarrow> 'a shared) option" where
  "move_assign rest this other st =
     (if this = other then Some st
      else if locked (st this) \<or> locked (st other) then None
      else Some (st(this := (st this)\<lparr>content := content (st other), locked := True\<rparr>,
                    other := (st other)\<lparr>content := rest, locked := True\<rparr>)))"

subsection \<open>Member functions keep the mutex free\<close>

lemma with_lock_free:
  "\<not> locked s \<Longrightarrow> with_lock f s = Some (fst (f (content s)), s\<lparr>content := snd (f (content s))\<rparr>)"
  by (simp add: with_lock_def case_prod_beta)

lemma with_lock_keeps_lock: "with_lock f s = Some (r, s') \<Longrightarrow> locked s' = locked s"
  by (auto simp: with_lock_def split: if_splits prod.splits)

lemma with_lock_blocked: "locked s \<Longrightarrow> with_lock f s = None"
  by (simp add: with_lock_def)

lemma copy_construct_content:
  "\<not> locked s \<Longrightarrow> copy_construct s = Some (fresh_shared (content s))"
  by (simp add: copy_construct_def)

lemma copy_assign_content:
  "copy_assign i j st = Some st' \<Longrightarrow> content (st' i) = content (st j)"
  by (auto simp: copy_assign_def split: if_splits)

lemma copy_assign_locks:
  "copy_assign i j st = Some st' \<Longrightarrow> i \<noteq> j \<Longrightarrow> locked (st' i) \<and> locked (st' j)"
  by (auto simp: copy_assign_def split: if_splits)

lemma move_assign_locks:
  "move_assign rest i j st = Some st' \<Longrightarrow> i \<noteq> j \<Longrightarrow> locked (st' i) \<and> locked (st' j)"
  by (auto simp: move_assign_def split: if_splits)

subsection \<open>Properties\<close>

text \<open>
  After the assignment of one shared container to another both mutexes stay locked: the
  content is copied, and every later member function of either object waits for ever. The copy
  constructor and the ordinary member functions leave the mutex free.
\<close>

theorem copy_assign_blocks_both:
  assumes "copy_assign i j st = Some st'" and "i \<noteq> j"
  shows "content (st' i) = content (st j) \<and>
         with_lock f (st' i) = None \<and> with_lock f (st' j) = None \<and>
         copy_assign i j st' = None"
  using copy_assign_content [OF assms(1)] copy_assign_locks [OF assms] assms(2)
  by (simp add: with_lock_blocked copy_assign_def)

theorem copy_assign_blocks_both_witness:
  "\<exists>st'. copy_assign 0 1 (\<lambda>i. fresh_shared (i + 7)) = Some st' \<and>
     content (st' 0) = (8 :: nat) \<and> with_lock (\<lambda>c. (c, c)) (st' 0) = None \<and>
     with_lock (\<lambda>c. (c, c)) (st' 1) = None"
proof -
  obtain st' where st': "copy_assign 0 1 (\<lambda>i. fresh_shared (i + 7 :: nat)) = Some st'"
    by (simp add: copy_assign_def fresh_shared_def)
  from copy_assign_blocks_both [OF st', of "\<lambda>c. (c, c)"] st' show ?thesis
    by (auto simp: fresh_shared_def)
qed

end
