(* ===== verification/LookupTable.thy ===== *)
theory LookupTable
  imports SharedState
begin

text \<open>
  The two specialisations of \<^verbatim>\<open>shared_lookup_table\<close> (UtilitiesInfra/shared_lookup_table.hpp)
  and the operations they inherit from \<^verbatim>\<open>container_operations\<close>. The hash map is an
  association list with distinct keys, in the container's iteration order; the vector is
  the list of its pairs. \<^verbatim>\<open>insert_or_assign\<close> says whether it inserted. A call whose
  behaviour the language leaves undefined (erasing at \<^verbatim>\<open>end()\<close>) is \<open>None\<close>.
\<close>

type_synonym ('k, 'v) table = "('k \<times> 'v) list"

subsection \<open>\<^verbatim>\<open>shared_lookup_table<Key, Value, std::unordered_map>\<close>\<close>

definition um_add_or_update_mapping :: "'k \<Rightarrow> 'v \<Rightarrow> ('k, 'v) table \<Rightarrow> bool \<times> ('k, 'v) table" where
  "um_add_or_update_mapping k v t = (map_of t k = None, AList.update k v t)"

definition um_value_for :: "'v \<Rightarrow> 'k \<Rightarrow> ('k, 'v) table \<Rightarrow> 'v \<times> bool" where
  "um_value_for dflt k t = (case map_of t k of Some v \<Rightarrow> (v, True) | None \<Rightarrow> (dflt, False))"

definition um_remove_mapping :: "'k \<Rightarrow> ('k, 'v) table \<Rightarrow> ('k, 'v) table" where
  "um_remove_mapping k t = AList.delete k t"

definition um_empty :: "('k, 'v) table \<Rightarrow> bool" where
  "um_empty t = List.null t"

definition um_size :: "('k, 'v) table \<Rightarrow> nat" where
  "um_size t = length t"

definition getKeysFromContainer :: "('k, 'v) table \<Rightarrow> 'k list" where
  "getKeysFromContainer t = map fst t"

definition um_get_subsection_for :: "'k list \<Rightarrow> ('k, 'v) table \<Rightarrow> ('k, 'v) table" where
  "um_get_subsection_for ks t =
     fold (\<lambda>k sub. case map_of t k of Some v \<Rightarrow> AList.update k v sub | None \<Rightarrow> sub) ks []"

definition um_clone :: "('k, 'v) table \<Rightarrow> ('k, 'v) table" where
  "um_clone t = t"

definition um_clear :: "('k, 'v) table \<Rightarrow> ('k, 'v) table" where
  "um_clear t = []"

subsection \<open>\<^verbatim>\<open>shared_lookup_table<Key, Value, std::vector>\<close>\<close>

text \<open>\<^verbatim>\<open>std::find_if\<close> gives the first pair with the key: an index, or \<open>None\<close> for \<^verbatim>\<open>end()\<close>.\<close>

fun get_value_position_for :: "'k \<Rightarrow> ('k, 'v) table \<Rightarrow> nat option" where
  "get_value_position_for k [] = None"
| "get_value_position_for k (p # t) =
     (if k = fst p then Some 0 else map_option Suc (get_value_position_for k t))"

definition internal_sort :: "('k::linorder, 'v) table \<Rightarrow> ('k, 'v) table" where
  "internal_sort t = sort_key fst t"

definition vec_add_or_update_mapping ::
    "'k::linorder \<Rightarrow> 'v \<Rightarrow> ('k, 'v) table \<Rightarrow> bool \<times> ('k, 'v) table" where
  "vec_add_or_update_mapping k v t =
     (case get_value_position_for k t of
        Some i \<Rightarrow> (True, t[i := (fst (t ! i), v)])
      | None \<Rightarrow> (True, internal_sort (t @ [(k, v)])))"

definition vec_value_for :: "'v \<Rightarrow> 'k \<Rightarrow> ('k, 'v) table \<Rightarrow> 'v \<times> bool" where
  "vec_value_for dflt k t =
     (case get_value_position_for k t of
        Some i \<Rightarrow> (snd (t ! i), True)
      | None \<Rightarrow> (dflt, False))"

text \<open>
  \<^verbatim>\<open>erase(std::remove_if(...))\<close> is the one-iterator \<^verbatim>\<open>erase\<close>: it erases exactly the element
  at the new logical end, which must not be \<^verbatim>\<open>end()\<close>. The elements behind it, if any,
  stay (there are none when at most one pair has the key).
\<close>

definition vec_remove_mapping :: "'k \<Rightarrow> ('k, 'v) table \<Rightarrow> ('k, 'v) table option" where
  "vec_remove_mapping k t =
     (if List.null t then Some t
      else let kept = filter (\<lambda>p. fst p \<noteq> k) t
           in if length kept = length t then None
              else Some (kept @ drop (Suc (length kept)) t))"

definition vec_get_subsection_for ::
    "'k::linorder list \<Rightarrow> ('k, 'v) table \<Rightarrow> ('k, 'v) table" where
  "vec_get_subsection_for ks t =
     fold (\<lambda>k sub. case get_value_position_for k t of
                     Some i \<Rightarrow> snd (vec_add_or_update_mapping (fst (t ! i)) (snd (t ! i)) sub)
                   | None \<Rightarrow> sub) ks []"

definition vec_clear :: "('k, 'v) table \<Rightarrow> ('k, 'v) table" where
  "vec_clear t = []"

subsection \<open>\<^verbatim>\<open>container_operations\<close>\<close>

text \<open>The functions passed in read and change the state \<open>'s\<close> of the object that calls.\<close>

definition co_for_each :: "('k \<times> 'v \<Rightarrow> 's \<Rightarrow> 's) \<Rightarrow> ('k, 'v) table \<Rightarrow> 's \<Rightarrow> 's" where
  "co_for_each f t s = fold f t s"

fun collect_keys ::
    "('k \<times> 'v \<Rightarrow> 's \<Rightarrow> bool \<times> 's) \<Rightarrow> ('k, 'v) table \<Rightarrow> 's \<Rightarrow> 'k list \<times> 's" where
  "collect_keys pred [] s = ([], s)"
| "collect_keys pred (p # t) s =
     (case pred p s of (r, s1) \<Rightarrow>
      case collect_keys pred t s1 of (ks, s2) \<Rightarrow> (if r then fst p # ks else ks, s2))"

text \<open>\<^verbatim>\<open>remove_if\<close> on the hash map: first the keys, under the lock, then one removal per key.\<close>

definition um_remove_if ::
    "('k \<times> 'v \<Rightarrow> 's \<Rightarrow> bool \<times> 's) \<Rightarrow> ('k, 'v) table \<Rightarrow> 's \<Rightarrow> ('k, 'v) table \<times> 's" where
  "um_remove_if pred t s =
     (case collect_keys pred t s of (ks, s') \<Rightarrow> (fold um_remove_mapping ks t, s'))"

definition co_find_if :: "'v \<Rightarrow> ('k \<times> 'v \<Rightarrow> bool) \<Rightarrow> ('k, 'v) table \<Rightarrow> 'v \<times> bool" where
  "co_find_if dflt pred t =
     (case find pred t of Some p \<Rightarrow> (snd p, True) | None \<Rightarrow> (dflt, False))"

definition co_update_if ::
    "('k \<times> 'v \<Rightarrow> bool) \<Rightarrow> ('k \<times> 'v \<Rightarrow> 'v) \<Rightarrow> ('k, 'v) table \<Rightarrow> ('k, 'v) table" where
  "co_update_if pred upd t = map (\<lambda>p. if pred p then (fst p, upd p) else p) t"

subsection \<open>The vector operations through the abstract map\<close>

lemma get_value_position_for_None:
  "get_value_position_for k t = None \<longleftrightarrow> k \<notin> set (keys t)"
  by (induction t) auto

lemma get_value_position_for_Some:
  "get_value_position_for k t = Some i \<Longrightarrow>
     i < length t \<and> fst (t ! i) = k \<and> map_of t k = Some (snd (t ! i))"
proof (induction t arbitrary: i)
  case Nil
  then show ?case by simp
next
  case (Cons p t)
  then show ?case by (cases p) (auto split: if_splits)
qed

lemma map_of_position:
  "map_of t k = map_option (\<lambda>i. snd (t ! i)) (get_value_position_for k t)"
proof (cases "get_value_position_for k t")
  case None
  then have "map_of t k = None"
    by (metis get_value_position_for_None map_of_eq_None_keys)
  with None show ?thesis by simp
next
  case (Some i)
  then show ?thesis
    using get_value_position_for_Some [OF Some] by simp
qed

lemma map_of_update_position:
  "get_value_position_for k t = Some i \<Longrightarrow> map_of (t[i := (k, v)]) = (map_of t)(k \<mapsto> v)"
proof (induction t arbitrary: i)
  case Nil
  then show ?case by simp
next
  case (Cons p t)
  show ?case
  proof (cases "k = fst p")
    case True
    with Cons.prems show ?thesis by (cases p) (auto simp: fun_eq_iff)
  next
    case False
    with Cons.prems obtain j where j: "get_value_position_for k t = Some j" and "i = Suc j"
      by auto
    with False Cons.IH [OF j] show ?thesis by (cases p) (auto simp: fun_eq_iff)
  qed
qed

lemma keys_update_position:
  assumes "get_value_position_for k t = Some i"
  shows "keys (t[i := (k, v)]) = keys t"
proof -
  have "i < length t" and "keys t ! i = k"
    using get_value_position_for_Some [OF assms] by auto
  then show ?thesis
    by (simp add: map_update list_update_same_conv)
qed

text \<open>
  The vector's well-formedness: its keys are strictly increasing, kept as sortedness and
  distinctness. The hash map's: its keys are distinct.
\<close>

definition vec_inv :: "('k::linorder, 'v) table \<Rightarrow> bool" where
  "vec_inv t \<longleftrightarrow> sorted (keys t) \<and> distinct (keys t)"

definition um_inv :: "('k, 'v) table \<Rightarrow> bool" where
  "um_inv t \<longleftrightarrow> distinct (keys t)"

lemma vec_inv_add [inv_intros]:
  "vec_inv t \<Longrightarrow> vec_inv (snd (vec_add_or_update_mapping k v t))"
proof (cases "get_value_position_for k t")
  case None
  assume "vec_inv t"
  moreover have "k \<notin> fst ` set t"
    using None by (simp add: get_value_position_for_None)
  ultimately show ?thesis
    by (simp add: vec_add_or_update_mapping_def vec_inv_def internal_sort_def None)
next
  case (Some i)
  assume "vec_inv t"
  then show ?thesis
    using get_value_position_for_Some [OF Some] keys_update_position [OF Some, of v]
    by (simp add: vec_add_or_update_mapping_def vec_inv_def Some)
qed

lemma vec_add_map_of [table_simps]:
  "distinct (keys t) \<Longrightarrow>
     map_of (snd (vec_add_or_update_mapping k v t)) = (map_of t)(k \<mapsto> v)"
proof (cases "get_value_position_for k t")
  case None
  assume d: "distinct (keys t)"
  have k: "k \<notin> set (keys t)"
    by (rule get_value_position_for_None [THEN iffD1, OF None])
  have "map_of (sort_key fst (t @ [(k, v)])) = map_of (t @ [(k, v)])"
    using d k by (intro map_of_sort_key) simp
  also have "\<dots> = (map_of t)(k \<mapsto> v)"
    using k by (rule map_of_snoc_absent)
  finally show ?thesis
    by (simp add: vec_add_or_update_mapping_def internal_sort_def None)
next
  case (Some i)
  then show ?thesis
    using get_value_position_for_Some [OF Some] map_of_update_position [OF Some]
    by (simp add: vec_add_or_update_mapping_def)
qed

lemma vec_value_for_eq: "vec_value_for d k t = um_value_for d k t"
  by (auto simp: vec_value_for_def um_value_for_def map_of_position split: option.splits)

lemma um_value_for_Some: "map_of t k = Some v \<Longrightarrow> um_value_for d k t = (v, True)"
  by (simp add: um_value_for_def)

lemma um_value_for_None: "map_of t k = None \<Longrightarrow> um_value_for d k t = (d, False)"
  by (simp add: um_value_for_def)

lemma vec_remove_present:
  assumes "distinct (keys t)" and "k \<in> set (keys t)"
  shows "vec_remove_mapping k t = Some (filter (\<lambda>p. fst p \<noteq> k) t)"
proof -
  have "Suc (length (filter (\<lambda>p. fst p \<noteq> k) t)) = length t"
    using assms by (rule length_filter_key_distinct)
  moreover have "t \<noteq> []"
    using assms(2) by auto
  ultimately show ?thesis
    by (simp add: vec_remove_mapping_def Let_def del: length_greater_0_conv)
qed

lemma vec_remove_absent:
  assumes "k \<notin> set (keys t)" and "t \<noteq> []"
  shows "vec_remove_mapping k t = None"
proof -
  have "filter (\<lambda>p. fst p \<noteq> k) t = t"
    using assms(1) by (rule filter_key_absent)
  then have "length (filter (\<lambda>p. fst p \<noteq> k) t) = length t"
    by (rule arg_cong)
  with assms(2) show ?thesis
    by (simp add: vec_remove_mapping_def Let_def)
qed

lemma vec_remove_defined_iff:
  assumes "distinct (keys t)"
  shows "vec_remove_mapping k t \<noteq> None \<longleftrightarrow> t = [] \<or> k \<in> set (keys t)"
proof (cases "t = []")
  case True
  then show ?thesis by (simp add: vec_remove_mapping_def)
next
  case False
  then show ?thesis
    using vec_remove_present [OF assms] vec_remove_absent [of k t] by (cases "k \<in> set (keys t)") auto
qed

subsection \<open>The interface the reactor and the demultiplexer use\<close>

text \<open>
  What a client may rely on, whichever container is behind the table: an abstraction to a
  map, an invariant every operation keeps, and a removal that is defined for a present key.
\<close>

locale lookup_store =
  fixes abs :: "'t \<Rightarrow> ('k \<rightharpoonup> 'v)"
    and inv :: "'t \<Rightarrow> bool"
    and emp :: 't
    and add :: "'k \<Rightarrow> 'v \<Rightarrow> 't \<Rightarrow> 't"
    and rem :: "'k \<Rightarrow> 't \<Rightarrow> 't option"
    and val :: "'v \<Rightarrow> 'k \<Rightarrow> 't \<Rightarrow> 'v \<times> bool"
  assumes inv_emp: "inv emp"
    and abs_emp: "abs emp = Map.empty"
    and inv_add: "inv t \<Longrightarrow> inv (add k v t)"
    and abs_add: "inv t \<Longrightarrow> abs (add k v t) = (abs t)(k \<mapsto> v)"
    and rem_present: "inv t \<Longrightarrow> k \<in> dom (abs t) \<Longrightarrow>
          \<exists>t'. rem k t = Some t' \<and> inv t' \<and> abs t' = (abs t)(k := None)"
    and val_abs: "inv t \<Longrightarrow>
          val d k t = (case abs t k of Some v \<Rightarrow> (v, True) | None \<Rightarrow> (d, False))"
begin

lemma val_after_add: "inv t \<Longrightarrow> val d k (add k v t) = (v, True)"
  by (simp add: val_abs inv_add abs_add)

lemma val_after_add_other: "inv t \<Longrightarrow> k \<noteq> k' \<Longrightarrow> val d k (add k' v t) = val d k t"
  by (simp add: val_abs inv_add abs_add)

lemma val_after_rem:
  "inv t \<Longrightarrow> k \<in> dom (abs t) \<Longrightarrow> rem k t = Some t' \<Longrightarrow> val d k t' = (d, False)"
  using rem_present [of t k] by (auto simp: val_abs)

lemma rem_after_add: "inv t \<Longrightarrow> \<exists>t'. rem k (add k v t) = Some t' \<and> abs t' = (abs t)(k := None)"
  using rem_present [of "add k v t" k] by (auto simp: inv_add abs_add)

end

text \<open>A client's sequence of calls, on a container and on the abstract map.\<close>

datatype ('k, 'v) table_op = AddOrUpdate 'k 'v | RemoveMapping 'k

fun run_table ::
    "('k \<Rightarrow> 'v \<Rightarrow> 't \<Rightarrow> 't) \<Rightarrow> ('k \<Rightarrow> 't \<Rightarrow> 't option) \<Rightarrow> ('k, 'v) table_op list \<Rightarrow> 't \<Rightarrow> 't option" where
  "run_table add rem [] t = Some t"
| "run_table add rem (AddOrUpdate k v # ops) t = run_table add rem ops (add k v t)"
| "run_table add rem (RemoveMapping k # ops) t =
     Option.bind (rem k t) (run_table add rem ops)"

fun spec_table :: "('k, 'v) table_op list \<Rightarrow> ('k \<rightharpoonup> 'v) \<Rightarrow> ('k \<rightharpoonup> 'v)" where
  "spec_table [] m = m"
| "spec_table (AddOrUpdate k v # ops) m = spec_table ops (m(k \<mapsto> v))"
| "spec_table (RemoveMapping k # ops) m = spec_table ops (m(k := None))"

text \<open>Every removal meets a present key: the condition under which no call is undefined.\<close>

fun removals_present :: "('k, 'v) table_op list \<Rightarrow> 'k set \<Rightarrow> bool" where
  "removals_present [] D = True"
| "removals_present (AddOrUpdate k v # ops) D = removals_present ops (insert k D)"
| "removals_present (RemoveMapping k # ops) D = (k \<in> D \<and> removals_present ops (D - {k}))"

context lookup_store begin

lemma run_refines_spec:
  "inv t \<Longrightarrow> removals_present ops (dom (abs t)) \<Longrightarrow>
     \<exists>t'. run_table add rem ops t = Some t' \<and> inv t' \<and> abs t' = spec_table ops (abs t)"
proof (induction ops arbitrary: t)
  case Nil
  then show ?case by simp
next
  case (Cons op ops)
  show ?case
  proof (cases op)
    case (AddOrUpdate k v)
    then have "removals_present ops (dom (abs (add k v t)))"
      using Cons.prems by (simp add: abs_add)
    then have "\<exists>t'. run_table add rem ops (add k v t) = Some t' \<and> inv t' \<and>
        abs t' = spec_table ops (abs (add k v t))"
      by (rule Cons.IH [OF inv_add [OF Cons.prems(1)]])
    then show ?thesis
      using Cons.prems(1) by (simp add: AddOrUpdate abs_add)
  next
    case (RemoveMapping k)
    with Cons.prems have k: "k \<in> dom (abs t)"
      and ops: "removals_present ops (dom (abs t) - {k})" by simp_all
    obtain t1 where t1: "rem k t = Some t1" "inv t1" "abs t1 = (abs t)(k := None)"
      using rem_present [OF Cons.prems(1) k] by blast
    from ops have "removals_present ops (dom (abs t1))" by (simp add: t1(3))
    then have "\<exists>t'. run_table add rem ops t1 = Some t' \<and> inv t' \<and> abs t' = spec_table ops (abs t1)"
      by (rule Cons.IH [OF t1(2)])
    then show ?thesis by (simp only: RemoveMapping run_table.simps spec_table.simps t1 bind.bind_lunit)
  qed
qed

end

interpretation um: lookup_store
  map_of um_inv "[]" "\<lambda>k v t. snd (um_add_or_update_mapping k v t)"
  "\<lambda>k t. Some (um_remove_mapping k t)" um_value_for
  by unfold_locales
    (simp_all add: um_inv_def um_add_or_update_mapping_def um_remove_mapping_def um_value_for_def
      update_map_of delete_map_of distinct_keys_update distinct_keys_delete)

lemma vec_rem_law:
  "vec_inv t \<Longrightarrow> k \<in> dom (map_of t) \<Longrightarrow>
     \<exists>t'. vec_remove_mapping k t = Some t' \<and> vec_inv t' \<and> map_of t' = (map_of t)(k := None)"
  by (simp add: vec_inv_def dom_map_of_conv_image_fst vec_remove_present keys_filter_sorted
      keys_filter_distinct map_of_filter_key)

interpretation vec: lookup_store
  map_of vec_inv "[]" "\<lambda>k v t. snd (vec_add_or_update_mapping k v t)"
  vec_remove_mapping vec_value_for
proof unfold_locales
  show "vec_inv []" by (simp add: vec_inv_def)
next
  fix t :: "('a \<times> 'b) list" and k v
  assume t: "vec_inv t"
  then show "map_of (snd (vec_add_or_update_mapping k v t)) = (map_of t)(k \<mapsto> v)"
    by (simp add: vec_inv_def vec_add_map_of)
qed (simp_all add: vec_inv_add vec_rem_law vec_value_for_eq um_value_for_def)

subsection \<open>Removal by predicate, subsections\<close>

text \<open>
  \<^verbatim>\<open>remove_if\<close> calls the predicate once per element, in iteration order, threading
  the caller's state; then exactly the keys it answered true for are gone.
\<close>

fun pred_states :: "('k \<times> 'v \<Rightarrow> 's \<Rightarrow> bool \<times> 's) \<Rightarrow> ('k, 'v) table \<Rightarrow> 's \<Rightarrow> 's list" where
  "pred_states pred [] s = []"
| "pred_states pred (p # t) s = s # pred_states pred t (snd (pred p s))"

lemma collect_keys_state: "snd (collect_keys pred t s) = fold (\<lambda>p s. snd (pred p s)) t s"
  by (induction t arbitrary: s) (simp_all add: case_prod_beta)

lemma collect_keys_keys:
  "fst (collect_keys pred t s) =
     map (fst \<circ> fst) (filter (\<lambda>(p, s). fst (pred p s)) (zip t (pred_states pred t s)))"
  by (induction t arbitrary: s) (simp_all add: case_prod_beta)

lemma collect_keys_stateless:
  "collect_keys (\<lambda>p s. (P p, s)) t s = (map fst (filter P t), s)"
  by (induction t) auto

lemma fold_delete: "fold um_remove_mapping ks t = filter (\<lambda>p. fst p \<notin> set ks) t"
proof (induction ks arbitrary: t)
  case Nil
  then show ?case by simp
next
  case (Cons k ks)
  have d: "um_remove_mapping k t = filter (\<lambda>p. k \<noteq> fst p) t"
    by (simp add: um_remove_mapping_def AList.delete_eq case_prod_beta')
  show ?case
    using Cons [of "um_remove_mapping k t"]
    by (auto simp: d conj_commute intro: filter_cong)
qed

lemma um_remove_if_fst:
  "fst (um_remove_if pred t s) = filter (\<lambda>p. fst p \<notin> set (fst (collect_keys pred t s))) t"
  by (simp add: um_remove_if_def fold_delete case_prod_beta)

lemma um_remove_if_snd:
  "snd (um_remove_if pred t s) = fold (\<lambda>p s. snd (pred p s)) t s"
  by (simp add: um_remove_if_def case_prod_beta collect_keys_state)

lemma um_inv_remove_if [inv_intros]: "um_inv t \<Longrightarrow> um_inv (fst (um_remove_if pred t s))"
  by (simp add: um_inv_def um_remove_if_fst keys_filter_distinct)

lemma fold_subsection:
  "map_of (fold (\<lambda>k sub. case map_of t k of Some v \<Rightarrow> AList.update k v sub | None \<Rightarrow> sub) ks acc)
     = map_of acc ++ (map_of t |` set ks)"
  by (induction ks arbitrary: acc)
    (auto simp: fun_eq_iff update_map_of map_add_def restrict_map_def split: option.splits)

lemma um_subsection_map_of: "map_of (um_get_subsection_for ks t) = map_of t |` set ks"
  by (simp add: um_get_subsection_for_def fold_subsection)

lemma vec_subsection_step:
  "vec_inv acc \<Longrightarrow>
     vec_inv (fold (\<lambda>k sub. case get_value_position_for k t of
                     Some i \<Rightarrow> snd (vec_add_or_update_mapping (fst (t ! i)) (snd (t ! i)) sub)
                   | None \<Rightarrow> sub) ks acc) \<and>
     map_of (fold (\<lambda>k sub. case get_value_position_for k t of
                     Some i \<Rightarrow> snd (vec_add_or_update_mapping (fst (t ! i)) (snd (t ! i)) sub)
                   | None \<Rightarrow> sub) ks acc) = map_of acc ++ (map_of t |` set ks)"
proof (induction ks arbitrary: acc)
  case Nil
  then show ?case by simp
next
  case (Cons k ks)
  show ?case
  proof (cases "get_value_position_for k t")
    case None
    then have "map_of t k = None" by (simp add: map_of_position)
    with None Cons show ?thesis
      by (auto simp: fun_eq_iff map_add_def restrict_map_def split: option.splits)
  next
    case (Some i)
    note p = get_value_position_for_Some [OF Some]
    have "vec_inv (snd (vec_add_or_update_mapping k (snd (t ! i)) acc))"
      using Cons.prems by (rule vec_inv_add)
    from Cons.IH [OF this] Some p Cons.prems show ?thesis
      by (auto simp: fun_eq_iff map_add_def restrict_map_def vec_add_map_of vec_inv_def
          split: option.splits)
  qed
qed

subsection \<open>Properties\<close>

text \<open>
  C16: The vector table refines a finite map: after any sequence of insertions and removals in
  which every removal names a present key, the vector is defined, sorted by key without
  duplicates, and holds exactly the bindings of the abstract map.
\<close>

theorem vec_table_refines_map:
  assumes "removals_present ops {}"
  shows "\<exists>t. run_table (\<lambda>k v t. snd (vec_add_or_update_mapping k v t)) vec_remove_mapping ops []
            = Some t \<and> vec_inv t \<and> map_of t = spec_table ops Map.empty"
  using vec.run_refines_spec [of "[]" ops] vec.inv_emp assms by simp

theorem vec_table_refines_map_witness:
  "\<exists>t. run_table (\<lambda>k v t. snd (vec_add_or_update_mapping k v t)) vec_remove_mapping
         [AddOrUpdate (2 :: int) ''b'', AddOrUpdate 1 ''a'', RemoveMapping 2] [] = Some t \<and>
       vec_inv t \<and> map_of t = Map.empty(1 \<mapsto> ''a'')"
  using vec_table_refines_map [of "[AddOrUpdate (2 :: int) ''b'', AddOrUpdate 1 ''a'', RemoveMapping 2]"]
  by (simp add: fun_upd_twist)

text \<open>
  The hash-map table and the vector table are interchangeable for a client that removes only
  present keys: both runs are defined and every lookup gives the same value and the same
  found-flag.
\<close>

theorem um_vec_tables_agree:
  assumes "removals_present ops {}"
  shows "\<exists>u t. run_table (\<lambda>k v t. snd (um_add_or_update_mapping k v t))
                 (\<lambda>k t. Some (um_remove_mapping k t)) ops [] = Some u \<and>
               run_table (\<lambda>k v t. snd (vec_add_or_update_mapping k v t)) vec_remove_mapping ops []
                 = Some t \<and>
               (\<forall>d k. vec_value_for d k t = um_value_for d k u)"
proof -
  obtain u where u: "run_table (\<lambda>k v t. snd (um_add_or_update_mapping k v t))
      (\<lambda>k t. Some (um_remove_mapping k t)) ops [] = Some u" "map_of u = spec_table ops Map.empty"
    using um.run_refines_spec [of "[]" ops] um.inv_emp assms by auto
  obtain t where t: "run_table (\<lambda>k v t. snd (vec_add_or_update_mapping k v t)) vec_remove_mapping
      ops [] = Some t" "map_of t = spec_table ops Map.empty"
    using vec.run_refines_spec [of "[]" ops] vec.inv_emp assms by auto
  have "vec_value_for d k t = um_value_for d k u" for d k
    by (simp add: vec_value_for_eq um_value_for_def u t)
  with u t show ?thesis by blast
qed

theorem um_vec_tables_agree_witness:
  "\<exists>u t. run_table (\<lambda>k v t. snd (um_add_or_update_mapping k v t))
           (\<lambda>k t. Some (um_remove_mapping k t)) [AddOrUpdate (3 :: int) True, RemoveMapping 3] [] = Some u \<and>
         run_table (\<lambda>k v t. snd (vec_add_or_update_mapping k v t)) vec_remove_mapping
           [AddOrUpdate (3 :: int) True, RemoveMapping 3] [] = Some t \<and>
         (\<forall>d k. vec_value_for d k t = um_value_for d k u)"
  by (rule um_vec_tables_agree) simp

text \<open>
  Where the two containers part: on the vector, \<^verbatim>\<open>remove_mapping\<close> of an absent key
  erases at \<^verbatim>\<open>end()\<close>, so the call is undefined exactly when the table has entries and
  none of them has the key.
\<close>

theorem vec_remove_undefined_iff:
  assumes "vec_inv t"
  shows "vec_remove_mapping k t = None \<longleftrightarrow> t \<noteq> [] \<and> k \<notin> set (keys t)"
  using vec_remove_defined_iff [of t k] assms by (auto simp: vec_inv_def)

theorem vec_remove_undefined_iff_witness:
  "vec_remove_mapping (5 :: int) [(1, ''a''), (4, ''b'')] = None"
  using vec_remove_undefined_iff [of "[(1, ''a''), (4, ''b'')]" "5 :: int"] by (simp add: vec_inv_def)

text \<open>
  \<^verbatim>\<open>remove_if\<close> keeps, in order, exactly the entries the predicate rejects, and leaves
  the caller's state alone when the predicate only reads it.
\<close>

theorem um_remove_if_filter:
  assumes "um_inv t"
  shows "um_remove_if (\<lambda>p s. (P p, s)) t s = (filter (\<lambda>p. \<not> P p) t, s)"
proof -
  have "(p \<in> set t \<and> fst p \<notin> set (map fst (filter P t))) \<longleftrightarrow> (p \<in> set t \<and> \<not> P p)" for p
    using assms by (auto simp: um_inv_def distinct_map inj_on_def)
  then have "filter (\<lambda>p. fst p \<notin> set (map fst (filter P t))) t = filter (\<lambda>p. \<not> P p) t"
    by (intro filter_cong) auto
  then show ?thesis
    by (simp add: um_remove_if_def collect_keys_stateless fold_delete)
qed

theorem um_remove_if_filter_witness:
  "um_remove_if (\<lambda>p s. (snd p, s)) [(1 :: int, True), (2, False), (3, True)] (0 :: nat) = ([(2, False)], 0)"
  using um_remove_if_filter [of "[(1 :: int, True), (2, False), (3, True)]" snd "0 :: nat"]
  by (simp add: um_inv_def)

text \<open>
  \<^verbatim>\<open>get_subsection_for\<close> gives, on either container, the table restricted to the keys
  asked for: repeated and unknown keys change nothing.
\<close>

theorem subsection_restricts:
  "map_of (um_get_subsection_for ks t) = map_of t |` set ks \<and>
   vec_inv (vec_get_subsection_for ks t) \<and>
   map_of (vec_get_subsection_for ks t) = map_of t |` set ks"
  using vec_subsection_step [of "[]" t ks] vec.inv_emp
  by (simp add: um_subsection_map_of vec_get_subsection_for_def)

end
