(* ===== verification/SharedQueue.thy ===== *)
theory SharedQueue
  imports SharedState
begin

text \<open>
  \<^verbatim>\<open>shared_queue<T>\<close> (UtilitiesInfra/shared_queue.hpp): the list of queued values, front
  first. \<open>try_pop\<close> leaves its out parameter alone when it returns false; a
  \<open>wait_and_pop\<close> on an empty queue waits on the condition variable, which is \<open>None\<close>.
  Any number of producers and consumers run interleaved, each call under the lock.
\<close>

type_synonym 'a queue = "'a list"

definition sq_push :: "'a \<Rightarrow> 'a queue \<Rightarrow> 'a queue" where
  "sq_push x q = q @ [x]"

definition sq_try_pop :: "'a \<Rightarrow> 'a queue \<Rightarrow> (bool \<times> 'a) \<times> 'a queue" where
  "sq_try_pop out q = (case q of [] \<Rightarrow> ((False, out), []) | x # q' \<Rightarrow> ((True, x), q'))"

definition sq_try_pop_ptr :: "'a queue \<Rightarrow> 'a option \<times> 'a queue" where
  "sq_try_pop_ptr q = (case q of [] \<Rightarrow> (None, []) | x # q' \<Rightarrow> (Some x, q'))"

definition sq_wait_and_pop :: "'a queue \<Rightarrow> ('a \<times> 'a queue) option" where
  "sq_wait_and_pop q = (case q of [] \<Rightarrow> None | x # q' \<Rightarrow> Some (x, q'))"

definition sq_wait_and_pop_ptr :: "'a queue \<Rightarrow> ('a \<times> 'a queue) option" where
  "sq_wait_and_pop_ptr q = (case q of [] \<Rightarrow> None | x # q' \<Rightarrow> Some (x, q'))"

definition sq_empty :: "'a queue \<Rightarrow> bool" where
  "sq_empty q = List.null q"

subsection \<open>The contract of a first-in first-out queue\<close>

locale fifo =
  fixes items :: "'q \<Rightarrow> 'a list"
    and push :: "'a \<Rightarrow> 'q \<Rightarrow> 'q"
    and pop :: "'q \<Rightarrow> ('a \<times> 'q) option"
  assumes items_push: "items (push x q) = items q @ [x]"
    and pop_None: "pop q = None \<longleftrightarrow> items q = []"
    and pop_Some: "pop q = Some (x, q') \<Longrightarrow> items q = x # items q'"
begin

lemma pop_push_empty: "items q = [] \<Longrightarrow> \<exists>q'. pop (push x q) = Some (x, q') \<and> items q' = []"
proof -
  assume q: "items q = []"
  then have "pop (push x q) \<noteq> None"
    by (simp add: pop_None items_push)
  then obtain y q' where p: "pop (push x q) = Some (y, q')" by auto
  from pop_Some [OF p] q have "y = x" and "items q' = []"
    by (simp_all add: items_push)
  with p show ?thesis by blast
qed

lemma pop_after_pushes:
  "items q = x # xs \<Longrightarrow> \<exists>q'. pop (fold push ys q) = Some (x, q') \<and> items q' = xs @ ys"
proof -
  assume q: "items q = x # xs"
  have all: "items (fold push ys q) = items q @ ys"
  proof (induction ys arbitrary: q)
    case Nil
    then show ?case by simp
  next
    case (Cons y ys)
    then show ?case by (simp add: items_push)
  qed
  then have "pop (fold push ys q) \<noteq> None"
    using q by (simp add: pop_None)
  then obtain y q' where p: "pop (fold push ys q) = Some (y, q')" by auto
  from pop_Some [OF p] all q have "y = x" and "items q' = xs @ ys"
    by simp_all
  with p show ?thesis by blast
qed

end

interpretation sq: fifo "\<lambda>q. q" sq_push sq_wait_and_pop
  by unfold_locales (auto simp: sq_push_def sq_wait_and_pop_def split: list.splits)

subsection \<open>Producers and consumers interleaved\<close>

text \<open>
  A trace state is the queue with the history of the values pushed and of the values popped,
  both in the order the calls took the lock.
\<close>

record 'a queue_run =
  queued :: "'a queue"
  pushed :: "'a list"
  popped :: "'a list"

definition queue_run_init :: "'a queue_run" where
  "queue_run_init = \<lparr>queued = [], pushed = [], popped = []\<rparr>"

inductive queue_step :: "'a queue_run \<Rightarrow> 'a queue_run \<Rightarrow> bool" where
  qs_push: "queue_step s (s\<lparr>queued := sq_push x (queued s), pushed := pushed s @ [x]\<rparr>)"
| qs_try_pop: "sq_try_pop out (queued s) = ((True, x), q) \<Longrightarrow>
     queue_step s (s\<lparr>queued := q, popped := popped s @ [x]\<rparr>)"
| qs_try_fail: "sq_try_pop out (queued s) = ((False, out), q) \<Longrightarrow>
     queue_step s (s\<lparr>queued := q\<rparr>)"
| qs_wait: "sq_wait_and_pop (queued s) = Some (x, q) \<Longrightarrow>
     queue_step s (s\<lparr>queued := q, popped := popped s @ [x]\<rparr>)"

inductive queue_reachable :: "'a queue_run \<Rightarrow> bool" where
  qr_init: "queue_reachable queue_run_init"
| qr_step: "queue_reachable s \<Longrightarrow> queue_step s t \<Longrightarrow> queue_reachable t"

inductive_cases queue_stepE: "queue_step s t"

definition queue_history_ok :: "'a queue_run \<Rightarrow> bool" where
  "queue_history_ok s \<longleftrightarrow> pushed s = popped s @ queued s"

lemma queue_step_history [inv_intros]:
  "queue_step s t \<Longrightarrow> queue_history_ok s \<Longrightarrow> queue_history_ok t"
  by (erule queue_stepE)
    (auto simp: queue_history_ok_def sq_push_def sq_try_pop_def sq_wait_and_pop_def
      split: list.splits)

lemma queue_reachable_history: "queue_reachable s \<Longrightarrow> queue_history_ok s"
proof (induction rule: queue_reachable.induct)
  case qr_init
  show ?case by (simp add: queue_history_ok_def queue_run_init_def)
next
  case (qr_step s t)
  then show ?case by (blast intro: queue_step_history)
qed

subsection \<open>Properties\<close>

text \<open>
  C18: Whatever the interleaving of producers and consumers, blocking or not, no value is lost,
  duplicated or reordered: the values popped so far are a prefix of the values pushed and the
  rest is what the queue still holds.
\<close>

theorem queue_fifo_interleaved:
  assumes "queue_reachable s"
  shows "pushed s = popped s @ queued s"
  using queue_reachable_history [OF assms] by (simp add: queue_history_ok_def)

theorem queue_fifo_interleaved_witness:
  "pushed \<lparr>queued = [], pushed = [''a''], popped = [''a'']\<rparr> =
     popped \<lparr>queued = [], pushed = [''a''], popped = [''a'']\<rparr> @
     queued \<lparr>queued = [], pushed = [''a''], popped = [''a'']\<rparr>"
proof (rule queue_fifo_interleaved)
  have "queue_reachable (queue_run_init\<lparr>queued := [''a''], pushed := [''a'']\<rparr>)"
    using qr_step [OF qr_init qs_push [of queue_run_init "''a''"]]
    by (simp add: queue_run_init_def sq_push_def)
  moreover have "queue_step (queue_run_init\<lparr>queued := [''a''], pushed := [''a'']\<rparr>)
      \<lparr>queued = [], pushed = [''a''], popped = [''a'']\<rparr>"
    using qs_wait [of "queue_run_init\<lparr>queued := [''a''], pushed := [''a'']\<rparr>" "''a''" "[]"]
    by (simp add: queue_run_init_def sq_wait_and_pop_def)
  ultimately show "queue_reachable \<lparr>queued = [], pushed = [''a''], popped = [''a'']\<rparr>"
    by (rule qr_step)
qed

text \<open>
  \<^verbatim>\<open>wait_and_pop\<close> returns the oldest value, and pushes made while it is queued do
  not delay it: after any further pushes the next pop gives the same value and what follows it
  is the old rest and then the new values.
\<close>

theorem queue_pop_oldest:
  assumes "q = x # xs"
  shows "sq_wait_and_pop (fold sq_push ys q) = Some (x, xs @ ys)"
  using sq.pop_after_pushes [of q x xs ys] assms by simp

theorem queue_pop_oldest_witness:
  "sq_wait_and_pop (fold sq_push [3, 4] [1, 2 :: int]) = Some (1, [2, 3, 4])"
  using queue_pop_oldest [of "[1, 2 :: int]" 1 "[2]" "[3, 4]"] by simp

end
