(* ===== verification/EventMasks.thy ===== *)
theory EventMasks
  imports Prelude
begin

text \<open>
  The reactor's events and their translation to and from epoll masks:
  TransportInfra/Reactor/EventTypes.h, EpollDemultiplexer.cpp and the older EpollDemux.cpp.
  An \<^verbatim>\<open>events_array\<close> is a list of six events; the compile-time \<^verbatim>\<open>getArray<events...>()\<close>
  takes the list of its template arguments. The numeric values are those of
  \<^verbatim>\<open>sys/epoll.h\<close> on Linux.
\<close>

unbundle bit_operations_syntax

datatype event_result =
    E_RESULT_METHOD_NOT_IMPLEMENTED
  | E_RESULT_INVALID_REFERENCE
  | E_RESULT_FAILURE
  | E_RESULT_DEFAULT
  | E_RESULT_SUCCESS

datatype handle_event =
    E_HANDLE_EVENT_NULL
  | E_HANDLE_EVENT_IN
  | E_HANDLE_EVENT_PRIO_IN
  | E_HANDLE_EVENT_OUT
  | E_HANDLE_EVENT_ERR
  | E_HANDLE_EVENT_HUP
  | E_HANDLE_EVENT_SHUTDOWN
  | E_HANDLE_EVENT_LAST

fun event_code :: "handle_event \<Rightarrow> nat" where
  "event_code E_HANDLE_EVENT_NULL = 0"
| "event_code E_HANDLE_EVENT_IN = 1"
| "event_code E_HANDLE_EVENT_PRIO_IN = 2"
| "event_code E_HANDLE_EVENT_OUT = 3"
| "event_code E_HANDLE_EVENT_ERR = 4"
| "event_code E_HANDLE_EVENT_HUP = 5"
| "event_code E_HANDLE_EVENT_SHUTDOWN = 6"
| "event_code E_HANDLE_EVENT_LAST = 7"

definition event_of_code :: "nat \<Rightarrow> handle_event" where
  "event_of_code n =
     [E_HANDLE_EVENT_NULL, E_HANDLE_EVENT_IN, E_HANDLE_EVENT_PRIO_IN, E_HANDLE_EVENT_OUT,
      E_HANDLE_EVENT_ERR, E_HANDLE_EVENT_HUP, E_HANDLE_EVENT_SHUTDOWN, E_HANDLE_EVENT_LAST] ! n"

definition MAX_EVENTS_NO :: nat where
  "MAX_EVENTS_NO = 6"

type_synonym events_array = "handle_event list"

fun event_fillArray :: "nat \<Rightarrow> handle_event list \<Rightarrow> events_array \<Rightarrow> events_array" where
  "event_fillArray i [] arr = arr"
| "event_fillArray i (e # es) arr =
     (if \<not> MAX_EVENTS_NO \<le> i then event_fillArray (Suc i) es (arr[i := e]) else arr)"

definition event_getArray :: "handle_event list \<Rightarrow> events_array" where
  "event_getArray es =
     event_fillArray 0 es
       [E_HANDLE_EVENT_NULL, E_HANDLE_EVENT_NULL, E_HANDLE_EVENT_NULL,
        E_HANDLE_EVENT_NULL, E_HANDLE_EVENT_NULL, E_HANDLE_EVENT_NULL]"

definition EPOLLIN :: u32 where "EPOLLIN = 0x001"
definition EPOLLPRI :: u32 where "EPOLLPRI = 0x002"
definition EPOLLOUT :: u32 where "EPOLLOUT = 0x004"
definition EPOLLERR :: u32 where "EPOLLERR = 0x008"
definition EPOLLHUP :: u32 where "EPOLLHUP = 0x010"
definition EPOLLRDHUP :: u32 where "EPOLLRDHUP = 0x2000"
definition EPOLLET :: u32 where "EPOLLET = 0x80000000"

lemmas epoll_consts =
  EPOLLIN_def EPOLLPRI_def EPOLLOUT_def EPOLLERR_def EPOLLHUP_def EPOLLRDHUP_def EPOLLET_def

definition handleEventToEpollFlag :: "u32 list" where
  "handleEventToEpollFlag =
     [0, EPOLLIN, EPOLLPRI, EPOLLOUT, EPOLLERR, EPOLLHUP, EPOLLRDHUP, 0]"

definition getEventsMask :: "events_array \<Rightarrow> u32" where
  "getEventsMask events =
     fold (\<lambda>event ret. if event \<noteq> E_HANDLE_EVENT_NULL
                       then ret OR handleEventToEpollFlag ! event_code event else ret)
       events 0"

definition getEventsFromMask :: "u32 \<Rightarrow> events_array" where
  "getEventsFromMask msk =
     fold (\<lambda>index arr. if msk AND handleEventToEpollFlag ! index \<noteq> 0
                       then arr[index - 1 := event_of_code index] else arr)
       [event_code E_HANDLE_EVENT_IN ..< event_code E_HANDLE_EVENT_LAST]
       (replicate MAX_EVENTS_NO E_HANDLE_EVENT_NULL)"

text \<open>
  EpollDemux.cpp: the table is a list of pairs in another order than the enumeration, and
  \<^verbatim>\<open>getEventsMask\<close> indexes it with the event's number.
\<close>

definition demux_handleEventToEpollFlag :: "(handle_event \<times> u32) list" where
  "demux_handleEventToEpollFlag =
     [(E_HANDLE_EVENT_NULL, 0),
      (E_HANDLE_EVENT_IN, EPOLLIN),
      (E_HANDLE_EVENT_PRIO_IN, EPOLLPRI),
      (E_HANDLE_EVENT_SHUTDOWN, EPOLLRDHUP),
      (E_HANDLE_EVENT_OUT, EPOLLOUT),
      (E_HANDLE_EVENT_ERR, EPOLLERR),
      (E_HANDLE_EVENT_HUP, EPOLLHUP),
      (E_HANDLE_EVENT_LAST, 0)]"

definition demux_getEventsMask :: "events_array \<Rightarrow> u32" where
  "demux_getEventsMask events =
     fold (\<lambda>event ret. ret OR snd (demux_handleEventToEpollFlag ! event_code event)) events 0"

definition demux_getEventsFromMask :: "u32 \<Rightarrow> events_array" where
  "demux_getEventsFromMask msk =
     fold (\<lambda>p arr. if msk AND snd p \<noteq> 0 then arr[event_code (fst p) - 1 := fst p] else arr)
       (butlast (tl demux_handleEventToEpollFlag))
       (replicate 6 E_HANDLE_EVENT_NULL)"

text \<open>
  The comparator of \<^verbatim>\<open>Reactor::sortByPriority\<close> (TransportInfra/Reactor/Reactor.hpp):
  whether \<open>lh\<close> comes before \<open>rh\<close>.
\<close>

definition prio_before :: "handle_event \<Rightarrow> handle_event \<Rightarrow> bool" where
  "prio_before lh rh =
     (if rh = E_HANDLE_EVENT_SHUTDOWN then True
      else if rh = E_HANDLE_EVENT_ERR \<and> lh \<noteq> E_HANDLE_EVENT_SHUTDOWN then True
      else if rh = E_HANDLE_EVENT_PRIO_IN then
        \<not> (lh = E_HANDLE_EVENT_ERR \<or> lh = E_HANDLE_EVENT_SHUTDOWN)
      else event_code rh < event_code lh)"

subsection \<open>What the two translations compute\<close>

text \<open>The events that have a bit in the epoll mask, and the union of those bits.\<close>

definition epoll_bit :: "handle_event \<Rightarrow> u32" where
  "epoll_bit e = handleEventToEpollFlag ! event_code e"

lemma epoll_bit_simps [simp]:
  "epoll_bit E_HANDLE_EVENT_NULL = 0"
  "epoll_bit E_HANDLE_EVENT_IN = EPOLLIN"
  "epoll_bit E_HANDLE_EVENT_PRIO_IN = EPOLLPRI"
  "epoll_bit E_HANDLE_EVENT_OUT = EPOLLOUT"
  "epoll_bit E_HANDLE_EVENT_ERR = EPOLLERR"
  "epoll_bit E_HANDLE_EVENT_HUP = EPOLLHUP"
  "epoll_bit E_HANDLE_EVENT_SHUTDOWN = EPOLLRDHUP"
  "epoll_bit E_HANDLE_EVENT_LAST = 0"
  by (simp_all add: epoll_bit_def handleEventToEpollFlag_def)

lemma event_of_code_event_code [simp]: "event_of_code (event_code e) = e"
  by (cases e) (simp_all add: event_of_code_def)

lemma getEventsMask_fold:
  "getEventsMask es = fold (\<lambda>e m. m OR epoll_bit e) es 0"
proof -
  have "(\<lambda>event ret. if event \<noteq> E_HANDLE_EVENT_NULL
              then ret OR handleEventToEpollFlag ! event_code event else ret)
        = (\<lambda>e m. m OR epoll_bit e)"
    by (auto simp: fun_eq_iff epoll_bit_def [symmetric])
  then show ?thesis
    by (simp add: getEventsMask_def)
qed

lemma fold_or_acc:
  "fold (\<lambda>e m. m OR f e) es (a :: u32) = a OR fold (\<lambda>e m. m OR f e) es 0"
proof (induction es arbitrary: a)
  case Nil
  then show ?case by simp
next
  case (Cons e es)
  show ?case
    using Cons [of "a OR f e"] Cons [of "0 OR f e"] by (simp add: or.assoc)
qed

lemma getEventsMask_Nil [simp]: "getEventsMask [] = 0"
  by (simp add: getEventsMask_fold)

lemma getEventsMask_Cons [simp]: "getEventsMask (e # es) = epoll_bit e OR getEventsMask es"
  using fold_or_acc [of epoll_bit es "0 OR epoll_bit e"] by (simp add: getEventsMask_fold)

lemma getEventsMask_append:
  "getEventsMask (es @ fs) = getEventsMask es OR getEventsMask fs"
  by (induction es) (simp_all add: or.assoc)

definition event_if :: "handle_event \<Rightarrow> u32 \<Rightarrow> handle_event" where
  "event_if e m = (if m AND epoll_bit e \<noteq> 0 then e else E_HANDLE_EVENT_NULL)"

lemma getEventsFromMask_eq:
  "getEventsFromMask m =
     [event_if E_HANDLE_EVENT_IN m, event_if E_HANDLE_EVENT_PRIO_IN m,
      event_if E_HANDLE_EVENT_OUT m, event_if E_HANDLE_EVENT_ERR m,
      event_if E_HANDLE_EVENT_HUP m, event_if E_HANDLE_EVENT_SHUTDOWN m]"
  by (simp add: getEventsFromMask_def handleEventToEpollFlag_def MAX_EVENTS_NO_def
      upt_rec numeral_eq_Suc event_of_code_def event_if_def epoll_bit_def)

lemma length_getEventsFromMask [simp]: "length (getEventsFromMask m) = MAX_EVENTS_NO"
  by (simp add: getEventsFromMask_eq MAX_EVENTS_NO_def)

lemma and_single_bit:
  "(m :: u32) AND 2 ^ n = (if bit m n then 2 ^ n else 0)"
  by (rule bit_word_eqI) (auto simp: bit_and_iff bit_exp_iff)

lemma and_epoll_bit: "m AND epoll_bit e = (if m AND epoll_bit e \<noteq> 0 then epoll_bit e else 0)"
proof -
  have "e = E_HANDLE_EVENT_NULL \<or> e = E_HANDLE_EVENT_LAST \<or>
      (\<exists>n. epoll_bit e = 2 ^ n)"
  proof (cases e)
    case E_HANDLE_EVENT_IN
    then have "epoll_bit e = 2 ^ 0" by (simp add: epoll_consts)
    then show ?thesis by blast
  next
    case E_HANDLE_EVENT_PRIO_IN
    then have "epoll_bit e = 2 ^ 1" by (simp add: epoll_consts)
    then show ?thesis by blast
  next
    case E_HANDLE_EVENT_OUT
    then have "epoll_bit e = 2 ^ 2" by (simp add: epoll_consts)
    then show ?thesis by blast
  next
    case E_HANDLE_EVENT_ERR
    then have "epoll_bit e = 2 ^ 3" by (simp add: epoll_consts)
    then show ?thesis by blast
  next
    case E_HANDLE_EVENT_HUP
    then have "epoll_bit e = 2 ^ 4" by (simp add: epoll_consts)
    then show ?thesis by blast
  next
    case E_HANDLE_EVENT_SHUTDOWN
    then have "epoll_bit e = 2 ^ 13" by (simp add: epoll_consts)
    then show ?thesis by blast
  qed simp_all
  then show ?thesis
    by (auto simp: and_single_bit)
qed

definition known_epoll_bits :: u32 where
  "known_epoll_bits = 0x201F"

lemma epoll_bit_event_if: "epoll_bit (event_if e m) = m AND epoll_bit e"
proof (cases "m AND epoll_bit e = 0")
  case True
  then show ?thesis by (simp add: event_if_def)
next
  case False
  then have "m AND epoll_bit e = epoll_bit e"
    by (subst and_epoll_bit) simp
  with False show ?thesis by (simp add: event_if_def)
qed

lemma known_epoll_bits_eq:
  "known_epoll_bits = EPOLLIN OR EPOLLPRI OR EPOLLOUT OR EPOLLERR OR EPOLLHUP OR EPOLLRDHUP"
  by (simp add: known_epoll_bits_def epoll_consts)

lemma epoll_bit_and_mask:
  assumes "e \<noteq> E_HANDLE_EVENT_NULL" and "e \<noteq> E_HANDLE_EVENT_LAST"
  shows "getEventsMask es AND epoll_bit e \<noteq> 0 \<longleftrightarrow> e \<in> set es"
proof (induction es)
  case Nil
  then show ?case by simp
next
  case (Cons x es)
  have "epoll_bit x AND epoll_bit e \<noteq> 0 \<longleftrightarrow> x = e"
    using assms by (cases x; cases e) (simp_all add: epoll_consts)
  moreover have "(epoll_bit x OR getEventsMask es) AND epoll_bit e \<noteq> 0 \<longleftrightarrow>
      epoll_bit x AND epoll_bit e \<noteq> 0 \<or> getEventsMask es AND epoll_bit e \<noteq> 0"
    by (simp only: bit.conj_disj_distrib2 or_eq_0_iff) blast
  ultimately show ?case
    using Cons by auto
qed

lemma mem_getEventsFromMask:
  assumes "e \<noteq> E_HANDLE_EVENT_NULL"
  shows "e \<in> set (getEventsFromMask m) \<longleftrightarrow> m AND epoll_bit e \<noteq> 0"
  using assms by (cases e) (auto simp: getEventsFromMask_eq event_if_def)

lemma event_fillArray_eq:
  "i \<le> length arr \<Longrightarrow> length arr = MAX_EVENTS_NO \<Longrightarrow>
     event_fillArray i es arr =
       take i arr @ take (MAX_EVENTS_NO - i) es @ drop (i + length es) arr"
proof (induction es arbitrary: i arr)
  case Nil
  then show ?case by simp
next
  case (Cons e es)
  show ?case
  proof (cases "MAX_EVENTS_NO \<le> i")
    case True
    with Cons.prems show ?thesis by simp
  next
    case False
    with Cons.prems have i: "i < length arr" by simp
    with Cons.prems show ?thesis
      using Cons.IH [of "Suc i" "arr[i := e]"] False
      by (simp add: take_Suc_conv_app_nth take_Cons' Suc_diff_le)
  qed
qed

subsection \<open>Properties\<close>

text \<open>
  C34: Round trip from the kernel's side: decoding an epoll mask into an events array and encoding
  it again gives back exactly the bits the library knows (IN, PRI, OUT, ERR, HUP, RDHUP).
\<close>

theorem mask_round_trip: "getEventsMask (getEventsFromMask m) = m AND known_epoll_bits"
  by (simp add: getEventsFromMask_eq epoll_bit_event_if known_epoll_bits_eq
      bit.conj_disj_distrib or.assoc)

text \<open>
  Round trip from the client's side: the array decoded from the mask of an events array holds
  the same events, each once and at the index of its number, whatever the order and the
  repetitions of the original.
\<close>

theorem events_round_trip:
  "getEventsFromMask (getEventsMask es) =
     map (\<lambda>e. if e \<in> set es then e else E_HANDLE_EVENT_NULL)
       [E_HANDLE_EVENT_IN, E_HANDLE_EVENT_PRIO_IN, E_HANDLE_EVENT_OUT,
        E_HANDLE_EVENT_ERR, E_HANDLE_EVENT_HUP, E_HANDLE_EVENT_SHUTDOWN]"
  by (simp add: getEventsFromMask_eq event_if_def epoll_bit_and_mask del: epoll_bit_simps)

text \<open>
  The older EpollDemux indexes its reordered table by the event's number: only NULL, IN,
  PRIO_IN and LAST translate to their own bit; OUT asks for RDHUP, ERR for OUT, HUP for ERR and
  SHUTDOWN for HUP.
\<close>

theorem demux_mask_wrong_bit:
  "demux_getEventsMask [e] = epoll_bit e \<longleftrightarrow>
     e \<in> {E_HANDLE_EVENT_NULL, E_HANDLE_EVENT_IN, E_HANDLE_EVENT_PRIO_IN, E_HANDLE_EVENT_LAST}"
  by (cases e) (simp_all add: demux_getEventsMask_def demux_handleEventToEpollFlag_def epoll_consts)

text \<open>
  The comparator given to \<^verbatim>\<open>std::stable_sort\<close> is not a strict weak ordering:
  SHUTDOWN precedes itself, and every event but PRIO_IN both precedes SHUTDOWN and is preceded
  by it.
\<close>

theorem prio_before_not_strict:
  "(prio_before E_HANDLE_EVENT_SHUTDOWN e \<and> prio_before e E_HANDLE_EVENT_SHUTDOWN) \<longleftrightarrow>
     e \<notin> {E_HANDLE_EVENT_PRIO_IN, E_HANDLE_EVENT_LAST}"
  by (cases e) (simp_all add: prio_before_def)

text \<open>
  \<^verbatim>\<open>getArray<events...>()\<close> keeps the first six of its arguments, in their order, and
  fills the rest with NULL.
\<close>

theorem event_getArray_eq:
  "event_getArray es =
     take MAX_EVENTS_NO (es @ replicate MAX_EVENTS_NO E_HANDLE_EVENT_NULL)"
proof -
  have "event_getArray es = event_fillArray 0 es (replicate MAX_EVENTS_NO E_HANDLE_EVENT_NULL)"
    by (simp add: event_getArray_def MAX_EVENTS_NO_def numeral_eq_Suc)
  then show ?thesis
    by (simp add: event_fillArray_eq)
qed

end
