(* ===== verification/EventHandler.thy ===== *)
theory EventHandler
  imports EventMasks
begin

text \<open>
  \<^verbatim>\<open>EventHandlerBridge\<close> and \<^verbatim>\<open>EventHandlerWrapper\<close>
  (Reactor/EventHandlerSubscriber.h). A bridge is a heap object that holds the raw pointer to the
  client's handler (\<open>None\<close> is the null pointer); a wrapper owns the bridge it points to. The
  heap is the table of the live bridges, so a leak is a live bridge no wrapper points to and a
  double delete is a \<open>None\<close>.
\<close>

type_synonym 'h bridge = "'h option"
type_synonym 'h bridges = "(nat \<times> 'h bridge) list"

record wrapper_obj =
  p_event_handler :: "nat option"
  wr_in_progress :: bool

definition fresh_addr :: "'h bridges \<Rightarrow> nat" where
  "fresh_addr hp = Suc (fold max (keys hp) 0)"

definition new_bridge :: "'h bridge \<Rightarrow> 'h bridges \<Rightarrow> nat \<times> 'h bridges" where
  "new_bridge b hp = (fresh_addr hp, (fresh_addr hp, b) # hp)"

definition delete_bridge :: "nat \<Rightarrow> 'h bridges \<Rightarrow> 'h bridges option" where
  "delete_bridge a hp = (if map_of hp a = None then None else Some (AList.delete a hp))"

text \<open>\<open>call\<close> is the client's \<^verbatim>\<open>handleEvent\<close> on the state \<open>'s\<close> it works on.\<close>

definition bridge_handleEvent ::
    "('h \<Rightarrow> 'i \<Rightarrow> handle_event \<Rightarrow> 's \<Rightarrow> event_result \<times> 's) \<Rightarrow> 'h bridge \<Rightarrow> 'i \<Rightarrow> handle_event \<Rightarrow>
     's \<Rightarrow> event_result \<times> 's" where
  "bridge_handleEvent call b i ev s =
     (case b of Some h \<Rightarrow> call h i ev s | None \<Rightarrow> (E_RESULT_INVALID_REFERENCE, s))"

definition bridge_clone :: "nat \<Rightarrow> 'h bridges \<Rightarrow> (nat \<times> 'h bridges) option" where
  "bridge_clone a hp = map_option (\<lambda>b. new_bridge b hp) (map_of hp a)"

definition empty_wrapper :: wrapper_obj where
  "empty_wrapper = \<lparr>p_event_handler = None, wr_in_progress = False\<rparr>"

definition wrapper_from :: "'h bridge \<Rightarrow> 'h bridges \<Rightarrow> wrapper_obj \<times> 'h bridges" where
  "wrapper_from h hp =
     (case new_bridge h hp of (a, hp') \<Rightarrow> (empty_wrapper\<lparr>p_event_handler := Some a\<rparr>, hp'))"

definition wrapper_copy :: "wrapper_obj \<Rightarrow> 'h bridges \<Rightarrow> (wrapper_obj \<times> 'h bridges) option" where
  "wrapper_copy other hp =
     (case p_event_handler other of
        None \<Rightarrow> Some (empty_wrapper, hp)
      | Some a \<Rightarrow> map_option (\<lambda>(b, hp'). (empty_wrapper\<lparr>p_event_handler := Some b\<rparr>, hp'))
                    (bridge_clone a hp))"

text \<open>The new wrapper and what is left of the other.\<close>

definition wrapper_move :: "wrapper_obj \<Rightarrow> wrapper_obj \<times> wrapper_obj" where
  "wrapper_move other =
     (case p_event_handler other of
        None \<Rightarrow> (empty_wrapper, other)
      | Some a \<Rightarrow> (empty_wrapper\<lparr>p_event_handler := Some a\<rparr>, other\<lparr>p_event_handler := None\<rparr>))"

definition wrapper_copy_assign ::
    "bool \<Rightarrow> wrapper_obj \<Rightarrow> wrapper_obj \<Rightarrow> 'h bridges \<Rightarrow> (wrapper_obj \<times> 'h bridges) option" where
  "wrapper_copy_assign same this other hp =
     (if same then Some (this, hp)
      else case p_event_handler other of
             None \<Rightarrow> Some (this, hp)
           | Some a \<Rightarrow> map_option (\<lambda>(b, hp'). (this\<lparr>p_event_handler := Some b\<rparr>, hp'))
                         (bridge_clone a hp))"

definition wrapper_move_assign :: "wrapper_obj \<Rightarrow> wrapper_obj \<Rightarrow> wrapper_obj \<times> wrapper_obj" where
  "wrapper_move_assign this other =
     (case p_event_handler other of
        None \<Rightarrow> (this, other)
      | Some a \<Rightarrow> (this\<lparr>p_event_handler := Some a\<rparr>, other\<lparr>p_event_handler := None\<rparr>))"

definition wrapper_destroy :: "wrapper_obj \<Rightarrow> 'h bridges \<Rightarrow> 'h bridges option" where
  "wrapper_destroy this hp =
     (case p_event_handler this of None \<Rightarrow> Some hp | Some a \<Rightarrow> delete_bridge a hp)"

definition wrapper_assign ::
    "'h bridge \<Rightarrow> wrapper_obj \<Rightarrow> 'h bridges \<Rightarrow> (wrapper_obj \<times> 'h bridges) option" where
  "wrapper_assign h this hp =
     Option.bind (case p_event_handler this of
                    None \<Rightarrow> Some (this, hp)
                  | Some a \<Rightarrow> map_option (\<lambda>hp'. (this\<lparr>p_event_handler := None\<rparr>, hp')) (delete_bridge a hp))
       (\<lambda>(this', hp'). case new_bridge h hp' of
          (b, hp'') \<Rightarrow> Some (this'\<lparr>p_event_handler := Some b\<rparr>, hp''))"

definition wrapper_handleEvent ::
    "('h \<Rightarrow> 'i \<Rightarrow> handle_event \<Rightarrow> 's \<Rightarrow> event_result \<times> 's) \<Rightarrow> 'h bridges \<Rightarrow> wrapper_obj \<Rightarrow> 'i \<Rightarrow>
     handle_event \<Rightarrow> 's \<Rightarrow> (event_result \<times> 's) option" where
  "wrapper_handleEvent call hp this i ev s =
     (case p_event_handler this of
        Some a \<Rightarrow> map_option (\<lambda>b. bridge_handleEvent call b i ev s) (map_of hp a)
      | None \<Rightarrow> Some (E_RESULT_INVALID_REFERENCE, s))"

subsection \<open>Ownership\<close>

text \<open>
  The wrappers of a program own the heap when they point to distinct live bridges, and leak
  nothing when every live bridge is pointed to.
\<close>

definition owned :: "wrapper_obj list \<Rightarrow> nat list" where
  "owned ws = List.map_filter p_event_handler ws"

definition owns :: "wrapper_obj list \<Rightarrow> 'h bridges \<Rightarrow> bool" where
  "owns ws hp \<longleftrightarrow> distinct (owned ws) \<and> set (owned ws) \<subseteq> set (keys hp) \<and> distinct (keys hp)"

definition leak_free :: "wrapper_obj list \<Rightarrow> 'h bridges \<Rightarrow> bool" where
  "leak_free ws hp \<longleftrightarrow> set (keys hp) \<subseteq> set (owned ws)"

lemma owned_simps [simp]:
  "owned [] = []"
  "owned (w # ws) = (case p_event_handler w of None \<Rightarrow> owned ws | Some a \<Rightarrow> a # owned ws)"
  by (simp_all add: owned_def List.map_filter_simps split: option.splits)

lemma fold_max_acc: "(a :: nat) \<le> fold max xs a"
proof (induction xs arbitrary: a)
  case Nil
  then show ?case by simp
next
  case (Cons x xs)
  have "a \<le> max x a" by simp
  also have "\<dots> \<le> fold max xs (max x a)" by (rule Cons.IH)
  finally show ?case by simp
qed

lemma fold_max_ge: "x \<in> set xs \<Longrightarrow> x \<le> fold max xs (a :: nat)"
proof (induction xs arbitrary: a)
  case Nil
  then show ?case by simp
next
  case (Cons y xs)
  show ?case
  proof (cases "x = y")
    case True
    have "y \<le> max y a" by simp
    also have "\<dots> \<le> fold max xs (max y a)" by (rule fold_max_acc)
    finally show ?thesis using True by simp
  next
    case False
    with Cons show ?thesis by simp
  qed
qed

lemma fresh_addr_fresh: "fresh_addr hp \<notin> set (keys hp)"
proof
  assume "fresh_addr hp \<in> set (keys hp)"
  then have "fresh_addr hp \<le> fold max (keys hp) 0"
    by (rule fold_max_ge)
  then show False
    by (simp only: fresh_addr_def not_less_eq_eq [symmetric] Suc_n_not_le_n)
qed

lemma fresh_addr_not_owned: "owns ws hp \<Longrightarrow> fresh_addr hp \<notin> set (owned ws)"
  using fresh_addr_fresh [of hp] unfolding owns_def by blast

lemma keys_delete_bridge:
  "delete_bridge a hp = Some hp' \<Longrightarrow> set (keys hp') = set (keys hp) - {a}"
  by (auto simp: delete_bridge_def AList.delete_eq image_iff split: if_splits)

lemma delete_bridge_defined: "a \<in> set (keys hp) \<Longrightarrow> delete_bridge a hp \<noteq> None"
  by (simp add: delete_bridge_def map_of_eq_None_iff)

lemma owns_delete:
  assumes "owns (w # ws) hp" and "wrapper_destroy w hp = Some hp'"
  shows "owns ws hp'"
  using assms keys_delete_bridge [of _ hp hp']
  by (cases "p_event_handler w")
    (auto simp: owns_def wrapper_destroy_def delete_bridge_def distinct_delete split: if_splits)

lemma delete_absent: "k \<notin> fst ` set t \<Longrightarrow> AList.delete k t = t"
  by (induction t) auto

subsection \<open>Properties\<close>

text \<open>
  Construction and destruction are balanced: a wrapper made from a handler owns a fresh
  bridge next to the others, and destroying it is defined and gives the heap back exactly as it
  was.
\<close>

theorem wrapper_from_destroy:
  assumes "owns ws hp" and "wrapper_from h hp = (w, hp1)"
  shows "owns (w # ws) hp1 \<and> wrapper_destroy w hp1 = Some hp"
proof -
  have f: "fresh_addr hp \<notin> fst ` set hp" and n: "fresh_addr hp \<notin> set (owned ws)"
    using fresh_addr_fresh [of hp] fresh_addr_not_owned [OF assms(1)] by simp_all
  have w: "p_event_handler w = Some (fresh_addr hp)" and hp1: "hp1 = (fresh_addr hp, h) # hp"
    using assms(2) by (auto simp: wrapper_from_def new_bridge_def empty_wrapper_def)
  have "AList.delete (fresh_addr hp) hp = hp"
    using f by (rule delete_absent)
  then have "wrapper_destroy w hp1 = Some hp"
    by (simp add: wrapper_destroy_def w hp1 delete_bridge_def)
  moreover have "owns (w # ws) hp1"
    using assms(1) f n by (simp add: owns_def w hp1 subset_insertI2)
  ultimately show ?thesis by simp
qed

theorem wrapper_from_destroy_witness:
  "owns [fst (wrapper_from (Some ''h'') [])] (snd (wrapper_from (Some ''h'') []))"
  using wrapper_from_destroy [of "[]" "[]" "Some ''h''" "fst (wrapper_from (Some ''h'') [])"
      "snd (wrapper_from (Some ''h'') [])"]
  by (simp add: owns_def)

text \<open>
  Assigning to a wrapper that already owns a bridge, by move as the reactor's
  \<^verbatim>\<open>addHandlerInTable\<close> does, leaks it: the old bridge stays live and no wrapper points
  to it. The member \<^verbatim>\<open>assign\<close> deletes it first and leaks nothing.
\<close>

theorem wrapper_move_assign_leaks:
  assumes "owns (this # other # ws) hp" and "leak_free (this # other # ws) hp"
    and "p_event_handler this = Some a" and "p_event_handler other = Some b"
    and "wrapper_move_assign this other = (this', other')"
  shows "a \<in> set (keys hp) \<and> a \<notin> set (owned (this' # other' # ws)) \<and>
         \<not> leak_free (this' # other' # ws) hp \<and>
         (\<exists>w hp'. wrapper_assign h this hp = Some (w, hp') \<and> leak_free (w # other # ws) hp' \<and>
            owns (w # other # ws) hp')"
proof -
  have a: "a \<in> set (keys hp)" "a \<notin> set (owned (other # ws))"
    using assms(1,3) by (auto simp: owns_def)
  then obtain hp1 where hp1: "delete_bridge a hp = Some hp1"
    using delete_bridge_defined by blast
  have k: "set (keys hp1) = set (keys hp) - {a}"
    using hp1 by (rule keys_delete_bridge)
  have o1: "owns (other # ws) hp1"
    using owns_delete [OF assms(1), of hp1] by (simp add: wrapper_destroy_def assms(3) hp1)
  have "\<not> leak_free (this' # other' # ws) hp" and "a \<notin> set (owned (this' # other' # ws))"
    using a assms(3-5) by (auto simp: wrapper_move_assign_def leak_free_def)
  moreover have "owns (this\<lparr>p_event_handler := Some (fresh_addr hp1)\<rparr> # other # ws)
      ((fresh_addr hp1, h) # hp1)"
    using o1 fresh_addr_fresh [of hp1] fresh_addr_not_owned [OF o1] by (auto simp: owns_def)
  moreover have "leak_free (this\<lparr>p_event_handler := Some (fresh_addr hp1)\<rparr> # other # ws)
      ((fresh_addr hp1, h) # hp1)"
    using assms(2,3) k by (auto simp: leak_free_def)
  ultimately show ?thesis
    using a by (auto simp: wrapper_assign_def assms(3) hp1 new_bridge_def)
qed

theorem wrapper_move_assign_leaks_witness:
  "\<not> leak_free [\<lparr>p_event_handler = Some 2, wr_in_progress = False\<rparr>,
               \<lparr>p_event_handler = None, wr_in_progress = False\<rparr>] [(1, Some ''x''), (2, Some ''y'')]"
  using wrapper_move_assign_leaks [of "\<lparr>p_event_handler = Some 1, wr_in_progress = False\<rparr>"
      "\<lparr>p_event_handler = Some 2, wr_in_progress = False\<rparr>" "[]" "[(1, Some ''x''), (2, Some ''y'')]"
      1 2 "\<lparr>p_event_handler = Some 2, wr_in_progress = False\<rparr>"
      "\<lparr>p_event_handler = None, wr_in_progress = False\<rparr>"]
  by (simp add: owns_def leak_free_def wrapper_move_assign_def)

end
