(* ===== verification/Demultiplexer.thy ===== *)
theory Demultiplexer
  imports LookupTable SharedQueue EventMasks
begin

text \<open>
  \<^verbatim>\<open>SubscriberContext\<close> and \<^verbatim>\<open>EventNotification\<close> (Reactor/SubscriberInfo.hpp), the
  contract of the \<^verbatim>\<open>DemultiplexPolicy\<close> the reactor is a template over, and the epoll
  demultiplexer (Reactor/EpollDemultiplexer.h) that provides it. The kernel is a parameter:
  \<open>ctl\<close> is \<^verbatim>\<open>epoll_ctl\<close> on a kernel state of any type, and the results of
  \<^verbatim>\<open>epoll_wait\<close> are a script the monitoring thread runs through. \<open>hash\<close> is
  \<^verbatim>\<open>std::hash<uint32_t>\<close>, whose values the language leaves open.
\<close>

unbundle bit_operations_syntax

record subscriber_ctx =
  registered_to_monitor :: bool
  expired :: bool
  handle :: fd
  subscribed_events_mask :: u32
  sub_id :: u64

definition SubscriberContext :: "u32 \<Rightarrow> u64 \<Rightarrow> fd \<Rightarrow> subscriber_ctx" where
  "SubscriberContext events_mask sid desc =
     \<lparr>registered_to_monitor = False, expired = False, handle = desc,
      subscribed_events_mask = events_mask, sub_id = sid\<rparr>"

definition default_ctx :: subscriber_ctx where
  "default_ctx = SubscriberContext 0 0 null_fd"

record event_notification =
  note_handle :: fd
  notified_events_mask :: u32
  last_event :: bool

subsection \<open>The policy the reactor is a template over\<close>

record 'd demux_policy =
  dp_getEventsMask :: "events_array \<Rightarrow> u32"
  dp_getEventsFromMask :: "u32 \<Rightarrow> events_array"
  dp_getKeyFor :: "fd \<Rightarrow> 'd \<Rightarrow> u64"
  dp_registerListener :: "subscriber_ctx \<Rightarrow> 'd \<Rightarrow> bool \<times> 'd"
  dp_unregisterListener :: "subscriber_ctx \<Rightarrow> 'd \<Rightarrow> (bool \<times> 'd) option"
  dp_updateListener :: "subscriber_ctx \<Rightarrow> 'd \<Rightarrow> bool \<times> 'd"
  dp_stopMonitoring :: "'d \<Rightarrow> 'd"
  dp_monitoring :: "'d \<Rightarrow> bool"

text \<open>
  What the reactor relies on: every handle has one key, \<open>hash\<close> of it, before and after its
  registration; a successful registration adds the handle to the monitored ones and a failed
  one changes nothing; unregistering a monitored handle is defined and removes it.
\<close>

locale demux_contract =
  fixes P :: "'d demux_policy"
    and dinv :: "'d \<Rightarrow> bool"
    and monitored :: "'d \<Rightarrow> (fd \<rightharpoonup> u64)"
    and hash :: "fd \<Rightarrow> u64"
  assumes key: "dinv d \<Longrightarrow> dp_getKeyFor P h d = hash h"
    and register_inv: "dinv d \<Longrightarrow> sub_id c = hash (handle c) \<Longrightarrow> dinv (snd (dp_registerListener P c d))"
    and register_monitored: "dinv d \<Longrightarrow> monitored (snd (dp_registerListener P c d)) =
          (if fst (dp_registerListener P c d) then (monitored d)(handle c \<mapsto> sub_id c)
           else monitored d)"
    and unregister: "dinv d \<Longrightarrow> handle c \<in> dom (monitored d) \<Longrightarrow>
          \<exists>b d'. dp_unregisterListener P c d = Some (b, d') \<and> dinv d' \<and>
             monitored d' = (monitored d)(handle c := None)"
    and update_inv: "dinv d \<Longrightarrow> dinv (snd (dp_updateListener P c d))"
    and update_monitored: "dinv d \<Longrightarrow> monitored (snd (dp_updateListener P c d)) = monitored d"
begin

lemma register_other:
  "dinv d \<Longrightarrow> h \<in> dom (monitored d) \<Longrightarrow> h \<in> dom (monitored (snd (dp_registerListener P c d)))"
  by (simp add: register_monitored domIff)

lemma register_success:
  "dinv d \<Longrightarrow> fst (dp_registerListener P c d) \<Longrightarrow>
     monitored (snd (dp_registerListener P c d)) (handle c) = Some (sub_id c)"
  by (simp add: register_monitored)

lemma unregister_other:
  "dinv d \<Longrightarrow> handle c \<in> dom (monitored d) \<Longrightarrow> dp_unregisterListener P c d = Some (b, d') \<Longrightarrow>
     h \<noteq> handle c \<Longrightarrow> monitored d' h = monitored d h"
  using unregister [of d c] by auto

end

subsection \<open>The epoll demultiplexer\<close>

datatype epoll_op = EPOLL_CTL_ADD | EPOLL_CTL_DEL | EPOLL_CTL_MOD

text \<open>
  \<^verbatim>\<open>epoll_data_t\<close> is a union: reading \<^verbatim>\<open>data.fd\<close> after \<^verbatim>\<open>data.u64\<close> was
  stored gives the low 32 bits as a signed number.
\<close>

datatype epoll_data = Data_fd fd | Data_u64 u64

fun data_fd :: "epoll_data \<Rightarrow> fd" where
  "data_fd (Data_fd d) = d"
| "data_fd (Data_u64 w) = sint (ucast w :: u32)"

type_synonym epoll_event = "u32 \<times> epoll_data"

type_synonym 'k epoll_ctl = "fd \<Rightarrow> epoll_op \<Rightarrow> fd \<Rightarrow> epoll_event option \<Rightarrow> 'k \<Rightarrow> int \<times> 'k"

record 'k demultiplexer =
  epoll_fd :: fd
  wait_timeout_ms :: u32
  monitoring_ended :: bool
  handle_id_map :: "(fd, u64) table"
  kernel :: 'k

definition EPOLL_SIZE :: nat where "EPOLL_SIZE = 15"
definition MAX_EPOLL_EVENTS :: nat where "MAX_EPOLL_EVENTS = 5"
definition EPOLL_WAIT_TIMEOUT_MS :: u32 where "EPOLL_WAIT_TIMEOUT_MS = 5000"

text \<open>\<open>epoll_create\<close> and \<open>dup\<close> are the system calls: a result and the new kernel state.\<close>

definition EpollDemultiplexer :: "(nat \<Rightarrow> 'k \<Rightarrow> fd \<times> 'k) \<Rightarrow> 'k \<Rightarrow> 'k demultiplexer" where
  "EpollDemultiplexer epoll_create k =
     (case epoll_create EPOLL_SIZE k of (e, k') \<Rightarrow>
        \<lparr>epoll_fd = e, wait_timeout_ms = EPOLL_WAIT_TIMEOUT_MS, monitoring_ended = False,
         handle_id_map = [], kernel = k'\<rparr>)"

definition EpollDemultiplexer_move ::
    "(fd \<Rightarrow> 'k \<Rightarrow> fd \<times> 'k) \<Rightarrow> 'k demultiplexer \<Rightarrow> 'k demultiplexer" where
  "EpollDemultiplexer_move dup other =
     (case dup (epoll_fd other) (kernel other) of (e, k') \<Rightarrow>
        \<lparr>epoll_fd = e, wait_timeout_ms = wait_timeout_ms other,
         monitoring_ended = monitoring_ended other,
         handle_id_map = handle_id_map other, kernel = k'\<rparr>)"

definition addHandleIdMapping :: "fd \<Rightarrow> u64 \<Rightarrow> 'k demultiplexer \<Rightarrow> 'k demultiplexer" where
  "addHandleIdMapping h sid d =
     d\<lparr>handle_id_map := snd (vec_add_or_update_mapping h sid (handle_id_map d))\<rparr>"

definition removeHandleIdMapping :: "fd \<Rightarrow> 'k demultiplexer \<Rightarrow> 'k demultiplexer option" where
  "removeHandleIdMapping h d =
     map_option (\<lambda>m. d\<lparr>handle_id_map := m\<rparr>) (vec_remove_mapping h (handle_id_map d))"

definition getKeyFor :: "(fd \<Rightarrow> u64) \<Rightarrow> fd \<Rightarrow> 'k demultiplexer \<Rightarrow> u64" where
  "getKeyFor hash h d =
     (case vec_value_for 0 h (handle_id_map d) of (sid, exists) \<Rightarrow> if exists then sid else hash h)"

definition registerImpl ::
    "'k epoll_ctl \<Rightarrow> fd \<Rightarrow> u64 \<Rightarrow> u32 \<Rightarrow> 'k demultiplexer \<Rightarrow> bool \<times> 'k demultiplexer" where
  "registerImpl ctl descriptor sid events_mask d =
     (let ev = ((events_mask OR (EPOLLHUP OR EPOLLERR)) OR EPOLLRDHUP) OR EPOLLET
      in case ctl (epoll_fd d) EPOLL_CTL_ADD descriptor (Some (ev, Data_fd descriptor)) (kernel d) of
           (r, k) \<Rightarrow>
             if r \<noteq> - 1 then (True, addHandleIdMapping descriptor sid (d\<lparr>kernel := k\<rparr>))
             else (False, d\<lparr>kernel := k\<rparr>))"

definition unregisterImpl ::
    "'k epoll_ctl \<Rightarrow> fd \<Rightarrow> 'k demultiplexer \<Rightarrow> (bool \<times> 'k demultiplexer) option" where
  "unregisterImpl ctl descriptor d =
     Option.bind (removeHandleIdMapping descriptor d) (\<lambda>d1.
       case ctl (epoll_fd d1) EPOLL_CTL_DEL descriptor None (kernel d1) of
         (r, k) \<Rightarrow> Some (r \<noteq> - 1, d1\<lparr>kernel := k\<rparr>))"

definition updateImpl ::
    "'k epoll_ctl \<Rightarrow> fd \<Rightarrow> u64 \<Rightarrow> u32 \<Rightarrow> 'k demultiplexer \<Rightarrow> bool \<times> 'k demultiplexer" where
  "updateImpl ctl descriptor sid events_mask d =
     (case ctl (epoll_fd d) EPOLL_CTL_MOD descriptor (Some (events_mask, Data_u64 sid)) (kernel d) of
        (r, k) \<Rightarrow> (r \<noteq> - 1, d\<lparr>kernel := k\<rparr>))"

definition registerListener ::
    "'k epoll_ctl \<Rightarrow> subscriber_ctx \<Rightarrow> 'k demultiplexer \<Rightarrow> bool \<times> 'k demultiplexer" where
  "registerListener ctl c d = registerImpl ctl (handle c) (sub_id c) (subscribed_events_mask c) d"

definition unregisterListener ::
    "'k epoll_ctl \<Rightarrow> subscriber_ctx \<Rightarrow> 'k demultiplexer \<Rightarrow> (bool \<times> 'k demultiplexer) option" where
  "unregisterListener ctl c d = unregisterImpl ctl (handle c) d"

definition updateListener ::
    "'k epoll_ctl \<Rightarrow> subscriber_ctx \<Rightarrow> 'k demultiplexer \<Rightarrow> bool \<times> 'k demultiplexer" where
  "updateListener ctl c d = updateImpl ctl (handle c) (sub_id c) (subscribed_events_mask c) d"

definition setTimeoutMs :: "u32 \<Rightarrow> 'k demultiplexer \<Rightarrow> 'k demultiplexer" where
  "setTimeoutMs timeout d = d\<lparr>wait_timeout_ms := timeout\<rparr>"

definition stopMonitoring :: "'k demultiplexer \<Rightarrow> 'k demultiplexer" where
  "stopMonitoring d = d\<lparr>monitoring_ended := True\<rparr>"

definition monitoring :: "'k demultiplexer \<Rightarrow> bool" where
  "monitoring d = (\<not> monitoring_ended d)"

definition epoll_policy :: "'k epoll_ctl \<Rightarrow> (fd \<Rightarrow> u64) \<Rightarrow> 'k demultiplexer demux_policy" where
  "epoll_policy ctl hash =
     \<lparr>dp_getEventsMask = getEventsMask, dp_getEventsFromMask = getEventsFromMask,
      dp_getKeyFor = getKeyFor hash, dp_registerListener = registerListener ctl,
      dp_unregisterListener = unregisterListener ctl, dp_updateListener = updateListener ctl,
      dp_stopMonitoring = stopMonitoring, dp_monitoring = monitoring\<rparr>"

subsection \<open>The monitoring thread\<close>

text \<open>
  One round of the loop: what \<^verbatim>\<open>epoll_wait\<close> gave and the value of
  \<^verbatim>\<open>m_monitoring_ended\<close> at that moment (another thread sets it). A result of \<open>-1\<close>
  delivers nothing and the loop goes on, interrupted or not.
\<close>

datatype wait_result = Wait_timeout | Wait_error int | Wait_ready "epoll_event list"

definition passed_events :: "u32 \<Rightarrow> u32" where
  "passed_events events =
     (if events AND EPOLLHUP \<noteq> 0 \<and> events AND EPOLLIN \<noteq> 0 then events AND NOT EPOLLHUP else events)"

definition notification_of :: "epoll_event \<Rightarrow> event_notification" where
  "notification_of ev =
     \<lparr>note_handle = data_fd (snd ev), notified_events_mask = passed_events (fst ev), last_event = False\<rparr>"

text \<open>The result is whether the thread has returned, and the consumer's queue.\<close>

fun monitorWaitThread ::
    "(wait_result \<times> bool) list \<Rightarrow> event_notification queue \<Rightarrow> bool \<times> event_notification queue" where
  "monitorWaitThread [] q = (False, q)"
| "monitorWaitThread ((Wait_timeout, ended) # rounds) q =
     (if ended then (True, q) else monitorWaitThread rounds q)"
| "monitorWaitThread ((Wait_error e, ended) # rounds) q = monitorWaitThread rounds q"
| "monitorWaitThread ((Wait_ready evs, ended) # rounds) q =
     monitorWaitThread rounds (fold (\<lambda>ev. sq_push (notification_of ev)) evs q)"

subsection \<open>The epoll demultiplexer keeps the contract\<close>

definition demux_inv :: "(fd \<Rightarrow> u64) \<Rightarrow> 'k demultiplexer \<Rightarrow> bool" where
  "demux_inv hash d \<longleftrightarrow> vec_inv (handle_id_map d) \<and>
     (\<forall>(h, sid) \<in> set (handle_id_map d). sid = hash h)"

definition monitored_handles :: "'k demultiplexer \<Rightarrow> (fd \<rightharpoonup> u64)" where
  "monitored_handles d = map_of (handle_id_map d)"

lemma demux_inv_map:
  "demux_inv hash d \<Longrightarrow> map_of (handle_id_map d) h = Some sid \<Longrightarrow> sid = hash h"
  unfolding demux_inv_def by (auto dest: map_of_SomeD)

lemma demux_invI:
  assumes "vec_inv (handle_id_map d)"
    and "\<And>h sid. map_of (handle_id_map d) h = Some sid \<Longrightarrow> sid = hash h"
  shows "demux_inv hash d"
  using assms by (auto simp: demux_inv_def vec_inv_def)

lemma demux_inv_vec [dest]: "demux_inv hash d \<Longrightarrow> vec_inv (handle_id_map d)"
  by (simp add: demux_inv_def)

lemma monitored_kernel [frame_simps]:
  "monitored_handles (d\<lparr>kernel := k\<rparr>) = monitored_handles d"
  "demux_inv hash (d\<lparr>kernel := k\<rparr>) = demux_inv hash d"
  by (simp_all add: monitored_handles_def demux_inv_def)

lemma getKeyFor_hash: "demux_inv hash d \<Longrightarrow> getKeyFor hash h d = hash h"
  using demux_inv_map [of hash d h]
  by (cases "map_of (handle_id_map d) h") (simp_all add: getKeyFor_def vec_value_for_eq um_value_for_def)

lemma addHandleIdMapping_monitored:
  "vec_inv (handle_id_map d) \<Longrightarrow>
     monitored_handles (addHandleIdMapping h sid d) = (monitored_handles d)(h \<mapsto> sid)"
  by (simp add: monitored_handles_def addHandleIdMapping_def vec_add_map_of vec_inv_def)

lemma addHandleIdMapping_inv:
  "demux_inv hash d \<Longrightarrow> sid = hash h \<Longrightarrow> demux_inv hash (addHandleIdMapping h sid d)"
proof (rule demux_invI)
  assume d: "demux_inv hash d" and s: "sid = hash h"
  note v = demux_inv_vec [OF d]
  then show "vec_inv (handle_id_map (addHandleIdMapping h sid d))"
    by (simp add: addHandleIdMapping_def vec_inv_add)
  show "j = hash g" if "map_of (handle_id_map (addHandleIdMapping h sid d)) g = Some j" for g j
    using that s v demux_inv_map [OF d, of g j]
    by (auto simp: addHandleIdMapping_def vec_add_map_of vec_inv_def split: if_splits)
qed

lemma removeHandleIdMapping_law:
  assumes "demux_inv hash d" and "h \<in> dom (monitored_handles d)"
  obtains d' where "removeHandleIdMapping h d = Some d'" "demux_inv hash d'"
    "monitored_handles d' = (monitored_handles d)(h := None)" "kernel d' = kernel d"
    "epoll_fd d' = epoll_fd d"
proof -
  from assms obtain m where m: "vec_remove_mapping h (handle_id_map d) = Some m" "vec_inv m"
    "map_of m = (map_of (handle_id_map d))(h := None)"
    using vec.rem_present [of "handle_id_map d" h] by (auto simp: monitored_handles_def)
  show thesis
  proof (rule that)
    show "removeHandleIdMapping h d = Some (d\<lparr>handle_id_map := m\<rparr>)"
      by (simp add: removeHandleIdMapping_def m)
    show "demux_inv hash (d\<lparr>handle_id_map := m\<rparr>)"
      using assms(1) m by (intro demux_invI) (auto simp: demux_inv_map split: if_splits)
  qed (simp_all add: monitored_handles_def m)
qed

interpretation epoll: demux_contract
  "epoll_policy ctl hash" "demux_inv hash" monitored_handles hash
  for ctl :: "'k epoll_ctl" and hash :: "fd \<Rightarrow> u64"
proof unfold_locales
  fix d :: "'k demultiplexer" and h c
  assume d: "demux_inv hash d"
  note v = demux_inv_vec [OF d]
  show "dp_getKeyFor (epoll_policy ctl hash) h d = hash h"
    using d by (simp add: epoll_policy_def getKeyFor_hash)
  show "monitored_handles (snd (dp_registerListener (epoll_policy ctl hash) c d)) =
      (if fst (dp_registerListener (epoll_policy ctl hash) c d)
       then (monitored_handles d)(handle c \<mapsto> sub_id c) else monitored_handles d)"
    using v by (auto simp: epoll_policy_def registerListener_def registerImpl_def Let_def frame_simps
        addHandleIdMapping_monitored split: prod.splits)
  show "demux_inv hash (snd (dp_updateListener (epoll_policy ctl hash) c d))"
    using d by (simp add: epoll_policy_def updateListener_def updateImpl_def frame_simps split: prod.splits)
  show "monitored_handles (snd (dp_updateListener (epoll_policy ctl hash) c d)) = monitored_handles d"
    by (simp add: epoll_policy_def updateListener_def updateImpl_def frame_simps split: prod.splits)
  show "demux_inv hash (snd (dp_registerListener (epoll_policy ctl hash) c d))"
    if "sub_id c = hash (handle c)"
    using d that by (simp add: epoll_policy_def registerListener_def registerImpl_def Let_def frame_simps
        addHandleIdMapping_inv split: prod.splits)
  show "\<exists>b d'. dp_unregisterListener (epoll_policy ctl hash) c d = Some (b, d') \<and>
      demux_inv hash d' \<and> monitored_handles d' = (monitored_handles d)(handle c := None)"
    if "handle c \<in> dom (monitored_handles d)"
    by (rule removeHandleIdMapping_law [OF d that])
      (auto simp: epoll_policy_def unregisterListener_def unregisterImpl_def frame_simps split: prod.splits)
qed

subsection \<open>What the monitoring thread delivers\<close>

text \<open>The rounds the thread runs before the one that stops it.\<close>

definition live_rounds :: "(wait_result \<times> bool) list \<Rightarrow> (wait_result \<times> bool) list" where
  "live_rounds rounds = takeWhile (\<lambda>r. r \<noteq> (Wait_timeout, True)) rounds"

fun ready_events :: "wait_result \<times> bool \<Rightarrow> epoll_event list" where
  "ready_events (Wait_ready evs, ended) = evs"
| "ready_events (w, ended) = []"

lemma fold_sq_push: "fold (\<lambda>x. sq_push (f x)) xs q = q @ map f xs"
  by (induction xs arbitrary: q) (simp_all add: sq_push_def)

lemma bit_NOT_EPOLLHUP: "bit (NOT EPOLLHUP) n \<longleftrightarrow> n < 32 \<and> n \<noteq> 4"
proof -
  have e: "EPOLLHUP = 2 ^ 4" by (simp add: EPOLLHUP_def)
  show ?thesis unfolding e by (auto simp: bit_not_iff bit_exp_iff simp del: power_numeral)
qed

lemma and_EPOLL_bits: "e AND EPOLLHUP \<noteq> 0 \<longleftrightarrow> bit e 4" "e AND EPOLLIN \<noteq> 0 \<longleftrightarrow> bit e 0"
  using and_single_bit [of e 4] and_single_bit [of e 0]
  by (simp_all add: EPOLLHUP_def EPOLLIN_def)

subsection \<open>Properties\<close>

text \<open>
  C37: The monitoring thread passes on every event of every \<^verbatim>\<open>epoll_wait\<close> result, once
  and in the kernel's order, behind what was queued, up to the first timeout that finds
  monitoring ended. It returns exactly at such a timeout: neither an error nor a ready event
  ends it, however often \<^verbatim>\<open>stopMonitoring\<close> was called.
\<close>

theorem monitor_delivers_all:
  "monitorWaitThread rounds q =
     ((Wait_timeout, True) \<in> set rounds,
      q @ map notification_of (concat (map ready_events (live_rounds rounds))))"
proof (induction rounds q rule: monitorWaitThread.induct)
  case (4 evs ended rounds q)
  then show ?case by (simp add: live_rounds_def fold_sq_push)
qed (auto simp: live_rounds_def)

text \<open>
  The mask passed on is the kernel's with the hangup bit cleared exactly when there is input
  to read as well; no other bit changes.
\<close>

theorem passed_events_bits:
  "bit (passed_events e) n \<longleftrightarrow> bit e n \<and> \<not> (n = 4 \<and> bit e 0)"
  using bit_imp_le_length [of e n]
  by (auto simp: passed_events_def and_EPOLL_bits bit_and_iff bit_NOT_EPOLLHUP)

text \<open>
  Registering a listener asks the kernel to add the descriptor with the subscribed mask
  and edge-triggered HUP, ERR and RDHUP on top; the call's success is the kernel's, and from
  then on the descriptor's key is the subscriber's identifier, with every other key unchanged.
\<close>

theorem registerListener_effect:
  assumes "demux_inv hash d" and "registerListener ctl c d = (ok, d')"
  shows "(ok, kernel d') = map_prod (\<lambda>r. r \<noteq> - 1) (\<lambda>k. k)
           (ctl (epoll_fd d) EPOLL_CTL_ADD (handle c)
             (Some (subscribed_events_mask c OR 0x80002018, Data_fd (handle c))) (kernel d)) \<and>
         getKeyFor hash h d' = (if ok \<and> h = handle c then sub_id c else getKeyFor hash h d)"
proof -
  have m: "((m OR (EPOLLHUP OR EPOLLERR)) OR EPOLLRDHUP) OR EPOLLET = m OR 0x80002018" for m
    by (simp add: epoll_consts or.assoc)
  note v = demux_inv_vec [OF assms(1)]
  show ?thesis
    using assms(2) v
    by (auto simp: registerListener_def registerImpl_def m Let_def addHandleIdMapping_def
        getKeyFor_def vec_value_for_eq um_value_for_def vec_add_map_of vec_inv_def
        split: if_splits prod.splits)
qed

theorem registerListener_effect_witness:
  "getKeyFor (\<lambda>h. word_of_int h) 7
     (snd (registerListener (\<lambda>e op f ev k. (0, k)) (SubscriberContext EPOLLIN 70 7)
        \<lparr>epoll_fd = 3, wait_timeout_ms = 0, monitoring_ended = False, handle_id_map = [], kernel = ()\<rparr>))
   = 70"
  using registerListener_effect [of "\<lambda>h. word_of_int h"
      "\<lparr>epoll_fd = 3, wait_timeout_ms = 0, monitoring_ended = False, handle_id_map = [], kernel = ()\<rparr>"
      "\<lambda>e op f ev k. (0, k)" "SubscriberContext EPOLLIN 70 7" True _ 7]
  by (simp add: demux_inv_def vec_inv_def registerListener_def registerImpl_def Let_def SubscriberContext_def)

text \<open>
  \<^verbatim>\<open>updateListener\<close> stores the subscriber's identifier in the event data, not the
  descriptor. When the hash is the zero extension of the 32-bit handle (as in libstdc++), reading
  \<^verbatim>\<open>data.fd\<close> back still gives the descriptor, for every value an \<^verbatim>\<open>int\<close> can
  hold.
\<close>

theorem updated_event_keeps_descriptor:
  assumes "- (2 ^ 31) \<le> h" and "h < 2 ^ 31"
  shows "data_fd (Data_u64 (ucast (word_of_int h :: u32))) = h"
proof -
  have "(ucast (ucast (word_of_int h :: u32) :: u64) :: u32) = word_of_int h"
    by (rule bit_word_eqI) (simp add: bit_ucast_iff)
  then show ?thesis
    using assms by (simp add: signed_of_int signed_take_bit_int_eq_self)
qed

theorem updated_event_keeps_descriptor_witness:
  "data_fd (Data_u64 (ucast (word_of_int (- 1) :: u32))) = - 1"
  using updated_event_keeps_descriptor [of "- 1"] by simp

end
