(* ===== verification/Reactor.thy ===== *)
theory Reactor
  imports Demultiplexer
begin

text \<open>
  The reactor (Reactor/Reactor.hpp): the subscribers table, the handlers table, the queue of
  notifications and the demultiplexer, which is a policy \<open>P\<close> as in the template. Each member
  function is a function of the reactor's state; a call into undefined behaviour is \<open>None\<close>.
  The clients' handlers are a parameter \<open>run\<close> that may call the reactor again, and
  \<^verbatim>\<open>std::stable_sort\<close> under the library's comparator, which is not an ordering, is a
  parameter \<open>sorter\<close>. The time is an argument. \<open>app\<close> is whatever the handlers keep.
\<close>

text \<open>
  The handlers table's entries: the client's handler, \<open>None\<close> for a default constructed
  wrapper or a null pointer, and whether the event thread is in it.
\<close>

record 'h handler_entry =
  client :: "'h option"
  in_progress :: bool

definition default_entry :: "'h handler_entry" where
  "default_entry = \<lparr>client = None, in_progress = False\<rparr>"

record ('d, 'h, 'w) reactor =
  demux_wait_thread :: bool
  event_processing_thread :: bool
  subscribers_table :: "(u64, subscriber_ctx) table"
  handlers_table :: "(u64, 'h handler_entry) table"
  event_queue :: "event_notification queue"
  demux_impl :: 'd
  reactor_running :: bool
  cleanup_ts :: nat
  app :: 'w

abbreviation NULL_SUBSCRIBER_ID :: u64 where
  "NULL_SUBSCRIBER_ID \<equiv> 0"

definition CLEANUP_INTERVAL_S :: nat where
  "CLEANUP_INTERVAL_S = 300"

definition new_reactor :: "'d \<Rightarrow> 'w \<Rightarrow> ('d, 'h, 'w) reactor" where
  "new_reactor d w =
     \<lparr>demux_wait_thread = False, event_processing_thread = False, subscribers_table = [],
      handlers_table = [], event_queue = [], demux_impl = d, reactor_running = False,
      cleanup_ts = 0, app = w\<rparr>"

subsection \<open>The handlers table\<close>

text \<open>\<^verbatim>\<open>operator[]\<close> inserts a default constructed wrapper for an absent key.\<close>

definition entry_at :: "u64 \<Rightarrow> ('d, 'h, 'w) reactor \<Rightarrow> 'h handler_entry" where
  "entry_at sid r = (case map_of (handlers_table r) sid of Some e \<Rightarrow> e | None \<Rightarrow> default_entry)"

definition set_entry :: "u64 \<Rightarrow> 'h handler_entry \<Rightarrow> ('d, 'h, 'w) reactor \<Rightarrow> ('d, 'h, 'w) reactor" where
  "set_entry sid e r = r\<lparr>handlers_table := AList.update sid e (handlers_table r)\<rparr>"

text \<open>The move assignment takes over the bridge and leaves \<^verbatim>\<open>in_progress\<close> alone.\<close>

definition addHandlerInTable :: "u64 \<Rightarrow> 'h \<Rightarrow> ('d, 'h, 'w) reactor \<Rightarrow> ('d, 'h, 'w) reactor" where
  "addHandlerInTable sid h r = set_entry sid ((entry_at sid r)\<lparr>client := Some h\<rparr>) r"

definition removeHandler :: "u64 \<Rightarrow> ('d, 'h, 'w) reactor \<Rightarrow> bool \<times> ('d, 'h, 'w) reactor" where
  "removeHandler sid r =
     (case map_of (handlers_table r) sid of
        Some e \<Rightarrow> if \<not> in_progress e
                  then (True, r\<lparr>handlers_table := AList.delete sid (handlers_table r)\<rparr>)
                  else (False, r)
      | None \<Rightarrow> (False, r))"

definition setHandlerInProgress ::
    "u64 \<Rightarrow> bool \<Rightarrow> ('d, 'h, 'w) reactor \<Rightarrow> bool \<times> ('d, 'h, 'w) reactor" where
  "setHandlerInProgress sid inProgress r =
     (case map_of (handlers_table r) sid of
        Some e \<Rightarrow> (True, set_entry sid (e\<lparr>in_progress := inProgress\<rparr>) r)
      | None \<Rightarrow> (False, r))"

subsection \<open>Subscriptions\<close>

definition cleanupExpired :: "nat \<Rightarrow> ('d, 'h, 'w) reactor \<Rightarrow> ('d, 'h, 'w) reactor" where
  "cleanupExpired now r =
     (case um_remove_if
             (\<lambda>p r'. if expired (snd p) \<or> \<not> registered_to_monitor (snd p)
                     then removeHandler (fst p) r' else (False, r'))
             (subscribers_table r) r of
        (t, r') \<Rightarrow> r'\<lparr>subscribers_table := t, cleanup_ts := now\<rparr>)"

definition add_subscriber :: "u64 \<Rightarrow> subscriber_ctx \<Rightarrow> ('d, 'h, 'w) reactor \<Rightarrow> bool \<times> ('d, 'h, 'w) reactor" where
  "add_subscriber sid c r =
     (case um_add_or_update_mapping sid c (subscribers_table r) of
        (inserted, t) \<Rightarrow> (inserted, r\<lparr>subscribers_table := t\<rparr>))"

definition remove_subscriber :: "u64 \<Rightarrow> ('d, 'h, 'w) reactor \<Rightarrow> ('d, 'h, 'w) reactor" where
  "remove_subscriber sid r = r\<lparr>subscribers_table := um_remove_mapping sid (subscribers_table r)\<rparr>"

text \<open>
  The do-while loop that looks for the handle's identifier: the identifier and whether the
  handle is already subscribed. Nothing in its body changes what the next round reads, so a
  round that does not leave the loop is repeated for ever (\<open>None\<close>).
\<close>

partial_function (option) subscriber_key_loop ::
    "'d demux_policy \<Rightarrow> fd \<Rightarrow> ('d, 'h, 'w) reactor \<Rightarrow> (u64 \<times> bool) option" where
  "subscriber_key_loop pol h r =
     (let sid = dp_getKeyFor pol h (demux_impl r)
      in case um_value_for default_ctx sid (subscribers_table r) of (sub_info, res) \<Rightarrow>
           if res \<and> h = handle sub_info then Some (sid, True)
           else if res then subscriber_key_loop pol h r
           else Some (sid, False))"

definition handler_busy :: "u64 \<Rightarrow> ('d, 'h, 'w) reactor \<Rightarrow> bool" where
  "handler_busy sid r = (case map_of (handlers_table r) sid of Some e \<Rightarrow> in_progress e | None \<Rightarrow> False)"

definition subscribeImpl ::
    "'d demux_policy \<Rightarrow> nat \<Rightarrow> events_array \<Rightarrow> fd \<Rightarrow> ('d, 'h, 'w) reactor \<Rightarrow>
     (u64 \<times> ('d, 'h, 'w) reactor) option" where
  "subscribeImpl P now events h r =
     (let subscription_mask = dp_getEventsMask P events;
          r1 = cleanupExpired now r
      in Option.bind (subscriber_key_loop P h r1) (\<lambda>(sid, already_subscribed).
           if already_subscribed \<and> handler_busy sid r1 then Some (NULL_SUBSCRIBER_ID, r1)
           else let sub_info = SubscriberContext subscription_mask sid h
                in case add_subscriber sid sub_info r1 of (inserted, r2) \<Rightarrow>
                     if \<not> inserted then Some (NULL_SUBSCRIBER_ID, r2)
                     else if already_subscribed then
                       (case dp_updateListener P sub_info (demux_impl r2) of (ok, d) \<Rightarrow>
                          Some (if ok then sid else NULL_SUBSCRIBER_ID, r2\<lparr>demux_impl := d\<rparr>))
                     else
                       (case dp_registerListener P sub_info (demux_impl r2) of (ok, d) \<Rightarrow>
                          let r3 = r2\<lparr>demux_impl := d\<rparr>
                          in if ok then
                               Some (sid, snd (add_subscriber sid
                                                 (sub_info\<lparr>registered_to_monitor := True\<rparr>) r3))
                             else Some (NULL_SUBSCRIBER_ID, remove_subscriber sid r3))))"

definition subscribe ::
    "'d demux_policy \<Rightarrow> nat \<Rightarrow> events_array \<Rightarrow> fd \<Rightarrow> 'h \<Rightarrow> ('d, 'h, 'w) reactor \<Rightarrow>
     (u64 \<times> ('d, 'h, 'w) reactor) option" where
  "subscribe P now events h ev_handler r =
     map_option (\<lambda>(ret, r'). (ret, if ret \<noteq> NULL_SUBSCRIBER_ID
                                   then addHandlerInTable ret ev_handler r' else r'))
       (subscribeImpl P now events h r)"

definition unsubscribe ::
    "'d demux_policy \<Rightarrow> nat \<Rightarrow> u64 \<Rightarrow> ('d, 'h, 'w) reactor \<Rightarrow> (bool \<times> ('d, 'h, 'w) reactor) option" where
  "unsubscribe P now sid r =
     (let r1 = cleanupExpired now r
      in case um_value_for default_ctx sid (subscribers_table r1) of (sub_info, res_found) \<Rightarrow>
           if \<not> res_found then Some (False, r1)
           else Option.bind
                  (if registered_to_monitor sub_info
                   then map_option (\<lambda>(b, d). r1\<lparr>demux_impl := d\<rparr>)
                          (dp_unregisterListener P sub_info (demux_impl r1))
                   else Some r1)
                  (\<lambda>r2. Some (True, snd (removeHandler sid (remove_subscriber sid r2)))))"

subsection \<open>The event thread\<close>

type_synonym ('d, 'h, 'w) runner =
  "'h \<Rightarrow> u64 \<Rightarrow> handle_event \<Rightarrow> ('d, 'h, 'w) reactor \<Rightarrow> (event_result \<times> ('d, 'h, 'w) reactor) option"

text \<open>
  \<^verbatim>\<open>m_handlers_table[sub_id].handleEvent(sub_id, event)\<close>; a wrapper without a handler
  answers \<^verbatim>\<open>E_RESULT_INVALID_REFERENCE\<close>.
\<close>

definition call_handler ::
    "('d, 'h, 'w) runner \<Rightarrow> u64 \<Rightarrow> handle_event \<Rightarrow> ('d, 'h, 'w) reactor \<Rightarrow>
     (event_result \<times> ('d, 'h, 'w) reactor) option" where
  "call_handler run sid event r =
     (let e = entry_at sid r; r1 = set_entry sid e r
      in case client e of
           Some h \<Rightarrow> run h sid event r1
         | None \<Rightarrow> Some (E_RESULT_INVALID_REFERENCE, r1))"

text \<open>
  The loop over the events; \<open>sub_info\<close> is the copy of the subscriber taken before it, and
  that copy is what goes back into the table when a handler is gone.
\<close>

fun handle_events ::
    "('d, 'h, 'w) runner \<Rightarrow> u64 \<Rightarrow> subscriber_ctx \<Rightarrow> handle_event list \<Rightarrow> ('d, 'h, 'w) reactor \<Rightarrow>
     ('d, 'h, 'w) reactor option" where
  "handle_events run sid sub_info [] r = Some r"
| "handle_events run sid sub_info (event # events) r =
     (if event = E_HANDLE_EVENT_NULL then handle_events run sid sub_info events r
      else Option.bind (call_handler run sid event r) (\<lambda>(res, r1).
             if res = E_RESULT_INVALID_REFERENCE
             then Some (snd (add_subscriber sid (sub_info\<lparr>expired := True\<rparr>) r1))
             else handle_events run sid sub_info events r1))"

definition cleanup_if_due :: "nat \<Rightarrow> ('d, 'h, 'w) reactor \<Rightarrow> ('d, 'h, 'w) reactor" where
  "cleanup_if_due now r =
     (if CLEANUP_INTERVAL_S \<le> now - cleanup_ts r then cleanupExpired now r else r)"

text \<open>One round of the event loop, for a notification that is not the last one.\<close>

definition process_notification ::
    "'d demux_policy \<Rightarrow> (events_array \<Rightarrow> events_array) \<Rightarrow> ('d, 'h, 'w) runner \<Rightarrow> nat \<Rightarrow>
     event_notification \<Rightarrow> ('d, 'h, 'w) reactor \<Rightarrow> ('d, 'h, 'w) reactor option" where
  "process_notification P sorter run now n r =
     (let sid = dp_getKeyFor P (note_handle n) (demux_impl r)
      in case um_value_for default_ctx sid (subscribers_table r) of (sub_info, value_found) \<Rightarrow>
           if value_found \<and> \<not> expired sub_info then
             (case setHandlerInProgress sid True r of (found, r1) \<Rightarrow>
                if \<not> found then Some (snd (add_subscriber sid (sub_info\<lparr>expired := True\<rparr>) r1))
                else map_option
                       (\<lambda>r2. cleanup_if_due now
                               (set_entry sid ((entry_at sid r2)\<lparr>in_progress := False\<rparr>) r2))
                       (handle_events run sid sub_info
                          (sorter (dp_getEventsFromMask P (notified_events_mask n))) r1))
           else Some (cleanup_if_due now r))"

text \<open>
  The thread works on the notifications it is given, with the time at which each is done; it
  ends at the last event. The result says whether it has returned.
\<close>

fun eventProcessingThread ::
    "'d demux_policy \<Rightarrow> (events_array \<Rightarrow> events_array) \<Rightarrow> ('d, 'h, 'w) runner \<Rightarrow>
     (event_notification \<times> nat) list \<Rightarrow> ('d, 'h, 'w) reactor \<Rightarrow> (bool \<times> ('d, 'h, 'w) reactor) option" where
  "eventProcessingThread P sorter run [] r = Some (False, r)"
| "eventProcessingThread P sorter run ((n, now) # ns) r =
     (if last_event n then Some (True, r)
      else Option.bind (process_notification P sorter run now n r)
             (eventProcessingThread P sorter run ns))"

subsection \<open>Starting and stopping\<close>

definition start :: "nat \<Rightarrow> ('d, 'h, 'w) reactor \<Rightarrow> ('d, 'h, 'w) reactor" where
  "start now r =
     (if reactor_running r then r
      else r\<lparr>cleanup_ts := now, event_processing_thread := True, demux_wait_thread := True,
             reactor_running := True\<rparr>)"

definition last_event_notification :: event_notification where
  "last_event_notification = \<lparr>note_handle = null_fd, notified_events_mask = 0, last_event = True\<rparr>"

text \<open>
  \<^verbatim>\<open>stop\<close> up to the joins, and what follows them; between the two the threads run to
  their end.
\<close>

definition stop_request :: "'d demux_policy \<Rightarrow> ('d, 'h, 'w) reactor \<Rightarrow> bool \<times> ('d, 'h, 'w) reactor" where
  "stop_request P r =
     (let r1 = (if dp_monitoring P (demux_impl r)
                then r\<lparr>demux_impl := dp_stopMonitoring P (demux_impl r)\<rparr> else r)
      in if \<not> reactor_running r1 then (False, r1)
         else (True, r1\<lparr>event_queue := sq_push last_event_notification (event_queue r1)\<rparr>))"

definition stop_joined :: "('d, 'h, 'w) reactor \<Rightarrow> ('d, 'h, 'w) reactor" where
  "stop_joined r =
     r\<lparr>demux_wait_thread := False, event_processing_thread := False, reactor_running := False\<rparr>"

definition clear_reactor :: "('d, 'h, 'w) reactor \<Rightarrow> bool \<times> ('d, 'h, 'w) reactor" where
  "clear_reactor r =
     (if reactor_running r then (False, r)
      else (True, r\<lparr>subscribers_table := um_clear (subscribers_table r)\<rparr>))"

text \<open>
  The destructor's calls on the reader side of \<^verbatim>\<open>m_mutex\<close>: the lock object, the
  direct calls of \<^verbatim>\<open>unlock_shared\<close>, which the lock object does not see, the body of
  \<^verbatim>\<open>clear\<close>, and the release in the lock object's own destructor. Unlocking a mutex
  that is not held is undefined.
\<close>

datatype lock_op = Lock_shared | Unlock_shared

fun run_lock_ops :: "lock_op list \<Rightarrow> nat \<Rightarrow> nat option" where
  "run_lock_ops [] readers = Some readers"
| "run_lock_ops (Lock_shared # ops) readers = run_lock_ops ops (Suc readers)"
| "run_lock_ops (Unlock_shared # ops) readers =
     (case readers of 0 \<Rightarrow> None | Suc n \<Rightarrow> run_lock_ops ops n)"

definition reactor_destructor_locks :: "bool \<Rightarrow> lock_op list" where
  "reactor_destructor_locks running =
     [Lock_shared] @ (if running then [Unlock_shared] else []) @ [Unlock_shared] @
     [Lock_shared, Unlock_shared] @ [Unlock_shared]"

text \<open>The destructor's first loop: every registered subscriber is unregistered.\<close>

fun destructor_unregister ::
    "'d demux_policy \<Rightarrow> (u64, subscriber_ctx) table \<Rightarrow> 'd \<Rightarrow> 'd option" where
  "destructor_unregister P [] d = Some d"
| "destructor_unregister P ((sid, c) # t) d =
     (if registered_to_monitor c
      then Option.bind (dp_unregisterListener P c d) (\<lambda>(b, d'). destructor_unregister P t d')
      else destructor_unregister P t d)"

subsection \<open>What each part leaves alone\<close>

lemma removeHandler_frame [frame_simps]:
  "subscribers_table (snd (removeHandler sid r)) = subscribers_table r"
  "demux_impl (snd (removeHandler sid r)) = demux_impl r"
  "app (snd (removeHandler sid r)) = app r"
  by (simp_all add: removeHandler_def split: option.splits)

lemma set_entry_frame [frame_simps]:
  "subscribers_table (set_entry sid e r) = subscribers_table r"
  "demux_impl (set_entry sid e r) = demux_impl r"
  "app (set_entry sid e r) = app r"
  "map_of (handlers_table (set_entry sid e r)) = (map_of (handlers_table r))(sid \<mapsto> e)"
  by (simp_all add: set_entry_def update_map_of)

lemma entry_at_set_entry [simp]:
  "entry_at sid (set_entry sid e r) = e"
  by (simp add: entry_at_def frame_simps)

lemma add_subscriber_frame [frame_simps]:
  "demux_impl (snd (add_subscriber sid c r)) = demux_impl r"
  "handlers_table (snd (add_subscriber sid c r)) = handlers_table r"
  "app (snd (add_subscriber sid c r)) = app r"
  "map_of (subscribers_table (snd (add_subscriber sid c r))) = (map_of (subscribers_table r))(sid \<mapsto> c)"
  "fst (add_subscriber sid c r) = (map_of (subscribers_table r) sid = None)"
  by (simp_all add: add_subscriber_def um_add_or_update_mapping_def update_map_of)

lemma remove_subscriber_frame [frame_simps]:
  "demux_impl (remove_subscriber sid r) = demux_impl r"
  "handlers_table (remove_subscriber sid r) = handlers_table r"
  "map_of (subscribers_table (remove_subscriber sid r)) = (map_of (subscribers_table r))(sid := None)"
  by (simp_all add: remove_subscriber_def um_remove_mapping_def delete_map_of)

lemma um_inv_add_subscriber [inv_intros]:
  "um_inv (subscribers_table r) \<Longrightarrow> um_inv (subscribers_table (snd (add_subscriber sid c r)))"
  using um.inv_add [of "subscribers_table r" sid c] by (simp add: add_subscriber_def case_prod_beta)

lemma um_inv_remove_subscriber [inv_intros]:
  "um_inv (subscribers_table r) \<Longrightarrow> um_inv (subscribers_table (remove_subscriber sid r))"
  by (simp add: remove_subscriber_def um_remove_mapping_def um_inv_def distinct_keys_delete)

subsection \<open>Cleaning up\<close>

text \<open>The handler can be removed: it is in the table and the event thread is not in it.\<close>

definition removable :: "u64 \<Rightarrow> ('d, 'h, 'w) reactor \<Rightarrow> bool" where
  "removable sid r = (case map_of (handlers_table r) sid of Some e \<Rightarrow> \<not> in_progress e | None \<Rightarrow> False)"

definition stale :: "subscriber_ctx \<Rightarrow> bool" where
  "stale c \<longleftrightarrow> expired c \<or> \<not> registered_to_monitor c"

definition cleaned :: "(u64, subscriber_ctx) table \<Rightarrow> ('d, 'h, 'w) reactor \<Rightarrow> u64 list" where
  "cleaned t r = map fst (filter (\<lambda>p. stale (snd p) \<and> removable (fst p) r) t)"

lemma removeHandler_eq:
  "removeHandler sid r =
     (removable sid r,
      if removable sid r then r\<lparr>handlers_table := AList.delete sid (handlers_table r)\<rparr> else r)"
  by (auto simp: removeHandler_def removable_def split: option.splits)

lemma removable_delete:
  "k \<noteq> sid \<Longrightarrow>
     removable k (r\<lparr>handlers_table := AList.delete sid (handlers_table r)\<rparr>) = removable k r"
  by (simp add: removable_def delete_map_of)

lemma cleaned_cong:
  "(\<And>p. p \<in> set t \<Longrightarrow> removable (fst p) r = removable (fst p) r') \<Longrightarrow> cleaned t r = cleaned t r'"
  unfolding cleaned_def by (rule arg_cong [where f = "map fst"], rule filter_cong) auto

abbreviation (input) cleanup_pred ::
    "u64 \<times> subscriber_ctx \<Rightarrow> ('d, 'h, 'w) reactor \<Rightarrow> bool \<times> ('d, 'h, 'w) reactor" where
  "cleanup_pred p r' \<equiv> if expired (snd p) \<or> \<not> registered_to_monitor (snd p)
                        then removeHandler (fst p) r' else (False, r')"

lemma collect_cleanup:
  "distinct (keys t) \<Longrightarrow>
     collect_keys cleanup_pred t r =
       (cleaned t r, r\<lparr>handlers_table := filter (\<lambda>e. fst e \<notin> set (cleaned t r)) (handlers_table r)\<rparr>)"
proof (induction t arbitrary: r)
  case Nil
  then show ?case by (simp add: cleaned_def)
next
  case (Cons p t)
  then have d: "distinct (keys t)" and p: "fst p \<notin> fst ` set t" by auto
  show ?case
  proof (cases "stale (snd p) \<and> removable (fst p) r")
    case True
    define r1 where "r1 = r\<lparr>handlers_table := AList.delete (fst p) (handlers_table r)\<rparr>"
    have "removable (fst q) r1 = removable (fst q) r" if "q \<in> set t" for q
    proof -
      have "fst q \<noteq> fst p" using that p by (metis image_eqI)
      then show ?thesis unfolding r1_def by (rule removable_delete)
    qed
    then have "cleaned t r1 = cleaned t r"
      by (rule cleaned_cong)
    then have c: "cleaned (p # t) r = fst p # cleaned t r1"
      using True by (simp add: cleaned_def)
    have "cleanup_pred p r = (True, r1)"
      using True by (simp add: stale_def removeHandler_eq r1_def)
    then have "collect_keys cleanup_pred (p # t) r =
        (fst p # cleaned t r1,
         r1\<lparr>handlers_table := filter (\<lambda>e. fst e \<notin> set (cleaned t r1)) (handlers_table r1)\<rparr>)"
      using Cons.IH [OF d, of r1] by simp
    moreover have "filter (\<lambda>e. fst e \<notin> set (cleaned t r1)) (handlers_table r1) =
        filter (\<lambda>e. fst e \<notin> set (cleaned (p # t) r)) (handlers_table r)"
      by (simp add: r1_def c AList.delete_eq case_prod_beta' conj_commute eq_commute)
    ultimately show ?thesis
      by (simp add: c r1_def)
  next
    case False
    then have "cleanup_pred p r = (False, r)"
      by (auto simp: stale_def removeHandler_eq)
    then show ?thesis
      using Cons.IH [OF d, of r] False by (simp add: cleaned_def)
  qed
qed

lemma cleanupExpired_eq:
  assumes "um_inv (subscribers_table r)"
  shows "cleanupExpired now r =
    r\<lparr>subscribers_table := filter (\<lambda>p. \<not> (stale (snd p) \<and> removable (fst p) r)) (subscribers_table r),
      handlers_table := filter (\<lambda>e. fst e \<notin> set (cleaned (subscribers_table r) r)) (handlers_table r),
      cleanup_ts := now\<rparr>"
proof -
  let ?t = "subscribers_table r"
  have d: "distinct (keys ?t)" using assms by (simp add: um_inv_def)
  have "(p \<in> set ?t \<and> fst p \<notin> set (cleaned ?t r)) \<longleftrightarrow>
      (p \<in> set ?t \<and> \<not> (stale (snd p) \<and> removable (fst p) r))" for p
    using d by (auto simp: cleaned_def distinct_map inj_on_def)
  then have "filter (\<lambda>p. fst p \<notin> set (cleaned ?t r)) ?t =
      filter (\<lambda>p. \<not> (stale (snd p) \<and> removable (fst p) r)) ?t"
    by (intro filter_cong) auto
  then show ?thesis
    by (simp add: cleanupExpired_def um_remove_if_def collect_cleanup [OF d] fold_delete)
qed

lemma cleanup_subscribers:
  assumes "um_inv (subscribers_table r)"
  shows "map_of (subscribers_table (cleanupExpired now r)) sid =
    (case map_of (subscribers_table r) sid of
       Some c \<Rightarrow> if stale c \<and> removable sid r then None else Some c | None \<Rightarrow> None)"
proof -
  have "map_of (filter (\<lambda>p. \<not> (stale (snd p) \<and> removable (fst p) r)) t) sid =
    (case map_of t sid of Some c \<Rightarrow> if stale c \<and> removable sid r then None else Some c | None \<Rightarrow> None)"
    if "distinct (keys t)" for t
    using that
  proof (induction t)
    case Nil
    then show ?case by simp
  next
    case (Cons p t)
    then show ?case
      by (cases p) (auto simp: map_of_eq_None_iff split: option.splits)
  qed
  then show ?thesis
    using assms by (simp add: cleanupExpired_eq um_inv_def)
qed

lemma cleanup_frame [frame_simps]:
  assumes "um_inv (subscribers_table r)"
  shows "demux_impl (cleanupExpired now r) = demux_impl r"
    and "app (cleanupExpired now r) = app r"
    and "reactor_running (cleanupExpired now r) = reactor_running r"
    and "event_queue (cleanupExpired now r) = event_queue r"
  using assms by (simp_all add: cleanupExpired_eq)

lemma um_inv_cleanup [inv_intros]:
  "um_inv (subscribers_table r) \<Longrightarrow> um_inv (subscribers_table (cleanupExpired now r))"
  by (simp add: cleanupExpired_eq um_inv_def keys_filter_distinct)

lemma cleanup_handlers:
  assumes "um_inv (subscribers_table r)"
  shows "map_of (handlers_table (cleanupExpired now r)) sid =
    (if sid \<in> set (cleaned (subscribers_table r) r) then None else map_of (handlers_table r) sid)"
proof -
  have "map_of (filter (\<lambda>e. fst e \<notin> D) hs) sid = (if sid \<in> D then None else map_of hs sid)"
    for D and hs :: "(u64 \<times> 'b handler_entry) list"
    by (induction hs) auto
  then show ?thesis
    using assms by (simp add: cleanupExpired_eq)
qed

subsection \<open>The invariant\<close>

text \<open>The values of the handle type \<^verbatim>\<open>int\<close>.\<close>

definition int32 :: "fd set" where
  "int32 = {- (2 ^ 31) ..< 2 ^ 31}"

text \<open>
  A subscriber is filed under its own identifier, which is the key of its handle; a registered
  one's handle is monitored.
\<close>

definition ctx_ok :: "(fd \<Rightarrow> u64) \<Rightarrow> (fd \<rightharpoonup> u64) \<Rightarrow> u64 \<Rightarrow> subscriber_ctx \<Rightarrow> bool" where
  "ctx_ok hash mon sid c \<longleftrightarrow> sub_id c = sid \<and> sid = hash (handle c) \<and> handle c \<in> int32 \<and>
     (registered_to_monitor c \<longrightarrow> handle c \<in> dom mon)"

definition reactor_inv ::
    "(fd \<Rightarrow> u64) \<Rightarrow> ('d \<Rightarrow> bool) \<Rightarrow> ('d \<Rightarrow> (fd \<rightharpoonup> u64)) \<Rightarrow> ('d, 'h, 'w) reactor \<Rightarrow> bool" where
  "reactor_inv hash dinv monitored r \<longleftrightarrow>
     dinv (demux_impl r) \<and> um_inv (subscribers_table r) \<and>
     (\<forall>(sid, c) \<in> set (subscribers_table r). ctx_ok hash (monitored (demux_impl r)) sid c)"

lemma reactor_invI:
  assumes "dinv (demux_impl r)" and "um_inv (subscribers_table r)"
    and "\<And>sid c. map_of (subscribers_table r) sid = Some c \<Longrightarrow>
           ctx_ok hash (monitored (demux_impl r)) sid c"
  shows "reactor_inv hash dinv monitored r"
  using assms by (auto simp: reactor_inv_def um_inv_def)

lemma reactor_invD:
  assumes "reactor_inv hash dinv monitored r"
  shows "dinv (demux_impl r)" and "um_inv (subscribers_table r)"
    and "map_of (subscribers_table r) sid = Some c \<Longrightarrow> ctx_ok hash (monitored (demux_impl r)) sid c"
  using assms by (auto simp: reactor_inv_def dest: map_of_SomeD)

lemma reactor_inv_cong:
  "demux_impl r' = demux_impl r \<Longrightarrow> subscribers_table r' = subscribers_table r \<Longrightarrow>
     reactor_inv hash dinv monitored r' = reactor_inv hash dinv monitored r"
  by (simp add: reactor_inv_def)

lemma reactor_inv_handlers [inv_intros]:
  "reactor_inv hash dinv monitored r \<Longrightarrow> reactor_inv hash dinv monitored (set_entry sid e r)"
  "reactor_inv hash dinv monitored r \<Longrightarrow> reactor_inv hash dinv monitored (snd (removeHandler sid r))"
  by (simp_all add: reactor_inv_def frame_simps)

lemma reactor_inv_cleanup [inv_intros]:
  assumes "reactor_inv hash dinv monitored r"
  shows "reactor_inv hash dinv monitored (cleanupExpired now r)"
proof (rule reactor_invI)
  note u = reactor_invD(2) [OF assms]
  show "dinv (demux_impl (cleanupExpired now r))"
    using reactor_invD(1) [OF assms] by (simp add: frame_simps u)
  show "um_inv (subscribers_table (cleanupExpired now r))"
    using u by (rule um_inv_cleanup)
  show "ctx_ok hash (monitored (demux_impl (cleanupExpired now r))) sid c"
    if "map_of (subscribers_table (cleanupExpired now r)) sid = Some c" for sid c
    using that reactor_invD(3) [OF assms, of sid c]
    by (auto simp: frame_simps u cleanup_subscribers split: option.splits if_splits)
qed

lemma reactor_inv_add [inv_intros]:
  assumes "reactor_inv hash dinv monitored r" and "ctx_ok hash (monitored (demux_impl r)) sid c"
  shows "reactor_inv hash dinv monitored (snd (add_subscriber sid c r))"
proof (rule reactor_invI)
  show "ctx_ok hash (monitored (demux_impl (snd (add_subscriber sid c r)))) s c'"
    if "map_of (subscribers_table (snd (add_subscriber sid c r))) s = Some c'" for s c'
    using that assms reactor_invD(3) [OF assms(1)] by (auto simp: frame_simps split: if_splits)
qed (use reactor_invD [OF assms(1)] in \<open>simp_all add: frame_simps um_inv_add_subscriber\<close>)

lemma reactor_inv_remove [inv_intros]:
  assumes "reactor_inv hash dinv monitored r"
  shows "reactor_inv hash dinv monitored (remove_subscriber sid r)"
proof (rule reactor_invI)
  show "ctx_ok hash (monitored (demux_impl (remove_subscriber sid r))) s c'"
    if "map_of (subscribers_table (remove_subscriber sid r)) s = Some c'" for s c'
    using that reactor_invD(3) [OF assms] by (auto simp: frame_simps split: if_splits)
qed (use reactor_invD [OF assms] in \<open>simp_all add: frame_simps um_inv_remove_subscriber\<close>)

text \<open>Changing the demultiplexer keeps the invariant when no handle in use stops being monitored.\<close>

lemma reactor_inv_demux:
  assumes "reactor_inv hash dinv monitored r" and "dinv d"
    and "\<And>sid c. map_of (subscribers_table r) sid = Some c \<Longrightarrow> registered_to_monitor c \<Longrightarrow>
           handle c \<in> dom (monitored (demux_impl r)) \<Longrightarrow> handle c \<in> dom (monitored d)"
  shows "reactor_inv hash dinv monitored (r\<lparr>demux_impl := d\<rparr>)"
proof (rule reactor_invI)
  show "ctx_ok hash (monitored (demux_impl (r\<lparr>demux_impl := d\<rparr>))) s c"
    if "map_of (subscribers_table (r\<lparr>demux_impl := d\<rparr>)) s = Some c" for s c
    using that reactor_invD(3) [OF assms(1), of s c] assms(3) [of s c]
    by (auto simp: ctx_ok_def)
qed (use assms(2) reactor_invD [OF assms(1)] in simp_all)

subsection \<open>The lookup loop\<close>

lemma subscriber_key_loop_result:
  assumes "subscriber_key_loop P h r = Some y"
  shows "fst y = dp_getKeyFor P h (demux_impl r) \<and>
    (case map_of (subscribers_table r) (fst y) of None \<Rightarrow> \<not> snd y | Some c \<Rightarrow> snd y \<and> handle c = h)"
proof -
  define ok where "ok P h r y \<longleftrightarrow> fst y = dp_getKeyFor P h (demux_impl r) \<and>
    (case map_of (subscribers_table r) (fst y) of None \<Rightarrow> \<not> snd y | Some c \<Rightarrow> snd y \<and> handle c = h)"
    for P :: "'a demux_policy" and h and r :: "('a, 'b, 'c) reactor" and y :: "u64 \<times> bool"
  have "ok P h r y"
    using assms
  proof (rule subscriber_key_loop.raw_induct [where P = ok, rotated])
    fix loop and P :: "'a demux_policy" and h and r :: "('a, 'b, 'c) reactor" and y :: "u64 \<times> bool"
    assume IH: "\<And>P h r y. loop P h r = Some y \<Longrightarrow> ok P h r y"
      and step: "(let sid = dp_getKeyFor P h (demux_impl r)
        in case um_value_for default_ctx sid (subscribers_table r) of (sub_info, res) \<Rightarrow>
             if res \<and> h = handle sub_info then Some (sid, True)
             else if res then loop P h r else Some (sid, False)) = Some y"
    show "ok P h r y"
    proof (cases "map_of (subscribers_table r) (dp_getKeyFor P h (demux_impl r))")
      case None
      with step show ?thesis by (auto simp: ok_def Let_def um_value_for_def)
    next
      case (Some c)
      then show ?thesis
        using step IH [of P h r y]
        by (cases "h = handle c") (auto simp: ok_def Let_def um_value_for_def)
    qed
  qed
  then show ?thesis unfolding ok_def .
qed

lemma subscriber_key_loop_fresh:
  "map_of (subscribers_table r) (dp_getKeyFor P h (demux_impl r)) = None \<Longrightarrow>
     subscriber_key_loop P h r = Some (dp_getKeyFor P h (demux_impl r), False)"
  by (subst subscriber_key_loop.simps) (simp add: Let_def um_value_for_def)

lemma subscriber_key_loop_found:
  "map_of (subscribers_table r) (dp_getKeyFor P h (demux_impl r)) = Some c \<Longrightarrow> handle c = h \<Longrightarrow>
     subscriber_key_loop P h r = Some (dp_getKeyFor P h (demux_impl r), True)"
  by (subst subscriber_key_loop.simps) (simp add: Let_def um_value_for_def)

lemma subscriber_key_loop_diverges:
  assumes "map_of (subscribers_table r) (dp_getKeyFor P h (demux_impl r)) = Some c"
    and "handle c \<noteq> h"
  shows "subscriber_key_loop P h r = None"
proof (cases "subscriber_key_loop P h r")
  case (Some y)
  from subscriber_key_loop_result [OF this] assms show ?thesis
    by auto
qed

subsection \<open>The operations under the policy's contract\<close>

context demux_contract begin

abbreviation (input) rinv :: "('d, 'h, 'w) reactor \<Rightarrow> bool" where
  "rinv \<equiv> reactor_inv hash dinv monitored"

lemma key_loop_total:
  assumes "rinv r" and "inj_on hash int32" and "h \<in> int32"
  shows "subscriber_key_loop P h r = Some (hash h, map_of (subscribers_table r) (hash h) \<noteq> None)"
proof -
  have k: "dp_getKeyFor P h (demux_impl r) = hash h"
    by (rule key [OF reactor_invD(1) [OF assms(1)]])
  show ?thesis
  proof (cases "map_of (subscribers_table r) (hash h)")
    case None
    then show ?thesis using subscriber_key_loop_fresh [of r P h] by (simp add: k)
  next
    case (Some c)
    then have "hash h = hash (handle c)" and "handle c \<in> int32"
      using reactor_invD(3) [OF assms(1) Some] by (simp_all add: ctx_ok_def)
    then have "handle c = h"
      using assms(2,3) by (simp add: inj_on_eq_iff)
    with Some show ?thesis using subscriber_key_loop_found [of r P h c] by (simp add: k)
  qed
qed

lemma ctx_of_SubscriberContext:
  "h \<in> int32 \<Longrightarrow> ctx_ok hash mon (hash h) (SubscriberContext m (hash h) h)"
  by (simp add: ctx_ok_def SubscriberContext_def)

lemma dom_register:
  "dinv d \<Longrightarrow> dp_registerListener P c d = (ok, d') \<Longrightarrow> dom (monitored d) \<subseteq> dom (monitored d')"
  using register_monitored [of d c] by (auto simp: domIff)

lemma subscribeImpl_inv:
  assumes "rinv r" and "inj_on hash int32" and "h \<in> int32"
  shows "\<exists>ret r'. subscribeImpl P now events h r = Some (ret, r') \<and> rinv r'"
proof -
  define r1 where "r1 = cleanupExpired now r"
  have r1: "rinv r1" unfolding r1_def using assms(1) by (rule reactor_inv_cleanup)
  note k = key_loop_total [OF r1 assms(2,3)]
  define c where "c = SubscriberContext (dp_getEventsMask P events) (hash h) h"
  define r2 where "r2 = snd (add_subscriber (hash h) c r1)"
  have r2: "rinv r2" unfolding r2_def c_def
    using r1 by (intro reactor_inv_add ctx_of_SubscriberContext assms(3))
  have ins: "add_subscriber (hash h) c r1 = (map_of (subscribers_table r1) (hash h) = None, r2)"
    unfolding r2_def by (simp add: frame_simps prod_eq_iff)
  show ?thesis
  proof (cases "map_of (subscribers_table r1) (hash h)")
    case (Some c0)
    then show ?thesis
      using r1 r2 k ins by (simp add: subscribeImpl_def r1_def [symmetric] c_def [symmetric] Let_def)
  next
    case None
    obtain ok d where reg: "dp_registerListener P c (demux_impl r2) = (ok, d)"
      by fastforce
    note d2 = reactor_invD(1) [OF r2]
    have d: "dinv d"
      using register_inv [OF d2, of c] reg by (simp add: c_def SubscriberContext_def)
    define r3 where "r3 = r2\<lparr>demux_impl := d\<rparr>"
    have r3: "rinv r3" unfolding r3_def
      using dom_register [OF d2 reg] by (intro reactor_inv_demux r2 d) blast
    have "ok \<Longrightarrow> rinv (snd (add_subscriber (hash h) (c\<lparr>registered_to_monitor := True\<rparr>) r3))"
      using register_success [OF d2, of c] reg
      by (intro reactor_inv_add r3) (auto simp: ctx_ok_def c_def SubscriberContext_def r3_def assms(3))
    moreover have "rinv (remove_subscriber (hash h) r3)"
      using r3 by (rule reactor_inv_remove)
    ultimately show ?thesis
      using None k ins reg
      by (auto simp: subscribeImpl_def r1_def [symmetric] c_def [symmetric] r3_def [symmetric] Let_def)
  qed
qed

lemma subscribe_inv:
  assumes "rinv r" and "inj_on hash int32" and "h \<in> int32"
  shows "\<exists>ret r'. subscribe P now events h hdl r = Some (ret, r') \<and> rinv r'"
proof -
  obtain ret r' where "subscribeImpl P now events h r = Some (ret, r')" "rinv r'"
    using subscribeImpl_inv [OF assms] by blast
  then show ?thesis
    by (simp add: subscribe_def addHandlerInTable_def reactor_inv_handlers)
qed

lemma unsubscribe_inv:
  assumes "rinv r"
  shows "\<exists>y. unsubscribe P now sid r = Some y \<and> rinv (snd y)"
proof -
  define r1 where "r1 = cleanupExpired now r"
  have r1: "rinv r1" unfolding r1_def using assms by (rule reactor_inv_cleanup)
  show ?thesis
  proof (cases "map_of (subscribers_table r1) sid")
    case None
    then show ?thesis
      using r1 by (simp add: unsubscribe_def r1_def [symmetric] Let_def um_value_for_None)
  next
    case (Some c)
    note ok = reactor_invD(3) [OF r1 Some]
    show ?thesis
    proof (cases "registered_to_monitor c")
      case False
      then show ?thesis
        using r1 Some by (simp add: unsubscribe_def r1_def [symmetric] Let_def um_value_for_Some inv_intros)
    next
      case True
      then have h: "handle c \<in> dom (monitored (demux_impl r1))"
        using ok by (simp add: ctx_ok_def)
      obtain b d where u: "dp_unregisterListener P c (demux_impl r1) = Some (b, d)" "dinv d"
          "monitored d = (monitored (demux_impl r1))(handle c := None)"
        using unregister [OF reactor_invD(1) [OF r1] h] by blast
      define r2 where "r2 = (remove_subscriber sid r1)\<lparr>demux_impl := d\<rparr>"
      have other: "handle c' \<noteq> handle c"
        if "map_of (subscribers_table r1) s = Some c'" and "s \<noteq> sid" for s c'
        using reactor_invD(3) [OF r1 that(1)] ok that(2) by (auto simp: ctx_ok_def)
      have "rinv r2" unfolding r2_def
      proof (rule reactor_inv_demux [OF reactor_inv_remove [OF r1] u(2)])
        fix s c'
        assume "map_of (subscribers_table (remove_subscriber sid r1)) s = Some c'"
          and "handle c' \<in> dom (monitored (demux_impl (remove_subscriber sid r1)))"
        then show "handle c' \<in> dom (monitored d)"
          using other [of s c'] by (auto simp: frame_simps u(3) split: if_splits)
      qed
      moreover have "remove_subscriber sid (r1\<lparr>demux_impl := d\<rparr>) = r2"
        by (simp add: r2_def remove_subscriber_def)
      ultimately show ?thesis
        using True Some u(1)
        by (simp add: unsubscribe_def r1_def [symmetric] Let_def um_value_for_Some inv_intros)
    qed
  qed
qed

end

subsection \<open>The event thread under the policy's contract\<close>

text \<open>
  What the reactor needs of the clients' handlers: they return, keep the invariant and do not
  stop the monitoring of a handle.
\<close>

definition handlers_ok ::
    "(fd \<Rightarrow> u64) \<Rightarrow> ('d \<Rightarrow> bool) \<Rightarrow> ('d \<Rightarrow> (fd \<rightharpoonup> u64)) \<Rightarrow> ('d, 'h, 'w) runner \<Rightarrow> bool" where
  "handlers_ok hash dinv monitored run \<longleftrightarrow>
     (\<forall>h sid ev r. reactor_inv hash dinv monitored r \<longrightarrow>
        (\<exists>y. run h sid ev r = Some y \<and> reactor_inv hash dinv monitored (snd y) \<and>
           dom (monitored (demux_impl r)) \<subseteq> dom (monitored (demux_impl (snd y)))))"

lemma handlers_okD:
  assumes "handlers_ok hash dinv monitored run" and "reactor_inv hash dinv monitored r"
  obtains y where "run h sid ev r = Some y" "reactor_inv hash dinv monitored (snd y)"
    "dom (monitored (demux_impl r)) \<subseteq> dom (monitored (demux_impl (snd y)))"
  using assms unfolding handlers_ok_def by blast

lemma call_handler_inv:
  assumes "handlers_ok hash dinv monitored run" and "reactor_inv hash dinv monitored r"
  obtains y where "call_handler run sid ev r = Some y" "reactor_inv hash dinv monitored (snd y)"
    "dom (monitored (demux_impl r)) \<subseteq> dom (monitored (demux_impl (snd y)))"
proof -
  define r1 where "r1 = set_entry sid (entry_at sid r) r"
  have r1: "reactor_inv hash dinv monitored r1"
    unfolding r1_def using assms(2) by (rule reactor_inv_handlers)
  have d: "demux_impl r1 = demux_impl r" by (simp add: r1_def frame_simps)
  show thesis
  proof (cases "client (entry_at sid r)")
    case None
    then show ?thesis
      using r1 d that [of "(E_RESULT_INVALID_REFERENCE, r1)"]
      by (simp add: call_handler_def Let_def r1_def)
  next
    case (Some h)
    show ?thesis
    proof (rule handlers_okD [OF assms(1) r1, of h sid ev])
      fix y
      assume "run h sid ev r1 = Some y" "reactor_inv hash dinv monitored (snd y)"
        "dom (monitored (demux_impl r1)) \<subseteq> dom (monitored (demux_impl (snd y)))"
      then show ?thesis
        using that [of y] Some d by (simp add: call_handler_def Let_def r1_def)
    qed
  qed
qed

text \<open>Filing the copy of a subscriber again, marked as expired.\<close>

lemma ctx_ok_expired:
  "ctx_ok hash mon sid c \<Longrightarrow> dom mon \<subseteq> dom mon' \<Longrightarrow> ctx_ok hash mon' sid (c\<lparr>expired := True\<rparr>)"
  by (auto simp: ctx_ok_def)

lemma ctx_ok_mono: "ctx_ok hash mon sid c \<Longrightarrow> dom mon \<subseteq> dom mon' \<Longrightarrow> ctx_ok hash mon' sid c"
  by (auto simp: ctx_ok_def)

lemma handle_events_inv:
  assumes "handlers_ok hash dinv monitored run"
  shows "reactor_inv hash dinv monitored r \<Longrightarrow> ctx_ok hash (monitored (demux_impl r)) sid c \<Longrightarrow>
    \<exists>r'. handle_events run sid c events r = Some r' \<and> reactor_inv hash dinv monitored r'"
proof (induction events arbitrary: r)
  case Nil
  then show ?case by simp
next
  case (Cons ev events)
  show ?case
  proof (cases "ev = E_HANDLE_EVENT_NULL")
    case True
    then show ?thesis using Cons by simp
  next
    case False
    show ?thesis
    proof (rule call_handler_inv [OF assms Cons.prems(1), of sid ev])
      fix y
      assume y: "call_handler run sid ev r = Some y" "reactor_inv hash dinv monitored (snd y)"
        "dom (monitored (demux_impl r)) \<subseteq> dom (monitored (demux_impl (snd y)))"
      have "reactor_inv hash dinv monitored (snd (add_subscriber sid (c\<lparr>expired := True\<rparr>) (snd y)))"
        using y(2) ctx_ok_expired [OF Cons.prems(2) y(3)] by (rule reactor_inv_add)
      moreover have "\<exists>r'. handle_events run sid c events (snd y) = Some r' \<and>
          reactor_inv hash dinv monitored r'"
        using y(2) ctx_ok_mono [OF Cons.prems(2) y(3)] by (rule Cons.IH)
      ultimately show ?thesis
        using False y(1) by (cases y) auto
    qed
  qed
qed

lemma cleanup_if_due_inv [inv_intros]:
  "reactor_inv hash dinv monitored r \<Longrightarrow> reactor_inv hash dinv monitored (cleanup_if_due now r)"
  by (simp add: cleanup_if_due_def reactor_inv_cleanup)

lemma setHandlerInProgress_inv [inv_intros]:
  "reactor_inv hash dinv monitored r \<Longrightarrow>
     reactor_inv hash dinv monitored (snd (setHandlerInProgress sid b r))"
  by (auto simp: setHandlerInProgress_def reactor_inv_handlers split: option.splits)

lemma setHandlerInProgress_frame [frame_simps]:
  "demux_impl (snd (setHandlerInProgress sid b r)) = demux_impl r"
  "subscribers_table (snd (setHandlerInProgress sid b r)) = subscribers_table r"
  "app (snd (setHandlerInProgress sid b r)) = app r"
  by (auto simp: setHandlerInProgress_def frame_simps split: option.splits)

lemma process_notification_inv:
  assumes run: "handlers_ok hash dinv monitored run" and r: "reactor_inv hash dinv monitored r"
  shows "\<exists>r'. process_notification P sorter run now n r = Some r' \<and> reactor_inv hash dinv monitored r'"
proof -
  define sid where "sid = dp_getKeyFor P (note_handle n) (demux_impl r)"
  define r1 where "r1 = snd (setHandlerInProgress sid True r)"
  have r1: "reactor_inv hash dinv monitored r1"
    unfolding r1_def using r by (rule setHandlerInProgress_inv)
  have d1: "demux_impl r1 = demux_impl r" by (simp add: r1_def frame_simps)
  obtain found where f: "setHandlerInProgress sid True r = (found, r1)"
    by (metis r1_def prod.collapse)
  show ?thesis
  proof (cases "map_of (subscribers_table r) sid")
    case None
    then show ?thesis
      using r by (simp add: process_notification_def sid_def [symmetric] Let_def um_value_for_None inv_intros)
  next
    case (Some c)
    note ok = reactor_invD(3) [OF r Some]
    have "reactor_inv hash dinv monitored (snd (add_subscriber sid (c\<lparr>expired := True\<rparr>) r1))"
      using r1 ok by (intro reactor_inv_add) (simp_all add: ctx_ok_def d1)
    moreover obtain r2 where "handle_events run sid c
        (sorter (dp_getEventsFromMask P (notified_events_mask n))) r1 = Some r2"
        "reactor_inv hash dinv monitored r2"
      using handle_events_inv [OF run r1] ok by (metis d1)
    ultimately show ?thesis
      using r Some f
      by (auto simp: process_notification_def sid_def [symmetric] Let_def um_value_for_Some inv_intros)
  qed
qed

subsection \<open>Sequences of calls\<close>

text \<open>The calls the clients' threads and the event thread make, in the order they take effect.\<close>

datatype 'h reactor_call =
    Subscribe nat events_array fd 'h
  | Unsubscribe nat u64
  | Notify nat event_notification
  | Cleanup nat

fun call_ok :: "'h reactor_call \<Rightarrow> bool" where
  "call_ok (Subscribe now events h hdl) = (h \<in> int32)"
| "call_ok c = True"

fun reactor_step ::
    "'d demux_policy \<Rightarrow> (events_array \<Rightarrow> events_array) \<Rightarrow> ('d, 'h, 'w) runner \<Rightarrow> 'h reactor_call \<Rightarrow>
     ('d, 'h, 'w) reactor \<Rightarrow> ('d, 'h, 'w) reactor option" where
  "reactor_step P sorter run (Subscribe now events h hdl) r =
     map_option snd (subscribe P now events h hdl r)"
| "reactor_step P sorter run (Unsubscribe now sid) r = map_option snd (unsubscribe P now sid r)"
| "reactor_step P sorter run (Notify now n) r = process_notification P sorter run now n r"
| "reactor_step P sorter run (Cleanup now) r = Some (cleanupExpired now r)"

fun reactor_run ::
    "'d demux_policy \<Rightarrow> (events_array \<Rightarrow> events_array) \<Rightarrow> ('d, 'h, 'w) runner \<Rightarrow> 'h reactor_call list \<Rightarrow>
     ('d, 'h, 'w) reactor \<Rightarrow> ('d, 'h, 'w) reactor option" where
  "reactor_run P sorter run [] r = Some r"
| "reactor_run P sorter run (c # cs) r =
     Option.bind (reactor_step P sorter run c r) (reactor_run P sorter run cs)"

context demux_contract begin

lemma reactor_step_inv:
  assumes "inj_on hash int32" and "handlers_ok hash dinv monitored run" and r: "rinv r"
    and "call_ok c"
  shows "\<exists>r'. reactor_step P sorter run c r = Some r' \<and> rinv r'"
proof (cases c)
  case (Subscribe now events h hdl)
  then show ?thesis using subscribe_inv [OF r assms(1), of h now events hdl] assms(4) by auto
next
  case (Unsubscribe now sid)
  then show ?thesis using unsubscribe_inv [OF r, of now sid] by auto
next
  case (Notify now n)
  then show ?thesis using process_notification_inv [OF assms(2) r, of P sorter now n] by simp
next
  case (Cleanup now)
  then show ?thesis using reactor_inv_cleanup [OF r] by simp
qed

lemma reactor_run_inv:
  assumes "inj_on hash int32" and "handlers_ok hash dinv monitored run"
  shows "rinv r \<Longrightarrow> list_all call_ok cs \<Longrightarrow> \<exists>r'. reactor_run P sorter run cs r = Some r' \<and> rinv r'"
proof (induction cs arbitrary: r)
  case Nil
  then show ?case by simp
next
  case (Cons c cs)
  obtain r1 where "reactor_step P sorter run c r = Some r1" "rinv r1"
    using reactor_step_inv [OF assms Cons.prems(1)] Cons.prems(2) by auto
  then show ?case using Cons.IH Cons.prems(2) by simp
qed

end

end
