(* ===== verification/ReactorProperties.thy ===== *)
theory ReactorProperties
  imports Reactor
begin

text \<open>
  What the reactor (Reactor.thy) guarantees to its clients over the epoll demultiplexer
  (Demultiplexer.thy): safety of every sequence of calls, what one subscription, one
  unsubscription and one notification do, and the sequences that lose a subscriber.
\<close>

abbreviation epoll_inv ::
    "(fd \<Rightarrow> u64) \<Rightarrow> ('k demultiplexer, 'h, 'w) reactor \<Rightarrow> bool" where
  "epoll_inv hash \<equiv> reactor_inv hash (demux_inv hash) monitored_handles"

lemma new_reactor_inv [inv_intros]:
  assumes "demux_inv hash d"
  shows "epoll_inv hash (new_reactor d w)"
  using assms by (simp add: reactor_inv_def new_reactor_def um_inv_def)

lemma dp_epoll [simp]:
  "dp_getEventsMask (epoll_policy ctl hash) = getEventsMask"
  "dp_getEventsFromMask (epoll_policy ctl hash) = getEventsFromMask"
  "dp_getKeyFor (epoll_policy ctl hash) = getKeyFor hash"
  "dp_registerListener (epoll_policy ctl hash) = registerListener ctl"
  "dp_unregisterListener (epoll_policy ctl hash) = unregisterListener ctl"
  "dp_updateListener (epoll_policy ctl hash) = updateListener ctl"
  "dp_stopMonitoring (epoll_policy ctl hash) = stopMonitoring"
  "dp_monitoring (epoll_policy ctl hash) = monitoring"
  by (simp_all add: epoll_policy_def)

lemma epoll_key: "epoll_inv hash r \<Longrightarrow> getKeyFor hash h (demux_impl r) = hash h"
  by (rule getKeyFor_hash) (rule reactor_invD(1))

text \<open>
  For the witnesses: a kernel that accepts every request, a new demultiplexer on it, and the
  hash of libstdc++, the zero extension of the 32-bit value.
\<close>

definition ok_ctl :: "unit epoll_ctl" where
  "ok_ctl e op f ev k = (0, k)"

definition demo_demux :: "unit demultiplexer" where
  "demo_demux = EpollDemultiplexer (\<lambda>n k. (3, k)) ()"

definition demo_hash :: "fd \<Rightarrow> u64" where
  "demo_hash h = ucast (word_of_int h :: u32)"

lemma ucast_u32_inj: "(ucast (a :: u32) :: u64) = ucast b \<Longrightarrow> a = b"
proof -
  have "(ucast (ucast x :: u64) :: u32) = x" for x :: u32
    by (rule bit_word_eqI) (simp add: bit_ucast_iff)
  then show "(ucast a :: u64) = ucast b \<Longrightarrow> a = b"
    by metis
qed

lemma inj_demo_hash: "inj_on demo_hash int32"
proof (rule inj_onI)
  fix a b
  assume "a \<in> int32" "b \<in> int32" "demo_hash a = demo_hash b"
  then have "(ucast (word_of_int a :: u32) :: u64) = ucast (word_of_int b :: u32)"
    by (simp add: demo_hash_def)
  then have "(word_of_int a :: u32) = word_of_int b"
    by (rule ucast_u32_inj)
  then have "sint (word_of_int a :: u32) = sint (word_of_int b :: u32)"
    by simp
  with \<open>a \<in> int32\<close> \<open>b \<in> int32\<close> show "a = b"
    by (simp add: int32_def signed_of_int signed_take_bit_int_eq_self)
qed

lemma demo_demux_inv: "demux_inv hash demo_demux"
  by (simp add: demo_demux_def EpollDemultiplexer_def demux_inv_def vec_inv_def)

text \<open>A reactor with one live subscription, of descriptor 5.\<close>

definition demo_ctx :: subscriber_ctx where
  "demo_ctx = \<lparr>registered_to_monitor = True, expired = False, handle = 5,
               subscribed_events_mask = EPOLLIN, sub_id = 5\<rparr>"

definition demo_reactor :: "'w \<Rightarrow> (unit demultiplexer, string, 'w) reactor" where
  "demo_reactor w = (new_reactor (demo_demux\<lparr>handle_id_map := [(5, 5)]\<rparr>) w)
     \<lparr>subscribers_table := [(5, demo_ctx)],
      handlers_table := [(5, \<lparr>client = Some ''h'', in_progress = False\<rparr>)]\<rparr>"

lemma demo_hash_5 [simp]: "demo_hash 5 = 5"
  by (simp add: demo_hash_def)

lemma demo_reactor_inv: "epoll_inv demo_hash (demo_reactor w)"
  by (simp add: demo_reactor_def reactor_inv_def new_reactor_def demo_demux_def
      EpollDemultiplexer_def demux_inv_def vec_inv_def um_inv_def ctx_ok_def demo_ctx_def int32_def
      monitored_handles_def)

lemma demo_reactor_tables [simp]:
  "subscribers_table (demo_reactor w) = [(5, demo_ctx)]"
  "handlers_table (demo_reactor w) = [(5, \<lparr>client = Some ''h'', in_progress = False\<rparr>)]"
  "app (demo_reactor w) = w"
  by (simp_all add: demo_reactor_def new_reactor_def)

subsection \<open>What a subscription does\<close>

lemma cleanup_absent:
  "um_inv (subscribers_table r) \<Longrightarrow> map_of (subscribers_table r) sid = None \<Longrightarrow>
     map_of (subscribers_table (cleanupExpired now r)) sid = None"
  by (simp add: cleanup_subscribers)

lemma subscribeImpl_fresh:
  assumes r: "epoll_inv hash r" and free: "map_of (subscribers_table r) (hash h) = None"
  shows "subscribeImpl (epoll_policy ctl hash) now events h r =
    (let r1 = cleanupExpired now r;
         c = SubscriberContext (getEventsMask events) (hash h) h;
         r2 = snd (add_subscriber (hash h) c r1)
     in case registerListener ctl c (demux_impl r2) of (ok, d) \<Rightarrow>
          Some (if ok then (hash h, snd (add_subscriber (hash h) (c\<lparr>registered_to_monitor := True\<rparr>)
                                           (r2\<lparr>demux_impl := d\<rparr>)))
                else (0, remove_subscriber (hash h) (r2\<lparr>demux_impl := d\<rparr>))))"
proof -
  define r1 where "r1 = cleanupExpired now r"
  have i1: "epoll_inv hash r1" unfolding r1_def using r by (rule reactor_inv_cleanup)
  have f1: "map_of (subscribers_table r1) (hash h) = None"
    unfolding r1_def by (rule cleanup_absent [OF reactor_invD(2) [OF r] free])
  have k: "subscriber_key_loop (epoll_policy ctl hash) h r1 = Some (hash h, False)"
    using subscriber_key_loop_fresh [of r1 "epoll_policy ctl hash" h] f1 by (simp add: epoll_key i1)
  show ?thesis
    using k f1
    by (simp add: subscribeImpl_def r1_def [symmetric] Let_def frame_simps case_prod_beta prod_eq_iff)
qed

lemma subscribe_fresh_states:
  assumes r: "epoll_inv hash r" and free: "map_of (subscribers_table r) (hash h) = None"
    and res: "subscribeImpl (epoll_policy ctl hash) now events h r = Some (ret, r')"
  obtains (registered) "ret = hash h"
      "map_of (subscribers_table r') (hash h) =
         Some ((SubscriberContext (getEventsMask events) (hash h) h)\<lparr>registered_to_monitor := True\<rparr>)"
      "handlers_table r' = handlers_table (cleanupExpired now r)"
      "monitored_handles (demux_impl r') = (monitored_handles (demux_impl r))(h \<mapsto> hash h)"
      "demux_inv hash (demux_impl r')"
    | (refused) "ret = 0" "map_of (subscribers_table r') (hash h) = None"
      "monitored_handles (demux_impl r') = monitored_handles (demux_impl r)"
proof -
  let ?c = "SubscriberContext (getEventsMask events) (hash h) h"
  define r2 where "r2 = snd (add_subscriber (hash h) ?c (cleanupExpired now r))"
  obtain ok d where reg: "registerListener ctl ?c (demux_impl r2) = (ok, d)" by fastforce
  note u = reactor_invD(2) [OF r]
  have d2: "demux_impl r2 = demux_impl r" by (simp add: r2_def frame_simps u)
  have c: "handle ?c = h" "sub_id ?c = hash h" by (simp_all add: SubscriberContext_def)
  note dinv = reactor_invD(1) [OF r]
  have mon: "monitored_handles d =
      (if ok then (monitored_handles (demux_impl r))(h \<mapsto> hash h) else monitored_handles (demux_impl r))"
    using epoll.register_monitored [OF dinv, of ctl ?c] reg by (simp add: d2 c)
  have inv: "demux_inv hash d"
    using epoll.register_inv [OF dinv, of ?c ctl] reg by (simp add: d2 c)
  define r3 where "r3 = r2\<lparr>demux_impl := d\<rparr>"
  have eq: "(ret, r') = (if ok then (hash h, snd (add_subscriber (hash h) (?c\<lparr>registered_to_monitor := True\<rparr>) r3))
      else (0, remove_subscriber (hash h) r3))"
    using res unfolding subscribeImpl_fresh [OF r free, of ctl now events] Let_def
      r2_def [symmetric] reg r3_def by simp
  have h3: "handlers_table r3 = handlers_table (cleanupExpired now r)" and d3: "demux_impl r3 = d"
    by (simp_all add: r3_def r2_def frame_simps)
  show thesis
  proof (cases ok)
    case True
    then have "ret = hash h" and
      "r' = snd (add_subscriber (hash h) (?c\<lparr>registered_to_monitor := True\<rparr>) r3)"
      using eq by simp_all
    then show thesis
      using True mon inv h3 d3 by (intro registered) (simp_all add: frame_simps)
  next
    case False
    then have "ret = 0" and "r' = remove_subscriber (hash h) r3"
      using eq by simp_all
    then show thesis
      using False mon d3 by (intro refused) (simp_all add: frame_simps)
  qed
qed

lemma not_cleaned:
  assumes "um_inv (subscribers_table r)" and "map_of (subscribers_table r) sid = Some c" and "\<not> stale c"
  shows "sid \<notin> set (cleaned (subscribers_table r) r)"
  using assms by (auto simp: cleaned_def um_inv_def dest: eq_key_imp_eq_value)

lemma cleanup_keeps:
  assumes "um_inv (subscribers_table r)" and "map_of (subscribers_table r) sid = Some c" and "\<not> stale c"
  shows "map_of (subscribers_table (cleanupExpired now r)) sid = Some c"
    and "map_of (handlers_table (cleanupExpired now r)) sid = map_of (handlers_table r) sid"
  using assms not_cleaned [OF assms] by (simp_all add: cleanup_subscribers cleanup_handlers)

lemma cleanup_drops:
  assumes "um_inv (subscribers_table r)" and "map_of (subscribers_table r) sid = Some c"
    and "stale c" and "removable sid r"
  shows "map_of (subscribers_table (cleanupExpired now r)) sid = None"
    and "map_of (handlers_table (cleanupExpired now r)) sid = None"
proof -
  have "(sid, c) \<in> set (subscribers_table r)"
    using assms(2) by (rule map_of_SomeD)
  with assms(3,4) have "sid \<in> set (cleaned (subscribers_table r) r)"
    by (force simp: cleaned_def)
  then show "map_of (subscribers_table (cleanupExpired now r)) sid = None"
    and "map_of (handlers_table (cleanupExpired now r)) sid = None"
    using assms by (simp_all add: cleanup_subscribers cleanup_handlers)
qed

lemma subscribeImpl_again:
  assumes r: "epoll_inv hash r" and c: "map_of (subscribers_table r) (hash h) = Some c"
    and s: "\<not> stale c" and h: "handle c = h"
  shows "subscribeImpl (epoll_policy ctl hash) now events h r =
    (let r1 = cleanupExpired now r
     in Some (0, if handler_busy (hash h) r then r1
                 else snd (add_subscriber (hash h) (SubscriberContext (getEventsMask events) (hash h) h) r1)))"
proof -
  note u = reactor_invD(2) [OF r]
  define r1 where "r1 = cleanupExpired now r"
  have i1: "epoll_inv hash r1" unfolding r1_def using r by (rule reactor_inv_cleanup)
  have c1: "map_of (subscribers_table r1) (hash h) = Some c"
    and h1: "map_of (handlers_table r1) (hash h) = map_of (handlers_table r) (hash h)"
    unfolding r1_def using cleanup_keeps [OF u c s] by simp_all
  have k: "subscriber_key_loop (epoll_policy ctl hash) h r1 = Some (hash h, True)"
    using subscriber_key_loop_found [of r1 "epoll_policy ctl hash" h c] c1 h by (simp add: epoll_key i1)
  have "handler_busy (hash h) r1 = handler_busy (hash h) r"
    by (simp add: handler_busy_def h1)
  then show ?thesis
    using k c1 by (simp add: subscribeImpl_def r1_def [symmetric] Let_def frame_simps case_prod_beta)
qed

lemma unsubscribe_live:
  assumes "epoll_inv hash r" and "map_of (subscribers_table r) sid = Some c" and s: "\<not> stale c"
  shows "\<exists>r'. unsubscribe (epoll_policy ctl hash) now sid r = Some (True, r') \<and>
    map_of (subscribers_table r') sid = None \<and>
    handle c \<notin> dom (monitored_handles (demux_impl r')) \<and>
    map_of (handlers_table r') sid = (if handler_busy sid r then map_of (handlers_table r) sid else None) \<and>
    epoll_inv hash r' \<and> app r' = app r \<and> cleanup_ts r' = now"
proof -
  note u = reactor_invD(2) [OF assms(1)]
  define r1 where "r1 = cleanupExpired now r"
  have c1: "map_of (subscribers_table r1) sid = Some c"
    and h1: "map_of (handlers_table r1) sid = map_of (handlers_table r) sid"
    unfolding r1_def using cleanup_keeps [OF u assms(2) s] by simp_all
  have d1: "demux_impl r1 = demux_impl r" by (simp add: r1_def frame_simps u)
  have "handle c \<in> dom (monitored_handles (demux_impl r))"
    using reactor_invD(3) [OF assms(1,2)] s by (simp add: ctx_ok_def stale_def)
  then obtain b d where du: "unregisterListener ctl c (demux_impl r) = Some (b, d)"
      "monitored_handles d = (monitored_handles (demux_impl r))(handle c := None)"
    using epoll.unregister [OF reactor_invD(1) [OF assms(1)], of c ctl] by auto
  define r2 where "r2 = remove_subscriber sid (r1\<lparr>demux_impl := d\<rparr>)"
  have h2: "map_of (handlers_table r2) sid = map_of (handlers_table r) sid"
    by (simp add: r2_def frame_simps h1)
  have rm: "map_of (handlers_table (snd (removeHandler sid r2))) sid =
      (if handler_busy sid r then map_of (handlers_table r) sid else None)"
    using h2 by (auto simp: removeHandler_def handler_busy_def delete_map_of split: option.splits)
  have "unsubscribe (epoll_policy ctl hash) now sid r = Some (True, snd (removeHandler sid r2))"
    using c1 s du(1)
    by (simp add: unsubscribe_def r1_def [symmetric] Let_def um_value_for_Some d1 r2_def stale_def)
  moreover have ts: "cleanup_ts (snd (removeHandler sid r2)) = now"
    by (auto simp: removeHandler_def r2_def remove_subscriber_def r1_def cleanupExpired_def
        split: option.splits prod.splits)
  moreover have "epoll_inv hash (snd (removeHandler sid r2))"
    using epoll.unsubscribe_inv [OF assms(1), of ctl now sid] calculation by auto
  ultimately show ?thesis
    using rm du(2) ts by (simp add: frame_simps r2_def) (simp add: remove_subscriber_def r1_def frame_simps u)
qed

lemma register_accepted:
  assumes "\<And>e op f ev k. fst (ctl e op f ev k) \<noteq> - 1"
  shows "fst (registerListener ctl c d)"
  using assms by (auto simp: registerListener_def registerImpl_def Let_def split: prod.splits) (metis fst_conv)

text \<open>A subscription the kernel accepts, of a handle nobody is subscribed to.\<close>

lemma subscribe_accepted:
  assumes "epoll_inv hash r" and "map_of (subscribers_table r) (hash h) = None" and "hash h \<noteq> 0"
    and "inj_on hash int32" and "h \<in> int32" and "\<And>e op f ev k. fst (ctl e op f ev k) \<noteq> - 1"
  shows "\<exists>r'. subscribe (epoll_policy ctl hash) now events h hdl r = Some (hash h, r') \<and> epoll_inv hash r' \<and>
    map_of (subscribers_table r') (hash h) =
      Some ((SubscriberContext (getEventsMask events) (hash h) h)\<lparr>registered_to_monitor := True\<rparr>) \<and>
    map_of (handlers_table r') (hash h) = Some ((entry_at (hash h) r)\<lparr>client := Some hdl\<rparr>) \<and> app r' = app r"
proof -
  note u = reactor_invD(2) [OF assms(1)]
  let ?c = "SubscriberContext (getEventsMask events) (hash h) h"
  define r2 where "r2 = snd (add_subscriber (hash h) ?c (cleanupExpired now r))"
  obtain d where reg: "registerListener ctl ?c (demux_impl r2) = (True, d)"
    using register_accepted [where ctl = ctl and c = ?c and d = "demux_impl r2", OF assms(6)] by (cases "registerListener ctl ?c (demux_impl r2)") auto
  define r3 where "r3 = snd (add_subscriber (hash h) (?c\<lparr>registered_to_monitor := True\<rparr>) (r2\<lparr>demux_impl := d\<rparr>))"
  have impl: "subscribeImpl (epoll_policy ctl hash) now events h r = Some (hash h, r3)"
    unfolding subscribeImpl_fresh [OF assms(1,2)] Let_def r2_def [symmetric] reg r3_def by simp
  have "hash h \<notin> set (cleaned (subscribers_table r) r)"
    using assms(2) by (force simp: cleaned_def map_of_eq_None_iff)
  then have hs: "map_of (handlers_table r3) (hash h) = map_of (handlers_table r) (hash h)"
    by (simp add: r3_def r2_def frame_simps cleanup_handlers [OF u])
  obtain ret r' where s: "subscribe (epoll_policy ctl hash) now events h hdl r = Some (ret, r')" "epoll_inv hash r'"
    using epoll.subscribe_inv [OF assms(1,4,5)] by blast
  then have eq: "ret = hash h" "r' = addHandlerInTable (hash h) hdl r3"
    using impl assms(3) by (auto simp: subscribe_def)
  have "app r3 = app r" by (simp add: r3_def r2_def frame_simps u)
  moreover have "map_of (subscribers_table r3) (hash h) = Some (?c\<lparr>registered_to_monitor := True\<rparr>)"
    by (simp add: r3_def frame_simps)
  moreover have "entry_at (hash h) r3 = entry_at (hash h) r"
    by (simp add: entry_at_def hs)
  ultimately show ?thesis
    using s eq by (simp add: addHandlerInTable_def frame_simps)
qed

subsection \<open>What a notification does\<close>

text \<open>A handler that works on its own data only, and never reports that it is gone.\<close>

definition passive_handler :: "('d, 'h, 'w) runner \<Rightarrow> 'h \<Rightarrow> u64 \<Rightarrow> (handle_event \<Rightarrow> 'w \<Rightarrow> 'w) \<Rightarrow> bool" where
  "passive_handler run h sid upd \<longleftrightarrow>
     (\<forall>ev r. \<exists>res. res \<noteq> E_RESULT_INVALID_REFERENCE \<and> run h sid ev r = Some (res, r\<lparr>app := upd ev (app r)\<rparr>))"

lemma handle_events_passive:
  assumes "passive_handler run h sid upd"
  shows "map_of (handlers_table r) sid = Some e \<Longrightarrow> client e = Some h \<Longrightarrow>
    \<exists>r'. handle_events run sid c events r = Some r' \<and>
      app r' = fold upd (filter (\<lambda>ev. ev \<noteq> E_HANDLE_EVENT_NULL) events) (app r) \<and>
      subscribers_table r' = subscribers_table r \<and> demux_impl r' = demux_impl r"
proof (induction events arbitrary: r)
  case Nil
  then show ?case by simp
next
  case (Cons ev events)
  show ?case
  proof (cases "ev = E_HANDLE_EVENT_NULL")
    case True
    then show ?thesis using Cons by simp
  next
    case False
    define r1 where "r1 = set_entry sid e r"
    obtain res where res: "res \<noteq> E_RESULT_INVALID_REFERENCE"
        "run h sid ev r1 = Some (res, r1\<lparr>app := upd ev (app r1)\<rparr>)"
      using assms unfolding passive_handler_def by blast
    have e: "entry_at sid r = e" using Cons.prems(1) by (simp add: entry_at_def)
    have "map_of (handlers_table (r1\<lparr>app := upd ev (app r1)\<rparr>)) sid = Some e"
      by (simp add: r1_def frame_simps)
    from Cons.IH [OF this Cons.prems(2)] show ?thesis
      using False res Cons.prems(2) e
      by (auto simp: call_handler_def Let_def r1_def [symmetric]) (auto simp: r1_def frame_simps)
  qed
qed

lemma getEventsFromMask_events:
  "distinct (filter (\<lambda>e. e \<noteq> E_HANDLE_EVENT_NULL) (getEventsFromMask m))"
  "set (filter (\<lambda>e. e \<noteq> E_HANDLE_EVENT_NULL) (getEventsFromMask m)) = {e. m AND epoll_bit e \<noteq> 0}"
proof -
  show "distinct (filter (\<lambda>e. e \<noteq> E_HANDLE_EVENT_NULL) (getEventsFromMask m))"
    by (simp add: getEventsFromMask_eq event_if_def)
  show "set (filter (\<lambda>e. e \<noteq> E_HANDLE_EVENT_NULL) (getEventsFromMask m)) = {e. m AND epoll_bit e \<noteq> 0}"
  proof (rule set_eqI)
    fix x
    show "x \<in> set (filter (\<lambda>e. e \<noteq> E_HANDLE_EVENT_NULL) (getEventsFromMask m)) \<longleftrightarrow>
        x \<in> {e. m AND epoll_bit e \<noteq> 0}"
      using mem_getEventsFromMask [of x m] by (cases "x = E_HANDLE_EVENT_NULL") simp_all
  qed
qed

lemma app_cleanup_if_due [frame_simps]:
  "um_inv (subscribers_table r) \<Longrightarrow> app (cleanup_if_due now r) = app r"
  by (simp add: cleanup_if_due_def frame_simps)

subsection \<open>Properties\<close>





text \<open>
  Subscribing again for a handle whose subscription is live never succeeds and destroys it:
  the null identifier comes back, the subscriber is left unregistered though its handle is still
  monitored, and the next cleanup throws the subscriber and its handler away.
\<close>

theorem resubscribe_destroys:
  assumes "reactor_inv hash (demux_inv hash) monitored_handles r"
    and "map_of (subscribers_table r) (hash h) = Some c" and "handle c = h"
    and "\<not> expired c" and "registered_to_monitor c" and "removable (hash h) r"
  shows "\<exists>r'. subscribe (epoll_policy ctl hash) now events h hdl r = Some (0, r') \<and>
    map_of (subscribers_table r') (hash h) =
      Some (SubscriberContext (getEventsMask events) (hash h) h) \<and>
    h \<in> dom (monitored_handles (demux_impl r')) \<and>
    map_of (subscribers_table (cleanupExpired later r')) (hash h) = None \<and>
    map_of (handlers_table (cleanupExpired later r')) (hash h) = None"
proof -
  note u = reactor_invD(2) [OF assms(1)]
  have s: "\<not> stale c" using assms(4,5) by (simp add: stale_def)
  have busy: "\<not> handler_busy (hash h) r"
    using assms(6) by (auto simp: removable_def handler_busy_def split: option.splits)
  define r' where "r' = snd (add_subscriber (hash h) (SubscriberContext (getEventsMask events) (hash h) h)
      (cleanupExpired now r))"
  have sub: "subscribe (epoll_policy ctl hash) now events h hdl r = Some (0, r')"
    using subscribeImpl_again [OF assms(1,2) s assms(3), of ctl now events] busy
    by (simp add: subscribe_def r'_def Let_def)
  have m: "h \<in> dom (monitored_handles (demux_impl r'))"
    using reactor_invD(3) [OF assms(1,2)] assms(3,5) by (simp add: r'_def frame_simps u ctx_ok_def)
  have c': "map_of (subscribers_table r') (hash h) = Some (SubscriberContext (getEventsMask events) (hash h) h)"
    by (simp add: r'_def frame_simps)
  have u': "um_inv (subscribers_table r')"
    unfolding r'_def using u by (intro um_inv_add_subscriber um_inv_cleanup)
  have "removable (hash h) r'"
    using assms(6) cleanup_keeps(2) [OF u assms(2) s, of now] by (simp add: r'_def removable_def frame_simps)
  then show ?thesis
    using sub m c' cleanup_drops [OF u' c', of later]
    by (simp add: stale_def SubscriberContext_def)
qed

theorem resubscribe_destroys_witness:
  "\<exists>r'. subscribe (epoll_policy ok_ctl demo_hash) 0 [E_HANDLE_EVENT_OUT] 5 ''h'' (demo_reactor ())
           = Some (0, r') \<and>
         map_of (subscribers_table (cleanupExpired 1 r')) 5 = None"
  using resubscribe_destroys [OF demo_reactor_inv [of "()"], where h = 5 and c = demo_ctx and ctl = ok_ctl and now = 0
      and events = "[E_HANDLE_EVENT_OUT]" and hdl = "''h''" and later = 1]
  by (auto simp: demo_ctx_def removable_def)

text \<open>
  A subscriber that has expired (its handler reported that it is gone) is cleaned up
  without telling the demultiplexer: the subscriber and the handler are dropped, an
  \<^verbatim>\<open>unsubscribe\<close> of its identifier finds nothing and returns false, and the handle stays
  monitored.
\<close>

theorem expired_stays_monitored:
  assumes "reactor_inv hash (demux_inv hash) monitored_handles r"
    and "map_of (subscribers_table r) sid = Some c" and "expired c" and "registered_to_monitor c"
    and "removable sid r"
  shows "\<exists>r'. unsubscribe (epoll_policy ctl hash) now sid r = Some (False, r') \<and>
    map_of (subscribers_table r') sid = None \<and> map_of (handlers_table r') sid = None \<and>
    handle c \<in> dom (monitored_handles (demux_impl r'))"
proof -
  note u = reactor_invD(2) [OF assms(1)]
  have "stale c" using assms(3) by (simp add: stale_def)
  note d = cleanup_drops [OF u assms(2) this assms(5), of now]
  have "handle c \<in> dom (monitored_handles (demux_impl (cleanupExpired now r)))"
    using reactor_invD(3) [OF assms(1,2)] assms(4) by (simp add: frame_simps u ctx_ok_def)
  then show ?thesis
    using d by (simp add: unsubscribe_def Let_def um_value_for_None)
qed

theorem expired_stays_monitored_witness:
  "\<exists>r'. unsubscribe (epoll_policy ok_ctl demo_hash) 0 5
           ((demo_reactor ())\<lparr>subscribers_table := [(5, demo_ctx\<lparr>expired := True\<rparr>)]\<rparr>) = Some (False, r') \<and>
         5 \<in> dom (monitored_handles (demux_impl r'))"
proof -
  let ?r = "(demo_reactor ())\<lparr>subscribers_table := [(5, demo_ctx\<lparr>expired := True\<rparr>)]\<rparr>"
  have "epoll_inv demo_hash ?r"
    using demo_reactor_inv [of "()"]
    by (simp add: reactor_inv_def ctx_ok_def um_inv_def)
  from expired_stays_monitored [OF this, where sid = 5 and c = "demo_ctx\<lparr>expired := True\<rparr>" and ctl = ok_ctl and now = 0] show ?thesis
    by (auto simp: removable_def demo_ctx_def)
qed

text \<open>
  C15: Unsubscribing a live subscriber returns true; afterwards no subscriber and no monitoring
  is left for it, and its handler is gone unless the event thread is in it, in which case the
  handler stays in the table with nobody to remove it.
\<close>

theorem unsubscribe_effect:
  assumes "reactor_inv hash (demux_inv hash) monitored_handles r"
    and "map_of (subscribers_table r) sid = Some c" and "\<not> expired c" and "registered_to_monitor c"
  shows "\<exists>r'. unsubscribe (epoll_policy ctl hash) now sid r = Some (True, r') \<and>
    map_of (subscribers_table r') sid = None \<and>
    handle c \<notin> dom (monitored_handles (demux_impl r')) \<and>
    map_of (handlers_table r') sid = (if handler_busy sid r then map_of (handlers_table r) sid else None)"
proof -
  have "\<not> stale c" using assms(3,4) by (simp add: stale_def)
  from unsubscribe_live [OF assms(1,2) this] show ?thesis by blast
qed

theorem unsubscribe_effect_witness:
  "\<exists>r'. unsubscribe (epoll_policy ok_ctl demo_hash) 0 5 (demo_reactor ()) = Some (True, r') \<and>
     map_of (subscribers_table r') 5 = None \<and> map_of (handlers_table r') 5 = None"
  using unsubscribe_effect [OF demo_reactor_inv [of "()"], where sid = 5 and c = demo_ctx and ctl = ok_ctl and now = 0]
  by (auto simp: demo_ctx_def handler_busy_def)



text \<open>
  A notification that is processed between the registration of the handle and the installation
  of the handler (\<^verbatim>\<open>subscribe\<close> does the one after the other, without a lock around
  both) marks the new subscriber as expired. The subscription has then returned its identifier to
  the client, but no later notification for the handle reaches the handler.
\<close>

theorem early_notification_expires:
  assumes "reactor_inv hash (demux_inv hash) monitored_handles r"
    and "map_of (subscribers_table r) (hash h) = None" and "map_of (handlers_table r) (hash h) = None"
    and "subscribeImpl (epoll_policy ctl hash) now events h r = Some (hash h, r1)" and "hash h \<noteq> 0"
    and "note_handle n = h"
  shows "\<exists>r2. process_notification (epoll_policy ctl hash) sorter run now n r1 = Some r2 \<and>
    map_of (subscribers_table r2) (hash h) =
      Some \<lparr>registered_to_monitor = True, expired = True, handle = h,
            subscribed_events_mask = getEventsMask events, sub_id = hash h\<rparr> \<and>
    process_notification (epoll_policy ctl hash) sorter run later n (addHandlerInTable (hash h) hdl r2)
      = Some (cleanup_if_due later (addHandlerInTable (hash h) hdl r2))"
  using assms(1,2,4)
proof (cases rule: subscribe_fresh_states)
  case refused
  with assms(5) show ?thesis by simp
next
  case registered
  have "map_of (handlers_table r1) (hash h) = None"
    using registered(3) cleanup_handlers [OF reactor_invD(2) [OF assms(1)], of now "hash h"] assms(3)
    by simp
  then have f: "setHandlerInProgress (hash h) True r1 = (False, r1)"
    by (simp add: setHandlerInProgress_def)
  define c where "c = (SubscriberContext (getEventsMask events) (hash h) h)\<lparr>registered_to_monitor := True\<rparr>"
  define r2 where "r2 = snd (add_subscriber (hash h) (c\<lparr>expired := True\<rparr>) r1)"
  note k = getKeyFor_hash [OF registered(5), of h]
  have d2: "demux_impl r2 = demux_impl r1" by (simp add: r2_def frame_simps)
  have p: "process_notification (epoll_policy ctl hash) sorter run now n r1 = Some r2"
    using f registered(2) assms(6)
    by (simp add: process_notification_def k Let_def um_value_for_Some r2_def c_def SubscriberContext_def)
  have e: "map_of (subscribers_table r2) (hash h) = Some (c\<lparr>expired := True\<rparr>)"
    by (simp add: r2_def frame_simps)
  then have "process_notification (epoll_policy ctl hash) sorter run later n (addHandlerInTable (hash h) hdl r2)
      = Some (cleanup_if_due later (addHandlerInTable (hash h) hdl r2))"
    using assms(6)
    by (simp add: process_notification_def addHandlerInTable_def frame_simps d2 k Let_def um_value_for_Some)
  then show ?thesis
    using p e by (simp add: c_def SubscriberContext_def)
qed

theorem early_notification_expires_witness:
  "\<exists>r1 r2. subscribeImpl (epoll_policy ok_ctl demo_hash) 0 [E_HANDLE_EVENT_OUT] 5
             (new_reactor demo_demux () :: (unit demultiplexer, string, unit) reactor) = Some (5, r1) \<and>
     process_notification (epoll_policy ok_ctl demo_hash) rev (\<lambda>h sid ev r. None) 0
       \<lparr>note_handle = 5, notified_events_mask = EPOLLOUT, last_event = False\<rparr> r1 = Some r2 \<and>
     map_option expired (map_of (subscribers_table r2) 5) = Some True"
proof -
  let ?r = "new_reactor demo_demux () :: (unit demultiplexer, string, unit) reactor"
  have i: "epoll_inv demo_hash ?r"
    by (rule new_reactor_inv [OF demo_demux_inv])
  have free: "map_of (subscribers_table ?r) (demo_hash 5) = None" "map_of (handlers_table ?r) (demo_hash 5) = None"
    by (simp_all add: new_reactor_def)
  obtain r1 where r1: "subscribeImpl (epoll_policy ok_ctl demo_hash) 0 [E_HANDLE_EVENT_OUT] 5 ?r
      = Some (demo_hash 5, r1)"
    unfolding subscribeImpl_fresh [OF i free(1)]
    by (auto simp: Let_def registerListener_def registerImpl_def ok_ctl_def)
  show ?thesis
    using early_notification_expires [OF i free r1, where sorter = rev and run = "\<lambda>h sid ev r. None"
        and later = 0 and hdl = "''h''" and n = "\<lparr>note_handle = 5, notified_events_mask = EPOLLOUT, last_event = False\<rparr>"] r1
    by fastforce
qed

text \<open>
  The lookup loop of \<^verbatim>\<open>subscribeImpl\<close> does not end when the handle's key belongs to a
  live subscriber of another handle: nothing in the loop changes the key, so the subscription
  never returns.
\<close>

theorem key_collision_diverges:
  assumes "reactor_inv hash (demux_inv hash) monitored_handles r"
    and "map_of (subscribers_table r) (hash h) = Some c" and "\<not> stale c" and "handle c \<noteq> h"
  shows "subscribe (epoll_policy ctl hash) now events h hdl r = None"
proof -
  note u = reactor_invD(2) [OF assms(1)]
  have "map_of (subscribers_table (cleanupExpired now r)) (hash h) = Some c"
    by (rule cleanup_keeps(1) [OF u assms(2,3)])
  then have "subscriber_key_loop (epoll_policy ctl hash) h (cleanupExpired now r) = None"
    using assms(4)
    by (intro subscriber_key_loop_diverges) (simp_all add: epoll_key [OF reactor_inv_cleanup [OF assms(1)]])
  then show ?thesis
    by (simp add: subscribe_def subscribeImpl_def Let_def)
qed

theorem key_collision_diverges_witness:
  "subscribe (epoll_policy ok_ctl (\<lambda>h. 5)) 0 [E_HANDLE_EVENT_IN] 6 ''h'' (demo_reactor ()) = None"
proof (rule key_collision_diverges)
  show "epoll_inv (\<lambda>h. 5) (demo_reactor ())"
    using demo_reactor_inv [of "()"]
    by (simp add: reactor_inv_def ctx_ok_def demux_inv_def demo_ctx_def demo_reactor_def new_reactor_def
        demo_demux_def EpollDemultiplexer_def)
  show "map_of (subscribers_table (demo_reactor ())) 5 = Some demo_ctx" by simp
qed (simp_all add: stale_def demo_ctx_def)

text \<open>
  A handle whose key is zero (descriptor 0 under libstdc++'s hash) cannot be subscribed: the
  kernel monitors it and the subscriber is filed as registered, but the identifier returned is the
  null one and no handler is installed.
\<close>

theorem zero_key_has_no_handler:
  assumes "reactor_inv hash (demux_inv hash) monitored_handles r"
    and "map_of (subscribers_table r) 0 = None" and "map_of (handlers_table r) 0 = None"
    and "hash h = 0" and "\<And>e op f ev k. fst (ctl e op f ev k) \<noteq> - 1"
  shows "\<exists>r'. subscribe (epoll_policy ctl hash) now events h hdl r = Some (0, r') \<and>
    map_option registered_to_monitor (map_of (subscribers_table r') 0) = Some True \<and>
    h \<in> dom (monitored_handles (demux_impl r')) \<and> map_of (handlers_table r') 0 = None"
proof -
  have free: "map_of (subscribers_table r) (hash h) = None" using assms(2,4) by simp
  have "subscribeImpl (epoll_policy ctl hash) now events h r \<noteq> None"
    unfolding subscribeImpl_fresh [OF assms(1) free] Let_def by (simp split: prod.splits)
  then obtain ret r' where s: "subscribeImpl (epoll_policy ctl hash) now events h r = Some (ret, r')"
    by auto
  have ok: "fst (registerListener ctl c d)" for c d
    using assms(5) by (auto simp: registerListener_def registerImpl_def Let_def split: prod.splits)
      (metis fst_conv)
  from assms(1) free s show ?thesis
  proof (cases rule: subscribe_fresh_states)
    case registered
    then show ?thesis
      using s assms(4) cleanup_handlers [OF reactor_invD(2) [OF assms(1)], of now 0] assms(3)
      by (simp add: subscribe_def SubscriberContext_def)
  next
    case refused
    have "map_of (subscribers_table r') (hash h) \<noteq> None"
      using s ok unfolding subscribeImpl_fresh [OF assms(1) free] Let_def
      by (auto simp: frame_simps case_prod_beta)
    with refused show ?thesis by simp
  qed
qed

theorem zero_key_has_no_handler_witness:
  "\<exists>r'. subscribe (epoll_policy ok_ctl demo_hash) 0 [E_HANDLE_EVENT_IN] 0 ''h''
      (new_reactor demo_demux ()) = Some (0, r') \<and>
    map_option registered_to_monitor (map_of (subscribers_table r') 0) = Some True"
proof -
  have z: "demo_hash 0 = 0" by (simp add: demo_hash_def)
  show ?thesis
    using zero_key_has_no_handler [OF new_reactor_inv [OF demo_demux_inv [of demo_hash], of "()"] _ _ z, where ctl = ok_ctl
        and now = 0 and events = "[E_HANDLE_EVENT_IN]" and hdl = "''h''"]
    by (auto simp: new_reactor_def ok_ctl_def)
qed

text \<open>
  A reactor cannot be restarted: after a \<^verbatim>\<open>stop\<close>, a later \<^verbatim>\<open>start\<close>
  reports a running reactor, but the demultiplexer's monitoring stays ended, so its thread leaves
  at the first quiet interval.
\<close>

theorem restart_not_monitoring:
  "let r = start later (stop_joined (snd (stop_request (epoll_policy ctl hash) (start now r0))))
   in reactor_running r \<and> demux_wait_thread r \<and> \<not> monitoring (demux_impl r)"
  by (simp add: Let_def start_def stop_joined_def stop_request_def stopMonitoring_def monitoring_def)

text \<open>
  The destructor unlocks its shared lock more often than it locks it, whether the reactor is
  running or not: the unlock of a mutex that is not held is undefined.
\<close>

theorem destructor_unlocks_too_often:
  "run_lock_ops (reactor_destructor_locks running) 0 = None"
  by (simp add: reactor_destructor_locks_def)

end
