(* ===== verification/FileStatus.thy ===== *)
theory FileStatus
  imports Prelude
begin

text \<open>
  The file wrappers of IOInfra: status flags (FileStatusFlags.cpp), permissions
  (FilePermissions.cpp) and file information (FileInfo.cpp), with the enumerations of
  FileIODefinitions.h. Flags and modes are 32-bit words with the values of Linux; the kernel's
  \<^verbatim>\<open>fcntl(F_GETFL)\<close> and \<^verbatim>\<open>fcntl(F_SETFL)\<close> are parameters on a kernel state
  of any type.
\<close>

unbundle bit_operations_syntax

datatype access_mode =
    E_UNDEFINED_MODE | E_READ_ONLY | E_WRITE_ONLY | E_READ_WRITE | E_APPEND_MODE

datatype file_type =
    E_UNDEFINED_TYPE | E_REGULAR | E_DIRECTORY | E_CHARACTER_DEVICE | E_BLOCK_DEVICE
  | E_LOCAL_SOCKET | E_NAMED_PIPE | E_SYMBOLIC_LINK

datatype file_permission =
    E_USER_READ | E_USER_WRITE | E_USER_EXECUTE
  | E_GROUP_READ | E_GROUP_WRITE | E_GROUP_EXECUTE
  | E_OTHER_READ | E_OTHER_WRITE | E_OTHER_EXECUTE

definition permission_order :: "file_permission list" where
  "permission_order =
     [E_USER_READ, E_USER_WRITE, E_USER_EXECUTE, E_GROUP_READ, E_GROUP_WRITE, E_GROUP_EXECUTE,
      E_OTHER_READ, E_OTHER_WRITE, E_OTHER_EXECUTE]"

definition O_RDONLY :: u32 where "O_RDONLY = 0"
definition O_WRONLY :: u32 where "O_WRONLY = 1"
definition O_RDWR :: u32 where "O_RDWR = 2"
definition O_ACCMODE :: u32 where "O_ACCMODE = 3"
definition O_CREAT :: u32 where "O_CREAT = 0x40"
definition O_EXCL :: u32 where "O_EXCL = 0x80"
definition O_TRUNC :: u32 where "O_TRUNC = 0x200"
definition O_APPEND :: u32 where "O_APPEND = 0x400"
definition O_NONBLOCK :: u32 where "O_NONBLOCK = 0x800"
definition O_DSYNC :: u32 where "O_DSYNC = 0x1000"
definition O_ASYNC :: u32 where "O_ASYNC = 0x2000"
definition O_DIRECT :: u32 where "O_DIRECT = 0x4000"
definition O_NOATIME :: u32 where "O_NOATIME = 0x40000"
definition O_CLOEXEC :: u32 where "O_CLOEXEC = 0x80000"
definition O_SYNC :: u32 where "O_SYNC = 0x101000"

lemmas open_flag_consts =
  O_RDONLY_def O_WRONLY_def O_RDWR_def O_ACCMODE_def O_CREAT_def O_EXCL_def O_TRUNC_def
  O_APPEND_def O_NONBLOCK_def O_DSYNC_def O_ASYNC_def O_DIRECT_def O_NOATIME_def O_CLOEXEC_def
  O_SYNC_def

text \<open>The flags that can be given to open a file (\<^verbatim>\<open>EOpenFileFlag\<close>).\<close>

datatype open_file_flag =
    EF_CREAT | EF_EXCL | EF_DIRECTORY | EF_NOATIME | EF_DIRECT | EF_TRUNC | EF_APPEND | EF_ASYNC
  | EF_SYNC | EF_NONBLOCK

fun open_file_flag_value :: "open_file_flag \<Rightarrow> u32" where
  "open_file_flag_value EF_CREAT = 0x40"
| "open_file_flag_value EF_EXCL = 0x80"
| "open_file_flag_value EF_DIRECTORY = 0x10000"
| "open_file_flag_value EF_NOATIME = 0x40000"
| "open_file_flag_value EF_DIRECT = 0x4000"
| "open_file_flag_value EF_TRUNC = 0x200"
| "open_file_flag_value EF_APPEND = 0x400"
| "open_file_flag_value EF_ASYNC = 0x2000"
| "open_file_flag_value EF_SYNC = 0x101000"
| "open_file_flag_value EF_NONBLOCK = 0x800"

text \<open>\<^verbatim>\<open>errno\<close> values; the program names EINTR and EEXIST.\<close>

definition EINTR :: int where "EINTR = 4"
definition EEXIST :: int where "EEXIST = 17"

subsection \<open>Status flags\<close>

definition accessModeToFlagInt :: "(access_mode \<times> u32) list" where
  "accessModeToFlagInt =
     [(E_READ_ONLY, O_RDONLY), (E_WRITE_ONLY, O_WRONLY), (E_READ_WRITE, O_RDWR),
      (E_APPEND_MODE, O_WRONLY OR O_APPEND)]"

definition getAccessModeFlag :: "access_mode \<Rightarrow> u32" where
  "getAccessModeFlag m =
     (if m \<noteq> E_UNDEFINED_MODE
      then (case map_of accessModeToFlagInt m of Some f \<Rightarrow> f | None \<Rightarrow> 0) else 0)"

text \<open>
  A \<^verbatim>\<open>std::map\<close> built from a list keeps the first of two entries with one key, and
  \<^verbatim>\<open>operator[]\<close> of an absent key is the empty string.
\<close>

definition accessModeToStringMap :: "(access_mode \<times> string) list" where
  "accessModeToStringMap =
     [(E_UNDEFINED_MODE, ''undefined''), (E_READ_ONLY, ''read only''),
      (E_WRITE_ONLY, ''write only''), (E_READ_WRITE, ''read/write''), (E_READ_WRITE, ''append'')]"

definition access_mode_name :: "access_mode \<Rightarrow> string" where
  "access_mode_name m = (case map_of accessModeToStringMap m of Some s \<Rightarrow> s | None \<Rightarrow> '''')"

record file_status =
  fs_descriptor :: fd
  fs_access_mode :: access_mode
  fs_flags :: u32

definition fs_valid :: "file_status \<Rightarrow> bool" where
  "fs_valid s \<longleftrightarrow> fs_access_mode s \<noteq> E_UNDEFINED_MODE \<or> fs_descriptor s \<ge> 0"

definition setFlagsMask :: "u32 \<Rightarrow> file_status \<Rightarrow> bool \<times> file_status" where
  "setFlagsMask flags s =
     (if fs_valid s \<and> fs_flags s \<noteq> flags then (True, s\<lparr>fs_flags := flags\<rparr>) else (False, s))"

definition settAccessModeFlag :: "u32 \<Rightarrow> file_status \<Rightarrow> file_status" where
  "settAccessModeFlag flags s =
     (let mode = flags AND O_ACCMODE
      in if O_RDONLY = mode then s\<lparr>fs_access_mode := E_READ_ONLY\<rparr>
         else if O_WRONLY = mode then s\<lparr>fs_access_mode := E_WRITE_ONLY\<rparr>
         else if O_RDWR = mode then s\<lparr>fs_access_mode := E_READ_WRITE\<rparr>
         else s)"

definition fs_init :: "(fd \<Rightarrow> 'k \<Rightarrow> u32) \<Rightarrow> 'k \<Rightarrow> file_status \<Rightarrow> file_status" where
  "fs_init getfl k s =
     (let flags = getfl (fs_descriptor s) k
      in if flags \<noteq> - 1 then
           let s1 = settAccessModeFlag flags s
           in if fs_valid s1 then snd (setFlagsMask flags s1) else s1
         else s)"

definition FileStatusFlags :: "(fd \<Rightarrow> 'k \<Rightarrow> u32) \<Rightarrow> 'k \<Rightarrow> fd \<Rightarrow> file_status" where
  "FileStatusFlags getfl k descriptor =
     fs_init getfl k \<lparr>fs_descriptor = descriptor, fs_access_mode = E_UNDEFINED_MODE, fs_flags = 0\<rparr>"

definition getSingleFlag :: "u32 \<Rightarrow> file_status \<Rightarrow> bool" where
  "getSingleFlag flag s = (if fs_valid s then fs_flags s AND flag \<noteq> 0 else False)"

definition setSingleFlag ::
    "(fd \<Rightarrow> 'k \<Rightarrow> u32) \<Rightarrow> (fd \<Rightarrow> u32 \<Rightarrow> 'k \<Rightarrow> 'k) \<Rightarrow> u32 \<Rightarrow> bool \<Rightarrow> file_status \<Rightarrow> 'k \<Rightarrow>
     bool \<times> file_status \<times> 'k" where
  "setSingleFlag getfl setfl flag requested s k =
     (if \<not> fs_valid s then (False, s, k)
      else if requested \<noteq> getSingleFlag flag s then
        (let changed_flags = (if requested then fs_flags s OR flag else fs_flags s AND NOT flag);
             k1 = setfl (fs_descriptor s) changed_flags k;
             latest_flags = getfl (fs_descriptor s) k1
         in case setFlagsMask latest_flags s of (changed, s1) \<Rightarrow>
              (if changed then changed_flags = latest_flags else False, s1, k1))
      else (False, s, k))"

definition setFlags :: "u32 \<Rightarrow> file_status \<Rightarrow> bool \<times> file_status" where
  "setFlags val s =
     (let last_access_mode = fs_access_mode s;
          s1 = settAccessModeFlag val s
      in case (if fs_valid s1 then setFlagsMask val s1 else (False, s1)) of (changed, s2) \<Rightarrow>
           if changed then (True, s2)
           else if last_access_mode \<noteq> E_UNDEFINED_MODE
                then (False, s2\<lparr>fs_access_mode := last_access_mode\<rparr>)
                else (False, s2))"

definition setAppend :: "(int \<Rightarrow> 'a \<Rightarrow> 32 word) \<Rightarrow> (int \<Rightarrow> 32 word \<Rightarrow> 'a \<Rightarrow> 'a) \<Rightarrow> bool \<Rightarrow> file_status \<Rightarrow> 'a \<Rightarrow> bool \<times> file_status \<times> 'a" where
  "setAppend getfl setfl v = setSingleFlag getfl setfl O_APPEND v"
definition setNoATime :: "(int \<Rightarrow> 'a \<Rightarrow> 32 word) \<Rightarrow> (int \<Rightarrow> 32 word \<Rightarrow> 'a \<Rightarrow> 'a) \<Rightarrow> bool \<Rightarrow> file_status \<Rightarrow> 'a \<Rightarrow> bool \<times> file_status \<times> 'a" where
  "setNoATime getfl setfl v = setSingleFlag getfl setfl O_NOATIME v"
definition setDirect :: "(int \<Rightarrow> 'a \<Rightarrow> 32 word) \<Rightarrow> (int \<Rightarrow> 32 word \<Rightarrow> 'a \<Rightarrow> 'a) \<Rightarrow> bool \<Rightarrow> file_status \<Rightarrow> 'a \<Rightarrow> bool \<times> file_status \<times> 'a" where
  "setDirect getfl setfl v = setSingleFlag getfl setfl O_DIRECT v"
definition setAsync :: "(int \<Rightarrow> 'a \<Rightarrow> 32 word) \<Rightarrow> (int \<Rightarrow> 32 word \<Rightarrow> 'a \<Rightarrow> 'a) \<Rightarrow> bool \<Rightarrow> file_status \<Rightarrow> 'a \<Rightarrow> bool \<times> file_status \<times> 'a" where
  "setAsync getfl setfl v = setSingleFlag getfl setfl O_ASYNC v"
definition setNonBlock :: "(int \<Rightarrow> 'a \<Rightarrow> 32 word) \<Rightarrow> (int \<Rightarrow> 32 word \<Rightarrow> 'a \<Rightarrow> 'a) \<Rightarrow> bool \<Rightarrow> file_status \<Rightarrow> 'a \<Rightarrow> bool \<times> file_status \<times> 'a" where
  "setNonBlock getfl setfl v = setSingleFlag getfl setfl O_NONBLOCK v"

definition fs_append :: "file_status \<Rightarrow> bool" where "fs_append = getSingleFlag O_APPEND"
definition fs_async :: "file_status \<Rightarrow> bool" where "fs_async = getSingleFlag O_ASYNC"
definition fs_nonBlock :: "file_status \<Rightarrow> bool" where "fs_nonBlock = getSingleFlag O_NONBLOCK"
definition fs_direct :: "file_status \<Rightarrow> bool" where "fs_direct = getSingleFlag O_DIRECT"
definition fs_noAtime :: "file_status \<Rightarrow> bool" where "fs_noAtime = getSingleFlag O_NOATIME"
definition fs_dsync :: "file_status \<Rightarrow> bool" where "fs_dsync = getSingleFlag O_DSYNC"
definition fs_sync :: "file_status \<Rightarrow> bool" where "fs_sync = getSingleFlag O_SYNC"

definition bool_name :: "bool \<Rightarrow> string" where
  "bool_name b = (if b then ''true'' else ''false'')"

definition endl :: string where "endl = [CHR 0x0A]"

definition file_status_print :: "file_status \<Rightarrow> string" where
  "file_status_print s =
     ''File status flags: '' @
     endl @ ''O_APPEND:   '' @ bool_name (fs_append s) @
     endl @ ''O_NONBLOCK: '' @ bool_name (fs_nonBlock s) @
     endl @ ''O_NOATIME:  '' @ bool_name (fs_noAtime s) @
     endl @ ''O_DIRECT:   '' @ bool_name (fs_direct s) @
     endl @ ''O_ASYNC:    '' @ bool_name (fs_async s) @
     endl @ ''O_DSYNC:    '' @ bool_name (fs_dsync s) @
     endl @ ''O_SYNC:     '' @ bool_name (fs_sync s) @
     endl @ ''Access mode: '' @ access_mode_name (fs_access_mode s) @ endl"

subsection \<open>Permissions\<close>

definition mode_flag_array :: "u32 list" where
  "mode_flag_array = [0x100, 0x80, 0x40, 0x20, 0x10, 0x8, 0x4, 0x2, 0x1]"

fun permission_index :: "file_permission \<Rightarrow> nat" where
  "permission_index E_USER_READ = 0"
| "permission_index E_USER_WRITE = 1"
| "permission_index E_USER_EXECUTE = 2"
| "permission_index E_GROUP_READ = 3"
| "permission_index E_GROUP_WRITE = 4"
| "permission_index E_GROUP_EXECUTE = 5"
| "permission_index E_OTHER_READ = 6"
| "permission_index E_OTHER_WRITE = 7"
| "permission_index E_OTHER_EXECUTE = 8"

record file_permissions =
  perm_array :: "bool list"
  perm_flags :: u32

definition perm_fillArray :: "u32 \<Rightarrow> file_permissions \<Rightarrow> file_permissions" where
  "perm_fillArray flags p = p\<lparr>perm_array := map (\<lambda>f. flags AND f \<noteq> 0) mode_flag_array\<rparr>"

definition perm_set :: "file_permission \<Rightarrow> bool \<Rightarrow> file_permissions \<Rightarrow> file_permissions" where
  "perm_set fl v p =
     (let i = permission_index fl
      in if v \<noteq> perm_array p ! i then
           p\<lparr>perm_array := (perm_array p)[i := v],
             perm_flags := (if v then perm_flags p OR mode_flag_array ! i
                            else perm_flags p AND NOT (mode_flag_array ! i))\<rparr>
         else p)"

definition FilePermissions_mode :: "u32 \<Rightarrow> file_permissions" where
  "FilePermissions_mode mode_flags =
     perm_fillArray mode_flags \<lparr>perm_array = replicate 9 False, perm_flags = mode_flags\<rparr>"

definition FilePermissions_default :: file_permissions where
  "FilePermissions_default = FilePermissions_mode 0"

definition setInitialPermissions :: "file_permission list \<Rightarrow> file_permissions \<Rightarrow> file_permissions" where
  "setInitialPermissions init p = fold (\<lambda>f. perm_set f True) init p"

definition FilePermissions_list :: "file_permission list \<Rightarrow> file_permissions" where
  "FilePermissions_list init = setInitialPermissions init (FilePermissions_mode 0)"

definition perm_setFlags :: "u32 \<Rightarrow> file_permissions \<Rightarrow> file_permissions" where
  "perm_setFlags mode_flags p =
     (let p1 = (if perm_flags p \<noteq> mode_flags then p\<lparr>perm_flags := mode_flags\<rparr> else p)
      in perm_fillArray (perm_flags p1) p1)"

definition perm_at :: "nat \<Rightarrow> file_permissions \<Rightarrow> bool option" where
  "perm_at i p = (if i < length (perm_array p) then Some (perm_array p ! i) else None)"

definition permission_letter :: "nat \<Rightarrow> bool \<Rightarrow> char" where
  "permission_letter i b =
     (if b then (if i \<in> {0, 3, 6} then CHR ''r'' else if i \<in> {1, 4, 7} then CHR ''w'' else CHR ''x'')
      else CHR ''-'')"

definition perm_toString :: "file_permissions \<Rightarrow> string" where
  "perm_toString p = map2 permission_letter [0..<9] (perm_array p)"

subsection \<open>File information\<close>

definition S_IFMT :: u32 where "S_IFMT = 0xF000"

definition getFileType :: "u32 \<Rightarrow> file_type" where
  "getFileType st_mode =
     (let m = st_mode AND S_IFMT
      in if m = 0x8000 then E_REGULAR
         else if m = 0x4000 then E_DIRECTORY
         else if m = 0x2000 then E_CHARACTER_DEVICE
         else if m = 0x6000 then E_BLOCK_DEVICE
         else if m = 0xA000 then E_SYMBOLIC_LINK
         else if m = 0x1000 then E_NAMED_PIPE
         else if m = 0xC000 then E_LOCAL_SOCKET
         else E_UNDEFINED_TYPE)"

definition typeToString :: "file_type \<Rightarrow> string" where
  "typeToString t =
     (case t of
        E_UNDEFINED_TYPE \<Rightarrow> ''undefined'' | E_REGULAR \<Rightarrow> ''regular'' | E_DIRECTORY \<Rightarrow> ''directory''
      | E_CHARACTER_DEVICE \<Rightarrow> ''character device'' | E_BLOCK_DEVICE \<Rightarrow> ''block device''
      | E_LOCAL_SOCKET \<Rightarrow> ''socket'' | E_NAMED_PIPE \<Rightarrow> ''FIFO or pipe''
      | E_SYMBOLIC_LINK \<Rightarrow> ''symbolic link'')"

text \<open>What \<^verbatim>\<open>struct stat\<close> gives; the times are the calendar times as printed.\<close>

record stat_result =
  st_mode :: u32
  st_size :: int
  st_dev_major :: int
  st_dev_minor :: int
  st_ino :: int
  st_uid :: int
  st_gid :: int
  st_times :: "string \<times> string \<times> string"

text \<open>The members are \<^verbatim>\<open>int\<close>, whatever the width of the field they are set from.\<close>

definition to_int32 :: "int \<Rightarrow> int" where
  "to_int32 x = sint (word_of_int x :: u32)"

record file_info =
  fi_available_size :: int
  fi_major :: int
  fi_minor :: int
  fi_inode :: int
  fi_user :: int
  fi_group :: int
  fi_type :: file_type
  fi_times :: "string \<times> string \<times> string"
  fi_permissions :: file_permissions

definition fi_setFields :: "stat_result \<Rightarrow> file_info \<Rightarrow> file_info" where
  "fi_setFields st i =
     i\<lparr>fi_available_size := to_int32 (st_size st), fi_major := to_int32 (st_dev_major st),
       fi_minor := to_int32 (st_dev_minor st), fi_inode := to_int32 (st_ino st),
       fi_user := to_int32 (st_uid st), fi_group := to_int32 (st_gid st),
       fi_type := getFileType (st_mode st), fi_times := st_times st,
       fi_permissions := perm_setFlags (st_mode st) (fi_permissions i)\<rparr>"

text \<open>\<open>stats\<close> is what \<^verbatim>\<open>stat\<close> or \<^verbatim>\<open>fstat\<close> reports, \<open>None\<close> when it fails.\<close>

definition fi_init :: "stat_result option \<Rightarrow> file_info \<Rightarrow> file_info" where
  "fi_init stats i = (case stats of None \<Rightarrow> i | Some st \<Rightarrow> fi_setFields st i)"

definition default_file_info :: file_info where
  "default_file_info =
     \<lparr>fi_available_size = 0, fi_major = 0, fi_minor = 0, fi_inode = 0, fi_user = 0, fi_group = 0,
      fi_type = E_UNDEFINED_TYPE, fi_times = ('''', '''', ''''), fi_permissions = FilePermissions_default\<rparr>"

definition FileInfo :: "stat_result option \<Rightarrow> file_info" where
  "FileInfo stats = fi_init stats default_file_info"

subsection \<open>The permission array and the mode agree\<close>

definition perm_ok :: "file_permissions \<Rightarrow> bool" where
  "perm_ok p \<longleftrightarrow> perm_array p = map (\<lambda>f. perm_flags p AND f \<noteq> 0) mode_flag_array"

definition has_permission :: "file_permissions \<Rightarrow> file_permission \<Rightarrow> bool" where
  "has_permission p f = perm_array p ! permission_index f"

lemma permission_index_less [simp]: "permission_index f < 9"
  by (cases f) simp_all

lemma permission_bit_small [simp]: "8 - permission_index f \<noteq> 9 + n"
  by linarith

lemma length_mode_flag_array [simp]: "length mode_flag_array = 9"
  by (simp add: mode_flag_array_def)

lemma mode_flag_array_nth: "i < 9 \<Longrightarrow> mode_flag_array ! i = 2 ^ (8 - i)"
  by (auto simp: mode_flag_array_def less_Suc_eq numeral_eq_Suc nth_Cons')

lemma and_bit32: "(m :: u32) AND 2 ^ n \<noteq> 0 \<longleftrightarrow> bit m n"
  by (simp add: and_exp_eq_0_iff_not_bit)

lemma perm_array_bits: "perm_ok p \<Longrightarrow> i < 9 \<Longrightarrow> perm_array p ! i = bit (perm_flags p) (8 - i)"
  by (simp add: perm_ok_def mode_flag_array_nth and_bit32)

lemma length_perm_array: "perm_ok p \<Longrightarrow> length (perm_array p) = 9"
  by (simp add: perm_ok_def)

lemma perm_okI:
  "length (perm_array p) = 9 \<Longrightarrow> (\<And>i. i < 9 \<Longrightarrow> perm_array p ! i = bit (perm_flags p) (8 - i)) \<Longrightarrow> perm_ok p"
  by (simp add: perm_ok_def list_eq_iff_nth_eq mode_flag_array_nth and_bit32)

lemma perm_ok_mode [inv_intros]: "perm_ok (FilePermissions_mode m)"
  by (simp add: FilePermissions_mode_def perm_fillArray_def perm_ok_def)

lemma perm_ok_setFlags [inv_intros]: "perm_ok (perm_setFlags m p)"
  by (simp add: perm_setFlags_def perm_fillArray_def perm_ok_def Let_def)

lemma perm_flags_setFlags [simp]: "perm_flags (perm_setFlags m p) = m"
  by (simp add: perm_setFlags_def perm_fillArray_def Let_def)

text \<open>Turning one bit of a word on or off.\<close>

definition put_bit :: "nat \<Rightarrow> bool \<Rightarrow> u32 \<Rightarrow> u32" where
  "put_bit n v m = (if v then m OR 2 ^ n else m AND NOT (2 ^ n))"

lemma bit_put_bit: "bit (put_bit n v m) i = (if i = n \<and> n < 32 then v else bit m i)"
  using bit_imp_le_length [of m i]
  by (auto simp: put_bit_def bit_or_iff bit_and_iff bit_exp_iff bit_not_iff)

lemma put_bit_same: "v = bit m n \<Longrightarrow> put_bit n v m = m"
  by (rule bit_eqI) (auto simp: bit_put_bit)

lemma perm_set_bits:
  assumes p: "perm_ok p"
  shows "perm_flags (perm_set f v p) = put_bit (8 - permission_index f) v (perm_flags p)"
    and "perm_array (perm_set f v p) = (perm_array p)[permission_index f := v]"
proof -
  let ?i = "permission_index f"
  have a: "perm_array p ! ?i = bit (perm_flags p) (8 - ?i)"
    using p by (simp add: perm_array_bits)
  have l: "?i < length (perm_array p)" using p by (simp add: length_perm_array)
  show "perm_flags (perm_set f v p) = put_bit (8 - ?i) v (perm_flags p)"
    using a put_bit_same [of v "perm_flags p" "8 - ?i"]
    by (auto simp: perm_set_def Let_def mode_flag_array_nth put_bit_def)
  show "perm_array (perm_set f v p) = (perm_array p)[?i := v]"
    using a l list_update_id [of "perm_array p" ?i] by (auto simp: perm_set_def Let_def)
qed

lemma perm_ok_set [inv_intros]:
  assumes "perm_ok p"
  shows "perm_ok (perm_set f v p)"
proof (rule perm_okI)
  show "length (perm_array (perm_set f v p)) = 9"
    using assms by (simp add: perm_set_bits length_perm_array)
  have b: "i < 9 \<Longrightarrow> 8 - i = 8 - permission_index f \<longleftrightarrow> permission_index f = i" for i
    using permission_index_less [of f] by linarith
  show "perm_array (perm_set f v p) ! i = bit (perm_flags (perm_set f v p)) (8 - i)" if "i < 9" for i
    using assms that b [of i] less_imp_diff_less [of 8 32 i]
    by (simp add: perm_set_bits nth_list_update length_perm_array perm_array_bits bit_put_bit)
qed

subsection \<open>Properties\<close>

text \<open>
  Setting one permission changes that permission and no other, keeps the array of booleans in
  step with the mode word, and leaves every bit of the mode above the nine permission bits alone.
\<close>

theorem perm_set_effect:
  assumes "perm_ok p"
  shows "perm_ok (perm_set f v p) \<and>
    has_permission (perm_set f v p) g = (if g = f then v else has_permission p g) \<and>
    drop_bit 9 (perm_flags (perm_set f v p)) = drop_bit 9 (perm_flags p)"
proof -
  have inj: "permission_index f = permission_index g \<longleftrightarrow> g = f"
    by (cases g; cases f) simp_all
  have "drop_bit 9 (perm_flags (perm_set f v p)) = drop_bit 9 (perm_flags p)"
    by (rule bit_eqI) (use permission_bit_small [of f] in \<open>metis assms perm_set_bits(1) bit_drop_bit_eq
      bit_put_bit comp_apply\<close>)
  then show ?thesis
    using assms inj perm_ok_set [OF assms]
    by (simp add: has_permission_def perm_set_bits nth_list_update length_perm_array)
qed

theorem perm_set_effect_witness:
  "has_permission (perm_set E_GROUP_WRITE True (FilePermissions_mode 0x1A4)) E_GROUP_WRITE"
  using perm_set_effect [OF perm_ok_mode, of E_GROUP_WRITE True "0x1A4" E_GROUP_WRITE] by simp

text \<open>
  Turning one status flag on or off, on a kernel that stores the flags it is given: the call
  answers true exactly when the flag had the other value, and afterwards the flag has the
  requested value and every other flag is as it was.
\<close>

theorem setSingleFlag_effect:
  assumes "\<And>d f k. getfl d (setfl d f k) = f" and "fs_valid s" and "n < 32"
    and "setSingleFlag getfl setfl (2 ^ n) requested s k = (ret, s', k')"
  shows "ret = (requested \<noteq> bit (fs_flags s) n) \<and>
    bit (fs_flags s') i = (if i = n then requested else bit (fs_flags s) i) \<and>
    getSingleFlag (2 ^ n) s' = requested"
proof -
  let ?new = "put_bit n requested (fs_flags s)"
  have g: "getSingleFlag (2 ^ n) t = bit (fs_flags t) n" if "fs_valid t" for t
    using that by (simp add: getSingleFlag_def and_bit32)
  have v: "fs_valid (s\<lparr>fs_flags := f\<rparr>)" for f
    using assms(2) by (simp add: fs_valid_def)
  show ?thesis
  proof (cases "requested = bit (fs_flags s) n")
    case True
    then have "ret = False" and "s' = s"
      using assms(4) by (simp_all add: setSingleFlag_def g [OF assms(2)] assms(2))
    with True show ?thesis by (simp add: g [OF assms(2)])
  next
    case False
    then have n: "?new \<noteq> fs_flags s"
      using bit_put_bit [of n requested "fs_flags s" n] assms(3) by auto
    have "setSingleFlag getfl setfl (2 ^ n) requested s k =
        (True, s\<lparr>fs_flags := ?new\<rparr>, setfl (fs_descriptor s) ?new k)"
      using False n
      by (simp add: setSingleFlag_def g [OF assms(2)] assms(1,2) Let_def setFlagsMask_def
          put_bit_def split: if_splits)
    then have "ret" and s': "s' = s\<lparr>fs_flags := ?new\<rparr>"
      using assms(4) by simp_all
    then show ?thesis
      using False assms(3) g [OF v] by (simp add: bit_put_bit s')
  qed
qed

theorem setSingleFlag_effect_witness:
  "getSingleFlag (2 ^ 11) (fst (snd (setSingleFlag (\<lambda>d k. k) (\<lambda>d f k. f) (2 ^ 11) True
      \<lparr>fs_descriptor = 3, fs_access_mode = E_READ_WRITE, fs_flags = 2\<rparr> 0)))"
proof -
  let ?s = "\<lparr>fs_descriptor = 3, fs_access_mode = E_READ_WRITE, fs_flags = 2\<rparr>"
  obtain ret s' k' where r: "setSingleFlag (\<lambda>d k. k) (\<lambda>d f k. f) (2 ^ 11) True ?s 0 = (ret, s', k')"
    by (cases "setSingleFlag (\<lambda>d k. k) (\<lambda>d f k. f) (2 ^ 11) True ?s 0")
  have "getSingleFlag (2 ^ 11) s' = True"
    using setSingleFlag_effect [OF _ _ _ r] by (simp add: fs_valid_def)
  then show ?thesis unfolding r by simp
qed

text \<open>
  \<^verbatim>\<open>O_SYNC\<close> contains the bit of \<^verbatim>\<open>O_DSYNC\<close>: a file opened with
  \<^verbatim>\<open>O_DSYNC\<close> alone is reported as synchronised by \<^verbatim>\<open>sync()\<close> too.
\<close>

theorem sync_not_told_from_dsync:
  "fs_dsync s \<longrightarrow> fs_sync s"
proof -
  have "f AND O_DSYNC \<noteq> 0 \<Longrightarrow> f AND O_SYNC \<noteq> 0" for f
  proof -
    assume "f AND O_DSYNC \<noteq> 0"
    moreover have "(f AND O_SYNC) AND O_DSYNC = f AND O_DSYNC"
      by (simp add: open_flag_consts and.assoc)
    ultimately show "f AND O_SYNC \<noteq> 0" by auto
  qed
  then show ?thesis by (auto simp: fs_sync_def fs_dsync_def getSingleFlag_def)
qed

theorem sync_not_told_from_dsync_witness:
  "fs_sync \<lparr>fs_descriptor = 3, fs_access_mode = E_WRITE_ONLY, fs_flags = O_WRONLY OR O_DSYNC\<rparr>"
  by (rule sync_not_told_from_dsync [rule_format])
    (simp add: fs_dsync_def getSingleFlag_def fs_valid_def open_flag_consts)

text \<open>
  The permission string is faithful: reading its letters back, three groups of three, gives
  the nine permission bits of the mode, for every mode word.
\<close>

fun read_letters :: "string \<Rightarrow> u32" where
  "read_letters [] = 0"
| "read_letters (c # cs) = (if c = CHR ''-'' then read_letters cs else 2 ^ length cs OR read_letters cs)"

lemma permission_letter_dash: "permission_letter i b = CHR ''-'' \<longleftrightarrow> \<not> b"
  by (simp add: permission_letter_def)

lemma read_letter:
  "read_letters (permission_letter i (m AND 2 ^ length cs \<noteq> 0) # cs) = (m AND 2 ^ length cs) OR read_letters cs"
proof (cases "bit m (length cs)")
  case True
  then have "m AND 2 ^ length cs = 2 ^ length cs"
    by (intro bit_eqI) (auto simp: bit_and_iff bit_exp_iff)
  with bit_imp_le_length [OF True] show ?thesis by (simp add: permission_letter_dash)
next
  case False
  then have "m AND 2 ^ length cs = 0"
    by (simp add: and_exp_eq_0_iff_not_bit)
  then show ?thesis by (simp add: permission_letter_dash)
qed

text \<open>
  The permission string of any mode, read back letter by letter (a dash is a clear bit), gives
  the nine permission bits of the mode.
\<close>

theorem permission_string_round_trip:
  "read_letters (perm_toString (FilePermissions_mode m)) = m AND 0x1FF"
proof -
  let ?l = "\<lambda>i n. permission_letter i (m AND 2 ^ n \<noteq> 0)"
  have str: "perm_toString (FilePermissions_mode m) =
      [?l 0 8, ?l 1 7, ?l 2 6, ?l 3 5, ?l 4 4, ?l 5 3, ?l 6 2, ?l 7 1, ?l 8 0]"
    by (simp add: perm_toString_def FilePermissions_mode_def perm_fillArray_def mode_flag_array_def
        upt_rec eval_nat_numeral)
  have letters: "read_letters [?l 0 8, ?l 1 7, ?l 2 6, ?l 3 5, ?l 4 4, ?l 5 3, ?l 6 2, ?l 7 1, ?l 8 0] =
      (m AND 2 ^ 8) OR (m AND 2 ^ 7) OR (m AND 2 ^ 6) OR (m AND 2 ^ 5) OR
      (m AND 2 ^ 4) OR (m AND 2 ^ 3) OR (m AND 2 ^ 2) OR (m AND 2 ^ 1) OR (m AND 2 ^ 0)"
    using read_letter [of 8 m "[]"] read_letter [of 7 m "[?l 8 0]"] read_letter [of 6 m "[?l 7 1, ?l 8 0]"]
      read_letter [of 5 m "[?l 6 2, ?l 7 1, ?l 8 0]"] read_letter [of 4 m "[?l 5 3, ?l 6 2, ?l 7 1, ?l 8 0]"]
      read_letter [of 3 m "[?l 4 4, ?l 5 3, ?l 6 2, ?l 7 1, ?l 8 0]"]
      read_letter [of 2 m "[?l 3 5, ?l 4 4, ?l 5 3, ?l 6 2, ?l 7 1, ?l 8 0]"]
      read_letter [of 1 m "[?l 2 6, ?l 3 5, ?l 4 4, ?l 5 3, ?l 6 2, ?l 7 1, ?l 8 0]"]
      read_letter [of 0 m "[?l 1 7, ?l 2 6, ?l 3 5, ?l 4 4, ?l 5 3, ?l 6 2, ?l 7 1, ?l 8 0]"]
    by (simp add: or.assoc eval_nat_numeral del: read_letters.simps(2) power_Suc)
  have dist: "(m AND 2 ^ 8) OR (m AND 2 ^ 7) OR (m AND 2 ^ 6) OR (m AND 2 ^ 5) OR
      (m AND 2 ^ 4) OR (m AND 2 ^ 3) OR (m AND 2 ^ 2) OR (m AND 2 ^ 1) OR (m AND 2 ^ 0) = m AND (2 ^ 8 OR 2 ^ 7 OR 2 ^ 6 OR 2 ^ 5 OR 2 ^ 4 OR 2 ^ 3 OR 2 ^ 2 OR 2 ^ 1 OR 2 ^ 0)"
    by (simp only: bit.conj_disj_distrib)
  have mask: "2 ^ 8 OR 2 ^ 7 OR 2 ^ 6 OR 2 ^ 5 OR 2 ^ 4 OR 2 ^ 3 OR 2 ^ 2 OR 2 ^ 1 OR 2 ^ 0 = (0x1FF :: u32)"
    by simp
  show ?thesis
    by (simp only: str letters dist mask)
qed

end
