(* ===== verification/LinuxIO.thy ===== *)
theory LinuxIO
  imports FileStatus
begin

text \<open>
  \<^verbatim>\<open>LinuxIOUtilities\<close> (UtilitiesInfra/LinuxUtils/LinuxIOUtilities.cpp and .hpp): paths,
  opening and copying files, and the loops around \<^verbatim>\<open>read\<close>, \<^verbatim>\<open>write\<close> and
  \<^verbatim>\<open>recv\<close>. Calls that open, test or change files go through a record of the system's
  functions on a system state of any type; the loops run over a script of the results the calls
  give. A loop that has used up the script is still waiting for the system (\<open>Blocked\<close>), an access
  outside a buffer is \<open>Undefined\<close>.
\<close>

unbundle bit_operations_syntax

datatype 'a outcome = Done 'a | Blocked | Undefined

datatype read_result = Read_error int | Read_data string

datatype write_result = Write_error int | Write_count nat

definition NUL :: char where "NUL = CHR 0x00"
definition END_LINE_CHAR :: char where "END_LINE_CHAR = CHR 0x0A"
definition PATH_SEPARATOR :: char where "PATH_SEPARATOR = CHR ''/''"
definition NULL_DESCRIPTOR :: fd where "NULL_DESCRIPTOR = - 1"
definition READ_BUFFER_SIZE :: nat where "READ_BUFFER_SIZE = 4096"

definition CHARSET :: string where
  "CHARSET = ''0123456789ABCDEFGHIJKLMNOPQRSTUVWXYZabcdefghijklmnopqrstuvwxyz''"

definition TEMP_FILE_EXTENSION :: string where "TEMP_FILE_EXTENSION = ''.tmp''"

subsection \<open>Paths\<close>

text \<open>The positions \<^verbatim>\<open>find_first_of\<close> finds one after the other.\<close>

definition separator_positions :: "string \<Rightarrow> nat list" where
  "separator_positions s = filter (\<lambda>i. s ! i = PATH_SEPARATOR) [0..<length s]"

fun directory_loop :: "string \<Rightarrow> nat list \<Rightarrow> nat \<times> nat \<times> string \<Rightarrow> nat \<times> nat \<times> string" where
  "directory_loop full [] (prev_pos, offset, file_path) = (prev_pos, offset, file_path)"
| "directory_loop full (next_pos # ps) (prev_pos, offset, file_path) =
     directory_loop full ps
       (if prev_pos \<noteq> next_pos
        then (next_pos, 1, file_path @ take (next_pos - prev_pos) (drop prev_pos full))
        else (prev_pos, 1, file_path))"

definition getDirectoryAndFileName :: "string \<Rightarrow> string \<times> string" where
  "getDirectoryAndFileName full_path =
     (case directory_loop full_path (separator_positions full_path) (0, 0, '''') of
        (prev_pos, offset, file_path) \<Rightarrow>
          (file_path, take (length full_path - prev_pos) (drop (prev_pos + offset) full_path)))"

definition fullPath :: "string \<Rightarrow> string \<Rightarrow> string" where
  "fullPath filename directory =
     (if directory \<noteq> [] \<and> filename \<noteq> [] then (directory @ [PATH_SEPARATOR]) @ filename else directory)"

subsection \<open>The system\<close>

datatype whence = SEEK_SET | SEEK_CUR | SEEK_END

record 'o system =
  sys_open :: "string \<Rightarrow> u32 \<Rightarrow> u32 option \<Rightarrow> 'o \<Rightarrow> fd \<times> 'o"
  sys_errno :: "'o \<Rightarrow> int"
  sys_close :: "fd \<Rightarrow> 'o \<Rightarrow> int \<times> 'o"
  sys_fstat :: "fd \<Rightarrow> 'o \<Rightarrow> stat_result option"
  sys_stat :: "string \<Rightarrow> 'o \<Rightarrow> stat_result option"
  sys_fchmod :: "fd \<Rightarrow> u32 \<Rightarrow> 'o \<Rightarrow> int \<times> 'o"
  sys_getfl :: "fd \<Rightarrow> 'o \<Rightarrow> u32"
  sys_access :: "string \<Rightarrow> 'o \<Rightarrow> int"
  sys_unlink :: "string \<Rightarrow> 'o \<Rightarrow> int \<times> 'o"
  sys_mkfifo :: "string \<Rightarrow> u32 \<Rightarrow> 'o \<Rightarrow> int \<times> 'o"
  sys_umask :: "u32 \<Rightarrow> 'o \<Rightarrow> 'o"
  sys_lseek :: "fd \<Rightarrow> int \<Rightarrow> whence \<Rightarrow> 'o \<Rightarrow> int \<times> 'o"
  sys_getcwd :: "'o \<Rightarrow> string option"

definition DEFAULT_FILE_MODE :: u32 where
  "DEFAULT_FILE_MODE = perm_flags (FilePermissions_list [E_USER_READ, E_USER_WRITE])"

definition openNewFile :: "'o system \<Rightarrow> string \<Rightarrow> access_mode \<Rightarrow> u32 \<Rightarrow> u32 \<Rightarrow> 'o \<Rightarrow> fd \<times> 'o" where
  "openNewFile sys file_path mode flags permissions w =
     (let new_file_flags = flags OR getAccessModeFlag mode OR O_CREAT OR O_EXCL OR O_CLOEXEC;
          open_file_flags = (new_file_flags AND NOT O_CREAT) AND NOT O_EXCL;
          permissions = (if permissions = 0 then DEFAULT_FILE_MODE else permissions);
          (fd1, w1) = sys_open sys file_path new_file_flags (Some permissions) w;
          (fd2, w2) = (if fd1 = NULL_DESCRIPTOR \<and> sys_errno sys w1 = EEXIST
                       then sys_open sys file_path open_file_flags None w1 else (fd1, w1))
      in if fd2 = NULL_DESCRIPTOR then (fd2, w2)
         else if perm_flags (fi_permissions (FileInfo (sys_fstat sys fd2 w2))) = permissions then (fd2, w2)
         else (case sys_fchmod sys fd2 permissions w2 of (r, w3) \<Rightarrow>
                 if r \<noteq> - 1 then sys_open sys file_path open_file_flags None (snd (sys_close sys fd2 w3))
                 else (fd2, w3)))"

definition openExistingFile :: "'o system \<Rightarrow> string \<Rightarrow> access_mode \<Rightarrow> u32 \<Rightarrow> 'o \<Rightarrow> fd \<times> 'o" where
  "openExistingFile sys file_path mode flags w =
     sys_open sys file_path (getAccessModeFlag mode OR flags OR O_CLOEXEC) None w"

definition file_exists :: "'o system \<Rightarrow> string \<Rightarrow> 'o \<Rightarrow> bool" where
  "file_exists sys pathname w = (sys_access sys pathname w = 0)"

definition existingDirectory :: "'o system \<Rightarrow> string \<Rightarrow> 'o \<Rightarrow> bool" where
  "existingDirectory sys directory w =
     (fi_type (FileInfo (sys_stat sys directory w)) = E_DIRECTORY \<and> file_exists sys directory w)"

definition remove_file :: "'o system \<Rightarrow> string \<Rightarrow> 'o \<Rightarrow> bool \<times> 'o" where
  "remove_file sys pathname w = (case sys_unlink sys pathname w of (r, w') \<Rightarrow> (r \<noteq> - 1, w'))"

definition getCurrentDir :: "'o system \<Rightarrow> 'o \<Rightarrow> string" where
  "getCurrentDir sys w = (case sys_getcwd sys w of Some s \<Rightarrow> s | None \<Rightarrow> '''')"

definition availableSize :: "'o system \<Rightarrow> fd \<Rightarrow> 'o \<Rightarrow> int \<times> 'o" where
  "availableSize sys f w =
     (case sys_lseek sys f 0 SEEK_CUR w of (current_pos, w1) \<Rightarrow>
        if current_pos = - 1 then (- 1, w1)
        else case sys_lseek sys f 0 SEEK_END w1 of (end_pos, w2) \<Rightarrow>
               (end_pos - current_pos, snd (sys_lseek sys f current_pos SEEK_SET w2)))"

text \<open>\<open>draw\<close> is the random engine: the index it gives for each position.\<close>

definition generateTempFileName :: "(nat \<Rightarrow> nat) \<Rightarrow> nat \<Rightarrow> string" where
  "generateTempFileName draw n =
     map (\<lambda>i. CHARSET ! (draw i mod length CHARSET)) [0..<n] @ TEMP_FILE_EXTENSION"

definition makefifo :: "'o system \<Rightarrow> string \<Rightarrow> 'o \<Rightarrow> bool \<times> 'o" where
  "makefifo sys pathname w =
     (case getDirectoryAndFileName pathname of (directory, filename) \<Rightarrow>
        if existingDirectory sys directory w then
          (case sys_mkfifo sys pathname (0x100 OR 0x80 OR 0x10) (sys_umask sys 0 w) of
             (r, w') \<Rightarrow> (r \<noteq> - 1, w'))
        else (False, w))"

subsection \<open>The loops\<close>

fun read_loop :: "read_result list \<Rightarrow> string \<Rightarrow> int \<Rightarrow> (int \<times> string \<times> read_result list) outcome" where
  "read_loop [] result tot = Blocked"
| "read_loop (Read_error e # rs) result tot =
     (if e = EINTR then read_loop rs result tot else Done (- 1, result, rs))"
| "read_loop (Read_data d # rs) result tot =
     (if length d \<noteq> READ_BUFFER_SIZE then Done (tot + int (length d), result @ d, rs)
      else read_loop rs (result @ d) (tot + int (length d)))"

text \<open>
  The buffer is the \<^verbatim>\<open>buffer_len\<close> bytes the caller owns; every call reads to its
  beginning.
\<close>

fun read_in_buffer_loop ::
    "nat \<Rightarrow> read_result list \<Rightarrow> string \<Rightarrow> int \<Rightarrow> (int \<times> string \<times> read_result list) outcome" where
  "read_in_buffer_loop buffer_len [] buf size_read = Blocked"
| "read_in_buffer_loop buffer_len (Read_error e # rs) buf size_read =
     (if e = EINTR then read_in_buffer_loop buffer_len rs buf size_read else Done (- 1, buf, rs))"
| "read_in_buffer_loop buffer_len (Read_data d # rs) buf size_read =
     (let buf' = d @ drop (length d) buf; size' = size_read + int (length d)
      in if length d \<noteq> buffer_len then Done (size', buf', rs)
         else read_in_buffer_loop buffer_len rs buf' size')"

definition readInBuffer :: "nat \<Rightarrow> read_result list \<Rightarrow> (int \<times> string \<times> read_result list) outcome" where
  "readInBuffer buffer_len rs =
     (if buffer_len = 0 then Done (0, [], rs)
      else read_in_buffer_loop buffer_len rs (replicate buffer_len NUL) 0)"

text \<open>
  \<^verbatim>\<open>read\<close> into a string: \<open>avail\<close> is what \<^verbatim>\<open>availableSize\<close> gave. With an
  empty string the length passed on, \<^verbatim>\<open>result.size() - 1\<close>, wraps to the largest
  \<^verbatim>\<open>size_t\<close>, and \<^verbatim>\<open>readInBuffer\<close> clears that many bytes.
\<close>

definition resize_string :: "nat \<Rightarrow> string \<Rightarrow> string" where
  "resize_string n s = take n s @ replicate (n - length s) NUL"

definition io_read :: "int \<Rightarrow> read_result list \<Rightarrow> string \<Rightarrow> (int \<times> string \<times> read_result list) outcome" where
  "io_read avail rs result =
     (if avail \<noteq> - 1 then
        (let result1 = (if to_int32 (int (length result)) < avail then resize_string (nat avail) result else result)
         in if length result1 = 0 then Undefined
            else case readInBuffer (length result1 - 1) rs of
                   Done (sz, buf, rs') \<Rightarrow> Done (sz, buf @ drop (length buf) result1, rs')
                 | Blocked \<Rightarrow> Blocked
                 | Undefined \<Rightarrow> Undefined)
      else read_loop rs result 0)"

fun read_line_loop :: "read_result list \<Rightarrow> string \<Rightarrow> nat \<Rightarrow> (nat \<times> string \<times> read_result list) outcome" where
  "read_line_loop [] result tot = Blocked"
| "read_line_loop (Read_error e # rs) result tot =
     (if e = EINTR then read_line_loop rs result tot else Done (tot, result, rs))"
| "read_line_loop (Read_data d # rs) result tot =
     (if d = [] then Done (tot, result, rs)
      else let copiable = takeWhile (\<lambda>ch. ch \<noteq> END_LINE_CHAR) d;
               result' = result @ copiable; tot' = tot + length copiable
           in if length copiable \<noteq> length d then Done (tot', result', rs)
              else read_line_loop rs result' tot')"

definition readLine :: "read_result list \<Rightarrow> string \<Rightarrow> (nat \<times> string \<times> read_result list) outcome" where
  "readLine rs result = read_line_loop rs result 0"

text \<open>\<open>sink\<close> is what the system has taken so far.\<close>

fun write_loop ::
    "write_result list \<Rightarrow> string \<Rightarrow> nat \<Rightarrow> string \<Rightarrow> (nat \<times> string \<times> write_result list) outcome" where
  "write_loop [] data tot sink = (if tot < length data then Blocked else Done (tot, sink, []))"
| "write_loop (Write_error e # ws) data tot sink =
     (if tot < length data then
        (if e = EINTR then write_loop ws data tot sink else Done (tot, sink, ws))
      else Done (tot, sink, Write_error e # ws))"
| "write_loop (Write_count n # ws) data tot sink =
     (if tot < length data then
        write_loop ws data (tot + n) (sink @ take n (drop tot data))
      else Done (tot, sink, Write_count n # ws))"

definition io_write :: "write_result list \<Rightarrow> string \<Rightarrow> string \<Rightarrow> (nat \<times> string \<times> write_result list) outcome" where
  "io_write ws data sink = write_loop ws data 0 sink"

text \<open>\<^verbatim>\<open>send\<close> is one system call; \<open>r\<close> is its result.\<close>

definition io_send :: "write_result \<Rightarrow> string \<Rightarrow> string \<Rightarrow> int \<times> string" where
  "io_send r data sink =
     (case r of Write_error e \<Rightarrow> (- 1, sink) | Write_count n \<Rightarrow> (int n, sink @ take n data))"

definition recv_in_buffer_step :: "nat \<Rightarrow> string \<Rightarrow> string \<Rightarrow> int \<Rightarrow> (int \<times> string) option" where
  "recv_in_buffer_step max_size d buf tot =
     (if d = [] \<or> length d \<le> max_size
      then Some (tot + int (length d), d @ drop (length d) buf) else None)"

fun recv_in_buffer_loop ::
    "nat \<Rightarrow> read_result list \<Rightarrow> string \<Rightarrow> int \<Rightarrow> (int \<times> string \<times> read_result list) outcome" where
  "recv_in_buffer_loop max_size [] buf tot = Blocked"
| "recv_in_buffer_loop max_size (Read_error e # rs) buf tot =
     (if e = EINTR then recv_in_buffer_loop max_size rs buf tot else Done (tot, buf, rs))"
| "recv_in_buffer_loop max_size (Read_data d # rs) buf tot =
     (case recv_in_buffer_step max_size d buf tot of
        Some (tot', buf') \<Rightarrow> Done (tot', buf', rs)
      | None \<Rightarrow> recv_in_buffer_loop max_size rs (d @ drop (length d) buf) (tot + int (length d)))"

definition recvInBuffer ::
    "bool \<Rightarrow> nat \<Rightarrow> read_result list \<Rightarrow> (int \<times> string \<times> read_result list) outcome" where
  "recvInBuffer waitall max_size rs =
     (let buf = replicate max_size NUL
      in if waitall then
           (case rs of [] \<Rightarrow> Blocked
            | Read_error e # rs' \<Rightarrow> Done (- 1, buf, rs')
            | Read_data d # rs' \<Rightarrow> Done (int (length d), d @ drop (length d) buf, rs'))
         else recv_in_buffer_loop max_size rs buf 0)"

text \<open>
  \<^verbatim>\<open>recv\<close> into a string goes through a buffer of \<^verbatim>\<open>READ_BUFFER_SIZE\<close> bytes
  on the stack, whatever \<^verbatim>\<open>max_length\<close> asks the system for.
\<close>

fun recv_loop ::
    "nat \<Rightarrow> read_result list \<Rightarrow> string \<Rightarrow> int \<Rightarrow> (int \<times> string \<times> read_result list) outcome" where
  "recv_loop max_length [] result tot = Blocked"
| "recv_loop max_length (Read_error e # rs) result tot =
     (if e = EINTR then recv_loop max_length rs result tot else Done (tot, result, rs))"
| "recv_loop max_length (Read_data d # rs) result tot =
     (if READ_BUFFER_SIZE < length d then Undefined
      else if d = [] then Done (tot, result, rs)
      else if tot + int (length d) > int max_length
      then Done (int max_length, result @ take (nat (int max_length - tot)) d, rs)
      else if READ_BUFFER_SIZE \<noteq> length d then Done (tot + int (length d), result @ d, rs)
      else recv_loop max_length rs (result @ d) (tot + int (length d)))"

definition io_recv :: "bool \<Rightarrow> nat \<Rightarrow> read_result list \<Rightarrow> (int \<times> string \<times> read_result list) outcome" where
  "io_recv waitall max_length rs =
     (if waitall then
        (case rs of [] \<Rightarrow> Blocked
         | Read_error e # rs' \<Rightarrow> recv_loop max_length rs' [] (- 1)
         | Read_data d # rs' \<Rightarrow>
             if READ_BUFFER_SIZE < length d then Undefined
             else recv_loop max_length rs' d (int (length d)))
      else recv_loop max_length rs [] 0)"

subsection \<open>What the loops do\<close>

lemma read_line_loop_consumes:
  "read_line_loop rs result n = Done (m, s, rs') \<Longrightarrow> length rs' < length rs"
  by (induction rs result n rule: read_line_loop.induct) (auto simp: Let_def less_SucI split: if_splits)

text \<open>The loop of \<^verbatim>\<open>copyTo\<close>: one line at a time, until a read gives none.\<close>

function copy_loop ::
    "read_result list \<Rightarrow> write_result list \<Rightarrow> string \<Rightarrow> (string \<times> read_result list \<times> write_result list) outcome" where
  "copy_loop rs ws sink =
     (case readLine rs [] of
        Blocked \<Rightarrow> Blocked
      | Undefined \<Rightarrow> Undefined
      | Done (n, line, rs') \<Rightarrow>
          if 0 < n then
            (case io_write ws line sink of
               Blocked \<Rightarrow> Blocked
             | Undefined \<Rightarrow> Undefined
             | Done (m, sink', ws') \<Rightarrow> copy_loop rs' ws' sink')
          else Done (sink, rs', ws))"
  by pat_completeness auto
termination
  by (relation "measure (\<lambda>(rs, ws, sink). length rs)") (auto simp: readLine_def dest: read_line_loop_consumes)

declare copy_loop.simps [simp del]

text \<open>
  \<^verbatim>\<open>copyTo\<close> up to its loop: the files it opens. The permissions of the original go
  where \<^verbatim>\<open>openNewFile\<close> takes the flags, and its flags where it takes the permissions.
\<close>

definition copyTo_open :: "'o system \<Rightarrow> string \<Rightarrow> string \<Rightarrow> 'o \<Rightarrow> (fd \<times> fd) option \<times> 'o" where
  "copyTo_open sys original_name copy_name w =
     (if \<not> file_exists sys original_name w then (None, w)
      else if file_exists sys copy_name w then (None, w)
      else case openExistingFile sys original_name E_READ_ONLY 0 w of (existing_fd, w1) \<Rightarrow>
        if existing_fd = NULL_DESCRIPTOR then (None, w1)
        else
          let existing_permissions = fi_permissions (FileInfo (sys_fstat sys existing_fd w1));
              existing_flags = FileStatusFlags (sys_getfl sys) w1 existing_fd
          in case openNewFile sys copy_name E_WRITE_ONLY
                    (perm_flags existing_permissions) (fs_flags existing_flags) w1 of
               (new_fd, w2) \<Rightarrow> (if new_fd = NULL_DESCRIPTOR then None else Some (existing_fd, new_fd), w2))"

definition first_line :: "string \<Rightarrow> string" where
  "first_line d = takeWhile (\<lambda>ch. ch \<noteq> END_LINE_CHAR) d"

lemma readLine_with_newline:
  "END_LINE_CHAR \<in> set d \<Longrightarrow> readLine (Read_data d # rs) [] = Done (length (first_line d), first_line d, rs)"
proof -
  assume "END_LINE_CHAR \<in> set d"
  then have "length (first_line d) < length d"
    unfolding first_line_def by (induction d) auto
  then show ?thesis
    by (auto simp: readLine_def Let_def first_line_def)
qed

lemma io_write_whole: "io_write (Write_count (length data) # ws) data sink =
    (if data = [] then Done (0, sink, Write_count 0 # ws) else Done (length data, sink @ data, ws))"
  by (cases ws rule: list.exhaust; cases "hd ws") (auto simp: io_write_def)

text \<open>Counts a system may answer to \<^verbatim>\<open>write\<close>: at most what was offered.\<close>

fun write_script_ok :: "nat \<Rightarrow> nat \<Rightarrow> write_result list \<Rightarrow> bool" where
  "write_script_ok len tot [] = True"
| "write_script_ok len tot (Write_error e # ws) = write_script_ok len tot ws"
| "write_script_ok len tot (Write_count n # ws) = (len \<le> tot \<or> tot + n \<le> len \<and> write_script_ok len (tot + n) ws)"

lemma write_loop_prefix:
  "write_loop ws data tot sink = Done (n, sink', ws') \<Longrightarrow> write_script_ok (length data) tot ws \<Longrightarrow>
     tot \<le> length data \<Longrightarrow>
     tot \<le> n \<and> n \<le> length data \<and> sink' = sink @ take (n - tot) (drop tot data) \<and>
     (n = length data \<or> (\<exists>e. e \<noteq> EINTR \<and> Write_error e \<in> set ws))"
proof (induction ws data tot sink rule: write_loop.induct)
  case (1 data tot sink)
  then show ?case by (auto split: if_splits)
next
  case (2 e ws data tot sink)
  then show ?case by (auto split: if_splits)
next
  case (3 m ws data tot sink)
  show ?case
  proof (cases "tot < length data")
    case False
    with 3 show ?thesis by auto
  next
    case True
    with 3 have "tot + m \<le> n \<and> n \<le> length data \<and>
        sink' = (sink @ take m (drop tot data)) @ take (n - (tot + m)) (drop (tot + m) data) \<and>
        (n = length data \<or> (\<exists>e. e \<noteq> EINTR \<and> Write_error e \<in> set ws))"
      by auto
    moreover have "take m (drop tot data) @ take (n - (tot + m)) (drop (tot + m) data) =
        take (n - tot) (drop tot data)" if "tot + m \<le> n"
      using that take_add [of m "n - (tot + m)" "drop tot data"] by (simp add: add.commute)
    ultimately show ?thesis by auto
  qed
qed

subsection \<open>Directories and file names\<close>

lemma directory_loop_last:
  "sorted (prev # ps) \<Longrightarrow> distinct (prev # ps) \<Longrightarrow> set ps \<subseteq> {0..<length full} \<Longrightarrow>
     directory_loop full ps (prev, 1, take prev full) =
       (last (prev # ps), 1, take (last (prev # ps)) full)"
proof (induction ps arbitrary: prev)
  case Nil
  then show ?case by simp
next
  case (Cons p ps)
  then have "prev < p" by auto
  then have "take prev full @ take (p - prev) (drop prev full) = take p full"
    using take_add [of prev "p - prev" full] by simp
  with \<open>prev < p\<close> Cons show ?case by simp
qed

lemma directory_loop_start:
  assumes "ps \<noteq> []" and "sorted ps" and "distinct ps" and "set ps \<subseteq> {0..<length full}"
  shows "directory_loop full ps (0, 0, '''') = (last ps, 1, take (last ps) full)"
proof -
  obtain p qs where ps: "ps = p # qs" using assms(1) by (cases ps) auto
  have "directory_loop full ps (0, 0, '''') = directory_loop full qs (p, 1, take p full)"
    by (simp add: ps)
  then show ?thesis
    using directory_loop_last [of p qs full] assms by (simp add: ps)
qed

lemma separator_positions_append:
  assumes "PATH_SEPARATOR \<notin> set file"
  shows "separator_positions (dir @ PATH_SEPARATOR # file) = separator_positions dir @ [length dir]"
proof -
  let ?s = "dir @ PATH_SEPARATOR # file"
  have u: "[0..<length ?s] = [0..<length dir] @ length dir # [Suc (length dir)..<length ?s]"
    using upt_add_eq_append [of 0 "length dir" "Suc (length file)"] upt_conv_Cons [of "length dir" "length ?s"]
    by simp
  have l: "filter (\<lambda>i. ?s ! i = PATH_SEPARATOR) [0..<length dir] = separator_positions dir"
    unfolding separator_positions_def by (rule filter_cong) (auto simp: nth_append)
  have r: "filter (\<lambda>i. ?s ! i = PATH_SEPARATOR) [Suc (length dir)..<length ?s] = []"
  proof -
    have "?s ! i \<noteq> PATH_SEPARATOR" if "i \<in> {Suc (length dir)..<length ?s}" for i
    proof -
      have "?s ! i = file ! (i - Suc (length dir))"
        using that by (simp add: nth_append nth_Cons')
      moreover have "file ! (i - Suc (length dir)) \<in> set file"
        using that by (intro nth_mem) auto
      ultimately show ?thesis using assms by metis
    qed
    then show ?thesis by (simp add: filter_empty_conv del: length_append)
  qed
  show ?thesis
    unfolding separator_positions_def [of ?s] u using l r by (simp add: nth_append)
qed

lemma separator_positions_sorted: "sorted (separator_positions s)"
  unfolding separator_positions_def using sorted_filter [of "\<lambda>x. x" "[0..<length s]"] by simp

lemma copy_loop_blocks:
  "(\<And>d. d \<in> set ds \<Longrightarrow> END_LINE_CHAR \<in> set d \<and> first_line d \<noteq> []) \<Longrightarrow>
   copy_loop (map Read_data ds @ [Read_data []]) (map (\<lambda>d. Write_count (length (first_line d))) ds) sink =
    Done (sink @ concat (map first_line ds), [], [])"
proof (induction ds arbitrary: sink)
  case Nil
  then show ?case by (subst copy_loop.simps) (simp add: readLine_def)
next
  case (Cons d ds)
  have "io_write (Write_count (length (first_line d)) # map (\<lambda>d. Write_count (length (first_line d))) ds)
      (first_line d) sink = Done (length (first_line d), sink @ first_line d,
        map (\<lambda>d. Write_count (length (first_line d))) ds)"
    using Cons.prems [of d] by (simp add: io_write_whole)
  moreover have "readLine (Read_data d # map Read_data ds @ [Read_data []]) [] =
      Done (length (first_line d), first_line d, map Read_data ds @ [Read_data []])"
    using Cons.prems [of d] by (intro readLine_with_newline) simp
  ultimately show ?case
    using Cons by (subst copy_loop.simps) simp
qed

lemma path_split:
  assumes "directory \<noteq> []" and "filename \<noteq> []" and "PATH_SEPARATOR \<notin> set filename"
  shows "getDirectoryAndFileName (fullPath filename directory) = (directory, filename)"
proof -
  let ?s = "directory @ PATH_SEPARATOR # filename" and ?ps = "separator_positions directory @ [length directory]"
  have s: "fullPath filename directory = ?s" using assms(1,2) by (simp add: fullPath_def)
  have ps: "separator_positions ?s = ?ps" using assms(3) by (rule separator_positions_append)
  have "directory_loop ?s ?ps (0, 0, '''') = (last ?ps, 1, take (last ?ps) ?s)"
  proof (rule directory_loop_start)
    show "sorted ?ps" using separator_positions_sorted [of ?s] by (simp only: ps)
    show "distinct ?ps" using ps by (metis separator_positions_def distinct_filter distinct_upt)
    show "set ?ps \<subseteq> {0..<length ?s}" by (auto simp: separator_positions_def)
  qed simp
  then show ?thesis
    by (simp add: getDirectoryAndFileName_def s ps)
qed

subsection \<open>Properties\<close>

text \<open>
  Splitting a path made of a directory and a file name gives both back, whatever separators
  the directory contains, its first and its last character included.
\<close>

theorem path_round_trip:
  assumes "directory \<noteq> []" and "filename \<noteq> []" and "PATH_SEPARATOR \<notin> set filename"
  shows "getDirectoryAndFileName (fullPath filename directory) = (directory, filename)"
  using assms by (rule path_split)

theorem path_round_trip_witness:
  "getDirectoryAndFileName (fullPath ''fifo'' ''/tmp'') = (''/tmp'', ''fifo'')"
  by (rule path_round_trip) (simp_all add: PATH_SEPARATOR_def)

text \<open>
  C23: \<^verbatim>\<open>write\<close> hands over a prefix of the data, exactly as long as the count it returns:
  all of it unless a call fails with something other than EINTR, whatever partial counts the
  system answers.
\<close>

theorem write_hands_over_prefix:
  assumes "io_write ws data sink = Done (n, sink', ws')" and "write_script_ok (length data) 0 ws"
  shows "n \<le> length data \<and> sink' = sink @ take n data \<and>
    (n = length data \<or> (\<exists>e. e \<noteq> EINTR \<and> Write_error e \<in> set ws))"
  using write_loop_prefix [of ws data 0 sink n sink' ws'] assms by (simp add: io_write_def)

theorem write_hands_over_prefix_witness:
  "\<exists>n sink' ws'. io_write [Write_count 2, Write_error EINTR, Write_count 3] ''hello'' [] = Done (n, sink', ws') \<and>
      sink' = take n ''hello''"
  using write_hands_over_prefix [of "[Write_count 2, Write_error EINTR, Write_count 3]" "''hello''" "[]" 5
      "''hello''" "[]"]
  by (simp add: io_write_def)

text \<open>
  \<^verbatim>\<open>copyTo\<close> does not copy: of every block that \<^verbatim>\<open>read\<close> delivers it writes
  the part before the first newline, and drops the newline and everything behind it. Here each
  block holds a newline that is not its first character, and every write is complete.
\<close>

theorem copyTo_drops_lines:
  assumes "list_all (\<lambda>d. END_LINE_CHAR \<in> set d \<and> first_line d \<noteq> []) ds"
  shows "copy_loop (map Read_data ds @ [Read_data []])
      (map (\<lambda>d. Write_count (length (first_line d))) ds) sink =
    Done (sink @ concat (map first_line ds), [], [])"
  using assms by (intro copy_loop_blocks) (auto simp: list_all_iff)

theorem copyTo_drops_lines_witness:
  "copy_loop [Read_data (''one'' @ [END_LINE_CHAR] @ ''two''), Read_data []] [Write_count 3] [] =
     Done (''one'', [], [])"
  using copyTo_drops_lines [of "[''one'' @ [END_LINE_CHAR] @ ''two'']" "[]"]
  by (simp add: first_line_def END_LINE_CHAR_def eval_nat_numeral)

text \<open>
  Reading a whole seekable file into an empty string damages it: the system first fills the
  buffer, one byte short of the file, and the last byte, delivered by the second call, overwrites
  the first; the last character of the string stays NUL, and the count returned is the file's
  length.
\<close>

theorem read_file_damaged:
  assumes "3 \<le> length d" and "length d < 2 ^ 31"
  shows "io_read (int (length d)) [Read_data (butlast d), Read_data [last d]] [] =
    Done (int (length d), last d # tl (butlast d) @ [NUL], [])"
proof -
  let ?n = "length d"
  have r: "to_int32 (int (length [])) < int ?n" using assms by (auto simp: to_int32_def)
  have ne: "d \<noteq> []" using assms(1) by auto
  have b: "readInBuffer (?n - 1) [Read_data (butlast d), Read_data [last d]] =
      Done (int ?n, last d # tl (butlast d), [])"
    using assms ne by (simp add: readInBuffer_def Let_def drop_Suc of_nat_diff)
  have l: "length (last d # tl (butlast d)) = ?n - 1" using assms by simp

  have "drop (?n - 1) (resize_string ?n []) = [NUL]"
    using assms by (simp add: resize_string_def)
  then show ?thesis
    using r b l ne assms by (simp add: io_read_def Let_def resize_string_def)
qed

theorem read_file_damaged_witness:
  "io_read 4 [Read_data ''dat'', Read_data ''a''] [] = Done (4, ''aat'' @ [NUL], [])"
  using read_file_damaged [of "''data''"] by simp

text \<open>
  At the end of a seekable file, \<^verbatim>\<open>read\<close> into an empty string is undefined: the
  length \<^verbatim>\<open>size() - 1\<close> wraps around.
\<close>

theorem read_at_end_undefined:
  "io_read 0 rs [] = Undefined"
  by (simp add: io_read_def to_int32_def)

text \<open>
  \<^verbatim>\<open>recvInBuffer\<close> never loops over data: the test that ends it holds for every result
  the system may give, so one successful call is all it makes, however much is missing.
\<close>

theorem recvInBuffer_single_call:
  assumes "length d \<le> max_size"
  shows "recvInBuffer waitall max_size (Read_data d # rs) =
    Done (int (length d), d @ replicate (max_size - length d) NUL, rs)"
  using assms by (simp add: recvInBuffer_def recv_in_buffer_step_def Let_def)

theorem recvInBuffer_single_call_witness:
  "recvInBuffer False 4 [Read_data ''ab'', Read_data ''cd''] = Done (2, ''ab'' @ [NUL, NUL], [Read_data ''cd''])"
  using recvInBuffer_single_call [of "''ab''" 4 False "[Read_data ''cd'']"] by (simp add: eval_nat_numeral)

text \<open>
  With \<^verbatim>\<open>MSG_WAITALL\<close>, \<^verbatim>\<open>recv\<close> into a string calls the system once more
  after the complete message has arrived: it stays blocked until the peer sends again or closes.
\<close>

theorem recv_waitall_blocks:
  assumes "length d \<le> READ_BUFFER_SIZE"
  shows "io_recv True max_length [Read_data d] = Blocked"
  using assms by (simp add: io_recv_def)

theorem recv_waitall_blocks_witness:
  "io_recv True 5 [Read_data ''hello''] = Blocked"
  by (rule recv_waitall_blocks) (simp add: READ_BUFFER_SIZE_def)

end
