(* ===== verification/ResourceHandler.thy ===== *)
theory ResourceHandler
  imports Prelude
begin

text \<open>
  \<^verbatim>\<open>UnixResourceHandler\<close> (TransportInfra/Policies/UnixResourceHandler.h and .cpp), the
  owner of a descriptor that devices, connectors and acceptors are built on. The system's
  \<^verbatim>\<open>dup\<close>, \<^verbatim>\<open>close\<close> and \<^verbatim>\<open>fcntl(F_GETFD)\<close> are parameters on a kernel
  state of any type.
\<close>

record resource_handler =
  m_handle :: fd
  m_open :: bool

record 'k fd_kernel =
  k_dup :: "fd \<Rightarrow> 'k \<Rightarrow> fd \<times> 'k"
  k_close :: "fd \<Rightarrow> 'k \<Rightarrow> int \<times> 'k"
  k_getfd_ok :: "fd \<Rightarrow> 'k \<Rightarrow> bool"

definition DEFAULT_VALUE :: fd where "DEFAULT_VALUE = - 1"

definition defaultHandle :: "resource_handler \<Rightarrow> bool" where
  "defaultHandle r = (DEFAULT_VALUE = m_handle r)"

definition UnixResourceHandler :: "fd \<Rightarrow> resource_handler" where
  "UnixResourceHandler h = \<lparr>m_handle = h, m_open = (h \<noteq> DEFAULT_VALUE)\<rparr>"

definition rh_close :: "'k fd_kernel \<Rightarrow> resource_handler \<Rightarrow> 'k \<Rightarrow> bool \<times> resource_handler \<times> 'k" where
  "rh_close K r k =
     (if defaultHandle r then (True, r, k)
      else case k_close K (m_handle r) k of
             (res, k') \<Rightarrow> if res \<noteq> - 1 then (True, r\<lparr>m_open := False\<rparr>, k') else (False, r, k'))"

definition acquire :: "'k fd_kernel \<Rightarrow> fd \<Rightarrow> resource_handler \<Rightarrow> 'k \<Rightarrow> resource_handler \<times> 'k" where
  "acquire K h r k =
     (case (if \<not> defaultHandle r \<and> h \<noteq> m_handle r then snd (rh_close K r k) else (r, k)) of
        (r1, k1) \<Rightarrow> (r1\<lparr>m_open := True, m_handle := h\<rparr>, k1))"

definition release :: "resource_handler \<Rightarrow> fd \<times> resource_handler" where
  "release r = (m_handle r, r\<lparr>m_handle := DEFAULT_VALUE, m_open := False\<rparr>)"

definition rh_copy :: "'k fd_kernel \<Rightarrow> resource_handler \<Rightarrow> 'k \<Rightarrow> resource_handler \<times> 'k" where
  "rh_copy K other k =
     (let r = \<lparr>m_handle = DEFAULT_VALUE, m_open = m_open other\<rparr>
      in if DEFAULT_VALUE \<noteq> m_handle other then
           (case k_dup K (m_handle other) k of (h, k') \<Rightarrow> acquire K h r k')
         else (r, k))"

text \<open>The new object and what is left of the other.\<close>

definition rh_move :: "resource_handler \<Rightarrow> resource_handler \<times> resource_handler" where
  "rh_move other =
     (\<lparr>m_handle = m_handle other, m_open = m_open other\<rparr>,
      other\<lparr>m_open := False, m_handle := DEFAULT_VALUE\<rparr>)"

text \<open>\<open>same\<close> is whether both sides are one object; \<open>other\<close> is then not used.\<close>

definition rh_copy_assign ::
    "'k fd_kernel \<Rightarrow> bool \<Rightarrow> resource_handler \<Rightarrow> resource_handler \<Rightarrow> 'k \<Rightarrow> resource_handler \<times> 'k" where
  "rh_copy_assign K same this other k =
     (case snd (rh_close K this k) of
        (this1, k1) \<Rightarrow>
          if \<not> same then (case k_dup K (m_handle other) k1 of (h, k2) \<Rightarrow> acquire K h this1 k2)
          else (this1, k1))"

definition rh_move_assign ::
    "'k fd_kernel \<Rightarrow> resource_handler \<Rightarrow> resource_handler \<Rightarrow> 'k \<Rightarrow>
     (resource_handler \<times> resource_handler) \<times> 'k" where
  "rh_move_assign K this other k =
     (case snd (rh_close K this k) of
        (this1, k1) \<Rightarrow>
          (case release other of
             (h, other1) \<Rightarrow> (case acquire K h this1 k1 of (this2, k2) \<Rightarrow> ((this2, other1), k2))))"

definition rh_self_move_assign :: "'k fd_kernel \<Rightarrow> resource_handler \<Rightarrow> 'k \<Rightarrow> resource_handler \<times> 'k" where
  "rh_self_move_assign K this k =
     (case snd (rh_close K this k) of
        (this1, k1) \<Rightarrow> (case release this1 of (h, this2) \<Rightarrow> acquire K h this2 k1))"

definition rh_destroy :: "'k fd_kernel \<Rightarrow> resource_handler \<Rightarrow> 'k \<Rightarrow> 'k" where
  "rh_destroy K r k = snd (snd (rh_close K r k))"

definition rh_open :: "'k fd_kernel \<Rightarrow> resource_handler \<Rightarrow> 'k \<Rightarrow> bool" where
  "rh_open K r k = k_getfd_ok K (m_handle r) k"

subsection \<open>What is closed, and how often\<close>

text \<open>
  A kernel that keeps the list of the descriptors it was asked to close, in order, and hands
  out the descriptors of a list when it duplicates.
\<close>

record close_log =
  closed :: "fd list"
  next_fds :: "fd list"

definition log_kernel :: "close_log fd_kernel" where
  "log_kernel =
     \<lparr>k_dup = \<lambda>h k. (case next_fds k of [] \<Rightarrow> (- 1, k) | d # ds \<Rightarrow> (d, k\<lparr>next_fds := ds\<rparr>)),
      k_close = \<lambda>h k. (0, k\<lparr>closed := closed k @ [h]\<rparr>),
      k_getfd_ok = \<lambda>h k. h \<notin> set (closed k)\<rparr>"

lemma log_kernel_simps [simp]:
  "k_close log_kernel h k = (0, k\<lparr>closed := closed k @ [h]\<rparr>)"
  "k_getfd_ok log_kernel h k = (h \<notin> set (closed k))"
  by (simp_all add: log_kernel_def)

lemma rh_close_log:
  "rh_close log_kernel r k =
     (if m_handle r = - 1 then (True, r, k)
      else (True, r\<lparr>m_open := False\<rparr>, k\<lparr>closed := closed k @ [m_handle r]\<rparr>))"
  by (simp add: rh_close_def defaultHandle_def DEFAULT_VALUE_def)

subsection \<open>Properties\<close>

text \<open>
  Taking over a handler with the move constructor and destroying both objects closes the
  descriptor exactly once.
\<close>

theorem move_then_destroy_closes_once:
  assumes "rh_move r = (r1, r2)" and "m_handle r \<noteq> - 1"
  shows "closed (rh_destroy log_kernel r2 (rh_destroy log_kernel r1 k)) = closed k @ [m_handle r]"
  using assms by (auto simp: rh_move_def rh_destroy_def rh_close_log DEFAULT_VALUE_def)

theorem move_then_destroy_closes_once_witness:
  "closed (rh_destroy log_kernel (snd (rh_move (UnixResourceHandler 4)))
      (rh_destroy log_kernel (fst (rh_move (UnixResourceHandler 4))) \<lparr>closed = [], next_fds = []\<rparr>)) = [4]"
  using move_then_destroy_closes_once [of "UnixResourceHandler 4" "fst (rh_move (UnixResourceHandler 4))"
      "snd (rh_move (UnixResourceHandler 4))" "\<lparr>closed = [], next_fds = []\<rparr>"]
  by (simp add: UnixResourceHandler_def)

text \<open>
  Move assignment over a handler that owns a descriptor hands the other's descriptor over and
  leaves the other empty, but closes the old descriptor twice: \<^verbatim>\<open>close\<close> keeps the handle,
  so \<^verbatim>\<open>acquire\<close> closes it again. A descriptor another thread was given in between is lost.
\<close>

theorem move_assign_closes_twice:
  assumes "m_handle this \<noteq> - 1" and "m_handle other \<noteq> m_handle this"
    and "rh_move_assign log_kernel this other k = ((this', other'), k')"
  shows "closed k' = closed k @ [m_handle this, m_handle this] \<and>
    m_handle this' = m_handle other \<and> m_open this' \<and> m_handle other' = - 1"
  using assms
  by (auto simp: rh_move_assign_def rh_close_log release_def acquire_def defaultHandle_def DEFAULT_VALUE_def)

theorem move_assign_closes_twice_witness:
  "closed (snd (rh_move_assign log_kernel (UnixResourceHandler 4) (UnixResourceHandler 5)
      \<lparr>closed = [], next_fds = []\<rparr>)) = [4, 4]"
proof -
  obtain a b k where r: "rh_move_assign log_kernel (UnixResourceHandler 4) (UnixResourceHandler 5)
      \<lparr>closed = [], next_fds = []\<rparr> = ((a, b), k)"
    by (metis surj_pair)
  show ?thesis
    unfolding r using move_assign_closes_twice [OF _ _ r] by (simp add: UnixResourceHandler_def)
qed

text \<open>
  Assigning a handler to itself by copy closes its descriptor and keeps the number: the object
  holds a descriptor that is no longer open, and its destructor closes that number again.
\<close>

theorem self_copy_assign_dangles:
  assumes "m_handle this \<noteq> - 1" and "rh_copy_assign log_kernel True this this k = (this', k')"
  shows "m_handle this' = m_handle this \<and> \<not> rh_open log_kernel this' k' \<and>
    closed (rh_destroy log_kernel this' k') = closed k @ [m_handle this, m_handle this]"
  using assms
  by (auto simp: rh_copy_assign_def rh_close_log rh_open_def rh_destroy_def)

theorem self_copy_assign_dangles_witness:
  "\<not> rh_open log_kernel
      (fst (rh_copy_assign log_kernel True (UnixResourceHandler 4) (UnixResourceHandler 4)
         \<lparr>closed = [], next_fds = []\<rparr>))
      (snd (rh_copy_assign log_kernel True (UnixResourceHandler 4) (UnixResourceHandler 4)
         \<lparr>closed = [], next_fds = []\<rparr>))"
  using self_copy_assign_dangles [of "UnixResourceHandler 4" "\<lparr>closed = [], next_fds = []\<rparr>"]
  by (simp add: UnixResourceHandler_def)

end
