(* ===== verification/Configuration.thy ===== *)
theory Configuration
  imports LinuxIO
begin

text \<open>
  The configuration files: the parser \<^verbatim>\<open>fillTable\<close> (Configuration/ConfigurationReader.cpp),
  the book that holds the parsed table (ConfigurationBook.cpp and .hpp), the conversions of values
  (UtilitiesInfra/ConversionUtils.h) and the reader of device types
  (TransportInfra/ConnectorClient.cpp). Positions in the content are numbers, the end being the
  length; \<^verbatim>\<open>std::from_chars\<close> and \<^verbatim>\<open>std::to_chars\<close> are modelled for
  integers.
\<close>

type_synonym key_values = "(string \<times> string) list"
type_synonym section_table = "(string \<times> key_values) list"

definition newline :: char where "newline = CHR 0x0A"

subsection \<open>The parser\<close>

text \<open>A search from a position: where the character is, or the end.\<close>

definition search_from :: "char \<Rightarrow> string \<Rightarrow> nat \<Rightarrow> nat" where
  "search_from c s p = p + length (takeWhile (\<lambda>x. x \<noteq> c) (drop p s))"

text \<open>The backward search for the newline before a position: the position behind it.\<close>

definition line_start :: "string \<Rightarrow> nat \<Rightarrow> nat" where
  "line_start s p = p - length (takeWhile (\<lambda>x. x \<noteq> newline) (rev (take p s)))"

definition substr :: "string \<Rightarrow> nat \<Rightarrow> nat \<Rightarrow> string" where
  "substr s p n = take n (drop p s)"

lemma search_from_ge: "p \<le> search_from c s p"
  by (simp add: search_from_def)

text \<open>
  The pairs of one section: \<open>kv\<close> is the position of an equals sign, or the end; the next one is
  looked for behind the end of the line.
\<close>

function pairs_loop :: "string \<Rightarrow> nat \<Rightarrow> nat \<Rightarrow> key_values" where
  "pairs_loop s section_open kv =
     (if kv < section_open then
        (let next_line = search_from newline s (Suc kv);
             after_next_line = (if next_line < length s then Suc next_line else next_line);
             start = line_start s kv
         in (substr s start (kv - start), substr s (Suc kv) (next_line - Suc kv)) #
            pairs_loop s section_open (search_from (CHR ''='') s after_next_line))
      else [])"
  by pat_completeness auto
termination
proof (relation "measure (\<lambda>(s, section_open, kv). section_open - kv)", goal_cases)
  case 1
  show ?case by simp
next
  case (2 s section_open kv next_line after_next_line start)
  have "kv < next_line" using search_from_ge [of "Suc kv" newline s] 2(2) by simp
  also have "next_line \<le> after_next_line" using 2(3) by simp
  also have "after_next_line \<le> search_from (CHR ''='') s after_next_line" by (rule search_from_ge)
  finally show ?case using 2(1) by simp
qed

declare pairs_loop.simps [simp del]

text \<open>
  The sections, from the position of an opening bracket on. Between the first equals sign and
  the next section \<^verbatim>\<open>std::count\<close> runs: over an invalid range, which is undefined, when the
  equals sign lies behind the next section's bracket.
\<close>

function sections_loop :: "string \<Rightarrow> nat \<Rightarrow> section_table \<Rightarrow> section_table option" where
  "sections_loop s section_open t =
     (if length s \<le> section_open then Some t
      else let section_close = search_from (CHR '']'') s (Suc section_open)
           in if length s \<le> section_close then Some t
              else let name = substr s (Suc section_open) (section_close - Suc section_open);
                       kv = search_from (CHR ''='') s (Suc section_close);
                       section_open' = search_from (CHR ''['') s (Suc section_open)
                   in if section_open' < kv then None
                      else sections_loop s section_open'
                             (AList.update name (pairs_loop s section_open' kv) t))"
  by pat_completeness auto
termination
proof (relation "measure (\<lambda>(s, section_open, t). length s - section_open)", goal_cases)
  case 1
  show ?case by simp
next
  case (2 s section_open t section_close name kv section_open')
  then show ?case using search_from_ge [of "Suc section_open" "CHR ''[''" s] by simp
qed

declare sections_loop.simps [simp del]

definition fillTable :: "string \<Rightarrow> (bool \<times> section_table) option" where
  "fillTable content =
     map_option (\<lambda>t. (t \<noteq> [], t)) (sections_loop content (search_from (CHR ''['') content 0) [])"

text \<open>
  The file stream: \<open>None\<close> when no file is open, else the characters left to read and whether
  the stream's positions are known.
\<close>

record file_stream =
  stream_rest :: string
  stream_seekable :: bool

definition streamSize :: "file_stream \<Rightarrow> int" where
  "streamSize f = (if stream_seekable f then int (length (stream_rest f)) else - 1)"

definition readContent :: "file_stream \<Rightarrow> string \<Rightarrow> bool \<times> string \<times> file_stream" where
  "readContent f result =
     (if streamSize f = - 1 then (False, result, f)
      else (True, stream_rest f, f\<lparr>stream_rest := ''''\<rparr>))"

record configuration_book =
  file_content :: string
  reader_stream :: "file_stream option"
  section_tab :: section_table

definition readIn :: "configuration_book \<Rightarrow> bool \<times> configuration_book" where
  "readIn b =
     (case reader_stream b of
        None \<Rightarrow> (False, b)
      | Some f \<Rightarrow> (case readContent f (file_content b) of
                     (ok, content, f') \<Rightarrow> (ok, b\<lparr>file_content := content, reader_stream := Some f'\<rparr>)))"

definition book_init :: "configuration_book \<Rightarrow> (bool \<times> configuration_book) option" where
  "book_init b =
     (if reader_stream b = None then Some (False, b)
      else case readIn b of (ok, b1) \<Rightarrow>
             if ok then map_option (\<lambda>(r, t). (r, b1\<lparr>section_tab := t\<rparr>)) (fillTable (file_content b1))
             else Some (False, b1))"

text \<open>\<open>files\<close> is the file system: opening a name gives its stream, or fails.\<close>

definition book_initFrom ::
    "(string \<Rightarrow> file_stream option) \<Rightarrow> string \<Rightarrow> configuration_book \<Rightarrow> (bool \<times> configuration_book) option" where
  "book_initFrom files file_name b =
     (let b1 = b\<lparr>reader_stream := files file_name\<rparr>
      in if reader_stream b1 \<noteq> None then book_init b1 else Some (False, b1))"

definition book_isReady :: "configuration_book \<Rightarrow> bool" where
  "book_isReady b = (\<not> List.null (section_tab b))"

definition book_printTable :: "configuration_book \<Rightarrow> string" where
  "book_printTable b =
     concat (map (\<lambda>(name, kvs). ''Section: '' @ name @ [newline] @
                     concat (map (\<lambda>(k, v). k @ ''='' @ v @ [newline]) kvs)) (section_tab b))"

definition findValueInTable :: "string \<Rightarrow> string \<Rightarrow> configuration_book \<Rightarrow> string option" where
  "findValueInTable sect k b =
     (case map_of (section_tab b) sect of
        Some container \<Rightarrow> map_option snd (find (\<lambda>p. fst p = k) container)
      | None \<Rightarrow> None)"

subsection \<open>Conversions\<close>

definition is_digit :: "char \<Rightarrow> bool" where
  "is_digit c = (48 \<le> (of_char c :: nat) \<and> (of_char c :: nat) \<le> 57)"

definition digit_of :: "char \<Rightarrow> nat" where
  "digit_of c = of_char c - 48"

definition char_of_digit :: "nat \<Rightarrow> char" where
  "char_of_digit n = char_of (n + 48)"

fun read_digits :: "string \<Rightarrow> nat \<Rightarrow> nat" where
  "read_digits [] n = n"
| "read_digits (c # cs) n = (if is_digit c then read_digits cs (10 * n + digit_of c) else n)"

text \<open>
  \<^verbatim>\<open>std::from_chars\<close> for the integers from \<open>lo\<close> to \<open>hi\<close>: a minus sign for signed types
  only, at least one digit, the longest run of digits, and an error without a result when the
  number is out of range.
\<close>

definition from_chars :: "int \<Rightarrow> int \<Rightarrow> string \<Rightarrow> int option" where
  "from_chars lo hi s =
     (let neg = (lo < 0 \<and> s \<noteq> [] \<and> hd s = CHR ''-'');
          ds = (if neg then tl s else s);
          n = int (read_digits ds 0);
          v = (if neg then - n else n)
      in if ds = [] \<or> \<not> is_digit (hd ds) \<or> v < lo \<or> hi < v then None else Some v)"

function nat_digits :: "nat \<Rightarrow> string" where
  "nat_digits n = (if n < 10 then [char_of_digit n] else nat_digits (n div 10) @ [char_of_digit (n mod 10)])"
  by pat_completeness auto
termination by (relation "measure id") auto

declare nat_digits.simps [simp del]

definition int_digits :: "int \<Rightarrow> string" where
  "int_digits v = (if v < 0 then CHR ''-'' # nat_digits (nat (- v)) else nat_digits (nat v))"

definition ARITHMETIC_BUFFER_LEN :: nat where "ARITHMETIC_BUFFER_LEN = 15"

text \<open>The text and its length, when it fits the buffer.\<close>

definition toStringInBuffer :: "int \<Rightarrow> nat \<Rightarrow> string option" where
  "toStringInBuffer v len = (if length (int_digits v) \<le> len then Some (int_digits v) else None)"

text \<open>
  The buffer is cleared and then read as a C string: a text that fills it completely has no
  terminator, and reading goes on behind the buffer.
\<close>

definition toString :: "int \<Rightarrow> string outcome" where
  "toString v =
     (case toStringInBuffer v ARITHMETIC_BUFFER_LEN of
        Some s \<Rightarrow> if length s = ARITHMETIC_BUFFER_LEN then Undefined else Done s
      | None \<Rightarrow> Done '''')"

definition toArithmetic :: "int \<Rightarrow> int \<Rightarrow> string \<Rightarrow> int" where
  "toArithmetic lo hi s = (case from_chars lo hi s of Some v \<Rightarrow> v | None \<Rightarrow> 0)"

text \<open>The out parameter keeps its value when the conversion fails.\<close>

definition toArithmetic_into :: "int \<Rightarrow> int \<Rightarrow> string \<Rightarrow> int \<Rightarrow> bool \<times> int" where
  "toArithmetic_into lo hi s converted_val =
     (case from_chars lo hi s of Some v \<Rightarrow> (True, v) | None \<Rightarrow> (False, converted_val))"

text \<open>
  \<^verbatim>\<open>Helper<T>::convert\<close>: for arithmetic types, and for types a string view can be
  assigned to. Every other type converts to nothing.
\<close>

definition convert_arithmetic :: "int \<Rightarrow> int \<Rightarrow> string \<Rightarrow> int \<Rightarrow> bool \<times> int" where
  "convert_arithmetic lo hi v out = toArithmetic_into lo hi v out"

definition convert_string :: "string \<Rightarrow> string \<Rightarrow> bool \<times> string" where
  "convert_string v out = (True, v)"

definition convert_other :: "string \<Rightarrow> 'a \<Rightarrow> bool \<times> 'a" where
  "convert_other v out = (False, out)"

definition valueFor ::
    "(string \<Rightarrow> 'a \<Rightarrow> bool \<times> 'a) \<Rightarrow> string \<Rightarrow> string \<Rightarrow> 'a \<Rightarrow> configuration_book \<Rightarrow> bool \<times> 'a" where
  "valueFor convert sect k out b =
     (case findValueInTable sect k b of None \<Rightarrow> (False, out) | Some v \<Rightarrow> convert v out)"

text \<open>
  The elements of a value separated by a one-character separator; each element is converted
  into a fresh value \<open>dflt\<close>.
\<close>

function collection_loop ::
    "(string \<Rightarrow> 'a \<Rightarrow> bool \<times> 'a) \<Rightarrow> 'a \<Rightarrow> char \<Rightarrow> string \<Rightarrow> nat \<Rightarrow> bool \<times> 'a list \<Rightarrow> bool \<times> 'a list" where
  "collection_loop convert dflt sep s start (res, out) =
     (if length s \<le> start then (res, out)
      else let sub_end = search_from sep s start;
               after_sub_end = (if sub_end < length s then Suc sub_end else sub_end)
           in case convert (substr s start (sub_end - start)) dflt of
                (ok, v) \<Rightarrow> collection_loop convert dflt sep s after_sub_end
                             (if ok then (True, out @ [v]) else (res, out)))"
  by pat_completeness auto
termination
proof (relation "measure (\<lambda>(c, d, sep, s, start, r). length s - start)", goal_cases)
  case 1
  show ?case by simp
next
  case (2 convert dflt sep s start res out sub_end after_sub_end)
  have "start < after_sub_end"
  proof (cases "sub_end < length s")
    case True
    then show ?thesis using search_from_ge [of start sep s] 2(2,3) by simp
  next
    case False
    then show ?thesis using 2(1,3) by simp
  qed
  then show ?case using 2(1) by simp
qed

declare collection_loop.simps [simp del]

definition collectionFor ::
    "(string \<Rightarrow> 'a \<Rightarrow> bool \<times> 'a) \<Rightarrow> 'a \<Rightarrow> char \<Rightarrow> string \<Rightarrow> string \<Rightarrow> 'a list \<Rightarrow> configuration_book \<Rightarrow>
     bool \<times> 'a list" where
  "collectionFor convert dflt sep sect k out b =
     (case findValueInTable sect k b of
        None \<Rightarrow> (False, out)
      | Some s \<Rightarrow> collection_loop convert dflt sep s 0 (False, out))"

subsection \<open>Device types from a configuration\<close>

datatype device_type =
    E_UNDEFINED_DEVICE
  | E_IPV4_TCP_SOCKET_DEVICE
  | E_IPV4_UDP_SOCKET_DEVICE
  | E_IPV6_TCP_SOCKET_DEVICE
  | E_IPV6_UDP_SOCKET_DEVICE
  | E_UNIX_STREAM_SOCKET_DEVICE
  | E_UNIX_DGRAM_SOCKET_DEVICE
  | E_READING_FIFO_DEVICE
  | E_WRITING_FIFO_DEVICE
  | E_LAST_DEVICE

definition lower_char :: "char \<Rightarrow> char" where
  "lower_char c = (if 65 \<le> (of_char c :: nat) \<and> (of_char c :: nat) \<le> 90 then char_of ((of_char c :: nat) + 32) else c)"

definition toLower :: "string \<Rightarrow> string" where
  "toLower s = map lower_char s"

definition SocketConfigInfoToType :: "(string \<times> (string \<times> device_type) list) list" where
  "SocketConfigInfoToType =
     [(''datagram'', [(''ipv4'', E_IPV4_UDP_SOCKET_DEVICE),
                      (''ipv6'', E_IPV4_UDP_SOCKET_DEVICE),
                      (''unix'', E_UNIX_DGRAM_SOCKET_DEVICE)]),
      (''stream'', [(''ipv4'', E_IPV4_TCP_SOCKET_DEVICE),
                    (''ipv6'', E_IPV4_TCP_SOCKET_DEVICE),
                    (''unix'', E_UNIX_STREAM_SOCKET_DEVICE)])]"

definition getSocketDeviceType :: "configuration_book \<Rightarrow> string \<Rightarrow> device_type" where
  "getSocketDeviceType book sect =
     (case valueFor convert_string sect ''SOCKET_TYPE'' '''' book of (found_type, socket_type) \<Rightarrow>
        if \<not> found_type then E_UNDEFINED_DEVICE
        else case valueFor convert_string sect ''SOCKET_DOMAIN'' '''' book of (found_dom, socket_dom) \<Rightarrow>
          if \<not> found_dom then E_UNDEFINED_DEVICE
          else case map_of SocketConfigInfoToType (toLower socket_type) of
                 None \<Rightarrow> E_UNDEFINED_DEVICE
               | Some domains \<Rightarrow> (case map_of domains (toLower socket_dom) of
                                   None \<Rightarrow> E_UNDEFINED_DEVICE | Some d \<Rightarrow> d))"

definition getPipeDeviceType :: "configuration_book \<Rightarrow> string \<Rightarrow> device_type" where
  "getPipeDeviceType book sect =
     (case valueFor convert_string sect ''PROFILE'' '''' book of (found, profile) \<Rightarrow>
        if \<not> found then E_UNDEFINED_DEVICE
        else if toLower profile = ''write'' then E_READING_FIFO_DEVICE
        else if toLower profile = ''read'' then E_WRITING_FIFO_DEVICE
        else E_UNDEFINED_DEVICE)"

definition getDeviceType :: "configuration_book \<Rightarrow> string \<Rightarrow> device_type" where
  "getDeviceType book sect =
     (case valueFor convert_string sect ''DEVICE_TYPE'' '''' book of (found, dev_type) \<Rightarrow>
        if \<not> found then E_UNDEFINED_DEVICE
        else if toLower dev_type = ''socket'' then getSocketDeviceType book sect
        else if toLower dev_type = ''pipe'' then getPipeDeviceType book sect
        else E_UNDEFINED_DEVICE)"

subsection \<open>Parsing what was printed\<close>

definition render_pair :: "string \<times> string \<Rightarrow> string" where
  "render_pair p = fst p @ CHR ''='' # snd p @ [newline]"

definition render_pairs :: "key_values \<Rightarrow> string" where
  "render_pairs kvs = concat (map render_pair kvs)"

definition render_section :: "string \<times> key_values \<Rightarrow> string" where
  "render_section sec = CHR ''['' # fst sec @ CHR '']'' # newline # render_pairs (snd sec)"

definition render :: "section_table \<Rightarrow> string" where
  "render t = concat (map render_section t)"

definition pair_ok :: "string \<times> string \<Rightarrow> bool" where
  "pair_ok p \<longleftrightarrow> newline \<notin> set (fst p) \<and> CHR ''='' \<notin> set (fst p) \<and> CHR ''['' \<notin> set (fst p) \<and>
     newline \<notin> set (snd p) \<and> CHR ''['' \<notin> set (snd p)"

definition section_ok :: "string \<times> key_values \<Rightarrow> bool" where
  "section_ok sec \<longleftrightarrow> CHR ''['' \<notin> set (fst sec) \<and> CHR '']'' \<notin> set (fst sec) \<and>
     snd sec \<noteq> [] \<and> list_all pair_ok (snd sec)"

lemma takeWhile_append_stop: "c \<notin> set x \<Longrightarrow> takeWhile (\<lambda>a. a \<noteq> c) (x @ c # y) = x"
  by (induction x) auto

lemma search_found:
  "c \<notin> set x \<Longrightarrow> s = pre @ x @ c # y \<Longrightarrow> p = length pre \<Longrightarrow> search_from c s p = length pre + length x"
  by (simp add: search_from_def takeWhile_append_stop)

lemma search_none:
  "c \<notin> set x \<Longrightarrow> search_from c (pre @ x) (length pre) = length pre + length x"
proof -
  assume "c \<notin> set x"
  then have "takeWhile (\<lambda>a. a \<noteq> c) x = x" by (induction x) auto
  then show ?thesis by (simp add: search_from_def del: takeWhile_eq_all_conv)
qed

lemma line_start_found:
  assumes "newline \<notin> set k"
  shows "line_start ((q @ [newline]) @ k @ y) (length (q @ [newline]) + length k) = length (q @ [newline])"
proof -
  have "takeWhile (\<lambda>x. x \<noteq> newline) (rev k @ newline # rev q) = rev k"
    using assms by (intro takeWhile_append_stop) simp
  then show ?thesis
    by (simp add: line_start_def)
qed

lemma substr_append: "p = length pre \<Longrightarrow> n = length x \<Longrightarrow> substr (pre @ x @ y) p n = x"
  by (simp add: substr_def)

lemma pairs_loop_render:
  "list_all pair_ok kvs \<Longrightarrow> s = (q @ [newline]) @ render_pairs kvs @ post \<Longrightarrow>
     pairs_loop s (length ((q @ [newline]) @ render_pairs kvs)) (search_from (CHR ''='') s (length (q @ [newline])))
       = kvs"
proof (induction kvs arbitrary: q)
  case Nil
  then show ?case
    using search_from_ge [of "length (q @ [newline])" "CHR ''=''" s]
    by (subst pairs_loop.simps) (simp add: render_pairs_def)
next
  case (Cons kv kvs)
  obtain k v where kv: "kv = (k, v)" by (cases kv)
  let ?pre = "q @ [newline]"
  have ok: "newline \<notin> set k" "CHR ''='' \<notin> set k" "newline \<notin> set v"
    using Cons.prems(1) by (simp_all add: kv pair_ok_def)
  define rest where "rest = render_pairs kvs @ post"
  have s: "s = ?pre @ k @ CHR ''='' # v @ newline # rest"
    using Cons.prems(2) by (simp add: kv render_pairs_def render_pair_def rest_def)
  have eq: "search_from (CHR ''='') s (length ?pre) = length ?pre + length k"
    using ok(2) s by (rule search_found) simp
  have nl: "search_from newline s (Suc (length ?pre + length k)) = Suc (length ?pre + length k) + length v"
    using search_found [of newline v s "?pre @ k @ [CHR ''='']" rest] ok(3) s by simp
  have key: "substr s (length ?pre) (length k) = k"
    unfolding s by (rule substr_append) simp_all
  have start: "line_start s (length ?pre + length k) = length ?pre"
    unfolding s by (rule line_start_found [OF ok(1)])
  have val: "substr s (Suc (length ?pre + length k)) (length v) = v"
    using substr_append [of _ "?pre @ k @ [CHR ''='']" "length v" v "newline # rest"] s by simp
  define q' where "q' = ?pre @ k @ CHR ''='' # v"
  have s': "s = (q' @ [newline]) @ render_pairs kvs @ post" and
    len: "length (?pre @ render_pairs (kv # kvs)) = length ((q' @ [newline]) @ render_pairs kvs)"
    by (simp_all add: s q'_def rest_def kv render_pairs_def render_pair_def)
  have IH: "pairs_loop s (length ((q' @ [newline]) @ render_pairs kvs))
      (search_from (CHR ''='') s (length (q' @ [newline]))) = kvs"
    using Cons.IH [of q'] Cons.prems(1) s' by simp
  let ?stop = "length ((q' @ [newline]) @ render_pairs kvs)" and ?kv = "length ?pre + length k"
  have cond: "?kv < ?stop" by (simp add: q'_def)
  have after: "Suc (Suc ?kv + length v) = length (q' @ [newline])"
    by (simp add: q'_def)
  have inside: "Suc ?kv + length v < length s" by (simp add: s)
  have "pairs_loop s ?stop ?kv = (k, v) # kvs"
    unfolding pairs_loop.simps [of s ?stop ?kv] if_P [OF cond] Let_def nl start if_P [OF inside] after IH
    using key val by simp
  then show ?case
    unfolding eq len by (simp only: kv)
qed

lemma search_skip:
  assumes "p < length s" and "s ! p \<noteq> c"
  shows "search_from c s p = search_from c s (Suc p)"
  using assms by (simp add: search_from_def Cons_nth_drop_Suc [symmetric])

lemma render_Nil [simp]: "render [] = []"
  by (simp add: render_def)

lemma render_Cons [simp]: "render (x # t) = render_section x @ render t"
  by (simp add: render_def)

lemma render_first: "t \<noteq> [] \<Longrightarrow> \<exists>y. render t = CHR ''['' # y"
  by (cases t) (auto simp: render_section_def)

lemma render_pairs_no_bracket:
  "list_all pair_ok kvs \<Longrightarrow> CHR ''['' \<notin> set (render_pairs kvs)"
  by (induction kvs) (auto simp: render_pairs_def render_pair_def pair_ok_def newline_def)

text \<open>A search for an opening bracket stops at the next section, or at the end.\<close>

lemma search_next_section:
  assumes "CHR ''['' \<notin> set x" and "s = pre @ x @ render t"
  shows "search_from (CHR ''['') s (length pre) = length (pre @ x)"
proof (cases "t = []")
  case True
  then show ?thesis using assms search_none [of "CHR ''[''" x pre] by simp
next
  case False
  then obtain y where "render t = CHR ''['' # y" using render_first by blast
  then show ?thesis using assms by (simp add: search_found [of _ x _ pre y])
qed

lemma sections_loop_render:
  "list_all section_ok t \<Longrightarrow> s = pre @ render t \<Longrightarrow>
     sections_loop s (length pre) acc = Some (fold (\<lambda>(n, kvs). AList.update n kvs) t acc)"
proof (induction t arbitrary: pre acc)
  case Nil
  then show ?case by (subst sections_loop.simps) simp
next
  case (Cons sec t)
  obtain name kvs where sec: "sec = (name, kvs)" by (cases sec)
  have ok: "CHR ''['' \<notin> set name" "CHR '']'' \<notin> set name" "kvs \<noteq> []" "list_all pair_ok kvs"
    using Cons.prems(1) by (simp_all add: sec section_ok_def)
  define pre1 where "pre1 = pre @ [CHR ''['']"
  define q where "q = pre1 @ name @ [CHR '']'']"
  define pre2 where "pre2 = (q @ [newline]) @ render_pairs kvs"
  have s: "s = pre1 @ name @ CHR '']'' # newline # render_pairs kvs @ render t"
    and s2: "s = (q @ [newline]) @ render_pairs kvs @ render t" and s3: "s = pre2 @ render t"
    using Cons.prems(2) by (simp_all add: sec render_section_def pre1_def q_def pre2_def)
  have p1: "Suc (length pre) = length pre1" by (simp add: pre1_def)
  have close: "search_from (CHR '']'') s (length pre1) = length pre1 + length name"
    using ok(2) s by (rule search_found) simp
  have name: "substr s (length pre1) (length pre1 + length name - length pre1) = name"
    unfolding s by (rule substr_append) simp_all
  have q: "Suc (length pre1 + length name) = length q" by (simp add: q_def)
  have "search_from (CHR ''='') s (length q) = search_from (CHR ''='') s (Suc (length q))"
    by (rule search_skip) (simp_all add: s2 nth_append newline_def)
  then have kv: "search_from (CHR ''='') s (length q) = search_from (CHR ''='') s (length (q @ [newline]))"
    by simp
  have open': "search_from (CHR ''['') s (length pre1) = length pre2"
    using search_next_section [of "name @ CHR '']'' # newline # render_pairs kvs" s pre1 t] ok(1)
      render_pairs_no_bracket [OF ok(4)] s
    by (simp add: newline_def pre2_def q_def)
  have pairs: "pairs_loop s (length pre2) (search_from (CHR ''='') s (length (q @ [newline]))) = kvs"
    unfolding pre2_def using pairs_loop_render [OF ok(4) s2] .
  have inside: "\<not> length pre2 < search_from (CHR ''='') s (length (q @ [newline]))"
  proof
    assume "length pre2 < search_from (CHR ''='') s (length (q @ [newline]))"
    then have "pairs_loop s (length pre2) (search_from (CHR ''='') s (length (q @ [newline]))) = []"
      by (subst pairs_loop.simps) simp
    with pairs ok(3) show False by simp
  qed
  have not_end: "\<not> length s \<le> length pre" "\<not> length s \<le> length pre1 + length name"
    by (simp_all add: s pre1_def)
  have IH: "sections_loop s (length pre2) (AList.update name kvs acc) =
      Some (fold (\<lambda>(n, kvs). AList.update n kvs) t (AList.update name kvs acc))"
    using Cons.prems(1) s3 by (intro Cons.IH) simp_all
  show ?case
    unfolding sections_loop.simps [of s "length pre" acc] p1 close open' Let_def q kv name pairs
      if_not_P [OF not_end(1)] if_not_P [OF not_end(2)] if_not_P [OF inside] IH
    by (simp add: sec)
qed

lemma update_nonmember: "k \<notin> set (keys t) \<Longrightarrow> AList.update k v t = t @ [(k, v)]"
  by (induction t) auto

lemma fold_update_distinct:
  "distinct (keys (acc @ t)) \<Longrightarrow> fold (\<lambda>(n, kvs). AList.update n kvs) t acc = acc @ t"
proof (induction t arbitrary: acc)
  case Nil
  then show ?case by simp
next
  case (Cons x t)
  obtain n kvs where x: "x = (n, kvs)" by (cases x)
  have "AList.update n kvs acc = acc @ [(n, kvs)]"
    using Cons.prems by (intro update_nonmember) (auto simp: x)
  then show ?case using Cons.IH [of "acc @ [(n, kvs)]"] Cons.prems by (simp add: x)
qed

subsection \<open>Properties\<close>

text \<open>
  C17: Parsing a printed table gives the table back: the sections in order, with their pairs in
  order, for any table whose section names are distinct, whose sections are not empty, and whose
  names, keys and values avoid the characters that delimit them (a value may hold equals signs).
\<close>

theorem parse_print_round_trip:
  assumes "list_all section_ok t" and "distinct (keys t)"
  shows "fillTable (render t) = Some (t \<noteq> [], t)"
proof -
  have "search_from (CHR ''['') (render t) 0 = 0"
    using search_next_section [of "[]" "render t" "[]" t] by simp
  then show ?thesis
    using sections_loop_render [OF assms(1), of "render t" "[]" "[]"] fold_update_distinct [of "[]" t] assms(2)
    by (simp add: fillTable_def)
qed

theorem parse_print_round_trip_witness:
  "fillTable (render [(''server'', [(''DEVICE_TYPE'', ''socket''), (''ADDR'', ''a=b'')])]) =
     Some (True, [(''server'', [(''DEVICE_TYPE'', ''socket''), (''ADDR'', ''a=b'')])])"
  using parse_print_round_trip [of "[(''server'', [(''DEVICE_TYPE'', ''socket''), (''ADDR'', ''a=b'')])]"]
  by (simp add: section_ok_def pair_ok_def newline_def)

text \<open>
  A section without pairs in front of a section with pairs makes the parser count over an
  invalid range: the parse is undefined.
\<close>

theorem empty_section_undefined:
  assumes "CHR ''['' \<notin> set name" and "CHR '']'' \<notin> set name"
  shows "fillTable (render ((name, []) # (name', kvs) # t)) = None"
proof -
  define y where "y = name' @ CHR '']'' # newline # render_pairs kvs @ render t"
  define s where "s = render ((name, []) # (name', kvs) # t)"
  define q where "q = [CHR ''[''] @ name @ [CHR '']'']"
  have s: "s = [CHR ''[''] @ name @ CHR '']'' # newline # CHR ''['' # y"
    and s2: "s = q @ newline # CHR ''['' # y"
    by (simp_all add: s_def y_def q_def render_section_def render_pairs_def)
  have first: "search_from (CHR ''['') s 0 = 0"
    by (simp add: search_from_def s)
  have close: "search_from (CHR '']'') s (Suc 0) = Suc 0 + length name"
    using search_found [OF assms(2) s] by simp
  have q: "Suc (Suc 0 + length name) = length q" by (simp add: q_def)
  have open': "search_from (CHR ''['') s (Suc 0) = Suc (length q)"
    using search_found [of "CHR ''[''" "name @ [CHR '']'', newline]" s "[CHR ''['']" y "Suc 0"] assms(1) s
    by (simp add: newline_def q_def)
  have "search_from (CHR ''='') s (length q) = search_from (CHR ''='') s (Suc (Suc (length q)))"
    using search_skip [of "length q" s "CHR ''=''"] search_skip [of "Suc (length q)" s "CHR ''=''"]
    by (simp add: s2 nth_append newline_def)
  then have kv: "Suc (length q) < search_from (CHR ''='') s (length q)"
    using search_from_ge [of "Suc (Suc (length q))" "CHR ''=''" s] by simp
  have not_end: "\<not> length s \<le> 0" "\<not> length s \<le> Suc 0 + length name"
    by (simp_all add: s)
  have "sections_loop s 0 [] = None"
    unfolding sections_loop.simps [of s 0 "[]"] Let_def close q open' if_not_P [OF not_end(1)]
      if_not_P [OF not_end(2)] if_P [OF kv] by simp
  then show ?thesis
    unfolding s_def [symmetric] by (simp add: fillTable_def first)
qed

theorem empty_section_undefined_witness:
  "fillTable (render [(''client'', []), (''server'', [(''PORT'', ''80'')])]) = None"
  by (rule empty_section_undefined) simp_all

text \<open>
  What the book finds after a parse is the first pair with the key in the section: printing a
  table, parsing it and looking a key up agrees with the table.
\<close>

theorem book_finds_printed_value:
  assumes "list_all section_ok t" and "distinct (keys t)"
    and "files name = Some \<lparr>stream_rest = render t, stream_seekable = True\<rparr>"
  shows "\<exists>b'. book_initFrom files name b = Some (t \<noteq> [], b') \<and> book_isReady b' = (t \<noteq> []) \<and>
    findValueInTable sect k b' = Option.bind (map_of t sect) (\<lambda>kvs. map_of kvs k)"
proof -
  have f: "map_option snd (find (\<lambda>p. fst p = k) kvs) = map_of kvs k" for kvs :: key_values
    by (induction kvs) auto
  have p: "fillTable (render t) = Some (t \<noteq> [], t)"
    using sections_loop_render [OF assms(1), of "render t" "[]" "[]"] fold_update_distinct [of "[]" t] assms(2)
      search_next_section [of "[]" "render t" "[]" t]
    by (simp add: fillTable_def)
  show ?thesis
    by (auto simp: book_initFrom_def assms(3) book_init_def readIn_def readContent_def streamSize_def p
        book_isReady_def findValueInTable_def f split: option.splits)
qed

theorem book_finds_printed_value_witness:
  "\<exists>b'. book_initFrom (\<lambda>n. Some \<lparr>stream_rest = render [(''s'', [(''k'', ''v'')])], stream_seekable = True\<rparr>) ''f''
      \<lparr>file_content = '''', reader_stream = None, section_tab = []\<rparr> = Some (True, b') \<and>
    findValueInTable ''s'' ''k'' b' = Some ''v''"
  using book_finds_printed_value [of "[(''s'', [(''k'', ''v'')])]"
      "\<lambda>n. Some \<lparr>stream_rest = render [(''s'', [(''k'', ''v'')])], stream_seekable = True\<rparr>" "''f''"
      "\<lparr>file_content = '''', reader_stream = None, section_tab = []\<rparr>" "''s''" "''k''"]
  by (auto simp: section_ok_def pair_ok_def newline_def)

text \<open>
  No configuration yields an IPv6 device: the table of device types gives the IPv4 device for
  the ipv6 domain.
\<close>

theorem no_ipv6_device:
  "getDeviceType book sect \<notin> {E_IPV6_TCP_SOCKET_DEVICE, E_IPV6_UDP_SOCKET_DEVICE}"
proof -
  have "getSocketDeviceType book sect \<notin> {E_IPV6_TCP_SOCKET_DEVICE, E_IPV6_UDP_SOCKET_DEVICE}"
    by (auto simp: getSocketDeviceType_def SocketConfigInfoToType_def split: prod.splits option.splits if_splits)
  moreover have "getPipeDeviceType book sect \<notin> {E_IPV6_TCP_SOCKET_DEVICE, E_IPV6_UDP_SOCKET_DEVICE}"
    by (auto simp: getPipeDeviceType_def split: prod.splits)
  ultimately show ?thesis
    by (auto simp: getDeviceType_def split: prod.splits)
qed

lemma digit_char:
  assumes "n < 10"
  shows "is_digit (char_of_digit n)" and "digit_of (char_of_digit n) = n"
proof -
  have "(of_char (char_of_digit n) :: nat) = n + 48"
    using assms by (simp add: char_of_digit_def of_char_of)
  then show "is_digit (char_of_digit n)" and "digit_of (char_of_digit n) = n"
    using assms by (simp_all add: is_digit_def digit_of_def)
qed

lemma minus_not_digit: "\<not> is_digit (CHR ''-'')"
  by (simp add: is_digit_def)

lemma nat_digits_small: "n < 10 \<Longrightarrow> nat_digits n = [char_of_digit n]"
  by (subst nat_digits.simps) simp

lemma nat_digits_large: "\<not> n < 10 \<Longrightarrow> nat_digits n = nat_digits (n div 10) @ [char_of_digit (n mod 10)]"
  by (subst nat_digits.simps) simp

lemma nat_digits_all_digits: "list_all is_digit (nat_digits n) \<and> nat_digits n \<noteq> []"
proof (induction n rule: nat_digits.induct)
  case (1 n)
  show ?case
  proof (cases "n < 10")
    case True
    then show ?thesis by (simp add: nat_digits_small digit_char)
  next
    case False
    then show ?thesis using 1 by (simp add: nat_digits_large digit_char)
  qed
qed

lemma read_digits_append:
  "list_all is_digit xs \<Longrightarrow> read_digits (xs @ ys) n = read_digits ys (read_digits xs n)"
  by (induction xs arbitrary: n) auto

lemma read_nat_digits: "read_digits (nat_digits n) 0 = n"
proof (induction n rule: nat_digits.induct)
  case (1 n)
  show ?case
  proof (cases "n < 10")
    case True
    then show ?thesis by (simp add: nat_digits_small digit_char)
  next
    case False
    then show ?thesis
      using 1 nat_digits_all_digits [of "n div 10"] digit_char [of "n mod 10"]
      by (simp add: nat_digits_large read_digits_append)
  qed
qed

lemma nat_digits_hd: "is_digit (hd (nat_digits n))"
  using nat_digits_all_digits [of n] by (cases "nat_digits n") auto

lemma from_chars_int_digits:
  assumes "lo \<le> v" and "v \<le> hi"
  shows "from_chars lo hi (int_digits v) = Some v"
proof (cases "v < 0")
  case True
  then show ?thesis
    using assms nat_digits_hd [of "nat (- v)"] nat_digits_all_digits [of "nat (- v)"]
    by (simp add: from_chars_def int_digits_def Let_def read_nat_digits)
next
  case False
  then have "hd (nat_digits (nat v)) \<noteq> CHR ''-''"
    using nat_digits_hd [of "nat v"] minus_not_digit by metis
  with False show ?thesis
    using assms nat_digits_hd [of "nat v"] nat_digits_all_digits [of "nat v"]
    by (simp add: from_chars_def int_digits_def Let_def read_nat_digits)
qed

text \<open>
  A number that fits its type is read back from its text: \<^verbatim>\<open>toString\<close> gives the text of
  any number of at most fourteen characters and \<^verbatim>\<open>toArithmetic\<close> gives the number of that
  text; a text of fifteen characters is read beyond the buffer, and a longer one is lost.
\<close>

theorem number_round_trip:
  assumes "lo \<le> v" and "v \<le> hi"
  shows "toArithmetic lo hi (int_digits v) = v \<and>
    toString v = (if length (int_digits v) < 15 then Done (int_digits v)
                  else if length (int_digits v) = 15 then Undefined else Done '''')"
  using from_chars_int_digits [OF assms]
  by (simp add: toArithmetic_def toString_def toStringInBuffer_def ARITHMETIC_BUFFER_LEN_def)

theorem number_round_trip_witness:
  "toArithmetic (- (2 ^ 31)) (2 ^ 31 - 1) (int_digits (- 2147483648)) = - 2147483648"
  using number_round_trip [of "- (2 ^ 31)" "- 2147483648" "2 ^ 31 - 1"] by simp

end
