(* ===== verification/TypeLists.thy ===== *)
theory TypeLists
  imports Prelude
begin

text \<open>
  The compile-time lists of UtilitiesInfra: lists of types (typelist.hpp), of templates
  (template_typelist.hpp) and of values (non_typelist.hpp), the dispatch of a run-time tag to
  a type of such a list (runtime_dispatcher.hpp) and the initialisation of a host's policies
  over one (policies_initializer.hpp). A type or template is a value of any type; \<open>None\<close> stands
  for \<^verbatim>\<open>empty_type\<close> (\<^verbatim>\<open>empty_tt\<close>), the answer of a lookup outside the list,
  and a struct without a specialisation for its argument is an optional result too.
\<close>

subsection \<open>Lists of types\<close>

definition is_empty :: "'a list \<Rightarrow> bool" where
  "is_empty ts = (case ts of [] \<Rightarrow> True | _ # _ \<Rightarrow> False)"

definition tl_size :: "'a list \<Rightarrow> u64" where
  "tl_size ts = of_nat (length ts)"

definition front :: "'a list \<Rightarrow> 'a option" where
  "front ts = (case ts of [] \<Rightarrow> None | t # _ \<Rightarrow> Some t)"

fun pop_front :: "'a list \<Rightarrow> 'a list option" where
  "pop_front [] = None"
| "pop_front (t # ts) = Some ts"

definition push_front :: "'a list \<Rightarrow> 'a \<Rightarrow> 'a list" where
  "push_front ts t = t # ts"

definition push_back :: "'a list \<Rightarrow> 'a \<Rightarrow> 'a list" where
  "push_back ts t = ts @ [t]"

fun nth_element :: "'a list \<Rightarrow> nat \<Rightarrow> 'a option" where
  "nth_element ts 0 = front ts"
| "nth_element [] (Suc n) = None"
| "nth_element (t # ts) (Suc n) = nth_element ts n"

fun erase_rec :: "'a list \<Rightarrow> 'a \<Rightarrow> 'a list" where
  "erase_rec [] e = []"
| "erase_rec (t # ts) e = (if t = e then erase_rec ts e else push_front (erase_rec ts e) t)"

datatype 'a tuple_type = Std_tuple "'a list"
datatype 'a variant_type = Std_variant "'a list"

definition to_tuple :: "'a list \<Rightarrow> 'a tuple_type" where "to_tuple = Std_tuple"
definition to_variant :: "'a list \<Rightarrow> 'a variant_type" where "to_variant = Std_variant"

fun to_tlist :: "'a tuple_type + 'a variant_type \<Rightarrow> 'a list" where
  "to_tlist (Inl (Std_tuple ts)) = ts"
| "to_tlist (Inr (Std_variant ts)) = ts"

definition contains :: "'a list \<Rightarrow> 'a \<Rightarrow> bool" where
  "contains ts t = foldr (\<lambda>u b. u = t \<or> b) ts False"

definition contains_container :: "'a tuple_type + 'a variant_type \<Rightarrow> 'a \<Rightarrow> bool" where
  "contains_container c t = contains (to_tlist c) t"

text \<open>\<^verbatim>\<open>concat\<close> concatenates through tuples.\<close>

fun tuple_cat :: "'a tuple_type list \<Rightarrow> 'a tuple_type" where
  "tuple_cat [] = Std_tuple []"
| "tuple_cat (Std_tuple ts # us) = (case tuple_cat us of Std_tuple vs \<Rightarrow> Std_tuple (ts @ vs))"

definition tl_concat :: "'a list list \<Rightarrow> 'a list" where
  "tl_concat tss = to_tlist (Inl (tuple_cat (map to_tuple tss)))"

definition zero_or_one :: "bool \<Rightarrow> 'a \<Rightarrow> 'a list" where
  "zero_or_one b t = (if b then [t] else [])"

definition tl_filter :: "('a \<Rightarrow> bool) \<Rightarrow> 'a list \<Rightarrow> bool \<Rightarrow> 'a list" where
  "tl_filter pred ts filter_in =
     tl_concat (map (\<lambda>t. zero_or_one (if filter_in then pred t else \<not> pred t) t) ts)"

definition erase :: "'a list \<Rightarrow> 'a \<Rightarrow> 'a list" where
  "erase ts e = tl_filter (\<lambda>t. t = e) ts False"

lemma tuple_cat_map: "tuple_cat (map to_tuple tss) = Std_tuple (concat tss)"
  by (induction tss) (auto simp: to_tuple_def)

lemma tl_concat_eq [simp]: "tl_concat tss = concat tss"
  by (simp add: tl_concat_def tuple_cat_map)

lemma tl_filter_eq: "tl_filter p ts b = filter (\<lambda>t. p t = b) ts"
  by (induction ts) (auto simp: tl_filter_def zero_or_one_def)

lemma erase_eq: "erase ts e = filter (\<lambda>t. t \<noteq> e) ts"
  by (simp add: erase_def tl_filter_eq)

lemma erase_length: "length (erase ts e) \<le> length ts"
  by (simp add: erase_eq)

function remove_duplicates :: "'a list \<Rightarrow> 'a list" where
  "remove_duplicates [] = []"
| "remove_duplicates (t # ts) = push_front (remove_duplicates (erase ts t)) t"
  by pat_completeness auto
termination
  by (relation "measure length") (auto simp: erase_eq less_Suc_eq_le)

fun generate_typelist_helper :: "'v list \<Rightarrow> ('v \<Rightarrow> 'a) \<Rightarrow> 'a list" where
  "generate_typelist_helper (v # vs) generator = push_front (generate_typelist_helper vs generator) (generator v)"
| "generate_typelist_helper [] generator = []"

definition generate_typelist :: "'v list \<Rightarrow> ('v \<Rightarrow> 'a) \<Rightarrow> 'a list" where
  "generate_typelist vs generator = generate_typelist_helper vs generator"

definition get_member_type_by_index :: "('a \<Rightarrow> 'b) \<Rightarrow> 'a list \<Rightarrow> nat \<Rightarrow> 'b option" where
  "get_member_type_by_index member ts n =
     (case nth_element ts n of None \<Rightarrow> None | Some t \<Rightarrow> Some (member t))"

subsection \<open>Lists of templates\<close>

fun find_first_by_index_helper :: "('a \<Rightarrow> bool) \<Rightarrow> 'a list \<Rightarrow> nat \<Rightarrow> int" where
  "find_first_by_index_helper pred (t # ts) n =
     (if pred t then int n else find_first_by_index_helper pred ts (n + 1))"
| "find_first_by_index_helper pred [] n = - 1"

definition find_first_by_index :: "('a \<Rightarrow> bool) \<Rightarrow> 'a list \<Rightarrow> int" where
  "find_first_by_index pred ts = find_first_by_index_helper pred ts 0"

text \<open>The variable template is declared \<^verbatim>\<open>bool\<close>: the index is converted.\<close>

definition find_first_by_index_v :: "('a \<Rightarrow> bool) \<Rightarrow> 'a list \<Rightarrow> bool" where
  "find_first_by_index_v pred ts = (find_first_by_index pred ts \<noteq> 0)"

definition any_of :: "'a list \<Rightarrow> ('a \<Rightarrow> bool) \<Rightarrow> bool" where
  "any_of ts pred = foldr (\<lambda>t b. pred t \<or> b) ts False"

definition default_index_value :: int where "default_index_value = - 1"

fun get_index_by_type :: "'a list \<Rightarrow> 'a \<Rightarrow> int" where
  "get_index_by_type [] e = default_index_value"
| "get_index_by_type (t # ts) e =
     (if t = e then 0
      else let temp = get_index_by_type ts e
           in if temp = default_index_value then default_index_value else 1 + temp)"

definition intersect :: "'a list \<Rightarrow> 'a list \<Rightarrow> 'a list" where
  "intersect ts us = tl_filter (\<lambda>e. default_index_value \<noteq> get_index_by_type us e) ts True"

subsection \<open>Lists of values\<close>

text \<open>
  \<open>d\<close> is \<^verbatim>\<open>default_value\<close> of the list's member type; that of \<^verbatim>\<open>int\<close> is \<open>- 1\<close>, and
  \<^verbatim>\<open>front\<close> of the empty list uses it whatever the member type.
\<close>

definition ntl_front :: "int list \<Rightarrow> int" where
  "ntl_front es = (case es of e # _ \<Rightarrow> e | [] \<Rightarrow> - 1)"

fun ntl_back :: "int list \<Rightarrow> int option" where
  "ntl_back [] = None"
| "ntl_back [e] = Some e"
| "ntl_back (e # f # es) = ntl_back (f # es)"

fun ntl_nth_element :: "int \<Rightarrow> int list \<Rightarrow> nat \<Rightarrow> int" where
  "ntl_nth_element d es 0 = ntl_front es"
| "ntl_nth_element d [] (Suc n) = d"
| "ntl_nth_element d (e # es) (Suc n) = ntl_nth_element d es n"

subsection \<open>Dispatching a tag\<close>

text \<open>
  \<open>f\<close> is the callable on a state \<open>s\<close>: it is called on an object of the type at the tag's
  position, the wrapped object in the overload with a wrapper and a new one in the other. The
  test that stops the recursion is on \<^verbatim>\<open>std::size_t\<close>, where \<^verbatim>\<open>size_v - 1\<close> of the
  empty list is the largest value.
\<close>

definition last_index :: "'a list \<Rightarrow> nat" where
  "last_index ts = unat (tl_size ts - 1)"

function dispatch_helper :: "'a list \<Rightarrow> nat \<Rightarrow> nat \<Rightarrow> ('a \<Rightarrow> 's \<Rightarrow> 's) \<Rightarrow> 's \<Rightarrow> 's" where
  "dispatch_helper ts n tag f s =
     (if n = tag then (case nth_element ts n of None \<Rightarrow> s | Some t \<Rightarrow> f t s)
      else if n < last_index ts then dispatch_helper ts (n + 1) tag f s
      else s)"
  by pat_completeness auto
termination
  by (relation "measure (\<lambda>(ts, n, tag, f, s). last_index ts - n)") auto

declare dispatch_helper.simps [simp del]

definition dispatch :: "'a list \<Rightarrow> nat \<Rightarrow> ('a \<Rightarrow> 's \<Rightarrow> 's) \<Rightarrow> 's \<Rightarrow> 's" where
  "dispatch ts tag f s = dispatch_helper ts 0 tag f s"

text \<open>
  The mapped variant compares the tag with the one \<open>tag_of\<close> gives the type at the position (of
  \<^verbatim>\<open>empty_type\<close> behind the end), but it goes on with the helper that is not mapped.
\<close>

definition dispatch_helper_mapped ::
    "'a list \<Rightarrow> ('a option \<Rightarrow> nat) \<Rightarrow> nat \<Rightarrow> nat \<Rightarrow> ('a \<Rightarrow> 's \<Rightarrow> 's) \<Rightarrow> 's \<Rightarrow> 's" where
  "dispatch_helper_mapped ts tag_of n tag f s =
     (let object_t = nth_element ts n; object_tag = tag_of object_t
      in if object_tag = tag then (case object_t of None \<Rightarrow> s | Some t \<Rightarrow> f t s)
         else if n < last_index ts then dispatch_helper ts (n + 1) tag f s
         else s)"

definition dispatch_mapped ::
    "'a list \<Rightarrow> ('a option \<Rightarrow> nat) \<Rightarrow> nat \<Rightarrow> ('a \<Rightarrow> 's \<Rightarrow> 's) \<Rightarrow> 's \<Rightarrow> 's" where
  "dispatch_mapped ts tag_of tag f s = dispatch_helper_mapped ts tag_of 0 tag f s"

text \<open>
  The dispatchers the macros define for a member function: what a type offers. \<open>addressable\<close> is
  \<^verbatim>\<open>has_member\<close> (the member's address can be taken), \<open>invocable\<close> that the call with the
  given arguments compiles, \<open>returns\<close> its decayed return type and \<open>invoke\<close> the call on an object
  in a state. A result is the variant's alternative with its value; \<open>None\<close> is
  \<^verbatim>\<open>std::monostate\<close>.
\<close>

record ('a, 'r, 'v, 's) member_function =
  addressable :: "'a \<Rightarrow> bool"
  invocable :: "'a \<Rightarrow> bool"
  returns :: "'a \<Rightarrow> 'r"
  invoke :: "'a \<Rightarrow> 's \<Rightarrow> 'v \<times> 's"

definition return_types_from :: "('a \<Rightarrow> 'r) \<Rightarrow> 'a list \<Rightarrow> 'r list" where
  "return_types_from ret ts = map ret ts"

definition return_variant :: "('a, 'r, 'v, 's) member_function \<Rightarrow> 'r \<Rightarrow> 'r \<Rightarrow> 'a list \<Rightarrow> 'r variant_type" where
  "return_variant m void monostate ts =
     to_variant (push_front (remove_duplicates
       (erase (return_types_from (returns m) (tl_filter (addressable m) ts True)) void)) monostate)"

definition select_overload ::
    "('a, 'r, 'v, 's) member_function \<Rightarrow> 'r variant_type \<Rightarrow> 'a \<Rightarrow> ('r \<times> 'v) option \<times> 's \<Rightarrow> ('r \<times> 'v) option \<times> 's" where
  "select_overload m variant t st =
     (case st of (result, s) \<Rightarrow>
        if invocable m t then
          (case invoke m t s of (v, s') \<Rightarrow>
             if contains_container (Inr variant) (returns m t) then (Some (returns m t, v), s')
             else (result, s'))
        else (result, s))"

definition member_dispatcher_call ::
    "('a, 'r, 'v, 's) member_function \<Rightarrow> 'r \<Rightarrow> 'r \<Rightarrow> 'a list \<Rightarrow> nat \<Rightarrow> 's \<Rightarrow> ('r \<times> 'v) option \<times> 's" where
  "member_dispatcher_call m void monostate ts tag s =
     dispatch ts tag (select_overload m (return_variant m void monostate ts)) (None, s)"

definition member_dispatcher_mapped_call ::
    "('a, 'r, 'v, 's) member_function \<Rightarrow> 'r \<Rightarrow> 'r \<Rightarrow> 'a list \<Rightarrow> ('a option \<Rightarrow> nat) \<Rightarrow> nat \<Rightarrow> 's \<Rightarrow>
      ('r \<times> 'v) option \<times> 's" where
  "member_dispatcher_mapped_call m void monostate ts tag_of tag s =
     dispatch_mapped ts tag_of tag (select_overload m (return_variant m void monostate ts)) (None, s)"

subsection \<open>Initialising a host's policies\<close>

text \<open>
  What a policy offers for \<^verbatim>\<open>init\<close>: that it has the member, that it can be called with
  the host's arguments, that it can be called without, and the two calls.
\<close>

record ('p, 's) policy_init =
  has_member_init :: "'p \<Rightarrow> bool"
  init_takes_args :: "'p \<Rightarrow> bool"
  init_takes_none :: "'p \<Rightarrow> bool"
  init_with_args :: "'p \<Rightarrow> 's \<Rightarrow> bool \<times> 's"
  init_without_args :: "'p \<Rightarrow> 's \<Rightarrow> bool \<times> 's"

definition invokeInit :: "('p, 's) policy_init \<Rightarrow> 'p \<Rightarrow> 's \<Rightarrow> bool \<times> 's" where
  "invokeInit i p s =
     (if has_member_init i p then
        if init_takes_args i p then init_with_args i p s
        else if init_takes_none i p then init_without_args i p s
        else (True, s)
      else (True, s))"

function init_helper :: "('p, 's) policy_init \<Rightarrow> 'p list \<Rightarrow> nat \<Rightarrow> 's \<Rightarrow> bool \<times> 's" where
  "init_helper i ps n s =
     (if n < unat (tl_size ps) then
        (case nth_element ps n of
           None \<Rightarrow> (True, s)
         | Some p \<Rightarrow>
             (case invokeInit i p s of (ok, s') \<Rightarrow> if ok then init_helper i ps (n + 1) s' else (False, s')))
      else (True, s))"
  by pat_completeness auto
termination
  by (relation "measure (\<lambda>(i, ps, n, s). unat (tl_size ps) - n)") auto

declare init_helper.simps [simp del]

definition initDispatch :: "('p, 's) policy_init \<Rightarrow> 'p list \<Rightarrow> 's \<Rightarrow> bool \<times> 's" where
  "initDispatch i ps s = init_helper i ps 0 s"

text \<open>\<open>invokeDeinit\<close> calls a policy's \<^verbatim>\<open>deinit\<close> where it has one.\<close>

function deinit_helper :: "('p \<Rightarrow> 's \<Rightarrow> 's) \<Rightarrow> 'p list \<Rightarrow> nat \<Rightarrow> 's \<Rightarrow> 's" where
  "deinit_helper invokeDeinit ps n s =
     (if n < last_index ps then
        (case nth_element ps n of
           None \<Rightarrow> s
         | Some p \<Rightarrow> deinit_helper invokeDeinit ps (n + 1) (invokeDeinit p s))
      else s)"
  by pat_completeness auto
termination
  by (relation "measure (\<lambda>(d, ps, n, s). last_index ps - n)") auto

declare deinit_helper.simps [simp del]

definition deinitDispatcher :: "('p \<Rightarrow> 's \<Rightarrow> 's) \<Rightarrow> 'p list \<Rightarrow> 's \<Rightarrow> 's" where
  "deinitDispatcher invokeDeinit ps s = deinit_helper invokeDeinit ps 0 s"

text \<open>The host's own operations (Host.hpp); its destructor deinitialises whatever was done before.\<close>

definition host_init :: "('p, 's) policy_init \<Rightarrow> 'p list \<Rightarrow> 's \<Rightarrow> bool \<times> 's" where
  "host_init i ps s = initDispatch i ps s"

definition host_deinit :: "('p \<Rightarrow> 's \<Rightarrow> 's) \<Rightarrow> 'p list \<Rightarrow> 's \<Rightarrow> 's" where
  "host_deinit invokeDeinit ps s = deinitDispatcher invokeDeinit ps s"

definition host_destroy :: "('p \<Rightarrow> 's \<Rightarrow> 's) \<Rightarrow> 'p list \<Rightarrow> 's \<Rightarrow> 's" where
  "host_destroy invokeDeinit ps s = host_deinit invokeDeinit ps s"

subsection \<open>The lists\<close>

lemma nth_element_eq: "nth_element ts n = (if n < length ts then Some (ts ! n) else None)"
  by (induction ts n rule: nth_element.induct) (auto simp: front_def split: list.splits)

lemma erase_rec_eq: "erase_rec ts e = filter (\<lambda>t. t \<noteq> e) ts"
  by (induction ts) (auto simp: push_front_def)

lemma contains_eq [simp]: "contains ts t \<longleftrightarrow> t \<in> set ts"
  by (induction ts) (auto simp: contains_def)

lemma set_remove_duplicates [simp]: "set (remove_duplicates ts) = set ts"
  by (induction ts rule: remove_duplicates.induct) (auto simp: push_front_def erase_eq)

lemma distinct_remove_duplicates: "distinct (remove_duplicates ts)"
  by (induction ts rule: remove_duplicates.induct) (auto simp: push_front_def erase_eq)

lemma get_index_by_type_range: "- 1 \<le> get_index_by_type ts e \<and> get_index_by_type ts e < int (length ts)"
  by (induction ts) (auto simp: default_index_value_def Let_def)

lemma get_index_by_type_default: "get_index_by_type ts e = - 1 \<longleftrightarrow> e \<notin> set ts"
proof (induction ts)
  case (Cons t ts)
  then show ?case
    using get_index_by_type_range [of ts e] by (auto simp: default_index_value_def Let_def)
qed (simp add: default_index_value_def)

text \<open>
  The first occurrences survive: \<^verbatim>\<open>remove_duplicates\<close> keeps of every element exactly its
  first occurrence, in the list's order, so the result has no duplicates and the same elements.
\<close>

theorem remove_duplicates_keeps_first:
  "remove_duplicates ts = rev (remdups (rev ts)) \<and> distinct (remove_duplicates ts) \<and>
    set (remove_duplicates ts) = set ts"
proof -
  have snoc: "remdups (us @ [t]) = filter (\<lambda>u. u \<noteq> t) (remdups us) @ [t]" for us :: "'a list" and t
    by (induction us) auto
  have "remove_duplicates ts = rev (remdups (rev ts))"
    by (induction ts rule: remove_duplicates.induct)
      (simp_all add: push_front_def erase_eq snoc remdups_filter rev_filter)
  then show ?thesis by (simp add: distinct_remove_duplicates)
qed

text \<open>
  Index and element are inverse: \<^verbatim>\<open>get_index_by_type\<close> gives the first position of an
  element that occurs and the default index exactly for the others, and \<^verbatim>\<open>nth_element\<close> at
  that position is the element.
\<close>

theorem index_of_element:
  "(if e \<in> set ts
    then 0 \<le> get_index_by_type ts e \<and> nth_element ts (nat (get_index_by_type ts e)) = Some e \<and>
         e \<notin> set (take (nat (get_index_by_type ts e)) ts)
    else get_index_by_type ts e = default_index_value)"
proof (induction ts)
  case (Cons t ts)
  show ?case
  proof (cases "t = e \<or> e \<notin> set ts")
    case True
    with get_index_by_type_default [of ts e] show ?thesis
      by (auto simp: front_def default_index_value_def)
  next
    case False
    with Cons have "0 \<le> get_index_by_type ts e" and
      nth: "nth_element ts (nat (get_index_by_type ts e)) = Some e"
      and tk: "e \<notin> set (take (nat (get_index_by_type ts e)) ts)"
      by simp_all
    then have "nat (1 + get_index_by_type ts e) = Suc (nat (get_index_by_type ts e))"
      by simp
    with False nth tk \<open>0 \<le> get_index_by_type ts e\<close> show ?thesis
      by (auto simp: default_index_value_def Let_def)
  qed
qed (simp add: default_index_value_def)

text \<open>The two ways to erase an element agree, and so do filtering by index and membership.\<close>

theorem erase_variants_agree:
  "erase ts e = erase_rec ts e \<and> e \<notin> set (erase ts e) \<and>
    intersect ts us = filter (\<lambda>t. t \<in> set us) ts"
proof -
  have "default_index_value \<noteq> get_index_by_type us t \<longleftrightarrow> t \<in> set us" for t
    using get_index_by_type_default [of us t] by (auto simp: default_index_value_def)
  then show ?thesis
    by (simp add: erase_eq erase_rec_eq intersect_def tl_filter_eq)
qed

lemma find_first_positive: "0 < n \<Longrightarrow> find_first_by_index_helper pred ts n \<noteq> 0"
  by (induction pred ts n rule: find_first_by_index_helper.induct) auto

text \<open>
  \<^verbatim>\<open>find_first_by_index_v\<close> does not tell a list without a match from one whose first match
  is behind the front: it is true for both, and false exactly when the front matches.
\<close>

theorem find_first_by_index_v_wrong:
  "find_first_by_index_v pred ts \<longleftrightarrow> \<not> (\<exists>t us. ts = t # us \<and> pred t)"
proof (cases ts)
  case (Cons t us)
  have "find_first_by_index_helper pred us 1 \<noteq> 0"
    by (rule find_first_positive) simp
  with Cons show ?thesis
    by (simp add: find_first_by_index_v_def find_first_by_index_def)
qed (simp add: find_first_by_index_v_def find_first_by_index_def)

subsection \<open>The dispatcher\<close>

lemma last_index_eq:
  assumes "ts \<noteq> []" and "length ts < 2 ^ 64"
  shows "last_index ts = length ts - 1"
proof -
  have u: "unat (of_nat (length ts) :: u64) = length ts"
    using assms(2) by (simp add: unat_of_nat take_bit_nat_eq_self)
  have "(1 :: u64) \<le> of_nat (length ts)"
    using assms(1) u by (simp add: word_le_nat_alt Suc_le_eq)
  then show ?thesis
    using u by (simp add: last_index_def tl_size_def unat_sub)
qed

lemma dispatch_helper_selects:
  assumes "ts \<noteq> []" and "length ts < 2 ^ 64" and "n < length ts"
  shows "dispatch_helper ts n tag f s = (if n \<le> tag \<and> tag < length ts then f (ts ! tag) s else s)"
  using assms(3)
proof (induction "length ts - n" arbitrary: n)
  case 0
  then show ?case by simp
next
  case (Suc k)
  note L = last_index_eq [OF assms(1,2)]
  show ?case
  proof (cases "Suc n < length ts")
    case True
    with Suc.hyps have "k = length ts - Suc n" by simp
    from Suc.hyps(1) [OF this True] True Suc.prems show ?thesis
      by (subst dispatch_helper.simps) (auto simp: nth_element_eq L)
  next
    case False
    with Suc.prems show ?thesis
      by (subst dispatch_helper.simps) (auto simp: nth_element_eq L)
  qed
qed

lemma dispatch_selects_aux:
  assumes "ts \<noteq> []" and "length ts < 2 ^ 64"
  shows "dispatch ts tag f s = (if tag < length ts then f (ts ! tag) s else s)"
  using dispatch_helper_selects [OF assms, of 0 tag f s] assms(1) by (simp add: dispatch_def)

text \<open>
  \<^verbatim>\<open>dispatch\<close> calls the callable exactly once, with the type at the tag's position, and not
  at all for a tag outside the list. (The empty list is excluded: its dispatcher would be
  instantiated \<open>2 ^ 64\<close> times, more than compilers allow.)
\<close>

theorem dispatch_selects:
  assumes "ts \<noteq> []" and "length ts < 2 ^ 64"
  shows "dispatch ts tag f s = (if tag < length ts then f (ts ! tag) s else s)"
  using dispatch_helper_selects [OF assms, of 0 tag f s] assms(1) by (simp add: dispatch_def)

theorem dispatch_selects_witness:
  "dispatch [''tcp'', ''udp'', ''fifo''] 1 (\<lambda>t s. s @ [t]) [] = [''udp'']"
  by (subst dispatch_selects) simp_all

text \<open>
  \<^verbatim>\<open>dispatch_mapped\<close> uses the type-to-tag mapping for the first type only: any other tag
  selects by position, and a tag of zero that is not the first type's selects nothing.
\<close>

theorem dispatch_mapped_positional:
  assumes "length (t # ts) < 2 ^ 64"
  shows "dispatch_mapped (t # ts) tag_of tag f s =
    (if tag_of (Some t) = tag then f t s
     else if 0 < tag \<and> tag \<le> length ts then f ((t # ts) ! tag) s else s)"
proof -
  have "dispatch_helper (t # ts) 1 tag f s =
      (if 1 \<le> tag \<and> tag < length (t # ts) then f ((t # ts) ! tag) s else s)" if "ts \<noteq> []"
    using that by (intro dispatch_helper_selects) (use assms in auto)
  with last_index_eq [OF _ assms] show ?thesis
    by (auto simp: dispatch_mapped_def dispatch_helper_mapped_def front_def Suc_le_eq less_Suc_eq_le)
qed

theorem dispatch_mapped_positional_witness:
  "dispatch_mapped [''fifo'', ''tcp'', ''udp''] (\<lambda>t. if t = Some ''tcp'' then 2 else 7) 2 (\<lambda>t s. s @ [t]) [] = [''udp'']"
  by (subst dispatch_mapped_positional) simp_all

text \<open>
  The dispatcher for a member function: the member is called on the object at the tag's
  position when the call compiles for its type; its value is the answer exactly when the return
  type is one of an addressable member of the list and not \<^verbatim>\<open>void\<close> (or is
  \<^verbatim>\<open>monostate\<close> itself), otherwise the answer is \<^verbatim>\<open>monostate\<close>.
\<close>

theorem member_dispatcher_answer:
  assumes "ts \<noteq> []" and "length ts < 2 ^ 64"
  shows "member_dispatcher_call m void monostate ts tag s =
    (if tag < length ts \<and> invocable m (ts ! tag) then
       (if returns m (ts ! tag) = monostate \<or>
           returns m (ts ! tag) \<noteq> void \<and>
           (\<exists>t \<in> set ts. addressable m t \<and> returns m t = returns m (ts ! tag))
        then Some (returns m (ts ! tag), fst (invoke m (ts ! tag) s)) else None,
        snd (invoke m (ts ! tag) s))
     else (None, s))"
proof -
  have c: "contains_container (Inr (return_variant m void monostate ts)) r \<longleftrightarrow>
      r = monostate \<or> r \<noteq> void \<and> (\<exists>t \<in> set ts. addressable m t \<and> returns m t = r)" for r
    by (auto simp: contains_container_def return_variant_def to_variant_def push_front_def erase_eq
        return_types_from_def tl_filter_eq)
  show ?thesis
    by (cases "invoke m (ts ! tag) s")
      (auto simp: member_dispatcher_call_def dispatch_selects_aux [OF assms] select_overload_def c)
qed

theorem member_dispatcher_answer_witness:
  "fst (member_dispatcher_call \<lparr>addressable = \<lambda>t. t \<noteq> ''udp'', invocable = \<lambda>t. True,
      returns = \<lambda>t. if t = ''fifo'' then ''void'' else ''bool'', invoke = \<lambda>t s. (length t, s)\<rparr>
      ''void'' ''monostate'' [''tcp'', ''udp'', ''fifo''] 1 ()) = Some (''bool'', 3)"
  by (subst member_dispatcher_answer) simp_all

subsection \<open>Policies\<close>

text \<open>Specification: initialise the policies in order and stop at the first that fails.\<close>

fun init_all :: "('p, 's) policy_init \<Rightarrow> 'p list \<Rightarrow> 's \<Rightarrow> bool \<times> 's" where
  "init_all i [] s = (True, s)"
| "init_all i (p # ps) s = (case invokeInit i p s of (ok, s') \<Rightarrow> if ok then init_all i ps s' else (False, s'))"

lemma unat_tl_size: "length ps < 2 ^ 64 \<Longrightarrow> unat (tl_size ps) = length ps"
  by (simp add: tl_size_def unat_of_nat take_bit_nat_eq_self)

lemma init_helper_drop:
  assumes "length ps < 2 ^ 64"
  shows "n \<le> length ps \<Longrightarrow> init_helper i ps n s = init_all i (drop n ps) s"
proof (induction "length ps - n" arbitrary: n s)
  case 0
  then show ?case
    by (subst init_helper.simps) (simp add: unat_tl_size [OF assms])
next
  case (Suc k)
  then have n: "n < length ps" and "k = length ps - Suc n" by simp_all
  with Suc.hyps(1) [of "Suc n"] show ?case
    by (subst init_helper.simps)
      (simp add: unat_tl_size [OF assms] nth_element_eq Cons_nth_drop_Suc [symmetric] split: prod.splits)
qed

lemma deinit_helper_fold:
  assumes "ps \<noteq> []" and "length ps < 2 ^ 64"
  shows "n \<le> length ps - 1 \<Longrightarrow> deinit_helper d ps n s = fold d (drop n (butlast ps)) s"
proof (induction "length ps - 1 - n" arbitrary: n s)
  case 0
  then show ?case
    by (subst deinit_helper.simps) (auto simp: last_index_eq [OF assms])
next
  case (Suc k)
  then have n: "n < length (butlast ps)" and "k = length ps - 1 - Suc n" by simp_all
  with Suc.hyps(1) [of "Suc n"] show ?case
    by (subst deinit_helper.simps)
      (auto simp: last_index_eq [OF assms] nth_element_eq Cons_nth_drop_Suc [symmetric] nth_butlast)
qed

text \<open>
  A host that is deinitialised before it is destroyed deinitialises every policy but the last
  twice, also those that were never initialised because one before them failed.
\<close>

lemma host_deinitialises_twice:
  assumes "length ps < 2 ^ 64" and "ps \<noteq> []" and "host_init i ps s = (ok, s1)"
  shows "host_destroy d ps (host_deinit d ps s1) = fold d (butlast ps @ butlast ps) s1"
proof -
  have "deinit_helper d ps 0 x = fold d (butlast ps) x" for x
    using deinit_helper_fold [of ps 0 d x] assms by simp
  then show ?thesis by (simp add: host_destroy_def host_deinit_def deinitDispatcher_def)
qed

text \<open>
  A host initialises its policies in the order of the list and stops at the first failure; when
  it is torn down, every policy but the last is deinitialised in the same order. The last one
  is left out: the helper's test is \<^verbatim>\<open>N < size - 1\<close>.
\<close>

theorem policies_init_deinit:
  assumes "ps \<noteq> []" and "length ps < 2 ^ 64"
  shows "initDispatch i ps s = init_all i ps s \<and> deinitDispatcher d ps s = fold d (butlast ps) s"
  by (simp add: initDispatch_def deinitDispatcher_def init_helper_drop [OF assms(2)]
      deinit_helper_fold [OF assms])

theorem policies_init_deinit_witness:
  "deinitDispatcher (\<lambda>p s. s @ [p]) [''io'', ''status'', ''acceptor''] [] = [''io'', ''status'']"
  using policies_init_deinit [where ps = "[''io'', ''status'', ''acceptor'']" and d = "\<lambda>p s. s @ [p]" and s = "[]"]
  by simp

subsection \<open>Value lists\<close>

text \<open>
  Looking up an index behind the end of a list of values: directly behind it the answer is the
  default of \<^verbatim>\<open>int\<close>, further on the default of the list's member type, which for
  \<^verbatim>\<open>std::size_t\<close> is another value.
\<close>

theorem ntl_nth_element_outside:
  "ntl_nth_element d es n =
    (if n < length es then es ! n else if n = length es then - 1 else d)"
  by (induction d es n rule: ntl_nth_element.induct) (auto simp: ntl_front_def split: list.splits)

end
