(* ===== verification/ClientEndpoint.thy ===== *)
theory ClientEndpoint
  imports EventMasks
begin

text \<open>
  A client's transport endpoint: the event handling policy
  (TransportInfra/Policies/EventHandlingPolicy.hpp), the dispatcher policy for a device that is
  read (DispatcherPolicy.hpp), the client role (ClientCallbackPolicy.hpp) and their composition
  in TransportEndpoint.hpp, with the wrapper that hides the endpoint's type. The listener and
  the device are records of functions on a world of any type, and the callbacks a user
  registers change the world. The endpoint's observers are left out: the trait that would
  add the publisher to an endpoint names \<^verbatim>\<open>select_if\<close> where it means
  \<^verbatim>\<open>select_if_t\<close>, so no endpoint has one.
\<close>

subsection \<open>State\<close>

datatype connection_state =
    E_AVAILABLE | E_CONNECTING | E_CONNECTED | E_DISCONNECTING | E_DISCONNECTED | E_BINDED
  | E_LISTENING | E_ERROR

fun connection_state_value :: "connection_state \<Rightarrow> nat" where
  "connection_state_value E_AVAILABLE = 0"
| "connection_state_value E_CONNECTING = 1"
| "connection_state_value E_CONNECTED = 2"
| "connection_state_value E_DISCONNECTING = 3"
| "connection_state_value E_DISCONNECTED = 4"
| "connection_state_value E_BINDED = 5"
| "connection_state_value E_LISTENING = 6"
| "connection_state_value E_ERROR = 7"

record 'w listener =
  l_subscribe :: "events_array \<Rightarrow> fd \<Rightarrow> 'w \<Rightarrow> u64 \<times> 'w"
  l_unsubscribe :: "u64 \<Rightarrow> 'w \<Rightarrow> bool \<times> 'w"

abbreviation NULL_ID :: u64 where "NULL_ID \<equiv> 0"

record ('a, 'w) device =
  dv_handle :: "'w \<Rightarrow> fd"
  dv_connect :: "'a \<Rightarrow> bool \<Rightarrow> 'w \<Rightarrow> bool \<times> 'w"
  dv_disconnect :: "'w \<Rightarrow> bool \<times> 'w"
  dv_read :: "string \<Rightarrow> 'w \<Rightarrow> int \<times> string \<times> 'w"
  dv_send :: "(string \<Rightarrow> 'w \<Rightarrow> int \<times> 'w) option"
  dv_write :: "(string \<Rightarrow> 'w \<Rightarrow> int \<times> 'w) option"

record 'w client_endpoint =
  ce_sub_id :: u64
  ce_handle :: "fd option"
  ce_state :: connection_state
  ce_in_progress :: bool
  ce_input_cb :: "(string \<Rightarrow> 'w \<Rightarrow> 'w) option"
  ce_disconnected_cb :: "('w \<Rightarrow> 'w) option"
  ce_local_buffer :: string

definition TransportEndpoint_state :: "connection_state \<Rightarrow> 'w client_endpoint" where
  "TransportEndpoint_state st =
     \<lparr>ce_sub_id = NULL_ID, ce_handle = None, ce_state = st, ce_in_progress = False,
      ce_input_cb = None, ce_disconnected_cb = None, ce_local_buffer = []\<rparr>"

definition TransportEndpoint :: "'w client_endpoint" where
  "TransportEndpoint = TransportEndpoint_state E_AVAILABLE"

definition setDevice :: "('a, 'w) device \<Rightarrow> 'w client_endpoint \<Rightarrow> 'w \<Rightarrow> 'w client_endpoint" where
  "setDevice d e w = e\<lparr>ce_handle := Some (dv_handle d w)\<rparr>"

subsection \<open>The dispatcher policy\<close>

definition registerInputCallback :: "(string \<Rightarrow> 'w \<Rightarrow> 'w) option \<Rightarrow> 'w client_endpoint \<Rightarrow> bool \<times> 'w client_endpoint" where
  "registerInputCallback cb e = (True, e\<lparr>ce_input_cb := cb\<rparr>)"

definition registerDisconnectionCallback :: "('w \<Rightarrow> 'w) option \<Rightarrow> 'w client_endpoint \<Rightarrow> bool \<times> 'w client_endpoint" where
  "registerDisconnectionCallback cb e = (False, e\<lparr>ce_disconnected_cb := cb\<rparr>)"

definition ProcessDisconnection :: "'w client_endpoint \<Rightarrow> 'w \<Rightarrow> 'w" where
  "ProcessDisconnection e w = (case ce_disconnected_cb e of None \<Rightarrow> w | Some cb \<Rightarrow> cb w)"

definition setState :: "connection_state \<Rightarrow> 'w client_endpoint \<Rightarrow> 'w \<Rightarrow> 'w client_endpoint \<times> 'w" where
  "setState st e w =
     (let old_state = ce_state e; e' = e\<lparr>ce_state := st\<rparr>
      in (e', if st = E_DISCONNECTED \<and> old_state \<noteq> E_DISCONNECTED then ProcessDisconnection e' w else w))"

subsection \<open>The client role\<close>

definition client_connect ::
    "('a, 'w) device \<Rightarrow> 'a \<Rightarrow> bool \<Rightarrow> 'w client_endpoint \<Rightarrow> 'w \<Rightarrow> bool \<times> 'w client_endpoint \<times> 'w" where
  "client_connect d addr non_blocking e w =
     (case dv_connect d addr non_blocking w of (result, w1) \<Rightarrow>
        (result,
         if non_blocking \<and> result then setState E_CONNECTING (e\<lparr>ce_in_progress := True\<rparr>) w1 else (e, w1)))"

definition client_disconnect :: "('a, 'w) device \<Rightarrow> 'w client_endpoint \<Rightarrow> 'w \<Rightarrow> bool \<times> 'w client_endpoint \<times> 'w" where
  "client_disconnect d e w =
     (case dv_disconnect d w of (ok, w1) \<Rightarrow>
        if ok then (True, setState E_DISCONNECTED e w1) else (False, e, w1))"

definition onConnected :: "'w client_endpoint \<Rightarrow> 'w \<Rightarrow> 'w client_endpoint \<times> 'w" where
  "onConnected e w =
     (if ce_in_progress e then setState E_CONNECTED (e\<lparr>ce_in_progress := False\<rparr>) w else (e, w))"

text \<open>A device without \<^verbatim>\<open>send\<close> is written to; without both the call does not compile.\<close>

definition client_send :: "('a, 'w) device \<Rightarrow> string \<Rightarrow> 'w \<Rightarrow> (int \<times> 'w) option" where
  "client_send d data w =
     (case dv_send d of Some f \<Rightarrow> Some (f data w)
      | None \<Rightarrow> (case dv_write d of Some f \<Rightarrow> Some (f data w) | None \<Rightarrow> None))"

definition client_ProcessInputEvent :: "'w client_endpoint \<Rightarrow> 'w \<Rightarrow> bool \<times> 'w client_endpoint \<times> 'w" where
  "client_ProcessInputEvent e w = (True, e, w)"

definition client_ProcessOutputEvent :: "'w client_endpoint \<Rightarrow> 'w \<Rightarrow> bool \<times> 'w client_endpoint \<times> 'w" where
  "client_ProcessOutputEvent e w = (True, if ce_state e = E_CONNECTING then onConnected e w else (e, w))"

definition client_ProcessHangupEvent :: "'w client_endpoint \<Rightarrow> 'w \<Rightarrow> bool \<times> 'w client_endpoint \<times> 'w" where
  "client_ProcessHangupEvent e w = (True, e, w)"

definition client_ProcessErrorEvent :: "('a, 'w) device \<Rightarrow> 'w client_endpoint \<Rightarrow> 'w \<Rightarrow> bool \<times> 'w client_endpoint \<times> 'w" where
  "client_ProcessErrorEvent d e w =
     (if ce_state e = E_CONNECTED
      then case setState E_DISCONNECTING e w of (e1, w1) \<Rightarrow> client_disconnect d e1 w1
      else (True, e, w))"

definition client_ProcessDisconnectionEvent :: "'w client_endpoint \<Rightarrow> 'w \<Rightarrow> bool \<times> 'w client_endpoint \<times> 'w" where
  "client_ProcessDisconnectionEvent e w =
     (True, if ce_state e \<noteq> E_DISCONNECTED then setState E_DISCONNECTED e w else (e, w))"

subsection \<open>The endpoint\<close>

definition onErrorEvent :: "('a, 'w) device \<Rightarrow> 'w client_endpoint \<Rightarrow> 'w \<Rightarrow> bool \<times> 'w client_endpoint \<times> 'w" where
  "onErrorEvent d e w = client_ProcessErrorEvent d e w"

definition dispatcher_ProcessInputEvent ::
    "('a, 'w) device \<Rightarrow> 'w client_endpoint \<Rightarrow> 'w \<Rightarrow> bool \<times> 'w client_endpoint \<times> 'w" where
  "dispatcher_ProcessInputEvent d e w =
     (case dv_read d (ce_local_buffer e) w of (size_read, buffer, w1) \<Rightarrow>
        let e1 = e\<lparr>ce_local_buffer := buffer\<rparr>
        in if size_read = - 1 then (case onErrorEvent d e1 w1 of (ret, e2, w2) \<Rightarrow> (False, e2, w2))
           else (True, e1\<lparr>ce_local_buffer := []\<rparr>,
                 case ce_input_cb e1 of None \<Rightarrow> w1 | Some cb \<Rightarrow> cb buffer w1))"

definition onInputEvent :: "('a, 'w) device \<Rightarrow> 'w client_endpoint \<Rightarrow> 'w \<Rightarrow> bool \<times> 'w client_endpoint \<times> 'w" where
  "onInputEvent d e w =
     (case dispatcher_ProcessInputEvent d e w of (ignored, e1, w1) \<Rightarrow> client_ProcessInputEvent e1 w1)"

definition onWriteAvailable :: "'w client_endpoint \<Rightarrow> 'w \<Rightarrow> bool \<times> 'w client_endpoint \<times> 'w" where
  "onWriteAvailable e w = client_ProcessOutputEvent e w"

definition onDisconnection :: "'w client_endpoint \<Rightarrow> 'w \<Rightarrow> bool \<times> 'w client_endpoint \<times> 'w" where
  "onDisconnection e w = client_ProcessDisconnectionEvent e (ProcessDisconnection e w)"

definition onHangupEvent :: "'w client_endpoint \<Rightarrow> 'w \<Rightarrow> bool \<times> 'w client_endpoint \<times> 'w" where
  "onHangupEvent e w = client_ProcessHangupEvent e w"

definition event_result_of :: "bool \<times> 'x \<Rightarrow> event_result \<times> 'x" where
  "event_result_of r = (case r of (ok, x) \<Rightarrow> (if ok then E_RESULT_SUCCESS else E_RESULT_FAILURE, x))"

definition endpoint_handleEvent ::
    "('a, 'w) device \<Rightarrow> u64 \<Rightarrow> handle_event \<Rightarrow> 'w client_endpoint \<Rightarrow> 'w \<Rightarrow> event_result \<times> 'w client_endpoint \<times> 'w" where
  "endpoint_handleEvent d sid event e w =
     (if ce_sub_id e \<noteq> sid then (E_RESULT_INVALID_REFERENCE, e, w)
      else case event of
             E_HANDLE_EVENT_ERR \<Rightarrow> event_result_of (onErrorEvent d e w)
           | E_HANDLE_EVENT_HUP \<Rightarrow> event_result_of (onHangupEvent e w)
           | E_HANDLE_EVENT_IN \<Rightarrow> event_result_of (onInputEvent d e w)
           | E_HANDLE_EVENT_OUT \<Rightarrow> event_result_of (onWriteAvailable e w)
           | E_HANDLE_EVENT_SHUTDOWN \<Rightarrow> event_result_of (onDisconnection e w)
           | _ \<Rightarrow> (E_RESULT_METHOD_NOT_IMPLEMENTED, e, w))"

definition subscribedToListener :: "'w client_endpoint \<Rightarrow> bool" where
  "subscribedToListener e = (NULL_ID \<noteq> ce_sub_id e)"

definition listenerSubscribe ::
    "'w listener \<Rightarrow> ('a, 'w) device \<Rightarrow> events_array \<Rightarrow> 'w client_endpoint \<Rightarrow> 'w \<Rightarrow> bool \<times> 'w client_endpoint \<times> 'w" where
  "listenerSubscribe l d events e w =
     (if ce_handle e = None then (False, e, w)
      else case l_subscribe l events (dv_handle d w) w of (sid, w1) \<Rightarrow>
             if NULL_ID \<noteq> sid then (True, e\<lparr>ce_sub_id := sid\<rparr>, w1) else (False, e, w1))"

definition listenerUnsubscribe :: "'w listener \<Rightarrow> 'w client_endpoint \<Rightarrow> 'w \<Rightarrow> bool \<times> 'w client_endpoint \<times> 'w" where
  "listenerUnsubscribe l e w =
     (case l_unsubscribe l (ce_sub_id e) w of (ok, w1) \<Rightarrow>
        if ok then (True, e\<lparr>ce_sub_id := NULL_ID\<rparr>, w1) else (False, e, w1))"

definition endpoint_destroy :: "'w listener \<Rightarrow> 'w client_endpoint \<Rightarrow> 'w \<Rightarrow> 'w" where
  "endpoint_destroy l e w = (if subscribedToListener e then snd (snd (listenerUnsubscribe l e w)) else w)"

text \<open>
  The wrapper behind \<^verbatim>\<open>IClientTransportEndpoint\<close> owns the endpoint until it is released;
  \<open>None\<close> is a call through the null pointer that is left. \<open>parse\<close> is the address's
  \<^verbatim>\<open>fromString\<close>.
\<close>

definition wrapper_connect ::
    "(string \<Rightarrow> 'a option) \<Rightarrow> ('a, 'w) device \<Rightarrow> string \<Rightarrow> bool \<Rightarrow> 'w client_endpoint option \<Rightarrow> 'w \<Rightarrow>
      (bool \<times> 'w client_endpoint option \<times> 'w) option" where
  "wrapper_connect parse d addr non_blocking p w =
     (case parse addr of
        None \<Rightarrow> Some (False, p, w)
      | Some a \<Rightarrow> (case p of None \<Rightarrow> None
                   | Some e \<Rightarrow> (case client_connect d a non_blocking e w of (ok, e', w') \<Rightarrow> Some (ok, Some e', w'))))"

definition wrapper_onConnected :: "'w client_endpoint option \<Rightarrow> 'w \<Rightarrow> ('w client_endpoint option \<times> 'w) option" where
  "wrapper_onConnected p w =
     map_option (\<lambda>e. case onConnected e w of (e', w') \<Rightarrow> (Some e', w')) p"

definition wrapper_disconnect ::
    "('a, 'w) device \<Rightarrow> 'w client_endpoint option \<Rightarrow> 'w \<Rightarrow> (bool \<times> 'w client_endpoint option \<times> 'w) option" where
  "wrapper_disconnect d p w =
     map_option (\<lambda>e. case client_disconnect d e w of (ok, e', w') \<Rightarrow> (ok, Some e', w')) p"

definition wrapper_listenerSubscribe ::
    "'w listener \<Rightarrow> ('a, 'w) device \<Rightarrow> events_array \<Rightarrow> 'w client_endpoint option \<Rightarrow> 'w \<Rightarrow>
      (bool \<times> 'w client_endpoint option \<times> 'w) option" where
  "wrapper_listenerSubscribe l d events p w =
     map_option (\<lambda>e. case listenerSubscribe l d events e w of (ok, e', w') \<Rightarrow> (ok, Some e', w')) p"

definition wrapper_listenerUnsubscribe ::
    "'w listener \<Rightarrow> 'w client_endpoint option \<Rightarrow> 'w \<Rightarrow> (bool \<times> 'w client_endpoint option \<times> 'w) option" where
  "wrapper_listenerUnsubscribe l p w =
     map_option (\<lambda>e. case listenerUnsubscribe l e w of (ok, e', w') \<Rightarrow> (ok, Some e', w')) p"

definition wrapper_subscribedToListener :: "'w client_endpoint option \<Rightarrow> bool option" where
  "wrapper_subscribedToListener p = map_option subscribedToListener p"

definition wrapper_getConnectionState :: "'w client_endpoint option \<Rightarrow> nat option" where
  "wrapper_getConnectionState p = map_option (\<lambda>e. connection_state_value (ce_state e)) p"

definition wrapper_releaseInternalEndpoint ::
    "'w client_endpoint option \<Rightarrow> 'w client_endpoint option \<times> 'w client_endpoint option" where
  "wrapper_releaseInternalEndpoint p = (p, None)"

subsection \<open>The life of an endpoint\<close>

text \<open>Everything that can happen to an endpoint, calls of its user and events of the reactor.\<close>

inductive client_step ::
    "('a, 'w) device \<Rightarrow> 'w listener \<Rightarrow> 'w client_endpoint \<times> 'w \<Rightarrow> 'w client_endpoint \<times> 'w \<Rightarrow> bool"
  for d l where
  step_connect: "client_connect d addr non_blocking e w = (r, e', w') \<Longrightarrow> client_step d l (e, w) (e', w')"
| step_disconnect: "client_disconnect d e w = (r, e', w') \<Longrightarrow> client_step d l (e, w) (e', w')"
| step_onConnected: "onConnected e w = (e', w') \<Longrightarrow> client_step d l (e, w) (e', w')"
| step_event: "endpoint_handleEvent d sid event e w = (r, e', w') \<Longrightarrow> client_step d l (e, w) (e', w')"
| step_subscribe: "listenerSubscribe l d events e w = (r, e', w') \<Longrightarrow> client_step d l (e, w) (e', w')"
| step_unsubscribe: "listenerUnsubscribe l e w = (r, e', w') \<Longrightarrow> client_step d l (e, w) (e', w')"
| step_input_cb: "registerInputCallback icb e = (r, e') \<Longrightarrow> client_step d l (e, w) (e', w)"
| step_disconnection_cb: "registerDisconnectionCallback dcb e = (r, e') \<Longrightarrow> client_step d l (e, w) (e', w)"
| step_device: "client_step d l (e, w) (setDevice d e w, w)"
| step_world: "client_step d l (e, w) (e, w')"

inductive client_reachable ::
    "('a, 'w) device \<Rightarrow> 'w listener \<Rightarrow> 'w client_endpoint \<times> 'w \<Rightarrow> bool"
  for d l where
  reach_available: "client_reachable d l (TransportEndpoint, w)"
| reach_accepted: "client_reachable d l (TransportEndpoint_state E_CONNECTED, w)"
| reach_step: "client_reachable d l s \<Longrightarrow> client_step d l s s' \<Longrightarrow> client_reachable d l s'"

text \<open>The transitions one step can make, and the connection flag in each state.\<close>

fun client_edge :: "connection_state \<Rightarrow> connection_state \<Rightarrow> bool" where
  "client_edge E_AVAILABLE t = (t \<in> {E_AVAILABLE, E_CONNECTING, E_DISCONNECTED})"
| "client_edge E_CONNECTING t = (t \<in> {E_CONNECTING, E_CONNECTED, E_DISCONNECTED})"
| "client_edge E_CONNECTED t = (t \<in> {E_CONNECTED, E_CONNECTING, E_DISCONNECTING, E_DISCONNECTED})"
| "client_edge E_DISCONNECTING t = (t \<in> {E_DISCONNECTING, E_CONNECTING, E_DISCONNECTED})"
| "client_edge E_DISCONNECTED t = (t \<in> {E_DISCONNECTED, E_CONNECTING, E_CONNECTED})"
| "client_edge _ t = False"

definition client_inv :: "'w client_endpoint \<Rightarrow> bool" where
  "client_inv e =
     (case ce_state e of
        E_CONNECTING \<Rightarrow> ce_in_progress e
      | E_DISCONNECTED \<Rightarrow> True
      | E_AVAILABLE \<Rightarrow> \<not> ce_in_progress e
      | E_CONNECTED \<Rightarrow> \<not> ce_in_progress e
      | E_DISCONNECTING \<Rightarrow> \<not> ce_in_progress e
      | _ \<Rightarrow> False)"

lemma setState_eq:
  "setState st e w =
     (e\<lparr>ce_state := st\<rparr>,
      if st = E_DISCONNECTED \<and> ce_state e \<noteq> E_DISCONNECTED
      then ProcessDisconnection (e\<lparr>ce_state := st\<rparr>) w else w)"
  by (simp add: setState_def Let_def)

lemmas role_defs = client_connect_def client_disconnect_def onConnected_def client_ProcessInputEvent_def
  client_ProcessOutputEvent_def client_ProcessHangupEvent_def client_ProcessErrorEvent_def
  client_ProcessDisconnectionEvent_def setState_eq

lemmas endpoint_defs = onErrorEvent_def dispatcher_ProcessInputEvent_def onInputEvent_def
  onWriteAvailable_def onDisconnection_def onHangupEvent_def event_result_of_def

lemma setState_fields [simp]:
  "ce_state (fst (setState st e w)) = st"
  "ce_in_progress (fst (setState st e w)) = ce_in_progress e"
  "ce_sub_id (fst (setState st e w)) = ce_sub_id e"
  by (simp_all add: setState_eq)

lemma client_edge_refl: "client_inv e \<Longrightarrow> client_edge (ce_state e) (ce_state e)"
  by (cases "ce_state e") (auto simp: client_inv_def)

definition keeps_inv :: "'w client_endpoint \<Rightarrow> 'w client_endpoint \<Rightarrow> bool" where
  "keeps_inv e e' = (client_inv e \<longrightarrow> client_inv e' \<and> client_edge (ce_state e) (ce_state e'))"

lemma keeps_inv_same:
  assumes "ce_state e' = ce_state e" and "ce_in_progress e' = ce_in_progress e"
  shows "keeps_inv e e'"
  using assms client_edge_refl [of e] by (simp add: keeps_inv_def client_inv_def split: connection_state.splits)

lemma keeps_inv_disconnected: "ce_state e' = E_DISCONNECTED \<Longrightarrow> keeps_inv e e'"
  by (cases "ce_state e") (auto simp: keeps_inv_def client_inv_def)

lemma keeps_inv_connecting: "ce_state e' = E_CONNECTING \<Longrightarrow> ce_in_progress e' \<Longrightarrow> keeps_inv e e'"
  by (cases "ce_state e") (auto simp: keeps_inv_def client_inv_def)

lemma keeps_inv_connected:
  "ce_state e' = E_CONNECTED \<Longrightarrow> \<not> ce_in_progress e' \<Longrightarrow> ce_in_progress e \<Longrightarrow> keeps_inv e e'"
  by (cases "ce_state e") (auto simp: keeps_inv_def client_inv_def)

lemma keeps_inv_disconnecting:
  "ce_state e' = E_DISCONNECTING \<Longrightarrow> ce_in_progress e' = ce_in_progress e \<Longrightarrow> ce_state e = E_CONNECTED \<Longrightarrow> keeps_inv e e'"
  by (auto simp: keeps_inv_def client_inv_def)

lemma error_keeps: "client_ProcessErrorEvent d e w = (r, e', w') \<Longrightarrow> keeps_inv e e'"
  by (auto simp: role_defs Let_def split: if_splits prod.splits
      intro: keeps_inv_same keeps_inv_disconnected keeps_inv_disconnecting)

lemma onConnected_keeps: "onConnected e w = (e', w') \<Longrightarrow> keeps_inv e e'"
  by (auto simp: onConnected_def setState_eq split: if_splits intro: keeps_inv_same keeps_inv_connected)

lemma output_keeps: "client_ProcessOutputEvent e w = (r, e', w') \<Longrightarrow> keeps_inv e e'"
  by (auto simp: client_ProcessOutputEvent_def split: if_splits intro: keeps_inv_same dest: onConnected_keeps)

lemma disconnection_keeps: "client_ProcessDisconnectionEvent e w = (r, e', w') \<Longrightarrow> keeps_inv e e'"
  by (auto simp: client_ProcessDisconnectionEvent_def setState_eq split: if_splits
      intro: keeps_inv_same keeps_inv_disconnected)

lemma input_keeps:
  assumes "onInputEvent d e w = (r, e', w')"
  shows "keeps_inv e e'"
proof -
  obtain n buffer w1 where rd: "dv_read d (ce_local_buffer e) w = (n, buffer, w1)"
    by (cases "dv_read d (ce_local_buffer e) w")
  let ?e1 = "e\<lparr>ce_local_buffer := buffer\<rparr>"
  show ?thesis
  proof (cases "n = - 1")
    case False
    with assms rd have "e' = e\<lparr>ce_local_buffer := []\<rparr>"
      by (simp add: onInputEvent_def dispatcher_ProcessInputEvent_def client_ProcessInputEvent_def Let_def)
    then show ?thesis by (simp add: keeps_inv_same)
  next
    case True
    obtain r2 e2 w2 where er: "client_ProcessErrorEvent d ?e1 w1 = (r2, e2, w2)"
      by (cases "client_ProcessErrorEvent d ?e1 w1")
    with assms rd True have "e' = e2"
      by (simp add: onInputEvent_def dispatcher_ProcessInputEvent_def client_ProcessInputEvent_def
          onErrorEvent_def Let_def)
    moreover have "client_inv ?e1 = client_inv e"
      by (cases "ce_state e") (simp_all add: client_inv_def)
    ultimately show ?thesis
      using error_keeps [OF er] by (simp add: keeps_inv_def)
  qed
qed

lemma event_keeps:
  assumes "endpoint_handleEvent d sid event e w = (r, e', w')"
  shows "keeps_inv e e'"
  using assms
  by (cases event)
    (auto simp: endpoint_handleEvent_def event_result_of_def onErrorEvent_def onHangupEvent_def
      onWriteAvailable_def onDisconnection_def client_ProcessHangupEvent_def
      split: if_splits prod.splits
      intro: keeps_inv_same error_keeps output_keeps disconnection_keeps input_keeps)

lemma client_step_keeps:
  assumes "client_step d l s s'"
  shows "keeps_inv (fst s) (fst s')"
  using assms
proof (cases rule: client_step.cases)
  case (step_connect addr nb e w r e' w')
  then show ?thesis
    by (auto simp: client_connect_def setState_eq split: if_splits prod.splits
        intro: keeps_inv_same keeps_inv_connecting)
next
  case (step_disconnect e w r e' w')
  then show ?thesis
    by (auto simp: client_disconnect_def setState_eq split: if_splits prod.splits
        intro: keeps_inv_same keeps_inv_disconnected)
next
  case (step_event sid event e w r e' w')
  then show ?thesis by (auto dest: event_keeps)
next
  case (step_subscribe events e w r e' w')
  then show ?thesis
    by (auto simp: listenerSubscribe_def split: if_splits prod.splits intro: keeps_inv_same)
next
  case (step_unsubscribe e w r e' w')
  then show ?thesis
    by (auto simp: listenerUnsubscribe_def split: if_splits prod.splits intro: keeps_inv_same)
qed (auto simp: registerInputCallback_def registerDisconnectionCallback_def setDevice_def
    intro: keeps_inv_same onConnected_keeps)

lemma client_reachable_inv: "client_reachable d l s \<Longrightarrow> client_inv (fst s)"
proof (induction rule: client_reachable.induct)
  case (reach_step s s')
  from client_step_keeps [OF reach_step(2)] reach_step(3) show ?case by (simp add: keeps_inv_def)
qed (simp_all add: client_inv_def TransportEndpoint_def TransportEndpoint_state_def)

text \<open>
  C7: The endpoint's state machine: whatever its user, the device and the reactor do, a reachable
  endpoint is in one of the five client states, its connection flag is set in CONNECTING and
  never in AVAILABLE, CONNECTED or DISCONNECTING, and every further step takes one of the
  listed transitions.
\<close>

theorem client_state_machine:
  assumes "client_reachable d l s" and "client_step d l s s'"
  shows "client_inv (fst s) \<and> client_inv (fst s') \<and> client_edge (ce_state (fst s)) (ce_state (fst s'))"
  using client_reachable_inv [OF assms(1)] client_step_keeps [OF assms(2)] by (simp add: keeps_inv_def)

text \<open>A device and a listener of a quiet world, for the examples.\<close>

definition quiet_device :: "(unit, string list) device" where
  "quiet_device =
     \<lparr>dv_handle = \<lambda>w. 4, dv_connect = \<lambda>a nb w. (True, w), dv_disconnect = \<lambda>w. (True, w),
      dv_read = \<lambda>buf w. (case w of [] \<Rightarrow> (- 1, buf, []) | x # xs \<Rightarrow> (int (length x), buf @ x, xs)),
      dv_send = None, dv_write = Some (\<lambda>data w. (int (length data), w @ [data]))\<rparr>"

definition quiet_listener :: "string list listener" where
  "quiet_listener = \<lparr>l_subscribe = \<lambda>es f w. (7, w), l_unsubscribe = \<lambda>i w. (True, w)\<rparr>"

theorem client_state_machine_witness:
  "ce_state (fst (snd (client_connect quiet_device () True TransportEndpoint []))) = E_CONNECTING \<and>
    client_edge E_AVAILABLE (ce_state (fst (snd (client_connect quiet_device () True TransportEndpoint []))))"
proof -
  obtain r e' w' where c: "client_connect quiet_device () True TransportEndpoint [] = (r, e', w')"
    by (cases "client_connect quiet_device () True TransportEndpoint []")
  note client_state_machine [OF reach_available [of quiet_device quiet_listener "[]"] step_connect [OF c]]
  with c show ?thesis
    by (auto simp: client_connect_def quiet_device_def setState_eq TransportEndpoint_def TransportEndpoint_state_def)
qed

text \<open>
  A peer's shutdown is reported twice: \<^verbatim>\<open>onDisconnection\<close> calls the disconnection
  callback and then lets the role set the state, which calls it again, unless the endpoint was
  in the state DISCONNECTED already.
\<close>

theorem disconnection_reported_twice:
  assumes "ce_disconnected_cb e = Some cb"
  shows "endpoint_handleEvent d (ce_sub_id e) E_HANDLE_EVENT_SHUTDOWN e w =
    (E_RESULT_SUCCESS, e\<lparr>ce_state := E_DISCONNECTED\<rparr>,
     if ce_state e = E_DISCONNECTED then cb w else cb (cb w))"
  using assms
  by (cases "ce_state e = E_DISCONNECTED")
    (simp_all add: endpoint_handleEvent_def event_result_of_def onDisconnection_def
      client_ProcessDisconnectionEvent_def setState_eq ProcessDisconnection_def)

theorem disconnection_reported_twice_witness:
  "snd (snd (endpoint_handleEvent quiet_device NULL_ID E_HANDLE_EVENT_SHUTDOWN
      (TransportEndpoint_state E_CONNECTED \<lparr>ce_disconnected_cb := Some (\<lambda>w. w @ [''closed''])\<rparr>) [])) =
    [''closed'', ''closed'']"
proof -
  let ?e = "TransportEndpoint_state E_CONNECTED \<lparr>ce_disconnected_cb := Some (\<lambda>w. w @ [''closed''])\<rparr>"
  have "ce_disconnected_cb ?e = Some (\<lambda>w. w @ [''closed''])" by simp
  from disconnection_reported_twice [OF this, of quiet_device "[]"] show ?thesis
    by (simp add: TransportEndpoint_state_def)
qed

text \<open>
  An endpoint that lost its peer while it was connecting keeps its connection flag: a later
  \<^verbatim>\<open>onConnected\<close>, as the connector calls it, takes it from DISCONNECTED to CONNECTED.
\<close>

theorem stale_connection_revived:
  assumes "ce_state e = E_CONNECTING" and "ce_in_progress e"
    and "endpoint_handleEvent d (ce_sub_id e) E_HANDLE_EVENT_SHUTDOWN e w = (r, e1, w1)"
    and "onConnected e1 w1 = (e2, w2)"
  shows "ce_state e1 = E_DISCONNECTED \<and> ce_state e2 = E_CONNECTED"
  using assms
  by (auto simp: endpoint_handleEvent_def event_result_of_def onDisconnection_def
      client_ProcessDisconnectionEvent_def setState_eq onConnected_def)

theorem stale_connection_revived_witness:
  "\<exists>e1 w1 e2 w2 r. endpoint_handleEvent quiet_device NULL_ID E_HANDLE_EVENT_SHUTDOWN
      (fst (snd (client_connect quiet_device () True TransportEndpoint []))) [] = (r, e1, w1) \<and>
     onConnected e1 w1 = (e2, w2) \<and> ce_state e1 = E_DISCONNECTED \<and> ce_state e2 = E_CONNECTED"
proof -
  let ?e = "fst (snd (client_connect quiet_device () True TransportEndpoint []))"
  have e: "ce_state ?e = E_CONNECTING" "ce_in_progress ?e" "ce_sub_id ?e = NULL_ID"
    by (simp_all add: client_connect_def quiet_device_def setState_eq TransportEndpoint_def TransportEndpoint_state_def)
  obtain r e1 w1 where h: "endpoint_handleEvent quiet_device (ce_sub_id ?e) E_HANDLE_EVENT_SHUTDOWN ?e [] = (r, e1, w1)"
    by (cases "endpoint_handleEvent quiet_device (ce_sub_id ?e) E_HANDLE_EVENT_SHUTDOWN ?e []")
  obtain e2 w2 where c: "onConnected e1 w1 = (e2, w2)" by (cases "onConnected e1 w1")
  from stale_connection_revived [OF e(1,2) h c] h c e(3) show ?thesis by auto
qed

text \<open>
  A read error is not seen by the reactor: the dispatcher's false is ignored, the event handler
  answers success. A connected endpoint is disconnected on the way when the device agrees, and
  its callback is called once.
\<close>

theorem read_error_answers_success:
  assumes "dv_read d (ce_local_buffer e) w = (- 1, buffer, w1)" and "ce_state e = E_CONNECTED"
    and "dv_disconnect d w1 = (True, w2)" and "ce_disconnected_cb e = Some cb"
  shows "endpoint_handleEvent d (ce_sub_id e) E_HANDLE_EVENT_IN e w =
    (E_RESULT_SUCCESS, e\<lparr>ce_local_buffer := buffer, ce_state := E_DISCONNECTED\<rparr>, cb w2)"
  using assms
  by (simp add: endpoint_handleEvent_def event_result_of_def onInputEvent_def client_ProcessInputEvent_def
      dispatcher_ProcessInputEvent_def onErrorEvent_def client_ProcessErrorEvent_def client_disconnect_def
      setState_eq ProcessDisconnection_def)

theorem read_error_answers_success_witness:
  "fst (endpoint_handleEvent quiet_device NULL_ID E_HANDLE_EVENT_IN
      (TransportEndpoint_state E_CONNECTED \<lparr>ce_disconnected_cb := Some (\<lambda>w. w @ [''closed''])\<rparr>) []) =
    E_RESULT_SUCCESS"
proof -
  let ?e = "TransportEndpoint_state E_CONNECTED \<lparr>ce_disconnected_cb := Some (\<lambda>w. w @ [''closed''])\<rparr>"
  have "dv_read quiet_device (ce_local_buffer ?e) [] = (- 1, ce_local_buffer ?e, [])"
    and "dv_disconnect quiet_device [] = (True, [])"
    by (simp_all add: quiet_device_def)
  from read_error_answers_success [OF this(1) _ this(2)] show ?thesis
    by (simp add: TransportEndpoint_state_def)
qed

fun input_events :: "('a, 'w) device \<Rightarrow> nat \<Rightarrow> 'w client_endpoint \<times> 'w \<Rightarrow> 'w client_endpoint \<times> 'w" where
  "input_events d 0 s = s"
| "input_events d (Suc n) s = input_events d n (snd (endpoint_handleEvent d (ce_sub_id (fst s)) E_HANDLE_EVENT_IN (fst s) (snd s)))"

text \<open>
  C36: Input is handed on once and in order: over a device that appends what the next read gives to
  the buffer, the callback gets each message by itself, in the order of the reads.
\<close>

theorem input_delivered_in_order:
  assumes "\<And>buf m ms out. dv_read d buf (m # ms, out) = (int (length m), buf @ m, (ms, out))"
    and "ce_input_cb e = Some (\<lambda>data w. (fst w, snd w @ [data]))" and "ce_local_buffer e = []"
  shows "input_events d (length ms) (e, (ms @ rest, out)) = (e, (rest, out @ ms))"
proof (induction ms arbitrary: out)
  case (Cons m ms)
  have "snd (endpoint_handleEvent d (ce_sub_id e) E_HANDLE_EVENT_IN e (m # ms @ rest, out)) = (e, (ms @ rest, out @ [m]))"
    using assms
    by (simp add: endpoint_handleEvent_def event_result_of_def onInputEvent_def client_ProcessInputEvent_def
        dispatcher_ProcessInputEvent_def)
  with Cons show ?case by simp
qed simp

theorem input_delivered_in_order_witness:
  "snd (snd (input_events
      \<lparr>dv_handle = \<lambda>w. 4, dv_connect = \<lambda>(a :: unit) nb w. (True, w), dv_disconnect = \<lambda>w. (True, w),
       dv_read = \<lambda>buf w. (int (length (hd (fst w))), buf @ hd (fst w), (tl (fst w), snd w)),
       dv_send = None, dv_write = None\<rparr> 2
      (TransportEndpoint \<lparr>ce_input_cb := Some (\<lambda>data w. (fst w, snd w @ [data]))\<rparr>, ([''one'', ''two''], [])))) =
    [''one'', ''two'']"
  using input_delivered_in_order [where ms = "[''one'', ''two'']" and rest = "[]" and out = "[]" and
    e = "TransportEndpoint \<lparr>ce_input_cb := Some (\<lambda>data w. (fst w, snd w @ [data]))\<rparr>" and
    d = "\<lparr>dv_handle = \<lambda>w. 4, dv_connect = \<lambda>(a :: unit) nb w. (True, w), dv_disconnect = \<lambda>w. (True, w),
       dv_read = \<lambda>buf w. (int (length (hd (fst w))), buf @ hd (fst w), (tl (fst w), snd w)),
       dv_send = None, dv_write = None\<rparr>"]
  by (simp add: TransportEndpoint_def TransportEndpoint_state_def numeral_2_eq_2)

end
