(* ===== verification/ServerEndpoint.thy ===== *)
theory ServerEndpoint
  imports ClientEndpoint
begin

text \<open>
  The server's side: the endpoint storages (TransportInfra/Policies/EndpointStorage.hpp), the
  dispatcher policy of a server with its buffer for named pipes (DispatcherPolicy.hpp), and the
  server role for a listening socket and for a named pipe (ServerCallbackPolicy.hpp) in a
  TransportEndpoint. A stored client endpoint belongs to the server: its two callbacks are
  either not registered yet or the server's lambdas with the client's key, so the record has
  two flags in their place. A call on an endpoint that is destroyed is undefined (\<open>None\<close>).
\<close>

subsection \<open>Endpoint storages\<close>

record ('k, 'e) single_storage =
  ss_endpoint :: "'e option"
  ss_key :: 'k

definition single_store :: "'k \<Rightarrow> 'e option \<Rightarrow> ('k, 'e) single_storage \<Rightarrow> bool \<times> ('k, 'e) single_storage" where
  "single_store key p_endpoint s = (True, s\<lparr>ss_endpoint := p_endpoint, ss_key := key\<rparr>)"

definition single_erase :: "'k \<Rightarrow> 'k \<Rightarrow> ('k, 'e) single_storage \<Rightarrow> ('k, 'e) single_storage" where
  "single_erase default_key key s =
     (if key = ss_key s then s\<lparr>ss_endpoint := None, ss_key := default_key\<rparr> else s)"

text \<open>The answer is a reference to the owning pointer, which may be null.\<close>

definition single_getEndpointFor :: "'k \<Rightarrow> ('k, 'e) single_storage \<Rightarrow> 'e option option" where
  "single_getEndpointFor key s = (if key = ss_key s then Some (ss_endpoint s) else None)"

definition single_forEach :: "('e option \<Rightarrow> 's \<Rightarrow> 's) \<Rightarrow> ('k, 'e) single_storage \<Rightarrow> 's \<Rightarrow> 's" where
  "single_forEach f s x = f (ss_endpoint s) x"

type_synonym ('k, 'e) associative_storage = "('k \<times> 'e) list"

definition assoc_store :: "'k \<Rightarrow> 'e \<Rightarrow> ('k, 'e) associative_storage \<Rightarrow> bool \<times> ('k, 'e) associative_storage" where
  "assoc_store key p_endpoint c = (True, AList.update key p_endpoint c)"

definition assoc_valueFor :: "'k \<Rightarrow> ('k, 'e) associative_storage \<Rightarrow> bool \<times> 'e option" where
  "assoc_valueFor key c = (map_of c key \<noteq> None, map_of c key)"

definition assoc_erase :: "'k \<Rightarrow> ('k, 'e) associative_storage \<Rightarrow> ('k, 'e) associative_storage" where
  "assoc_erase key c = (if fst (assoc_valueFor key c) then AList.delete key c else c)"

definition assoc_getEndpointFor :: "'k \<Rightarrow> ('k, 'e) associative_storage \<Rightarrow> 'e option" where
  "assoc_getEndpointFor key c = (case assoc_valueFor key c of (found, it) \<Rightarrow> if found then it else None)"

definition assoc_forEach :: "('k \<times> 'e \<Rightarrow> 's \<Rightarrow> 's) \<Rightarrow> ('k, 'e) associative_storage \<Rightarrow> 's \<Rightarrow> 's" where
  "assoc_forEach f c x = fold f c x"

subsection \<open>The pipe's input buffer\<close>

record local_buffer =
  lb_buffer :: string
  lb_key :: fd

definition empty_buffer :: local_buffer where
  "empty_buffer = \<lparr>lb_buffer = [], lb_key = null_fd\<rparr>"

definition buffer_store :: "fd \<Rightarrow> string \<Rightarrow> local_buffer \<Rightarrow> local_buffer" where
  "buffer_store key data b =
     (let b1 = (if null_fd = lb_key b then b\<lparr>lb_key := key\<rparr> else b)
      in if key \<noteq> lb_key b1 then b1 else b1\<lparr>lb_buffer := lb_buffer b1 @ data\<rparr>)"

definition buffer_clear :: "local_buffer \<Rightarrow> local_buffer" where
  "buffer_clear b = \<lparr>lb_buffer = [], lb_key = null_fd\<rparr>"

subsection \<open>The dispatcher policy of a server\<close>

text \<open>
  The user's callbacks on the user's state \<open>'u\<close>. \<open>sd_local_buffer\<close> is \<open>None\<close> for a device that is
  not a named pipe.
\<close>

record 'u server_dispatcher =
  sd_local_buffer :: "local_buffer option"
  sd_input_cb :: "(fd \<Rightarrow> string \<Rightarrow> 'u \<Rightarrow> 'u) option"
  sd_connected_cb :: "(fd \<Rightarrow> 'u \<Rightarrow> 'u) option"
  sd_disconnected_cb :: "(fd \<Rightarrow> 'u \<Rightarrow> 'u) option"

definition ProcessClientInput :: "fd \<Rightarrow> string \<Rightarrow> 'u server_dispatcher \<Rightarrow> 'u \<Rightarrow> 'u server_dispatcher \<times> 'u" where
  "ProcessClientInput key data s u =
     (case sd_input_cb s of
        Some cb \<Rightarrow> (s, cb key data u)
      | None \<Rightarrow> (s\<lparr>sd_local_buffer := map_option (buffer_store key data) (sd_local_buffer s)\<rparr>, u))"

definition registerClientInputCallback ::
    "(fd \<Rightarrow> string \<Rightarrow> 'u \<Rightarrow> 'u) option \<Rightarrow> 'u server_dispatcher \<Rightarrow> 'u \<Rightarrow> bool \<times> 'u server_dispatcher \<times> 'u" where
  "registerClientInputCallback cb s u =
     (let already_set = (sd_input_cb s \<noteq> None); s1 = s\<lparr>sd_input_cb := cb\<rparr>
      in (True,
          case sd_local_buffer s1 of
            None \<Rightarrow> (s1, u)
          | Some b \<Rightarrow>
              if \<not> already_set then
                (case ProcessClientInput (lb_key b) (lb_buffer b) s1 u of
                   (s2, u2) \<Rightarrow> (s2\<lparr>sd_local_buffer := map_option buffer_clear (sd_local_buffer s2)\<rparr>, u2))
              else (s1, u)))"

definition registerClientConnectionCallback :: "(fd \<Rightarrow> 'u \<Rightarrow> 'u) option \<Rightarrow> 'u server_dispatcher \<Rightarrow> bool \<times> 'u server_dispatcher" where
  "registerClientConnectionCallback cb s = (True, s\<lparr>sd_connected_cb := cb\<rparr>)"

definition registerClientDisconnectionCallback :: "(fd \<Rightarrow> 'u \<Rightarrow> 'u) option \<Rightarrow> 'u server_dispatcher \<Rightarrow> bool \<times> 'u server_dispatcher" where
  "registerClientDisconnectionCallback cb s = (True, s\<lparr>sd_disconnected_cb := cb\<rparr>)"

definition ProcessClientConnected :: "fd \<Rightarrow> 'u server_dispatcher \<Rightarrow> 'u \<Rightarrow> 'u" where
  "ProcessClientConnected key s u = (case sd_connected_cb s of None \<Rightarrow> u | Some cb \<Rightarrow> cb key u)"

definition ProcessClientDisconnected :: "fd \<Rightarrow> 'u server_dispatcher \<Rightarrow> 'u \<Rightarrow> 'u" where
  "ProcessClientDisconnected key s u = (case sd_disconnected_cb s of None \<Rightarrow> u | Some cb \<Rightarrow> cb key u)"

subsection \<open>The server role for a listening socket\<close>

record stored_client =
  sc_sub_id :: u64
  sc_state :: connection_state
  sc_input_registered :: bool
  sc_disconnection_registered :: bool
  sc_local_buffer :: string

text \<open>The state of the server's endpoint, its listener's and device's world and its user's state.\<close>

record ('w, 'u) server =
  sv_state :: connection_state
  sv_storage :: "(fd, stored_client) associative_storage"
  sv_dispatcher :: "'u server_dispatcher"
  sv_world :: 'w
  sv_user :: 'u

record ('a, 'w) server_device =
  sdv_bind :: "'a \<Rightarrow> bool \<Rightarrow> 'w \<Rightarrow> bool \<times> 'w"
  sdv_listen :: "int \<Rightarrow> 'w \<Rightarrow> bool \<times> 'w"
  sdv_accept :: "bool \<Rightarrow> 'w \<Rightarrow> fd option \<times> 'w"
  sdv_close :: "fd \<Rightarrow> 'w \<Rightarrow> 'w"
  sdv_client_disconnect :: "fd \<Rightarrow> 'w \<Rightarrow> bool \<times> 'w"
  sdv_client_read :: "fd \<Rightarrow> string \<Rightarrow> 'w \<Rightarrow> int \<times> string \<times> 'w"
  sdv_client_send :: "fd \<Rightarrow> string \<Rightarrow> 'w \<Rightarrow> int \<times> 'w"

definition server_bind :: "('a, 'w) server_device \<Rightarrow> 'a \<Rightarrow> bool \<Rightarrow> ('w, 'u) server \<Rightarrow> bool \<times> ('w, 'u) server" where
  "server_bind d addr reusable s =
     (case sdv_bind d addr reusable (sv_world s) of (result, w) \<Rightarrow>
        (result, if result then s\<lparr>sv_world := w, sv_state := E_BINDED\<rparr> else s\<lparr>sv_world := w\<rparr>))"

definition server_listen :: "('a, 'w) server_device \<Rightarrow> int \<Rightarrow> ('w, 'u) server \<Rightarrow> bool \<times> ('w, 'u) server" where
  "server_listen d backlog s =
     (case sdv_listen d backlog (sv_world s) of (result, w) \<Rightarrow>
        (result, if result then s\<lparr>sv_world := w, sv_state := E_LISTENING\<rparr> else s\<lparr>sv_world := w\<rparr>))"

definition generateKey :: "fd \<Rightarrow> fd" where "generateKey descriptor = descriptor"

text \<open>
  Destroying a stored client: its endpoint leaves the listener and its device closes the
  descriptor.
\<close>

definition client_destroy :: "'w listener \<Rightarrow> ('a, 'w) server_device \<Rightarrow> fd \<Rightarrow> stored_client \<Rightarrow> 'w \<Rightarrow> 'w" where
  "client_destroy l d key c w =
     sdv_close d key (if sc_sub_id c \<noteq> NULL_ID then snd (l_unsubscribe l (sc_sub_id c) w) else w)"

definition storage_store ::
    "'w listener \<Rightarrow> ('a, 'w) server_device \<Rightarrow> fd \<Rightarrow> stored_client \<Rightarrow> ('w, 'u) server \<Rightarrow> bool \<times> ('w, 'u) server" where
  "storage_store l d key c s =
     (case assoc_store key c (sv_storage s) of (ok, st) \<Rightarrow>
        (ok, s\<lparr>sv_storage := st,
               sv_world := (case assoc_getEndpointFor key (sv_storage s) of
                              None \<Rightarrow> sv_world s
                            | Some old \<Rightarrow> client_destroy l d key old (sv_world s))\<rparr>))"

definition server_onClientConnected ::
    "'w listener \<Rightarrow> ('a, 'w) server_device \<Rightarrow> fd \<Rightarrow> stored_client \<Rightarrow> ('w, 'u) server \<Rightarrow> ('w, 'u) server" where
  "server_onClientConnected l d key c s =
     (case storage_store l d key c s of (ok, s1) \<Rightarrow>
        if \<not> ok then s1
        else case assoc_getEndpointFor key (sv_storage s1) of
               None \<Rightarrow> s1
             | Some p \<Rightarrow>
                 s1\<lparr>sv_storage := AList.update key
                       (p\<lparr>sc_disconnection_registered := True, sc_input_registered := True\<rparr>) (sv_storage s1),
                    sv_user := ProcessClientConnected key (sv_dispatcher s1) (sv_user s1)\<rparr>)"

definition setupClientEndpoint ::
    "'w listener \<Rightarrow> ('a, 'w) server_device \<Rightarrow> fd \<Rightarrow> ('w, 'u) server \<Rightarrow> bool \<times> ('w, 'u) server" where
  "setupClientEndpoint l d client_handle s =
     (let key = generateKey client_handle
      in if null_fd = client_handle
         then (False, s\<lparr>sv_world := sdv_close d client_handle (snd (sdv_client_disconnect d client_handle (sv_world s)))\<rparr>)
         else case l_subscribe l (event_getArray [E_HANDLE_EVENT_IN]) client_handle (sv_world s) of (sid, w) \<Rightarrow>
                if NULL_ID \<noteq> sid
                then (True, server_onClientConnected l d key
                        \<lparr>sc_sub_id = sid, sc_state = E_CONNECTED, sc_input_registered = False,
                         sc_disconnection_registered = False, sc_local_buffer = []\<rparr> (s\<lparr>sv_world := w\<rparr>))
                else (False, s\<lparr>sv_world := sdv_close d client_handle w\<rparr>))"

definition server_accept :: "'w listener \<Rightarrow> ('a, 'w) server_device \<Rightarrow> bool \<Rightarrow> ('w, 'u) server \<Rightarrow> bool \<times> ('w, 'u) server" where
  "server_accept l d non_blocking s =
     (case sdv_accept d non_blocking (sv_world s) of (res, w) \<Rightarrow>
        case res of None \<Rightarrow> (False, s\<lparr>sv_world := w\<rparr>)
        | Some client \<Rightarrow> setupClientEndpoint l d client (s\<lparr>sv_world := w\<rparr>))"

definition server_ProcessInputEvent :: "'w listener \<Rightarrow> ('a, 'w) server_device \<Rightarrow> ('w, 'u) server \<Rightarrow> bool \<times> ('w, 'u) server" where
  "server_ProcessInputEvent l d s = server_accept l d True s"

text \<open>\<^verbatim>\<open>send\<close> to one client answers 0 for an unknown key.\<close>

definition server_send :: "('a, 'w) server_device \<Rightarrow> fd \<Rightarrow> string \<Rightarrow> ('w, 'u) server \<Rightarrow> int \<times> ('w, 'u) server" where
  "server_send d key data s =
     (case assoc_getEndpointFor key (sv_storage s) of
        None \<Rightarrow> (0, s)
      | Some p \<Rightarrow> (case sdv_client_send d key data (sv_world s) of (n, w) \<Rightarrow> (n, s\<lparr>sv_world := w\<rparr>)))"

definition server_ProcessClientInput :: "fd \<Rightarrow> string \<Rightarrow> ('w, 'u) server \<Rightarrow> ('w, 'u) server" where
  "server_ProcessClientInput key data s =
     (case ProcessClientInput key data (sv_dispatcher s) (sv_user s) of
        (disp, u) \<Rightarrow> s\<lparr>sv_dispatcher := disp, sv_user := u\<rparr>)"

definition server_ProcessClientDisconnection ::
    "'w listener \<Rightarrow> ('a, 'w) server_device \<Rightarrow> fd \<Rightarrow> ('w, 'u) server \<Rightarrow> ('w, 'u) server" where
  "server_ProcessClientDisconnection l d key s =
     (let s1 = s\<lparr>sv_user := ProcessClientDisconnected key (sv_dispatcher s) (sv_user s)\<rparr>
      in s1\<lparr>sv_storage := assoc_erase key (sv_storage s1),
            sv_world := (case assoc_getEndpointFor key (sv_storage s1) of
                           None \<Rightarrow> sv_world s1
                         | Some c \<Rightarrow> client_destroy l d key c (sv_world s1))\<rparr>)"

text \<open>
  The events of a stored client. \<open>stored_ProcessDisconnection\<close> is the client's disconnection
  callback; it tells whether the server's lambda ran, which destroys the client. Whatever the
  endpoint's member functions do next would run on the destroyed object. A stored client is never
  CONNECTING, so an output event does nothing.
\<close>

definition stored_update :: "fd \<Rightarrow> stored_client \<Rightarrow> ('w, 'u) server \<Rightarrow> ('w, 'u) server" where
  "stored_update key c s = s\<lparr>sv_storage := AList.update key c (sv_storage s)\<rparr>"

definition stored_ProcessDisconnection ::
    "'w listener \<Rightarrow> ('a, 'w) server_device \<Rightarrow> fd \<Rightarrow> stored_client \<Rightarrow> ('w, 'u) server \<Rightarrow> bool \<times> ('w, 'u) server" where
  "stored_ProcessDisconnection l d key c s =
     (if sc_disconnection_registered c then (True, server_ProcessClientDisconnection l d key s) else (False, s))"

definition stored_onDisconnection ::
    "'w listener \<Rightarrow> ('a, 'w) server_device \<Rightarrow> fd \<Rightarrow> stored_client \<Rightarrow> ('w, 'u) server \<Rightarrow> (bool \<times> ('w, 'u) server) option" where
  "stored_onDisconnection l d key c s =
     (case stored_ProcessDisconnection l d key c s of (destroyed, s1) \<Rightarrow>
        if destroyed then None
        else Some (True, stored_update key (c\<lparr>sc_state := E_DISCONNECTED\<rparr>) s1))"

definition stored_onErrorEvent ::
    "'w listener \<Rightarrow> ('a, 'w) server_device \<Rightarrow> fd \<Rightarrow> stored_client \<Rightarrow> ('w, 'u) server \<Rightarrow> bool \<times> bool \<times> ('w, 'u) server" where
  "stored_onErrorEvent l d key c s =
     (if sc_state c = E_CONNECTED then
        (case sdv_client_disconnect d key (sv_world s) of (ok, w) \<Rightarrow>
           if ok then
             (let c1 = c\<lparr>sc_state := E_DISCONNECTED\<rparr>;
                  s1 = stored_update key c1 (s\<lparr>sv_world := w\<rparr>)
              in (True, stored_ProcessDisconnection l d key c1 s1))
           else (False, False, stored_update key (c\<lparr>sc_state := E_DISCONNECTING\<rparr>) (s\<lparr>sv_world := w\<rparr>)))
      else (True, False, s))"

definition stored_onInputEvent ::
    "'w listener \<Rightarrow> ('a, 'w) server_device \<Rightarrow> fd \<Rightarrow> stored_client \<Rightarrow> ('w, 'u) server \<Rightarrow> (bool \<times> ('w, 'u) server) option" where
  "stored_onInputEvent l d key c s =
     (case sdv_client_read d key (sc_local_buffer c) (sv_world s) of (size_read, buffer, w) \<Rightarrow>
        let c1 = c\<lparr>sc_local_buffer := buffer\<rparr>; s1 = stored_update key c1 (s\<lparr>sv_world := w\<rparr>)
        in if size_read = - 1 then
             (case stored_onErrorEvent l d key c1 s1 of (ret, destroyed, s2) \<Rightarrow>
                if destroyed then None else Some (True, s2))
           else
             Some (True, stored_update key (c1\<lparr>sc_local_buffer := []\<rparr>)
                    (if sc_input_registered c1 then server_ProcessClientInput key buffer s1 else s1)))"

definition stored_handleEvent ::
    "'w listener \<Rightarrow> ('a, 'w) server_device \<Rightarrow> fd \<Rightarrow> u64 \<Rightarrow> handle_event \<Rightarrow> ('w, 'u) server \<Rightarrow>
      (event_result \<times> ('w, 'u) server) option" where
  "stored_handleEvent l d key sid event s =
     (case assoc_getEndpointFor key (sv_storage s) of
        None \<Rightarrow> None
      | Some c \<Rightarrow>
          if sc_sub_id c \<noteq> sid then Some (E_RESULT_INVALID_REFERENCE, s)
          else case event of
                 E_HANDLE_EVENT_ERR \<Rightarrow>
                   (case stored_onErrorEvent l d key c s of (ok, destroyed, s1) \<Rightarrow> Some (event_result_of (ok, s1)))
               | E_HANDLE_EVENT_HUP \<Rightarrow> Some (E_RESULT_SUCCESS, s)
               | E_HANDLE_EVENT_IN \<Rightarrow> map_option event_result_of (stored_onInputEvent l d key c s)
               | E_HANDLE_EVENT_OUT \<Rightarrow> Some (E_RESULT_SUCCESS, s)
               | E_HANDLE_EVENT_SHUTDOWN \<Rightarrow> map_option event_result_of (stored_onDisconnection l d key c s)
               | _ \<Rightarrow> Some (E_RESULT_METHOD_NOT_IMPLEMENTED, s))"

text \<open>
  The events of the server's own descriptor. Its dispatcher does nothing at an input or a
  disconnection; only an input event does anything, and it accepts one client. \<open>own\<close> is the
  identifier the server subscribed under.
\<close>

definition server_ProcessOutputEvent :: "('w, 'u) server \<Rightarrow> bool \<times> ('w, 'u) server" where
  "server_ProcessOutputEvent s = (True, s)"

definition server_ProcessHangupEvent :: "('w, 'u) server \<Rightarrow> bool \<times> ('w, 'u) server" where
  "server_ProcessHangupEvent s = (True, s)"

definition server_ProcessDisconnectionEvent :: "('w, 'u) server \<Rightarrow> bool \<times> ('w, 'u) server" where
  "server_ProcessDisconnectionEvent s = (True, s)"

definition server_ProcessErrorEvent :: "('w, 'u) server \<Rightarrow> bool \<times> ('w, 'u) server" where
  "server_ProcessErrorEvent s = (True, s)"

definition server_handleEvent ::
    "'w listener \<Rightarrow> ('a, 'w) server_device \<Rightarrow> u64 \<Rightarrow> u64 \<Rightarrow> handle_event \<Rightarrow> ('w, 'u) server \<Rightarrow> event_result \<times> ('w, 'u) server" where
  "server_handleEvent l d own sid event s =
     (if own \<noteq> sid then (E_RESULT_INVALID_REFERENCE, s)
      else case event of
             E_HANDLE_EVENT_ERR \<Rightarrow> event_result_of (server_ProcessErrorEvent s)
           | E_HANDLE_EVENT_HUP \<Rightarrow> event_result_of (server_ProcessHangupEvent s)
           | E_HANDLE_EVENT_IN \<Rightarrow> event_result_of (server_ProcessInputEvent l d s)
           | E_HANDLE_EVENT_OUT \<Rightarrow> event_result_of (server_ProcessOutputEvent s)
           | E_HANDLE_EVENT_SHUTDOWN \<Rightarrow> event_result_of (server_ProcessDisconnectionEvent s)
           | _ \<Rightarrow> (E_RESULT_METHOD_NOT_IMPLEMENTED, s))"

subsection \<open>The server role for a named pipe\<close>

record ('w, 'u) pipe_server =
  ps_state :: connection_state
  ps_descriptor_key :: fd
  ps_local_buffer :: string
  ps_dispatcher :: "'u server_dispatcher"
  ps_world :: 'w
  ps_user :: 'u

record ('a, 'w) pipe_device =
  pd_bind :: "'a \<Rightarrow> bool \<Rightarrow> 'w \<Rightarrow> bool \<times> 'w"
  pd_listen :: "int \<Rightarrow> 'w \<Rightarrow> bool \<times> 'w"
  pd_accept :: "bool \<Rightarrow> 'w \<Rightarrow> 'w"
  pd_handle :: "'w \<Rightarrow> fd"
  pd_read :: "(string \<Rightarrow> 'w \<Rightarrow> int \<times> string \<times> 'w) option"

definition pipe_bind :: "('a, 'w) pipe_device \<Rightarrow> 'a \<Rightarrow> bool \<Rightarrow> ('w, 'u) pipe_server \<Rightarrow> bool \<times> ('w, 'u) pipe_server" where
  "pipe_bind d addr non_blocking s =
     (case pd_bind d addr non_blocking (ps_world s) of (result, w) \<Rightarrow>
        (result, if result then s\<lparr>ps_world := w, ps_state := E_BINDED\<rparr> else s\<lparr>ps_world := w\<rparr>))"

definition pipe_listen :: "('a, 'w) pipe_device \<Rightarrow> int \<Rightarrow> ('w, 'u) pipe_server \<Rightarrow> bool \<times> ('w, 'u) pipe_server" where
  "pipe_listen d backlog s =
     (case pd_listen d backlog (ps_world s) of (result, w) \<Rightarrow>
        (result, if result then s\<lparr>ps_world := w, ps_state := E_LISTENING\<rparr> else s\<lparr>ps_world := w\<rparr>))"

definition updateDescriptorKey :: "('a, 'w) pipe_device \<Rightarrow> ('w, 'u) pipe_server \<Rightarrow> ('w, 'u) pipe_server" where
  "updateDescriptorKey d s = s\<lparr>ps_descriptor_key := generateKey (pd_handle d (ps_world s))\<rparr>"

definition pipe_readImpl :: "('a, 'w) pipe_device \<Rightarrow> ('w, 'u) pipe_server \<Rightarrow> int \<times> ('w, 'u) pipe_server" where
  "pipe_readImpl d s =
     (case pd_read d of
        None \<Rightarrow> (- 1, s)
      | Some f \<Rightarrow> (case f (ps_local_buffer s) (ps_world s) of (n, buffer, w) \<Rightarrow>
                     (n, s\<lparr>ps_local_buffer := buffer, ps_world := w\<rparr>)))"

definition pipe_ProcessInputEvent :: "('a, 'w) pipe_device \<Rightarrow> ('w, 'u) pipe_server \<Rightarrow> bool \<times> ('w, 'u) pipe_server" where
  "pipe_ProcessInputEvent d s =
     (let s1 = (if null_fd = ps_descriptor_key s then updateDescriptorKey d s else s)
      in case pipe_readImpl d s1 of (size_read, s2) \<Rightarrow>
           if 0 < size_read then
             (case ProcessClientInput (ps_descriptor_key s2) (ps_local_buffer s2) (ps_dispatcher s2) (ps_user s2) of
                (disp, u) \<Rightarrow> (True, s2\<lparr>ps_dispatcher := disp, ps_user := u, ps_local_buffer := []\<rparr>))
           else (True, s2))"

definition pipe_accept :: "('a, 'w) pipe_device \<Rightarrow> bool \<Rightarrow> ('w, 'u) pipe_server \<Rightarrow> bool \<times> ('w, 'u) pipe_server" where
  "pipe_accept d non_blocking s =
     pipe_ProcessInputEvent d (updateDescriptorKey d (s\<lparr>ps_world := pd_accept d non_blocking (ps_world s)\<rparr>))"

definition pipe_register_input ::
    "(fd \<Rightarrow> string \<Rightarrow> 'u \<Rightarrow> 'u) option \<Rightarrow> ('w, 'u) pipe_server \<Rightarrow> bool \<times> ('w, 'u) pipe_server" where
  "pipe_register_input cb s =
     (case registerClientInputCallback cb (ps_dispatcher s) (ps_user s) of
        (ok, disp, u) \<Rightarrow> (ok, s\<lparr>ps_dispatcher := disp, ps_user := u\<rparr>))"

text \<open>
  What a pipe's server sends goes to its own device: \<open>send_fn\<close> and \<open>write_fn\<close> are the members it
  has. The server of a socket has a \<^verbatim>\<open>broadcast\<close> too, which asks its endpoints for a member
  they do not have and does not compile.
\<close>

definition pipe_sendImpl ::
    "(string \<Rightarrow> 'w \<Rightarrow> int \<times> 'w) option \<Rightarrow> (string \<Rightarrow> 'w \<Rightarrow> int \<times> 'w) option \<Rightarrow> string \<Rightarrow> 'w \<Rightarrow> int \<times> 'w" where
  "pipe_sendImpl send_fn write_fn data w =
     (case send_fn of
        Some f \<Rightarrow> f data w
      | None \<Rightarrow> (case write_fn of Some f \<Rightarrow> f data w | None \<Rightarrow> (- 1, w)))"

definition pipe_send ::
    "(string \<Rightarrow> 'w \<Rightarrow> int \<times> 'w) option \<Rightarrow> (string \<Rightarrow> 'w \<Rightarrow> int \<times> 'w) option \<Rightarrow> string \<Rightarrow>
      ('w, 'u) pipe_server \<Rightarrow> int \<times> ('w, 'u) pipe_server" where
  "pipe_send send_fn write_fn data s =
     (case pipe_sendImpl send_fn write_fn data (ps_world s) of (n, w) \<Rightarrow> (n, s\<lparr>ps_world := w\<rparr>))"

definition pipe_broadcast ::
    "(string \<Rightarrow> 'w \<Rightarrow> int \<times> 'w) option \<Rightarrow> (string \<Rightarrow> 'w \<Rightarrow> int \<times> 'w) option \<Rightarrow> string \<Rightarrow>
      ('w, 'u) pipe_server \<Rightarrow> int \<times> ('w, 'u) pipe_server" where
  "pipe_broadcast send_fn write_fn data s = pipe_send send_fn write_fn data s"

subsection \<open>What a server keeps\<close>

inductive server_step :: "'w listener \<Rightarrow> ('a, 'w) server_device \<Rightarrow> ('w, 'u) server \<Rightarrow> ('w, 'u) server \<Rightarrow> bool"
  for l d where
  sstep_bind: "server_bind d addr reusable s = (r, s') \<Longrightarrow> server_step l d s s'"
| sstep_listen: "server_listen d backlog s = (r, s') \<Longrightarrow> server_step l d s s'"
| sstep_accept: "server_accept l d non_blocking s = (r, s') \<Longrightarrow> server_step l d s s'"
| sstep_send: "server_send d key data s = (n, s') \<Longrightarrow> server_step l d s s'"
| sstep_client: "stored_handleEvent l d key sid event s = Some (r, s') \<Longrightarrow> server_step l d s s'"
| sstep_dispatcher: "server_step l d s (s\<lparr>sv_dispatcher := disp, sv_user := u\<rparr>)"
| sstep_world: "server_step l d s (s\<lparr>sv_world := w, sv_user := u\<rparr>)"

definition empty_server :: "'u server_dispatcher \<Rightarrow> 'w \<Rightarrow> 'u \<Rightarrow> ('w, 'u) server" where
  "empty_server disp w u =
     \<lparr>sv_state = E_AVAILABLE, sv_storage = [], sv_dispatcher = disp, sv_world = w, sv_user = u\<rparr>"

inductive server_reachable :: "'w listener \<Rightarrow> ('a, 'w) server_device \<Rightarrow> ('w, 'u) server \<Rightarrow> bool"
  for l d where
  sreach_init: "server_reachable l d (empty_server disp w u)"
| sreach_step: "server_reachable l d s \<Longrightarrow> server_step l d s s' \<Longrightarrow> server_reachable l d s'"

definition client_ok :: "fd \<Rightarrow> stored_client \<Rightarrow> bool" where
  "client_ok key c =
     (key \<noteq> null_fd \<and> sc_sub_id c \<noteq> NULL_ID \<and> sc_input_registered c \<and> sc_disconnection_registered c \<and>
      (sc_state c = E_CONNECTED \<and> sc_local_buffer c = [] \<or> sc_state c = E_DISCONNECTING))"

definition clients_ok :: "(fd, stored_client) associative_storage \<Rightarrow> bool" where
  "clients_ok st = (distinct (keys st) \<and> (\<forall>key c. map_of st key = Some c \<longrightarrow> client_ok key c))"

lemma assoc_get_eq [simp]: "assoc_getEndpointFor key st = map_of st key"
  by (auto simp: assoc_getEndpointFor_def assoc_valueFor_def)

lemma assoc_erase_map_of [simp]: "map_of (assoc_erase key st) = (map_of st)(key := None)"
  by (auto simp: assoc_erase_def assoc_valueFor_def delete_map_of fun_eq_iff)

lemma assoc_erase_distinct: "distinct (keys st) \<Longrightarrow> distinct (keys (assoc_erase key st))"
  by (simp add: assoc_erase_def distinct_keys_delete)

lemma clients_ok_update: "clients_ok st \<Longrightarrow> client_ok key c \<Longrightarrow> clients_ok (AList.update key c st)"
  by (auto simp: clients_ok_def update_map_of distinct_keys_update split: if_splits)

lemma clients_ok_update2:
  "clients_ok st \<Longrightarrow> client_ok key c \<Longrightarrow> clients_ok (AList.update key c (AList.update key c' st))"
  by (auto simp: clients_ok_def update_map_of distinct_keys_update split: if_splits)

lemma clients_ok_erase: "clients_ok st \<Longrightarrow> clients_ok (assoc_erase key st)"
  by (auto simp: clients_ok_def assoc_erase_distinct split: if_splits)

lemma clients_ok_erase_update:
  "clients_ok st \<Longrightarrow> clients_ok (assoc_erase key (AList.update key c st))"
  by (auto simp: clients_ok_def assoc_erase_distinct distinct_keys_update update_map_of split: if_splits)

lemma server_ProcessClientDisconnection_storage:
  "sv_storage (server_ProcessClientDisconnection l d key s) = assoc_erase key (sv_storage s)"
  by (simp add: server_ProcessClientDisconnection_def Let_def)

lemma server_ProcessClientInput_storage [simp]:
  "sv_storage (server_ProcessClientInput key data s) = sv_storage s"
  by (simp add: server_ProcessClientInput_def split: prod.splits)

lemma accept_storage:
  assumes "server_accept l d non_blocking s = (r, s')"
  shows "(r \<and> (\<exists>client sid w. sdv_accept d non_blocking (sv_world s) = (Some client, w) \<and> client \<noteq> null_fd \<and>
              sid \<noteq> NULL_ID \<and> sid = fst (l_subscribe l (event_getArray [E_HANDLE_EVENT_IN]) client w) \<and>
              (let c = \<lparr>sc_sub_id = sid, sc_state = E_CONNECTED, sc_input_registered = False,
                        sc_disconnection_registered = False, sc_local_buffer = []\<rparr>
               in sv_storage s' = AList.update client
                    (c\<lparr>sc_disconnection_registered := True, sc_input_registered := True\<rparr>)
                    (AList.update client c (sv_storage s))) \<and>
              sv_user s' = ProcessClientConnected client (sv_dispatcher s) (sv_user s))) \<or>
         (\<not> r \<and> sv_storage s' = sv_storage s \<and> sv_user s' = sv_user s)"
  using assms
  by (auto simp: server_accept_def setupClientEndpoint_def server_onClientConnected_def storage_store_def
      assoc_store_def generateKey_def Let_def update_map_of split: prod.splits option.splits if_splits)

lemma stored_onErrorEvent_clients:
  assumes "stored_onErrorEvent l d key c s = (ret, destroyed, s')" and "clients_ok (sv_storage s)"
    and "client_ok key (c\<lparr>sc_local_buffer := []\<rparr>)" and "map_of (sv_storage s) key = Some c"
    and "sc_state c \<noteq> E_CONNECTED \<Longrightarrow> client_ok key c"
  shows "clients_ok (sv_storage s')"
proof (cases "sc_state c = E_CONNECTED")
  case False
  with assms show ?thesis by (simp add: stored_onErrorEvent_def)
next
  case conn: True
  obtain ok w where dc: "sdv_client_disconnect d key (sv_world s) = (ok, w)"
    by (cases "sdv_client_disconnect d key (sv_world s)")
  have reg: "sc_disconnection_registered c" using assms(3) by (simp add: client_ok_def)
  show ?thesis
  proof (cases ok)
    case True
    with assms(1) conn dc reg
    have "sv_storage s' = assoc_erase key (AList.update key (c\<lparr>sc_state := E_DISCONNECTED\<rparr>) (sv_storage s))"
      by (auto simp: stored_onErrorEvent_def stored_ProcessDisconnection_def stored_update_def Let_def
          server_ProcessClientDisconnection_storage)
    with assms(2) show ?thesis by (simp add: clients_ok_erase_update)
  next
    case False
    with assms(1) conn dc
    have "sv_storage s' = AList.update key (c\<lparr>sc_state := E_DISCONNECTING\<rparr>) (sv_storage s)"
      by (auto simp: stored_onErrorEvent_def stored_update_def)
    moreover have "client_ok key (c\<lparr>sc_state := E_DISCONNECTING\<rparr>)"
      using assms(3) by (simp add: client_ok_def)
    ultimately show ?thesis using assms(2) by (simp add: clients_ok_update)
  qed
qed

text \<open>
  An input event on a stored client, in cases: the data goes to the server's input callback, a
  read error is ignored or marks the client, or it destroys the endpoint that is still running.
\<close>

lemma stored_onInputEvent_clients:
  assumes "stored_onInputEvent l d key c s = Some (ret, s')" and inv: "clients_ok (sv_storage s)"
    and c: "client_ok key c" and "map_of (sv_storage s) key = Some c"
  shows "clients_ok (sv_storage s')"
proof -
  obtain n buffer w where rd: "sdv_client_read d key (sc_local_buffer c) (sv_world s) = (n, buffer, w)"
    by (cases "sdv_client_read d key (sc_local_buffer c) (sv_world s)")
  let ?c1 = "c\<lparr>sc_local_buffer := buffer\<rparr>"
  let ?s1 = "stored_update key ?c1 (s\<lparr>sv_world := w\<rparr>)"
  show ?thesis
  proof (cases "n = - 1")
    case False
    have "client_ok key (?c1\<lparr>sc_local_buffer := []\<rparr>)"
      using c by (auto simp: client_ok_def)
    with False assms(1) rd inv show ?thesis
      by (auto simp: stored_onInputEvent_def Let_def stored_update_def intro: clients_ok_update)
  next
    case True
    obtain ret2 destroyed s2 where er: "stored_onErrorEvent l d key ?c1 ?s1 = (ret2, destroyed, s2)"
      by (cases "stored_onErrorEvent l d key ?c1 ?s1")
    with True assms(1) rd have s': "s' = s2" and nd: "\<not> destroyed"
      by (auto simp: stored_onInputEvent_def Let_def split: if_splits)
    show ?thesis
    proof (cases "sc_state c = E_CONNECTED")
      case False
      with c have "client_ok key ?c1" by (simp add: client_ok_def)
      with er False s' inv show ?thesis
        by (auto simp: stored_onErrorEvent_def stored_update_def clients_ok_update)
    next
      case conn: True
      obtain ok w2 where dc: "sdv_client_disconnect d key w = (ok, w2)"
        by (cases "sdv_client_disconnect d key w")
      from c have "sc_disconnection_registered c" by (simp add: client_ok_def)
      with er conn dc nd have "\<not> ok"
        by (auto simp: stored_onErrorEvent_def stored_update_def stored_ProcessDisconnection_def Let_def split: if_splits)
      with er conn dc s' have "sv_storage s' = AList.update key (?c1\<lparr>sc_state := E_DISCONNECTING\<rparr>) (AList.update key ?c1 (sv_storage s))"
        by (auto simp: stored_onErrorEvent_def stored_update_def)
      moreover have "client_ok key (?c1\<lparr>sc_state := E_DISCONNECTING\<rparr>)"
        using c by (simp add: client_ok_def)
      ultimately show ?thesis using inv by (simp add: clients_ok_update)
    qed
  qed
qed

lemma stored_shutdown_undefined:
  "client_ok key c \<Longrightarrow> stored_onDisconnection l d key c s = None"
  by (simp add: stored_onDisconnection_def stored_ProcessDisconnection_def client_ok_def)

lemma stored_handleEvent_clients:
  assumes "stored_handleEvent l d key sid event s = Some (r, s')" and inv: "clients_ok (sv_storage s)"
  shows "clients_ok (sv_storage s')"
proof -
  from assms(1) obtain c where c: "map_of (sv_storage s) key = Some c"
    by (auto simp: stored_handleEvent_def split: option.splits)
  with inv have ok: "client_ok key c" by (simp add: clients_ok_def)
  show ?thesis
  proof (cases "sc_sub_id c = sid")
    case False
    with assms c show ?thesis by (simp add: stored_handleEvent_def)
  next
    case True
    note h = assms(1) [unfolded stored_handleEvent_def]
    note sub = True
    show ?thesis
    proof (cases event)
      case E_HANDLE_EVENT_ERR
      with h obtain ret destroyed where "stored_onErrorEvent l d key c s = (ret, destroyed, s')"
        by (auto simp: c sub event_result_of_def split: prod.splits)
      then show ?thesis
        by (rule stored_onErrorEvent_clients) (use inv ok c in \<open>auto simp: client_ok_def\<close>)
    next
      case E_HANDLE_EVENT_IN
      with h obtain ret where "stored_onInputEvent l d key c s = Some (ret, s')"
        by (auto simp: c sub event_result_of_def split: prod.splits)
      then show ?thesis
        by (rule stored_onInputEvent_clients) (use inv ok c in auto)
    next
      case E_HANDLE_EVENT_SHUTDOWN
      with h stored_shutdown_undefined [OF ok, of l d s] show ?thesis by (simp add: c sub)
    qed (use h inv in \<open>auto simp: c sub event_result_of_def split: prod.splits\<close>)
  qed
qed

lemma accept_clients:
  assumes "server_accept l d non_blocking s = (r, s')" and "clients_ok (sv_storage s)"
  shows "clients_ok (sv_storage s')"
  using accept_storage [OF assms(1)] assms(2)
  by (auto simp: Let_def client_ok_def intro!: clients_ok_update)

lemma server_step_clients:
  assumes "server_step l d s s'" and "clients_ok (sv_storage s)"
  shows "clients_ok (sv_storage s')"
  using assms
  by (cases rule: server_step.cases)
    (auto simp: server_bind_def server_listen_def server_send_def accept_clients stored_handleEvent_clients
      split: prod.splits if_splits option.splits)

lemma server_reachable_clients: "server_reachable l d s \<Longrightarrow> clients_ok (sv_storage s)"
  by (induction rule: server_reachable.induct)
    (auto simp: clients_ok_def empty_server_def dest: server_step_clients [unfolded clients_ok_def])

text \<open>A listening socket whose next client has descriptor 5, for the examples.\<close>

definition example_listener :: "unit listener" where
  "example_listener = \<lparr>l_subscribe = \<lambda>es f w. (9, w), l_unsubscribe = \<lambda>i w. (True, w)\<rparr>"

definition example_device :: "(unit, unit) server_device" where
  "example_device =
     \<lparr>sdv_bind = \<lambda>a r w. (True, w), sdv_listen = \<lambda>b w. (True, w), sdv_accept = \<lambda>nb w. (Some 5, w),
      sdv_close = \<lambda>f w. w, sdv_client_disconnect = \<lambda>f w. (True, w),
      sdv_client_read = \<lambda>f buf w. (- 1, buf, w), sdv_client_send = \<lambda>f data w. (int (length data), w)\<rparr>"

definition example_dispatcher :: "fd list server_dispatcher" where
  "example_dispatcher =
     \<lparr>sd_local_buffer = None, sd_input_cb = None, sd_connected_cb = Some (\<lambda>key u. u @ [key]),
      sd_disconnected_cb = None\<rparr>"

definition example_server :: "(unit, fd list) server" where
  "example_server = snd (server_accept example_listener example_device True (empty_server example_dispatcher () []))"

definition example_client :: stored_client where
  "example_client =
     \<lparr>sc_sub_id = 9, sc_state = E_CONNECTED, sc_input_registered = True, sc_disconnection_registered = True,
      sc_local_buffer = []\<rparr>"

lemma example_accept:
  "server_accept example_listener example_device True (empty_server example_dispatcher () []) =
     (True, (empty_server example_dispatcher () [5])\<lparr>sv_storage := [(5, example_client)]\<rparr>)"
  by (simp add: server_accept_def setupClientEndpoint_def server_onClientConnected_def storage_store_def
      assoc_store_def generateKey_def Let_def example_listener_def example_device_def example_dispatcher_def
      empty_server_def ProcessClientConnected_def example_client_def)

lemma example_reachable: "server_reachable example_listener example_device example_server"
  by (rule sreach_step [OF sreach_init [of _ _ example_dispatcher "()" "[]"] sstep_accept [of _ _ True _ True]])
    (simp add: example_server_def example_accept)

lemma example_storage: "sv_storage example_server = [(5, example_client)]"
  by (simp add: example_server_def example_accept)

lemma empty_server_selectors [simp]:
  "sv_storage (empty_server disp w u) = []" "sv_user (empty_server disp w u) = u"
  "sv_dispatcher (empty_server disp w u) = disp"
  by (simp_all add: empty_server_def)

lemma example_user: "sv_user example_server = [5]"
  by (simp add: example_server_def example_accept)



text \<open>
  Accepting a client: the new client's table entry, the user's callback called once with its
  key, the other clients untouched; and when nothing could be accepted, subscribed or
  identified, no client and no callback.
\<close>

theorem accept_effect:
  assumes "server_accept l d non_blocking s = (r, s')"
  shows "(r \<longrightarrow> (\<exists>client c. client_ok client c \<and> sc_state c = E_CONNECTED \<and>
            map_of (sv_storage s') = (map_of (sv_storage s))(client \<mapsto> c) \<and>
            sv_user s' = ProcessClientConnected client (sv_dispatcher s) (sv_user s))) \<and>
    (\<not> r \<longrightarrow> sv_storage s' = sv_storage s \<and> sv_user s' = sv_user s)"
proof (cases r)
  case True
  with accept_storage [OF assms] obtain client sid where
    "client \<noteq> null_fd" "sid \<noteq> NULL_ID"
    and st: "sv_storage s' = AList.update client
        \<lparr>sc_sub_id = sid, sc_state = E_CONNECTED, sc_input_registered = True,
         sc_disconnection_registered = True, sc_local_buffer = []\<rparr>
        (AList.update client \<lparr>sc_sub_id = sid, sc_state = E_CONNECTED, sc_input_registered = False,
         sc_disconnection_registered = False, sc_local_buffer = []\<rparr> (sv_storage s))"
    and u: "sv_user s' = ProcessClientConnected client (sv_dispatcher s) (sv_user s)"
    by (auto simp: Let_def)
  let ?c = "\<lparr>sc_sub_id = sid, sc_state = E_CONNECTED, sc_input_registered = True,
         sc_disconnection_registered = True, sc_local_buffer = []\<rparr>"
  have "client_ok client ?c"
    using \<open>client \<noteq> null_fd\<close> \<open>sid \<noteq> NULL_ID\<close> by (simp add: client_ok_def)
  moreover have "map_of (sv_storage s') = (map_of (sv_storage s))(client \<mapsto> ?c)"
    by (simp add: st update_map_of)
  ultimately show ?thesis using True u by (intro conjI impI exI [of _ client] exI [of _ ?c]) simp_all
next
  case False
  with accept_storage [OF assms] show ?thesis by auto
qed

theorem accept_effect_witness:
  "\<exists>client c. client_ok client c \<and>
     map_of (sv_storage example_server) = [client \<mapsto> c] \<and>
     sv_user example_server = ProcessClientConnected client example_dispatcher []"
  using accept_effect [OF example_accept] by (auto simp: example_storage example_user)

text \<open>
  A stored client's shutdown destroys the endpoint that handles it: the server's disconnection
  callback erases the client from the table, and \<^verbatim>\<open>onDisconnection\<close> goes on with the
  role of the destroyed endpoint. So does the input event that finds a read error on a connected
  client.
\<close>

theorem client_shutdown_use_after_free:
  assumes "server_reachable l d s" and "map_of (sv_storage s) key = Some c"
  shows "stored_handleEvent l d key (sc_sub_id c) E_HANDLE_EVENT_SHUTDOWN s = None \<and>
    (sc_state c = E_CONNECTED \<and> sdv_client_read d key [] (sv_world s) = (- 1, buffer, w) \<and>
     fst (sdv_client_disconnect d key w) \<longrightarrow>
     stored_handleEvent l d key (sc_sub_id c) E_HANDLE_EVENT_IN s = None)"
proof -
  from server_reachable_clients [OF assms(1)] assms(2) have ok: "client_ok key c"
    by (simp add: clients_ok_def)
  then have reg: "sc_disconnection_registered c" by (simp add: client_ok_def)
  have "stored_onInputEvent l d key c s = None"
    if "sc_state c = E_CONNECTED" and "sdv_client_read d key [] (sv_world s) = (- 1, buffer, w)"
      and "fst (sdv_client_disconnect d key w)"
    using that ok reg
    by (auto simp: stored_onInputEvent_def stored_onErrorEvent_def stored_update_def client_ok_def
        stored_ProcessDisconnection_def Let_def split: prod.splits)
  with assms(2) stored_shutdown_undefined [OF ok] show ?thesis
    by (auto simp: stored_handleEvent_def)
qed

theorem client_shutdown_use_after_free_witness:
  "stored_handleEvent example_listener example_device 5 9 E_HANDLE_EVENT_SHUTDOWN example_server = None \<and>
    stored_handleEvent example_listener example_device 5 9 E_HANDLE_EVENT_IN example_server = None"
proof -
  have "map_of (sv_storage example_server) 5 = Some example_client"
    by (simp add: example_storage)
  from client_shutdown_use_after_free [OF example_reachable this, of "[]" "()"] show ?thesis
    by (simp add: example_client_def example_device_def)
qed

subsection \<open>A pipe's early input\<close>

fun early_inputs :: "fd \<Rightarrow> string list \<Rightarrow> 'u server_dispatcher \<times> 'u \<Rightarrow> 'u server_dispatcher \<times> 'u" where
  "early_inputs key [] su = su"
| "early_inputs key (m # ms) su = early_inputs key ms (ProcessClientInput key m (fst su) (snd su))"

lemma early_inputs_kept:
  assumes "sd_input_cb s = None" and "sd_local_buffer s = Some b" and "key \<noteq> null_fd"
    and "lb_key b = key \<or> lb_key b = null_fd"
  shows "early_inputs key ms (s, u) =
    (s\<lparr>sd_local_buffer := Some (if ms = [] then b else \<lparr>lb_buffer = lb_buffer b @ concat ms, lb_key = key\<rparr>)\<rparr>, u)"
  using assms
proof (induction ms arbitrary: s b)
  case Nil
  then show ?case by simp
next
  case (Cons m ms)
  have st: "buffer_store key m b = \<lparr>lb_buffer = lb_buffer b @ m, lb_key = key\<rparr>"
    using Cons.prems by (cases b) (auto simp: buffer_store_def Let_def)
  show ?case
    using Cons.prems Cons.IH [of "s\<lparr>sd_local_buffer := Some \<lparr>lb_buffer = lb_buffer b @ m, lb_key = key\<rparr>\<rparr>"
        "\<lparr>lb_buffer = lb_buffer b @ m, lb_key = key\<rparr>"]
    by (simp add: ProcessClientInput_def st)
qed

text \<open>
  What a pipe server reads before its user has registered an input callback is kept: registering
  the first callback hands it everything at once, under the descriptor's key and in the order
  of the reads, and the buffer is empty afterwards. With nothing kept the callback is called
  all the same, with the default key and no data.
\<close>

theorem pipe_input_kept:
  assumes "sd_input_cb s = None" and "sd_local_buffer s = Some empty_buffer" and "key \<noteq> null_fd"
    and "early_inputs key ms (s, u) = (s1, u1)"
    and "registerClientInputCallback (Some cb) s1 u1 = (r, s2, u2)"
  shows "r \<and> u2 = cb (if ms = [] then null_fd else key) (concat ms) u \<and>
    sd_local_buffer s2 = Some empty_buffer \<and> sd_input_cb s2 = Some cb"
  using assms early_inputs_kept [OF assms(1,2,3), of ms u]
  by (auto simp: registerClientInputCallback_def ProcessClientInput_def Let_def empty_buffer_def buffer_clear_def)

theorem pipe_input_kept_witness:
  "snd (snd (registerClientInputCallback (Some (\<lambda>key data u. u @ [(key, data)]))
      (fst (early_inputs 6 [''ab'', ''c'']
        (\<lparr>sd_local_buffer = Some empty_buffer, sd_input_cb = None, sd_connected_cb = None,
          sd_disconnected_cb = None\<rparr>, []))) [])) = [(6, ''abc'')]"
proof -
  let ?s = "\<lparr>sd_local_buffer = Some empty_buffer, sd_input_cb = None, sd_connected_cb = None,
          sd_disconnected_cb = None\<rparr> :: (fd \<times> string) list server_dispatcher"
  let ?cb = "\<lambda>key data u. u @ [(key, data)]"
  obtain s1 u1 where e: "early_inputs 6 [''ab'', ''c''] (?s, []) = (s1, u1)"
    by (cases "early_inputs 6 [''ab'', ''c''] (?s, [])")
  obtain r s2 u2 where g: "registerClientInputCallback (Some ?cb) s1 u1 = (r, s2, u2)"
    by (cases "registerClientInputCallback (Some ?cb) s1 u1")
  have "u1 = []"
    using early_inputs_kept [of ?s empty_buffer 6 "[''ab'', ''c'']" "[]"] e by (simp add: empty_buffer_def)
  with pipe_input_kept [OF _ _ _ e g] e g show ?thesis by simp
qed

text \<open>
  A storage of many clients and the storage of a single one: the single one answers for the last
  stored key only, and its other client is gone.
\<close>

theorem single_storage_replaces:
  assumes "single_store k2 (Some e2) (snd (single_store k1 (Some e1) s)) = (r, s')" and "k1 \<noteq> k2"
  shows "single_getEndpointFor k2 s' = Some (Some e2) \<and> single_getEndpointFor k1 s' = None"
  using assms by (auto simp: single_store_def single_getEndpointFor_def)

theorem single_storage_replaces_witness:
  "single_getEndpointFor 4 (snd (single_store 5 (Some ''b'') (snd (single_store 4 (Some ''a'')
      \<lparr>ss_endpoint = None, ss_key = - 1 :: int\<rparr>)))) = None"
  using single_storage_replaces [of 5 "''b''" 4 "''a''" "\<lparr>ss_endpoint = None, ss_key = - 1 :: int\<rparr>" True
      "\<lparr>ss_endpoint = Some ''b'', ss_key = 5\<rparr>"]
  by (simp add: single_store_def)

end
