(* ===== verification/Connection.thy ===== *)
theory Connection
  imports ClientEndpoint
begin

text \<open>
  Setting up connections: the base class TransportInfra/EndpointConnectionInitialiserBase.hpp,
  its two derived classes (Acceptor.hpp and Connector2 in Connector.hpp), the older Connector,
  and the flag class of UtilitiesInfra/enum_flag.h they test events with. An endpoint is a value
  of any type with the operations of its interface on a world; a completion callback changes
  the world. What the derived class provides to its base is passed to the base's operations.
\<close>

unbundle bit_operations_syntax

subsection \<open>Flags\<close>

definition enum_flag :: "handle_event \<Rightarrow> u32" where
  "enum_flag e = of_nat (event_code e)"

definition flag_and :: "u32 \<Rightarrow> u32 \<Rightarrow> u32" where "flag_and a b = a AND b"
definition flag_or :: "u32 \<Rightarrow> u32 \<Rightarrow> u32" where "flag_or a b = a OR b"
definition flag_xor :: "u32 \<Rightarrow> u32 \<Rightarrow> u32" where "flag_xor a b = a XOR b"
definition flag_not :: "u32 \<Rightarrow> u32" where "flag_not a = NOT a"
definition flag_shiftl :: "u32 \<Rightarrow> nat \<Rightarrow> u32" where "flag_shiftl a n = push_bit n a"
definition flag_shiftr :: "u32 \<Rightarrow> nat \<Rightarrow> u32" where "flag_shiftr a n = signed_drop_bit n a"

subsection \<open>The base\<close>

record ('p, 'w) endpoint_ops =
  eo_handle :: "'p \<Rightarrow> 'w \<Rightarrow> fd"
  eo_bind :: "'p \<Rightarrow> bool \<Rightarrow> 'w \<Rightarrow> bool \<times> 'p \<times> 'w"
  eo_listen :: "'p \<Rightarrow> 'w \<Rightarrow> bool \<times> 'p \<times> 'w"
  eo_accept :: "'p \<Rightarrow> bool \<Rightarrow> 'w \<Rightarrow> bool \<times> 'p \<times> 'w"
  eo_connect :: "'p \<Rightarrow> bool \<Rightarrow> 'w \<Rightarrow> bool \<times> 'p \<times> 'w"
  eo_onConnected :: "'p \<Rightarrow> 'w \<Rightarrow> 'p \<times> 'w"
  eo_listenerSubscribe :: "'p \<Rightarrow> events_array \<Rightarrow> 'w \<Rightarrow> bool \<times> 'p \<times> 'w"
  eo_destroy :: "'p \<Rightarrow> 'w \<Rightarrow> 'w"

type_synonym ('p, 'w) completion = "'p option \<Rightarrow> 'w \<Rightarrow> 'w"

record ('p, 'w) endpoint_subscriber =
  es_wrapped_endpoint :: "'p option"
  es_completion_callback :: "('p, 'w) completion"

type_synonym ('p, 'w) subscribers = "(u64 \<times> ('p, 'w) endpoint_subscriber) list"
type_synonym ('p, 'w) initialiser = "('p, 'w) subscribers \<times> 'w"

definition completeClientService :: "u64 \<Rightarrow> ('p, 'w) endpoint_subscriber \<Rightarrow> ('p, 'w) initialiser \<Rightarrow> ('p, 'w) initialiser" where
  "completeClientService sid sub st =
     (case st of (subs, w) \<Rightarrow>
        (AList.delete sid subs, es_completion_callback sub (es_wrapped_endpoint sub) w))"

text \<open>
  \<open>post\<close> is the derived class's \<^verbatim>\<open>postConnectionAction\<close>. An endpoint of the table is never
  null before its service is completed.
\<close>

definition base_handleConnectionSuccess ::
    "('p \<Rightarrow> 'w \<Rightarrow> bool \<times> 'p \<times> 'w) \<Rightarrow> 'w listener \<Rightarrow> u64 \<Rightarrow> ('p, 'w) endpoint_subscriber \<Rightarrow>
      ('p, 'w) initialiser \<Rightarrow> ('p, 'w) initialiser option" where
  "base_handleConnectionSuccess post l sid sub st =
     (case st of (subs, w) \<Rightarrow>
        case es_wrapped_endpoint sub of
          None \<Rightarrow> None
        | Some p \<Rightarrow>
            (case post p (snd (l_unsubscribe l sid w)) of (ok, p', w') \<Rightarrow>
               let sub' = sub\<lparr>es_wrapped_endpoint := Some p'\<rparr>; st' = (AList.update sid sub' subs, w')
               in Some (if ok then completeClientService sid sub' st' else st')))"

definition base_handleConnectionFailure ::
    "('p, 'w) endpoint_ops \<Rightarrow> 'w listener \<Rightarrow> u64 \<Rightarrow> ('p, 'w) endpoint_subscriber \<Rightarrow>
      ('p, 'w) initialiser \<Rightarrow> ('p, 'w) initialiser" where
  "base_handleConnectionFailure eo l sid sub st =
     (case st of (subs, w) \<Rightarrow>
        let w1 = snd (l_unsubscribe l sid w);
            w2 = (case es_wrapped_endpoint sub of None \<Rightarrow> w1 | Some p \<Rightarrow> eo_destroy eo p w1);
            sub' = sub\<lparr>es_wrapped_endpoint := None\<rparr>
        in completeClientService sid sub' (AList.update sid sub' subs, w2))"

definition base_handleEvent ::
    "(handle_event \<Rightarrow> event_result) \<Rightarrow> ('p \<Rightarrow> 'w \<Rightarrow> bool \<times> 'p \<times> 'w) \<Rightarrow> ('p, 'w) endpoint_ops \<Rightarrow>
      'w listener \<Rightarrow> u64 \<Rightarrow> handle_event \<Rightarrow> ('p, 'w) initialiser \<Rightarrow> (event_result \<times> ('p, 'w) initialiser) option" where
  "base_handleEvent impl post eo l sid event st =
     (case map_of (fst st) sid of
        None \<Rightarrow> Some (E_RESULT_INVALID_REFERENCE, st)
      | Some sub \<Rightarrow>
          (case impl event of
             E_RESULT_SUCCESS \<Rightarrow>
               map_option (\<lambda>st'. (E_RESULT_SUCCESS, st')) (base_handleConnectionSuccess post l sid sub st)
           | E_RESULT_FAILURE \<Rightarrow> Some (E_RESULT_FAILURE, base_handleConnectionFailure eo l sid sub st)
           | r \<Rightarrow> Some (r, st)))"

definition base_subscribe ::
    "('p, 'w) endpoint_ops \<Rightarrow> 'w listener \<Rightarrow> ('p, 'w) completion \<Rightarrow> 'p \<Rightarrow> events_array \<Rightarrow>
      ('p, 'w) initialiser \<Rightarrow> bool \<times> ('p, 'w) initialiser" where
  "base_subscribe eo l cb p events st =
     (case st of (subs, w) \<Rightarrow>
        case l_subscribe l events (eo_handle eo p w) w of (sid, w1) \<Rightarrow>
          if NULL_ID \<noteq> sid
          then (True, (AList.update sid \<lparr>es_wrapped_endpoint = Some p, es_completion_callback = cb\<rparr> subs, w1))
          else (False, (subs, eo_destroy eo p w1)))"

subsection \<open>The acceptor\<close>

definition acceptor_handleEventImpl :: "handle_event \<Rightarrow> event_result" where
  "acceptor_handleEventImpl event =
     (if E_HANDLE_EVENT_IN = event then E_RESULT_SUCCESS
      else if E_HANDLE_EVENT_ERR = event then E_RESULT_FAILURE
      else E_RESULT_DEFAULT)"

definition acceptor_postConnectionAction :: "('p, 'w) endpoint_ops \<Rightarrow> 'p \<Rightarrow> 'w \<Rightarrow> bool \<times> 'p \<times> 'w" where
  "acceptor_postConnectionAction eo p w =
     (case eo_accept eo p True w of (ok, p1, w1) \<Rightarrow>
        if ok then (True, snd (eo_listenerSubscribe eo p1 (event_getArray [E_HANDLE_EVENT_IN]) w1))
        else (False, p1, w1))"

definition listenForConnections ::
    "('p, 'w) endpoint_ops \<Rightarrow> 'w listener \<Rightarrow> ('p, 'w) completion \<Rightarrow> 'p \<Rightarrow> ('p, 'w) initialiser \<Rightarrow> bool \<times> ('p, 'w) initialiser" where
  "listenForConnections eo l cb p st =
     (case st of (subs, w) \<Rightarrow>
        case eo_bind eo p True w of (bound, p1, w1) \<Rightarrow>
          if \<not> bound then (False, (subs, eo_destroy eo p1 w1))
          else case eo_listen eo p1 w1 of (listening, p2, w2) \<Rightarrow>
                 if \<not> listening then (False, (subs, eo_destroy eo p2 w2))
                 else base_subscribe eo l cb p2 (event_getArray [E_HANDLE_EVENT_IN]) (subs, w2))"

text \<open>\<open>p\<close> is the endpoint the factory makes, \<open>has_storage\<close> the trait that picks the overload.\<close>

definition acceptor_setupImpl ::
    "('p, 'w) endpoint_ops \<Rightarrow> 'w listener \<Rightarrow> bool \<Rightarrow> ('p, 'w) completion \<Rightarrow> 'p \<Rightarrow> ('p, 'w) initialiser \<Rightarrow> bool \<times> ('p, 'w) initialiser" where
  "acceptor_setupImpl eo l has_storage cb p st =
     (if has_storage then listenForConnections eo l cb p st else (False, st))"

definition acceptor_handleEvent ::
    "('p, 'w) endpoint_ops \<Rightarrow> 'w listener \<Rightarrow> u64 \<Rightarrow> handle_event \<Rightarrow> ('p, 'w) initialiser \<Rightarrow> (event_result \<times> ('p, 'w) initialiser) option" where
  "acceptor_handleEvent eo l = base_handleEvent acceptor_handleEventImpl (acceptor_postConnectionAction eo) eo l"

subsection \<open>The connector\<close>

definition connector_handleEventImpl :: "handle_event \<Rightarrow> event_result" where
  "connector_handleEventImpl event =
     (if E_HANDLE_EVENT_OUT = event then E_RESULT_SUCCESS
      else if flag_and (enum_flag event) (flag_or (enum_flag E_HANDLE_EVENT_ERR) (enum_flag E_HANDLE_EVENT_HUP)) \<noteq> 0
      then E_RESULT_FAILURE else E_RESULT_DEFAULT)"

definition connector_postConnectionAction :: "('p, 'w) endpoint_ops \<Rightarrow> 'p \<Rightarrow> 'w \<Rightarrow> bool \<times> 'p \<times> 'w" where
  "connector_postConnectionAction eo p w =
     (case eo_onConnected eo p w of (p1, w1) \<Rightarrow>
        (True, snd (eo_listenerSubscribe eo p1 (event_getArray [E_HANDLE_EVENT_IN]) w1)))"

definition connector_connect ::
    "('p, 'w) endpoint_ops \<Rightarrow> 'w listener \<Rightarrow> ('p, 'w) completion \<Rightarrow> 'p \<Rightarrow> ('p, 'w) initialiser \<Rightarrow> bool \<times> ('p, 'w) initialiser" where
  "connector_connect eo l cb p st =
     (case st of (subs, w) \<Rightarrow>
        case eo_connect eo p True w of (ok, p1, w1) \<Rightarrow>
          if ok then base_subscribe eo l cb p1 (event_getArray [E_HANDLE_EVENT_OUT]) (subs, w1)
          else (False, (subs, eo_destroy eo p1 w1)))"

definition connector_connect_fifo ::
    "('p, 'w) endpoint_ops \<Rightarrow> ('p, 'w) completion \<Rightarrow> 'p \<Rightarrow> ('p, 'w) initialiser \<Rightarrow> bool \<times> ('p, 'w) initialiser" where
  "connector_connect_fifo eo cb p st =
     (case st of (subs, w) \<Rightarrow>
        case eo_connect eo p True w of (ok, p1, w1) \<Rightarrow>
          if ok then (case connector_postConnectionAction eo p1 w1 of (r, p2, w2) \<Rightarrow> (True, (subs, cb (Some p2) w2)))
          else (False, (subs, eo_destroy eo p1 (cb None w1))))"

definition connector_setupImpl ::
    "('p, 'w) endpoint_ops \<Rightarrow> 'w listener \<Rightarrow> bool \<Rightarrow> ('p, 'w) completion \<Rightarrow> 'p \<Rightarrow> ('p, 'w) initialiser \<Rightarrow> bool \<times> ('p, 'w) initialiser" where
  "connector_setupImpl eo l is_pipe cb p st =
     (if is_pipe then connector_connect_fifo eo cb p st else connector_connect eo l cb p st)"

definition connector_handleEvent ::
    "('p, 'w) endpoint_ops \<Rightarrow> 'w listener \<Rightarrow> u64 \<Rightarrow> handle_event \<Rightarrow> ('p, 'w) initialiser \<Rightarrow> (event_result \<times> ('p, 'w) initialiser) option" where
  "connector_handleEvent eo l = base_handleEvent connector_handleEventImpl (connector_postConnectionAction eo) eo l"

subsection \<open>The older connector\<close>

definition old_handleConnectionFailure ::
    "('p, 'w) endpoint_ops \<Rightarrow> 'w listener \<Rightarrow> u64 \<Rightarrow> ('p, 'w) endpoint_subscriber \<Rightarrow> handle_event \<Rightarrow>
      ('p, 'w) initialiser \<Rightarrow> ('p, 'w) initialiser" where
  "old_handleConnectionFailure eo l sid sub event st =
     (case st of (subs, w) \<Rightarrow>
        if flag_and (enum_flag event) (flag_or (enum_flag E_HANDLE_EVENT_ERR) (enum_flag E_HANDLE_EVENT_HUP)) \<noteq> 0
        then (let w1 = (case es_wrapped_endpoint sub of None \<Rightarrow> w | Some p \<Rightarrow> eo_destroy eo p w);
                  sub' = sub\<lparr>es_wrapped_endpoint := None\<rparr>
              in completeClientService sid sub' (AList.update sid sub' subs, snd (l_unsubscribe l sid w1)))
        else st)"

definition old_handleConnectionSuccess ::
    "('p, 'w) endpoint_ops \<Rightarrow> 'w listener \<Rightarrow> u64 \<Rightarrow> ('p, 'w) endpoint_subscriber \<Rightarrow>
      ('p, 'w) initialiser \<Rightarrow> ('p, 'w) initialiser option" where
  "old_handleConnectionSuccess eo l sid sub st =
     (case st of (subs, w) \<Rightarrow>
        case es_wrapped_endpoint sub of
          None \<Rightarrow> None
        | Some p \<Rightarrow>
            (case connector_postConnectionAction eo p (snd (l_unsubscribe l sid w)) of (ok, p', w') \<Rightarrow>
               let sub' = sub\<lparr>es_wrapped_endpoint := Some p'\<rparr>
               in Some (completeClientService sid sub' (AList.update sid sub' subs, w'))))"

definition old_connector_handleEvent ::
    "('p, 'w) endpoint_ops \<Rightarrow> 'w listener \<Rightarrow> u64 \<Rightarrow> handle_event \<Rightarrow> ('p, 'w) initialiser \<Rightarrow> (event_result \<times> ('p, 'w) initialiser) option" where
  "old_connector_handleEvent eo l sid event st =
     (case map_of (fst st) sid of
        None \<Rightarrow> Some (E_RESULT_INVALID_REFERENCE, st)
      | Some sub \<Rightarrow>
          if E_HANDLE_EVENT_OUT = event
          then map_option (\<lambda>st'. (E_RESULT_SUCCESS, st')) (old_handleConnectionSuccess eo l sid sub st)
          else Some (E_RESULT_FAILURE, old_handleConnectionFailure eo l sid sub event st))"

subsection \<open>What the base promises its derived classes\<close>

text \<open>
  A derived class gives its base a classification of the events and an action after success. The
  classification never answers that a reference is invalid; a class whose action always succeeds
  completes every service with its first decisive event.
\<close>

fun base_events ::
    "(handle_event \<Rightarrow> ('p, 'w) initialiser \<Rightarrow> (event_result \<times> ('p, 'w) initialiser) option) \<Rightarrow>
      handle_event list \<Rightarrow> ('p, 'w) initialiser \<Rightarrow> ('p, 'w) initialiser option" where
  "base_events h [] st = Some st"
| "base_events h (e # es) st = (case h e st of None \<Rightarrow> None | Some (r, st') \<Rightarrow> base_events h es st')"

lemma base_unknown_id: "map_of subs sid = None \<Longrightarrow>
    base_handleEvent impl post eo l sid event (subs, w) = Some (E_RESULT_INVALID_REFERENCE, (subs, w))"
  by (simp add: base_handleEvent_def)

lemma base_events_unknown:
  "map_of subs sid = None \<Longrightarrow> base_events (base_handleEvent impl post eo l sid) es (subs, w) = Some (subs, w)"
  by (induction es) (simp_all add: base_unknown_id)

locale initialiser_role =
  fixes impl :: "handle_event \<Rightarrow> event_result"
    and post :: "'p \<Rightarrow> 'w \<Rightarrow> bool \<times> 'p \<times> 'w"
  assumes impl_cases: "impl e \<in> {E_RESULT_SUCCESS, E_RESULT_FAILURE, E_RESULT_DEFAULT}"
begin

lemma frame:
  assumes "base_handleEvent impl post eo l sid event st = Some (r, st')" and "key \<noteq> sid"
  shows "map_of (fst st') key = map_of (fst st) key"
proof (cases "map_of (fst st) sid")
  case None
  with assms show ?thesis by (simp add: base_handleEvent_def)
next
  case (Some sub)
  from impl_cases [of event] consider "impl event = E_RESULT_SUCCESS" | "impl event = E_RESULT_FAILURE"
    | "impl event = E_RESULT_DEFAULT" by auto
  then show ?thesis
    using Some assms
    by cases (auto simp: base_handleEvent_def base_handleConnectionSuccess_def base_handleConnectionFailure_def
        completeClientService_def Let_def update_map_of delete_map_of
        split: prod.splits option.splits if_splits)
qed

lemma undecided:
  assumes "map_of (fst st) sid = Some sub" and "impl event = E_RESULT_DEFAULT"
  shows "base_handleEvent impl post eo l sid event st = Some (E_RESULT_DEFAULT, st)"
  using assms by (simp add: base_handleEvent_def)

lemma failure_completes:
  assumes "map_of subs sid = Some sub" and "impl event = E_RESULT_FAILURE" and "es_wrapped_endpoint sub = Some p"
  shows "base_handleEvent impl post eo l sid event (subs, w) =
    Some (E_RESULT_FAILURE,
      (AList.delete sid subs, es_completion_callback sub None (eo_destroy eo p (snd (l_unsubscribe l sid w)))))"
  using assms
  by (simp add: base_handleEvent_def base_handleConnectionFailure_def completeClientService_def Let_def
      delete_update_same)

end

locale completing_role = initialiser_role impl post
  for impl and post :: "'p \<Rightarrow> 'w \<Rightarrow> bool \<times> 'p \<times> 'w" +
  assumes post_ok: "fst (post p w)"
begin

lemma success_completes:
  assumes "map_of subs sid = Some sub" and "impl event = E_RESULT_SUCCESS" and "es_wrapped_endpoint sub = Some p"
  shows "base_handleEvent impl post eo l sid event (subs, w) =
    (case post p (snd (l_unsubscribe l sid w)) of (ok, p', w') \<Rightarrow>
       Some (E_RESULT_SUCCESS, (AList.delete sid subs, es_completion_callback sub (Some p') w')))"
  using assms post_ok [of p "snd (l_unsubscribe l sid w)"]
  by (auto simp: base_handleEvent_def base_handleConnectionSuccess_def completeClientService_def Let_def
      delete_update_same split: prod.splits)

lemma first_decides:
  assumes "map_of (fst st) sid = Some sub" and "es_wrapped_endpoint sub = Some p"
  shows "base_events (base_handleEvent impl post eo l sid) es st =
    (case find (\<lambda>e. impl e \<noteq> E_RESULT_DEFAULT) es of
       None \<Rightarrow> Some st
     | Some e \<Rightarrow> map_option snd (base_handleEvent impl post eo l sid e st))"
proof (induction es)
  case (Cons e es)
  obtain subs w where st: "st = (subs, w)" by (cases st)
  have gone: "map_of (AList.delete sid subs) sid = None"
    by (simp add: delete_map_of)
  from impl_cases [of e] consider "impl e = E_RESULT_SUCCESS" | "impl e = E_RESULT_FAILURE"
    | "impl e = E_RESULT_DEFAULT" by auto
  then show ?case
  proof cases
    case 1
    then show ?thesis
      using assms success_completes [of subs sid sub e p eo l w] base_events_unknown [OF gone]
      by (simp add: st split: prod.splits)
  next
    case 2
    then show ?thesis
      using assms failure_completes [of subs sid sub e p eo l w] base_events_unknown [OF gone]
      by (simp add: st)
  next
    case 3
    then show ?thesis
      using Cons.IH undecided [OF assms(1)] by simp
  qed
qed simp

end

lemma connector_event_failure:
  "connector_handleEventImpl e =
    (case e of
       E_HANDLE_EVENT_OUT \<Rightarrow> E_RESULT_SUCCESS
     | E_HANDLE_EVENT_NULL \<Rightarrow> E_RESULT_DEFAULT
     | E_HANDLE_EVENT_PRIO_IN \<Rightarrow> E_RESULT_DEFAULT
     | _ \<Rightarrow> E_RESULT_FAILURE)"
  by (cases e) (simp_all add: connector_handleEventImpl_def flag_and_def flag_or_def enum_flag_def)

interpretation acceptor: initialiser_role acceptor_handleEventImpl "acceptor_postConnectionAction eo"
  for eo :: "('p, 'w) endpoint_ops"
  by unfold_locales (simp add: acceptor_handleEventImpl_def)

interpretation connector: completing_role connector_handleEventImpl "connector_postConnectionAction eo"
  for eo :: "('p, 'w) endpoint_ops"
  by unfold_locales
    (auto simp: connector_event_failure connector_postConnectionAction_def split: handle_event.splits prod.splits)


definition example_ops :: "(nat, string list) endpoint_ops" where
  "example_ops =
     \<lparr>eo_handle = \<lambda>p w. 4, eo_bind = \<lambda>p r w. (True, p, w), eo_listen = \<lambda>p w. (True, p, w),
      eo_accept = \<lambda>p nb w. (False, p, w @ [''accept'']), eo_connect = \<lambda>p nb w. (True, p, w),
      eo_onConnected = \<lambda>p w. (p + 1, w @ [''connected'']),
      eo_listenerSubscribe = \<lambda>p es w. (True, p, w @ [''subscribed'']), eo_destroy = \<lambda>p w. w @ [''destroyed'']\<rparr>"

definition example_events :: "string list listener" where
  "example_events = \<lparr>l_subscribe = \<lambda>es f w. (3, w), l_unsubscribe = \<lambda>i w. (True, w @ [''unsubscribed''])\<rparr>"

definition example_completion :: "(nat, string list) completion" where
  "example_completion p w = w @ [if p = None then ''failed'' else ''completed'']"


text \<open>
  When the first client cannot be accepted, the acceptor forgets its user: the service leaves
  the demultiplexer but stays in the table, its callback is not called, the event counts as
  handled.
\<close>

theorem acceptor_failed_accept_forgotten:
  assumes "map_of subs sid = Some sub" and "es_wrapped_endpoint sub = Some p"
    and "eo_accept eo p True (snd (l_unsubscribe l sid w)) = (False, p', w')"
  shows "acceptor_handleEvent eo l sid E_HANDLE_EVENT_IN (subs, w) =
    Some (E_RESULT_SUCCESS, (AList.update sid (sub\<lparr>es_wrapped_endpoint := Some p'\<rparr>) subs, w'))"
  using assms
  by (simp add: acceptor_handleEvent_def base_handleEvent_def acceptor_handleEventImpl_def
      base_handleConnectionSuccess_def acceptor_postConnectionAction_def Let_def)

theorem acceptor_failed_accept_forgotten_witness:
  "acceptor_handleEvent example_ops example_events 3 E_HANDLE_EVENT_IN
      ([(3, \<lparr>es_wrapped_endpoint = Some 0, es_completion_callback = example_completion\<rparr>)], []) =
    Some (E_RESULT_SUCCESS, ([(3, \<lparr>es_wrapped_endpoint = Some 0, es_completion_callback = example_completion\<rparr>)],
      [''unsubscribed'', ''accept'']))"
  by (subst acceptor_failed_accept_forgotten [where p = 0 and p' = 0 and w' = "[''unsubscribed'', ''accept'']" and
        sub = "\<lparr>es_wrapped_endpoint = Some 0, es_completion_callback = example_completion\<rparr>"])
    (simp_all add: example_ops_def example_events_def)

text \<open>
  A successful \<^verbatim>\<open>setup\<close> of a socket puts exactly one service in the table, for the endpoint
  that began to connect; one that fails, in connecting or in subscribing, leaves the table and
  destroys the endpoint, and its callback is never called.
\<close>

theorem connector_setup_effect:
  assumes "connector_setupImpl eo l False cb p (subs, w) = (r, (subs', w'))"
  shows "(r \<longrightarrow> (\<exists>sid q. sid \<noteq> NULL_ID \<and> fst (eo_connect eo p True w) \<and>
            map_of subs' = (map_of subs)(sid \<mapsto> \<lparr>es_wrapped_endpoint = Some q, es_completion_callback = cb\<rparr>))) \<and>
    (\<not> r \<longrightarrow> subs' = subs \<and> (\<exists>q w1. w' = eo_destroy eo q w1))"
  using assms
  by (auto simp: connector_setupImpl_def connector_connect_def base_subscribe_def update_map_of
      split: prod.splits if_splits) (intro exI conjI, assumption, rule refl)

theorem connector_setup_effect_witness:
  "\<exists>sid q. map_of (fst (snd (connector_setupImpl example_ops example_events False example_completion 0 ([], [])))) =
     [sid \<mapsto> \<lparr>es_wrapped_endpoint = Some q, es_completion_callback = example_completion\<rparr>]"
proof -
  obtain subs' w' where c: "connector_setupImpl example_ops example_events False example_completion 0 ([], []) =
      (True, (subs', w'))"
    by (simp add: connector_setupImpl_def connector_connect_def base_subscribe_def example_ops_def example_events_def)
  from connector_setup_effect [OF c] c show ?thesis by auto
qed

text \<open>
  The older connector and its successor answer alike and leave the same table on every event
  that one of them decides on; they differ in the events neither acts on, which the older one
  calls a failure.
\<close>

theorem old_connector_agrees:
  assumes "map_of subs sid = Some sub" and "es_wrapped_endpoint sub = Some p"
    and "event \<notin> {E_HANDLE_EVENT_NULL, E_HANDLE_EVENT_PRIO_IN}"
  shows "map_option (\<lambda>(r, st). (r, fst st)) (old_connector_handleEvent eo l sid event (subs, w)) =
    map_option (\<lambda>(r, st). (r, fst st)) (connector_handleEvent eo l sid event (subs, w)) \<and>
    (event = E_HANDLE_EVENT_OUT \<longrightarrow>
      old_connector_handleEvent eo l sid event (subs, w) = connector_handleEvent eo l sid event (subs, w))"
  using assms
  by (cases event)
    (auto simp: old_connector_handleEvent_def connector_handleEvent_def base_handleEvent_def
      connector_event_failure base_handleConnectionSuccess_def base_handleConnectionFailure_def
      old_handleConnectionSuccess_def old_handleConnectionFailure_def completeClientService_def Let_def
      connector_postConnectionAction_def flag_and_def flag_or_def enum_flag_def delete_update_same
      split: prod.splits)

theorem old_connector_agrees_witness:
  "old_connector_handleEvent example_ops example_events 3 E_HANDLE_EVENT_OUT
      ([(3, \<lparr>es_wrapped_endpoint = Some 0, es_completion_callback = example_completion\<rparr>)], []) =
    connector_handleEvent example_ops example_events 3 E_HANDLE_EVENT_OUT
      ([(3, \<lparr>es_wrapped_endpoint = Some 0, es_completion_callback = example_completion\<rparr>)], [])"
  using old_connector_agrees [of "[(3, \<lparr>es_wrapped_endpoint = Some 0, es_completion_callback = example_completion\<rparr>)]"
      3 "\<lparr>es_wrapped_endpoint = Some 0, es_completion_callback = example_completion\<rparr>" 0 E_HANDLE_EVENT_OUT
      example_ops example_events "[]"]
  by simp

end
