(* ===== verification/Addresses.thy ===== *)
theory Addresses
  imports Configuration
begin

text \<open>
  The addresses of sockets: HostAddress.hpp (the IPv4 and the IPv6 host), InetSocketAddress.hpp
  (a host with a port, and the \<^verbatim>\<open>sockaddr\<close> it fills) and UnixSocketAddress.cpp under
  TransportInfra/Devices/Sockets, with \<^verbatim>\<open>addressToString\<close> of
  UtilitiesInfra/InetUtils. The system's \<^verbatim>\<open>inet_pton\<close> and \<^verbatim>\<open>inet_ntop\<close> are
  parameters: \<open>pton\<close> gives the bytes of a well-formed address and nothing otherwise (where the
  system call answers 0 and writes nothing), \<open>ntop\<close> the text of an address. Integers lie in
  memory with their least byte first.
\<close>

unbundle bit_operations_syntax

subsection \<open>Byte order\<close>

definition memory_bytes :: "u32 \<Rightarrow> u8 list" where
  "memory_bytes x = map (\<lambda>i. ucast (drop_bit (8 * i) x)) [0, 1, 2, 3]"

definition from_memory :: "u8 list \<Rightarrow> u32" where
  "from_memory bs = foldr (\<lambda>b x. ucast b OR push_bit 8 x) bs 0"

definition htonl :: "u32 \<Rightarrow> u32" where
  "htonl x = from_memory (rev (memory_bytes x))"

definition htons :: "u16 \<Rightarrow> u16" where
  "htons x = push_bit 8 x OR drop_bit 8 x"

definition INADDR_LOOPBACK :: u32 where "INADDR_LOOPBACK = 0x7F000001"
definition INADDR_ANY :: u32 where "INADDR_ANY = 0"

subsection \<open>The IPv4 host\<close>

record host_address =
  ha_bytes :: "u8 list"
  ha_printable :: string
  ha_valid :: bool

text \<open>\<^verbatim>\<open>m_ipv4_address\<close> is not initialised: \<open>garbage\<close> is what the memory held.\<close>

definition HostAddress_default :: "u8 list \<Rightarrow> host_address" where
  "HostAddress_default garbage = \<lparr>ha_bytes = garbage, ha_printable = [], ha_valid = False\<rparr>"

definition host_resetData :: "host_address \<Rightarrow> host_address" where
  "host_resetData h = \<lparr>ha_bytes = replicate (length (ha_bytes h)) 0, ha_printable = [], ha_valid = False\<rparr>"

text \<open>
  An address from a string view: \<open>c_string\<close> is the text that starts where the view starts, up to
  the end of the string the view is a part of; the system call reads that. Its answer is only
  compared with \<open>- 1\<close>, which it never gives for the two families.
\<close>

definition extractAddress :: "(string \<Rightarrow> u8 list option) \<Rightarrow> string \<Rightarrow> host_address \<Rightarrow> bool \<times> host_address" where
  "extractAddress pton c_string h =
     (True, case pton c_string of Some bs \<Rightarrow> h\<lparr>ha_bytes := bs\<rparr> | None \<Rightarrow> h)"

definition host_initData_view :: "(string \<Rightarrow> u8 list option) \<Rightarrow> string \<Rightarrow> string \<Rightarrow> host_address \<Rightarrow> host_address" where
  "host_initData_view pton c_string view h =
     (case extractAddress pton c_string h of (ok, h1) \<Rightarrow>
        if ok then h1\<lparr>ha_printable := view, ha_valid := True\<rparr> else h1)"

definition extractPrintableAddress :: "(u8 list \<Rightarrow> string option) \<Rightarrow> u8 list \<Rightarrow> host_address \<Rightarrow> bool \<times> host_address" where
  "extractPrintableAddress ntop src h =
     (case ntop src of Some text \<Rightarrow> (True, h\<lparr>ha_printable := text\<rparr>) | None \<Rightarrow> (False, h))"

definition host_initData_u32 :: "(u8 list \<Rightarrow> string option) \<Rightarrow> u32 \<Rightarrow> host_address \<Rightarrow> host_address" where
  "host_initData_u32 ntop ipv4_addr h =
     (case extractPrintableAddress ntop (memory_bytes ipv4_addr) h of (ok, h1) \<Rightarrow>
        if ok then h1\<lparr>ha_bytes := memory_bytes ipv4_addr, ha_valid := True\<rparr> else h1)"

definition host_setAddress_u32 :: "(u8 list \<Rightarrow> string option) \<Rightarrow> u32 \<Rightarrow> host_address \<Rightarrow> host_address" where
  "host_setAddress_u32 ntop ipv4_addr h =
     host_initData_u32 ntop ipv4_addr (if ha_valid h then host_resetData h else h)"

definition host_setAddress_view :: "(string \<Rightarrow> u8 list option) \<Rightarrow> string \<Rightarrow> string \<Rightarrow> host_address \<Rightarrow> host_address" where
  "host_setAddress_view pton c_string view h =
     host_initData_view pton c_string view (if ha_valid h then host_resetData h else h)"

definition host_setAddressAny :: "(u8 list \<Rightarrow> string option) \<Rightarrow> host_address \<Rightarrow> host_address" where
  "host_setAddressAny ntop h = host_initData_u32 ntop INADDR_ANY (if ha_valid h then host_resetData h else h)"

definition host_setLocalHost :: "(u8 list \<Rightarrow> string option) \<Rightarrow> host_address \<Rightarrow> host_address" where
  "host_setLocalHost ntop h =
     host_initData_u32 ntop (htonl INADDR_LOOPBACK) (if ha_valid h then host_resetData h else h)"

definition LocalHost :: "(u8 list \<Rightarrow> string option) \<Rightarrow> u8 list \<Rightarrow> host_address" where
  "LocalHost ntop garbage = host_initData_u32 ntop INADDR_LOOPBACK (HostAddress_default garbage)"

definition AddressAny :: "(u8 list \<Rightarrow> string option) \<Rightarrow> u8 list \<Rightarrow> host_address" where
  "AddressAny ntop garbage = host_initData_u32 ntop INADDR_ANY (HostAddress_default garbage)"

definition host_getAddress :: "host_address \<Rightarrow> u32" where
  "host_getAddress h = (if ha_valid h then from_memory (ha_bytes h) else 0)"

definition host_getAddress_into :: "host_address \<Rightarrow> u32 \<Rightarrow> bool \<times> u32" where
  "host_getAddress_into h out = (if host_getAddress h \<noteq> 0 then (True, host_getAddress h) else (False, out))"

definition host_toString :: "host_address \<Rightarrow> string" where
  "host_toString h = (if ha_valid h then ha_printable h else [])"

definition addressToString :: "u8 list \<Rightarrow> string" where
  "addressToString bs = concat (map (\<lambda>(i, b). nat_digits (unat b) @ (if i = length bs - 1 then [] else ''.'')) (enumerate 0 bs))"

definition host_toStringFullFormat :: "host_address \<Rightarrow> string" where
  "host_toStringFullFormat h = addressToString (ha_bytes h)"

definition host_eq :: "host_address \<Rightarrow> host_address \<Rightarrow> bool" where
  "host_eq a b = (host_toString a = host_toString b)"

definition host_eq_in_addr :: "host_address \<Rightarrow> u32 \<Rightarrow> bool" where
  "host_eq_in_addr h s_addr = (host_getAddress h = s_addr)"

definition host_isLoopback :: "host_address \<Rightarrow> bool" where
  "host_isLoopback h = host_eq_in_addr h (htonl INADDR_LOOPBACK)"

definition host_isAny :: "host_address \<Rightarrow> bool" where
  "host_isAny h = host_eq_in_addr h (htonl INADDR_ANY)"

fun string_less :: "string \<Rightarrow> string \<Rightarrow> bool" where
  "string_less _ [] = False"
| "string_less [] (_ # _) = True"
| "string_less (a # as) (b # bs) =
     ((of_char a :: nat) < of_char b \<or> a = b \<and> string_less as bs)"

definition host_less :: "host_address \<Rightarrow> host_address \<Rightarrow> bool" where
  "host_less a b = string_less (host_toString a) (host_toString b)"

subsection \<open>A host with a port\<close>

record network_address =
  na_port :: u16
  na_host :: host_address

definition network_empty :: "network_address \<Rightarrow> bool" where
  "network_empty n = (na_port n = 0 \<and> host_toString (na_host n) = [])"

definition network_eq :: "network_address \<Rightarrow> network_address \<Rightarrow> bool" where
  "network_eq a b = (host_eq (na_host a) (na_host b) \<and> na_port a = na_port b)"

definition network_less :: "network_address \<Rightarrow> network_address \<Rightarrow> bool" where
  "network_less a b =
     (if host_less (na_host a) (na_host b) then True
      else if host_eq (na_host a) (na_host b) then na_port a < na_port b else False)"

text \<open>
  The view of the host goes to \<^verbatim>\<open>setAddress\<close>, and with it the rest of the string behind
  it.
\<close>

definition find_last_of :: "char \<Rightarrow> string \<Rightarrow> nat option" where
  "find_last_of c s = (if c \<in> set s then Some (length s - 1 - length (takeWhile (\<lambda>d. d \<noteq> c) (rev s))) else None)"

definition network_fromString :: "(string \<Rightarrow> u8 list option) \<Rightarrow> string \<Rightarrow> network_address \<Rightarrow> bool \<times> network_address" where
  "network_fromString pton addr n =
     (let n0 = n\<lparr>na_host := host_resetData (na_host n), na_port := 0\<rparr>
      in case find_last_of (CHR '':'') addr of
           None \<Rightarrow> (False, n0)
         | Some sep_pos \<Rightarrow>
             (case from_chars 0 65535 (drop (sep_pos + 1) addr) of
                None \<Rightarrow> (False, n0)
              | Some port \<Rightarrow>
                  let h = host_setAddress_view pton addr (take sep_pos addr) (na_host n0)
                  in if \<not> ha_valid h then (False, n\<lparr>na_host := host_resetData h, na_port := 0\<rparr>)
                     else (True, \<lparr>na_port = of_int port, na_host = h\<rparr>)))"

definition network_toString :: "network_address \<Rightarrow> string" where
  "network_toString n = host_toString (na_host n) @ [CHR '':''] @ nat_digits (unat (na_port n))"

subsection \<open>The IPv4 socket address\<close>

record inet_socket_address =
  is_address :: network_address
  is_sin_port :: u16
  is_s_addr :: u32

definition InetSocketAddress_default :: "u8 list \<Rightarrow> inet_socket_address" where
  "InetSocketAddress_default garbage =
     \<lparr>is_address = \<lparr>na_port = 0, na_host = HostAddress_default garbage\<rparr>, is_sin_port = 0, is_s_addr = 0\<rparr>"

definition inet_setAddress :: "network_address \<Rightarrow> inet_socket_address \<Rightarrow> bool \<times> inet_socket_address" where
  "inet_setAddress addr s =
     (if ha_valid (na_host addr)
      then (True, s\<lparr>is_address := addr, is_sin_port := htons (na_port addr),
                    is_s_addr := htonl (host_getAddress (na_host addr))\<rparr>)
      else (False, s))"

definition inet_setAddress_sockaddr ::
    "(u8 list \<Rightarrow> string option) \<Rightarrow> u16 \<Rightarrow> u32 \<Rightarrow> inet_socket_address \<Rightarrow> inet_socket_address" where
  "inet_setAddress_sockaddr ntop sin_port s_addr s =
     s\<lparr>is_sin_port := sin_port, is_s_addr := s_addr,
       is_address := \<lparr>na_port = htons sin_port,
                     na_host = host_setAddress_u32 ntop (htonl s_addr) (na_host (is_address s))\<rparr>\<rparr>"

definition inet_getAddress :: "inet_socket_address \<Rightarrow> u16 \<times> u32" where
  "inet_getAddress s = (is_sin_port s, is_s_addr s)"

definition inet_copy :: "inet_socket_address \<Rightarrow> inet_socket_address" where
  "inet_copy other = \<lparr>is_address = is_address other, is_sin_port = is_sin_port other, is_s_addr = is_s_addr other\<rparr>"

definition inet_empty :: "inet_socket_address \<Rightarrow> bool" where
  "inet_empty s = network_empty (is_address s)"

definition inet_fromString :: "(string \<Rightarrow> u8 list option) \<Rightarrow> string \<Rightarrow> inet_socket_address \<Rightarrow> bool \<times> inet_socket_address" where
  "inet_fromString pton addr s =
     (case network_fromString pton addr (is_address s) of (ok, n) \<Rightarrow> (ok, s\<lparr>is_address := n\<rparr>))"

definition inet_toString :: "inet_socket_address \<Rightarrow> string" where
  "inet_toString s = network_toString (is_address s)"

definition inet_less :: "inet_socket_address \<Rightarrow> inet_socket_address \<Rightarrow> bool" where
  "inet_less a b = network_less (is_address a) (is_address b)"

subsection \<open>The IPv6 host and socket address\<close>

definition in6addr_any :: "u8 list" where "in6addr_any = replicate 16 0"
definition in6addr_loopback :: "u8 list" where "in6addr_loopback = replicate 15 0 @ [1]"

definition host6_initData_bytes :: "(u8 list \<Rightarrow> string option) \<Rightarrow> u8 list \<Rightarrow> host_address \<Rightarrow> host_address" where
  "host6_initData_bytes ntop bs h =
     (case extractPrintableAddress ntop bs h of (ok, h1) \<Rightarrow>
        if ok then h1\<lparr>ha_bytes := bs, ha_valid := True\<rparr> else h1)"

definition host6_setAddress_bytes :: "(u8 list \<Rightarrow> string option) \<Rightarrow> u8 list \<Rightarrow> host_address \<Rightarrow> host_address" where
  "host6_setAddress_bytes ntop bs h = host6_initData_bytes ntop bs (if ha_valid h then host_resetData h else h)"

definition host6_setLocalHost :: "(u8 list \<Rightarrow> string option) \<Rightarrow> host_address \<Rightarrow> host_address" where
  "host6_setLocalHost ntop h = host6_initData_bytes ntop in6addr_loopback (if ha_valid h then host_resetData h else h)"

definition host6_setAddressAny :: "(u8 list \<Rightarrow> string option) \<Rightarrow> host_address \<Rightarrow> host_address" where
  "host6_setAddressAny ntop h = host6_initData_bytes ntop in6addr_any (if ha_valid h then host_resetData h else h)"

definition host6_isLoopback :: "host_address \<Rightarrow> bool" where
  "host6_isLoopback h = (ha_bytes h = in6addr_loopback)"

definition host6_isAny :: "host_address \<Rightarrow> bool" where
  "host6_isAny h = (ha_bytes h = in6addr_any)"

text \<open>Into an array of \<open>n\<close> bytes that holds \<open>out\<close>.\<close>

definition host6_getAddress :: "host_address \<Rightarrow> u8 list \<Rightarrow> bool \<times> u8 list" where
  "host6_getAddress h out =
     (if ha_valid h \<and> 16 \<le> length out then (True, ha_bytes h @ drop 16 out) else (False, out))"

record inet6_socket_address =
  is6_address :: network_address
  is6_sin6_port :: u16
  is6_sin6_addr :: "u8 list"

definition inet6_setAddress :: "network_address \<Rightarrow> inet6_socket_address \<Rightarrow> bool \<times> inet6_socket_address" where
  "inet6_setAddress addr s =
     (if \<not> ha_valid (na_host addr) \<or> na_port addr = 0 then (False, s)
      else case host6_getAddress (na_host addr) (is6_sin6_addr s) of
             (ok, bs) \<Rightarrow> (ok, s\<lparr>is6_sin6_port := htons (na_port addr), is6_sin6_addr := bs\<rparr>))"

definition inet6_setAddress_sockaddr ::
    "(u8 list \<Rightarrow> string option) \<Rightarrow> u16 \<Rightarrow> u8 list \<Rightarrow> inet6_socket_address \<Rightarrow> inet6_socket_address" where
  "inet6_setAddress_sockaddr ntop sin6_port bs s =
     s\<lparr>is6_sin6_port := sin6_port, is6_sin6_addr := bs,
       is6_address := \<lparr>na_port = htons sin6_port,
                      na_host = host6_setAddress_bytes ntop bs (na_host (is6_address s))\<rparr>\<rparr>"

definition inet6_getAddress :: "inet6_socket_address \<Rightarrow> u16 \<times> u8 list" where
  "inet6_getAddress s = (is6_sin6_port s, is6_sin6_addr s)"

definition inet6_empty :: "inet6_socket_address \<Rightarrow> bool" where
  "inet6_empty s = network_empty (is6_address s)"

definition inet6_fromString :: "(string \<Rightarrow> u8 list option) \<Rightarrow> string \<Rightarrow> inet6_socket_address \<Rightarrow> bool \<times> inet6_socket_address" where
  "inet6_fromString pton addr s =
     (case network_fromString pton addr (is6_address s) of (ok, n) \<Rightarrow> (ok, s\<lparr>is6_address := n\<rparr>))"

subsection \<open>The Unix socket address\<close>

text \<open>
  \<^verbatim>\<open>sun_path\<close> has 108 characters and is the last member of its structure: copying more
  characters, or reading a C string that fills it, is undefined.
\<close>

definition UNIX_SOCKET_PATH_MAX_LEN :: nat where "UNIX_SOCKET_PATH_MAX_LEN = 108"

record unix_socket_address =
  ux_pathname :: string
  ux_sun_path :: string

definition UnixSocketAddress_default :: unix_socket_address where
  "UnixSocketAddress_default =
     \<lparr>ux_pathname = [], ux_sun_path = replicate UNIX_SOCKET_PATH_MAX_LEN NUL\<rparr>"

definition pad_path :: "string \<Rightarrow> string" where
  "pad_path p = p @ replicate (UNIX_SOCKET_PATH_MAX_LEN - length p) NUL"

definition c_string :: "string \<Rightarrow> string" where
  "c_string p = takeWhile (\<lambda>c. c \<noteq> NUL) p"

definition unix_setAddress :: "string \<Rightarrow> unix_socket_address \<Rightarrow> (bool \<times> unix_socket_address) option" where
  "unix_setAddress pathname s =
     (if pathname = [] then Some (False, s)
      else if UNIX_SOCKET_PATH_MAX_LEN < length pathname then None
      else Some (True, \<lparr>ux_pathname = pathname, ux_sun_path = pad_path pathname\<rparr>))"

definition unix_fromString :: "string \<Rightarrow> unix_socket_address \<Rightarrow> (bool \<times> unix_socket_address) option" where
  "unix_fromString addr s = unix_setAddress addr s"

definition unix_setAddress_sockaddr :: "string \<Rightarrow> unix_socket_address \<Rightarrow> unix_socket_address option" where
  "unix_setAddress_sockaddr sun_path s =
     (let p = c_string (take UNIX_SOCKET_PATH_MAX_LEN sun_path); local_path = pad_path p
      in if NUL \<notin> set local_path then None
         else Some \<lparr>ux_pathname = c_string local_path, ux_sun_path = local_path\<rparr>)"

definition unix_copy :: "unix_socket_address \<Rightarrow> unix_socket_address" where
  "unix_copy other = \<lparr>ux_pathname = ux_pathname other, ux_sun_path = ux_sun_path other\<rparr>"

definition unix_assign :: "unix_socket_address \<Rightarrow> unix_socket_address \<Rightarrow> unix_socket_address" where
  "unix_assign this other =
     \<lparr>ux_pathname = ux_pathname other, ux_sun_path = pad_path (c_string (ux_sun_path other))\<rparr>"

definition unix_getAddress :: "unix_socket_address \<Rightarrow> string" where
  "unix_getAddress s = ux_sun_path s"

definition unix_toString :: "unix_socket_address \<Rightarrow> string" where
  "unix_toString s = ux_pathname s"

definition unix_empty :: "unix_socket_address \<Rightarrow> bool" where
  "unix_empty s = (ux_pathname s = [])"

subsection \<open>Bytes and byte order\<close>

lemma memory_bytes_length [simp]: "length (memory_bytes x) = 4"
  by (simp add: memory_bytes_def)

lemma from_memory_bits:
  "bit (from_memory [a, b, c, d]) n =
    (if n < 8 then bit a n else if n < 16 then bit b (n - 8) else if n < 24 then bit c (n - 16)
     else n < 32 \<and> bit d (n - 24))"
  by (auto simp: from_memory_def bit_or_iff bit_push_bit_iff bit_ucast_iff dest: bit_imp_le_length)

lemma memory_from_memory: "memory_bytes (from_memory [a, b, c, d]) = [a, b, c, d]"
  unfolding memory_bytes_def list.map
  by (intro arg_cong2 [of _ _ _ _ Cons] refl bit_word_eqI)
    (auto simp: bit_ucast_iff bit_drop_bit_eq from_memory_bits)

lemma from_memory_memory: "from_memory (memory_bytes x) = x"
  unfolding memory_bytes_def list.map
  by (rule bit_word_eqI) (auto simp: from_memory_bits bit_ucast_iff bit_drop_bit_eq)

lemma htonl_bytes: "htonl (from_memory [a, b, c, d]) = from_memory [d, c, b, a]"
  by (simp add: htonl_def memory_from_memory)

lemma list4: "length (bs :: 'a list) = 4 \<Longrightarrow> \<exists>a b c d. bs = [a, b, c, d]"
  by (auto simp: length_Suc_conv eval_nat_numeral)

lemma htonl_htonl [simp]: "htonl (htonl x) = x"
proof -
  obtain a b c d where "memory_bytes x = [a, b, c, d]"
    using list4 [of "memory_bytes x"] by auto
  then have "x = from_memory [a, b, c, d]"
    using from_memory_memory [of x] by simp
  then show ?thesis by (simp add: htonl_bytes)
qed

lemma htons_htons [simp]: "htons (htons x) = x"
  by (rule bit_word_eqI)
    (auto simp: htons_def bit_or_iff bit_push_bit_iff bit_drop_bit_eq dest: bit_imp_le_length)

subsection \<open>Properties\<close>

text \<open>A dotted-decimal system, for the examples.\<close>

definition example_ntop :: "u8 list \<Rightarrow> string option" where
  "example_ntop bs = Some (addressToString bs)"

definition example_pton :: "string \<Rightarrow> u8 list option" where
  "example_pton s = (if s = ''127.0.0.1'' then Some [127, 0, 0, 1] else None)"

lemma host_view_bytes:
  assumes "pton addr = Some bs"
  shows "host_setAddress_view pton addr view h = \<lparr>ha_bytes = bs, ha_printable = view, ha_valid = True\<rparr>"
  using assms by (simp add: host_setAddress_view_def host_initData_view_def extractAddress_def host_resetData_def)

text \<open>
  A host given as text reaches the wire with its bytes reversed: the four bytes
  \<^verbatim>\<open>inet_pton\<close> gives are in network order already, and \<^verbatim>\<open>setAddress\<close> of the socket
  address swaps them once more. The port is in network order.
\<close>

theorem host_bytes_reversed:
  assumes "pton name = Some [a, b, c, d]"
    and "inet_setAddress \<lparr>na_port = port, na_host = host_setAddress_view pton name name h\<rparr> s = (ok, s')"
  shows "ok \<and> is_sin_port s' = htons port \<and> memory_bytes (is_s_addr s') = [d, c, b, a]"
  using assms
  by (auto simp: host_view_bytes inet_setAddress_def host_getAddress_def htonl_bytes memory_from_memory)

theorem host_bytes_reversed_witness:
  "memory_bytes (is_s_addr (snd (inet_setAddress
      \<lparr>na_port = 80, na_host = host_setAddress_view example_pton ''127.0.0.1'' ''127.0.0.1'' (HostAddress_default [9, 9, 9, 9])\<rparr>
      (InetSocketAddress_default [9, 9, 9, 9])))) = [1, 0, 0, 127]"
proof -
  let ?n = "\<lparr>na_port = 80, na_host = host_setAddress_view example_pton ''127.0.0.1'' ''127.0.0.1'' (HostAddress_default [9, 9, 9, 9])\<rparr>"
  obtain ok s' where r: "inet_setAddress ?n (InetSocketAddress_default [9, 9, 9, 9]) = (ok, s')"
    by (cases "inet_setAddress ?n (InetSocketAddress_default [9, 9, 9, 9])")
  have "example_pton ''127.0.0.1'' = Some [127, 0, 0, 1]" by (simp add: example_pton_def)
  from host_bytes_reversed [OF this r] r show ?thesis by simp
qed

text \<open>
  C35: Within the library the two conversions are inverse: what a socket address with a valid host
  puts into a \<^verbatim>\<open>sockaddr\<close> is read back by another one as the same port and the same
  bytes.
\<close>

theorem sockaddr_round_trip:
  assumes "ha_valid (na_host addr)" and "length (ha_bytes (na_host addr)) = 4"
    and "\<And>bs. ntop bs \<noteq> None" and "inet_setAddress addr s = (ok, s1)"
    and "s2 = inet_setAddress_sockaddr ntop (fst (inet_getAddress s1)) (snd (inet_getAddress s1)) s0"
  shows "ok \<and> na_port (is_address s2) = na_port addr \<and>
    ha_bytes (na_host (is_address s2)) = ha_bytes (na_host addr) \<and> ha_valid (na_host (is_address s2)) \<and>
    inet_getAddress s2 = inet_getAddress s1"
proof -
  obtain a b c d where bs: "ha_bytes (na_host addr) = [a, b, c, d]"
    using list4 [OF assms(2)] by auto
  obtain t where "ntop [a, b, c, d] = Some t" using assms(3) by auto
  with assms bs show ?thesis
    by (auto simp: inet_setAddress_def inet_setAddress_sockaddr_def inet_getAddress_def host_setAddress_u32_def
        host_initData_u32_def extractPrintableAddress_def host_getAddress_def memory_from_memory)
qed

theorem sockaddr_round_trip_witness:
  "na_port (is_address (inet_setAddress_sockaddr example_ntop (htons 80) (htonl (from_memory [10, 0, 0, 7]))
      (InetSocketAddress_default [9, 9, 9, 9]))) = 80"
proof -
  let ?addr = "\<lparr>na_port = 80, na_host = \<lparr>ha_bytes = [10, 0, 0, 7], ha_printable = ''10.0.0.7'', ha_valid = True\<rparr>\<rparr>"
  let ?s = "InetSocketAddress_default [9, 9, 9, 9]"
  obtain ok s1 where s1: "inet_setAddress ?addr ?s = (ok, s1)" by (cases "inet_setAddress ?addr ?s")
  then have "inet_getAddress s1 = (htons 80, htonl (from_memory [10, 0, 0, 7]))"
    by (auto simp: inet_setAddress_def inet_getAddress_def host_getAddress_def)
  with sockaddr_round_trip [of ?addr example_ntop ?s ok s1, OF _ _ _ s1 refl] show ?thesis
    by (simp add: example_ntop_def)
qed

lemma find_last_of_port:
  assumes "CHR '':'' \<notin> set ds"
  shows "find_last_of (CHR '':'') (host @ CHR '':'' # ds) = Some (length host)"
proof -
  have "takeWhile (\<lambda>d. d \<noteq> CHR '':'') (rev ds @ [CHR '':''] @ rev host) = rev ds"
    using assms by (subst takeWhile_append2) auto
  then show ?thesis by (simp add: find_last_of_def)
qed

lemma nat_digits_no_colon: "CHR '':'' \<notin> set (nat_digits n)"
  using nat_digits_all_digits [of n] by (auto simp: list_all_iff is_digit_def)

text \<open>
  A socket address read from the text \<open>host:port\<close> answers true, prints as that text and has the
  port, but not the host: \<^verbatim>\<open>inet_pton\<close> gets the whole text, takes it for no address,
  and its answer is not looked at. The bytes are zero whatever the host, and the
  \<^verbatim>\<open>sockaddr\<close> is not filled at all.
\<close>

theorem fromString_loses_host:
  assumes "\<And>text. CHR '':'' \<in> set text \<Longrightarrow> pton text = None"
    and "length (ha_bytes (na_host (is_address s))) = 4"
    and "inet_fromString pton (host @ CHR '':'' # nat_digits (unat port)) s = (ok, s')"
  shows "ok \<and> ha_bytes (na_host (is_address s')) = [0, 0, 0, 0] \<and> ha_valid (na_host (is_address s')) \<and>
    na_port (is_address s') = port \<and> inet_toString s' = host @ CHR '':'' # nat_digits (unat port) \<and>
    inet_getAddress s' = inet_getAddress s"
proof -
  let ?text = "host @ CHR '':'' # nat_digits (unat port)"
  have "uint port < 2 ^ 16" using unsigned_less [where 'a = int, of port] by simp
  then have "from_chars 0 65535 (int_digits (int (unat port))) = Some (int (unat port))"
    by (intro from_chars_int_digits) simp_all
  then have port: "from_chars 0 65535 (nat_digits (unat port)) = Some (int (unat port))"
    by (simp add: int_digits_def)
  have "pton ?text = None" using assms(1) by simp
  with assms(2,3) port find_last_of_port [OF nat_digits_no_colon, of host "unat port"] show ?thesis
    by (auto simp: inet_fromString_def network_fromString_def Let_def host_setAddress_view_def
        host_initData_view_def extractAddress_def host_resetData_def inet_toString_def network_toString_def
        host_toString_def inet_getAddress_def numeral_eq_Suc)
qed

theorem fromString_loses_host_witness:
  "ha_bytes (na_host (is_address (snd (inet_fromString example_pton ''127.0.0.1:80''
      (InetSocketAddress_default [9, 9, 9, 9]))))) = [0, 0, 0, 0]"
proof -
  have t: "''127.0.0.1'' @ CHR '':'' # nat_digits (unat (80 :: u16)) = ''127.0.0.1:80''"
    by code_simp
  obtain ok s' where r: "inet_fromString example_pton ''127.0.0.1:80'' (InetSocketAddress_default [9, 9, 9, 9]) = (ok, s')"
    by (cases "inet_fromString example_pton ''127.0.0.1:80'' (InetSocketAddress_default [9, 9, 9, 9])")
  have "example_pton z = None" if "CHR '':'' \<in> set z" for z
    using that by (auto simp: example_pton_def)
  from fromString_loses_host [where host = "''127.0.0.1''" and port = 80, unfolded t, OF this _ r]
  show ?thesis using r by (simp add: InetSocketAddress_default_def HostAddress_default_def)
qed

text \<open>
  \<^verbatim>\<open>LocalHost()\<close> is not the local host: it lays the number \<^verbatim>\<open>INADDR_LOOPBACK\<close> down in
  the machine's byte order, and \<^verbatim>\<open>isLoopback\<close> denies it, where \<^verbatim>\<open>setLocalHost\<close>
  gives the address 127.0.0.1.
\<close>

theorem localhost_not_loopback:
  assumes "\<And>bs. ntop bs \<noteq> None"
  shows "ha_bytes (LocalHost ntop g) = [1, 0, 0, 127] \<and> \<not> host_isLoopback (LocalHost ntop g) \<and>
    ha_bytes (host_setLocalHost ntop h) = [127, 0, 0, 1] \<and> host_isLoopback (host_setLocalHost ntop h)"
proof -
  have lo: "memory_bytes INADDR_LOOPBACK = [1, 0, 0, 127]"
    by (simp add: memory_bytes_def INADDR_LOOPBACK_def drop_bit_eq_div)
  then have nw: "memory_bytes (htonl INADDR_LOOPBACK) = [127, 0, 0, 1]"
    by (simp add: htonl_def memory_from_memory)
  have e: "from_memory [1, 0, 0, 127] = INADDR_LOOPBACK" "from_memory [127, 0, 0, 1] = htonl INADDR_LOOPBACK"
    using lo nw by (metis from_memory_memory)+
  have ne: "INADDR_LOOPBACK \<noteq> htonl INADDR_LOOPBACK"
    using lo nw by auto
  obtain t1 t2 where "ntop [1, 0, 0, 127] = Some t1" "ntop [127, 0, 0, 1] = Some t2"
    using assms by (meson option.exhaust)
  with lo nw e ne show ?thesis
    by (simp add: LocalHost_def host_setLocalHost_def host_initData_u32_def extractPrintableAddress_def
        host_isLoopback_def host_eq_in_addr_def host_getAddress_def)
qed

theorem localhost_not_loopback_witness:
  "\<not> host_isLoopback (LocalHost example_ntop [9, 9, 9, 9])"
  using localhost_not_loopback [of example_ntop "[9, 9, 9, 9]"] by (simp add: example_ntop_def)

text \<open>
  C39: A Unix path of at most 107 characters without a zero survives the structure: another address
  reads it back. A path of exactly 108 characters is stored, but reading it back runs over the
  end, and storing a longer one does already.
\<close>

theorem unix_path_bounds:
  assumes "path \<noteq> []" and "NUL \<notin> set path"
  shows "(length path \<le> 107 \<longrightarrow>
      (\<exists>s'. unix_setAddress path s = Some (True, s') \<and>
        unix_setAddress_sockaddr (unix_getAddress s') s0 = Some s' \<and> unix_toString s' = path)) \<and>
    (length path = 108 \<longrightarrow>
      (\<exists>s'. unix_setAddress path s = Some (True, s') \<and>
        unix_setAddress_sockaddr (unix_getAddress s') s0 = None)) \<and>
    (108 < length path \<longrightarrow> unix_setAddress path s = None)"
proof -
  have tw: "takeWhile (\<lambda>c. c \<noteq> NUL) (path @ replicate n NUL) = path" for n
    using assms(2) by (subst takeWhile_append2) (auto simp: takeWhile_replicate)
  show ?thesis
    using assms
    by (auto simp: tw tw [of 0, simplified append_Nil2 replicate_0] unix_setAddress_def unix_setAddress_sockaddr_def unix_getAddress_def unix_toString_def
        pad_path_def c_string_def UNIX_SOCKET_PATH_MAX_LEN_def Let_def)
qed

theorem unix_path_bounds_witness:
  "unix_setAddress (replicate 109 (CHR ''a'')) UnixSocketAddress_default = None"
  using unix_path_bounds [of "replicate 109 (CHR ''a'')"] by (simp add: NUL_def)

end
