(* ===== verification/Observers.thy ===== *)
theory Observers
  imports Prelude
begin

text \<open>
  Observed values and their publishers: UtilitiesInfra/Observable.hpp,
  ObservableStatePublisher.hpp and the advertiser policies built on them
  (TransportInfra/Policies/ErrorChangeAdvertiserPolicy.h, StateChangeAdvertiserPolicy.hpp,
  ConnectionStateChangeAdvertiser.hpp). A hook is the identity of the publisher that set it. A
  callback may add and remove observers while it runs, and may throw; a dispatcher either passes
  the exception on or, like the future of \<^verbatim>\<open>std::async\<close> that \<^verbatim>\<open>notify\<close> drops
  at once, waits for the call and swallows it.
\<close>

subsection \<open>Observable values\<close>

text \<open>The kinds of type the traits of Observable.hpp tell apart.\<close>

datatype type_kind = Fundamental_type | Enum_type | Class_type | Other_type

definition non_complex_type :: "type_kind \<Rightarrow> bool" where
  "non_complex_type T = (\<not> (T = Fundamental_type \<or> T = Enum_type))"

definition complex_type :: "type_kind \<Rightarrow> bool" where
  "complex_type T = (T = Class_type \<and> \<not> non_complex_type T)"

text \<open>Which of the three templates \<^verbatim>\<open>Observable<T>\<close> is.\<close>

datatype observable_template = Empty_primary | Derived_from_class | Holding_value

definition observable_for :: "type_kind \<Rightarrow> observable_template" where
  "observable_for T =
     (if complex_type T then Derived_from_class
      else if T = Fundamental_type \<or> T = Enum_type then Holding_value
      else Empty_primary)"

record ('t, 'h) observable =
  ob_hook :: "'h option"
  ob_state :: 't

definition Observable :: "'t \<Rightarrow> ('t, 'h) observable" where
  "Observable v = \<lparr>ob_hook = None, ob_state = v\<rparr>"

text \<open>The forwarding constructor, which also takes a modifiable or expiring observable.\<close>

definition Observable_forward :: "('t, 'h) observable \<Rightarrow> ('t, 'h) observable" where
  "Observable_forward other = \<lparr>ob_hook = None, ob_state = ob_state other\<rparr>"

text \<open>The assigned object and the call of its hook.\<close>

definition observable_assign :: "'t \<Rightarrow> ('t, 'h) observable \<Rightarrow> ('t, 'h) observable \<times> ('h \<times> 't) option" where
  "observable_assign v ob =
     (ob\<lparr>ob_state := v\<rparr>, (case ob_hook ob of None \<Rightarrow> None | Some h \<Rightarrow> Some (h, v)))"

definition observable_assign_other ::
    "('t, 'h) observable \<Rightarrow> ('t, 'h) observable \<Rightarrow> ('t, 'h) observable \<times> ('h \<times> 't) option" where
  "observable_assign_other other ob =
     (ob\<lparr>ob_state := ob_state other\<rparr>,
      (case ob_hook ob of None \<Rightarrow> None | Some h \<Rightarrow> Some (h, ob_state other)))"

definition setHook :: "'h \<Rightarrow> ('t, 'h) observable \<Rightarrow> ('t, 'h) observable" where
  "setHook h ob = ob\<lparr>ob_hook := Some h\<rparr>"

subsection \<open>Publishers\<close>

type_synonym 'c delegates = "(u64 \<times> 'c) list"

text \<open>
  The counter of identifiers is a static variable shared by every publisher of the same state
  and dispatcher type. \<open>addObserver\<close> is the counter's increment with the new entry, and the
  second reading of the counter that gives the answer.
\<close>

definition add_entry :: "'c \<Rightarrow> u64 \<Rightarrow> 'c delegates \<Rightarrow> u64 \<times> 'c delegates" where
  "add_entry c current_id ds = (let sid = current_id + 1 in (sid, ds @ [(sid, c)]))"

definition addObserver :: "'c \<Rightarrow> u64 \<Rightarrow> 'c delegates \<Rightarrow> u64 \<times> u64 \<times> 'c delegates" where
  "addObserver c current_id ds =
     (case add_entry c current_id ds of (current_id', ds') \<Rightarrow> (current_id', current_id', ds'))"

text \<open>
  \<^verbatim>\<open>std::remove_if\<close> leaves as many unspecified elements (\<open>junk\<close>) at the end as it
  removed, and the one-iterator \<^verbatim>\<open>erase\<close> takes away the first of them.
\<close>

definition removeObserver :: "(nat \<Rightarrow> u64 \<times> 'c) \<Rightarrow> u64 \<Rightarrow> 'c delegates \<Rightarrow> bool \<times> 'c delegates" where
  "removeObserver junk sid ds =
     (let kept = filter (\<lambda>d. fst d \<noteq> sid) ds;
          removed = length ds - length kept
      in if removed \<noteq> 0 then (True, kept @ map junk [1..<removed]) else (False, ds))"

text \<open>What a callback does with the publisher while it runs.\<close>

datatype 'c observer_action = Add_observer 'c | Remove_observer u64

record ('c, 's) publisher =
  pb_current_id :: u64
  pb_delegates :: "'c delegates"
  pb_calls :: "('c \<times> 's) list"

fun observer_actions ::
    "(nat \<Rightarrow> u64 \<times> 'c) \<Rightarrow> 'c observer_action list \<Rightarrow> ('c, 's) publisher \<Rightarrow> ('c, 's) publisher" where
  "observer_actions junk [] p = p"
| "observer_actions junk (Add_observer c # as) p =
     (case addObserver c (pb_current_id p) (pb_delegates p) of
        (sid, cur, ds) \<Rightarrow> observer_actions junk as (p\<lparr>pb_current_id := cur, pb_delegates := ds\<rparr>))"
| "observer_actions junk (Remove_observer sid # as) p =
     observer_actions junk as (p\<lparr>pb_delegates := snd (removeObserver junk sid (pb_delegates p))\<rparr>)"

text \<open>
  \<open>run c s\<close> is what the callback does and whether it throws; the dispatcher's answer says
  whether the exception reaches the loop of \<^verbatim>\<open>notify\<close>.
\<close>

type_synonym ('c, 's) callbacks = "'c \<Rightarrow> 's \<Rightarrow> 'c observer_action list \<times> bool"

definition serial_dispatch ::
    "(nat \<Rightarrow> u64 \<times> 'c) \<Rightarrow> ('c, 's) callbacks \<Rightarrow> 'c \<Rightarrow> 's \<Rightarrow> ('c, 's) publisher \<Rightarrow>
     bool \<times> ('c, 's) publisher" where
  "serial_dispatch junk run c s p =
     (case run c s of (as, throws) \<Rightarrow> (throws, observer_actions junk as (p\<lparr>pb_calls := pb_calls p @ [(c, s)]\<rparr>)))"

definition async_dispatch ::
    "(nat \<Rightarrow> u64 \<times> 'c) \<Rightarrow> ('c, 's) callbacks \<Rightarrow> 'c \<Rightarrow> 's \<Rightarrow> ('c, 's) publisher \<Rightarrow>
     bool \<times> ('c, 's) publisher" where
  "async_dispatch junk run c s p = (False, snd (serial_dispatch junk run c s p))"

fun notify_loop ::
    "('c \<Rightarrow> 's \<Rightarrow> ('c, 's) publisher \<Rightarrow> bool \<times> ('c, 's) publisher) \<Rightarrow>
     's \<Rightarrow> 'c delegates \<Rightarrow> ('c, 's) publisher \<Rightarrow> bool \<times> ('c, 's) publisher" where
  "notify_loop dispatch s [] p = (False, p)"
| "notify_loop dispatch s (d # ds) p =
     (case dispatch (snd d) s p of
        (True, p') \<Rightarrow> (True, p')
      | (False, p') \<Rightarrow> notify_loop dispatch s ds p')"

definition notify ::
    "('c \<Rightarrow> 's \<Rightarrow> ('c, 's) publisher \<Rightarrow> bool \<times> ('c, 's) publisher) \<Rightarrow>
     's \<Rightarrow> ('c, 's) publisher \<Rightarrow> bool \<times> ('c, 's) publisher" where
  "notify dispatch s p = notify_loop dispatch s (pb_delegates p) p"

definition publisher_constructor ::
    "'h \<Rightarrow> u64 \<Rightarrow> ('t, 'h) observable \<Rightarrow> ('c, 's) publisher \<times> ('t, 'h) observable" where
  "publisher_constructor this current_id observed_state =
     (\<lparr>pb_current_id = current_id, pb_delegates = [], pb_calls = []\<rparr>, setHook this observed_state)"

text \<open>The operators \<^verbatim>\<open>+=\<close> and \<^verbatim>\<open>-=\<close> of a policy's delegate.\<close>

definition delegate_add :: "'c \<Rightarrow> ('c, 's) publisher \<Rightarrow> u64 \<times> ('c, 's) publisher" where
  "delegate_add cb p =
     (case addObserver cb (pb_current_id p) (pb_delegates p) of
        (sid, cur, ds) \<Rightarrow> (sid, p\<lparr>pb_current_id := cur, pb_delegates := ds\<rparr>))"

definition delegate_remove ::
    "(nat \<Rightarrow> u64 \<times> 'c) \<Rightarrow> u64 \<Rightarrow> ('c, 's) publisher \<Rightarrow> bool \<times> ('c, 's) publisher" where
  "delegate_remove junk sid p =
     (case removeObserver junk sid (pb_delegates p) of (ok, ds) \<Rightarrow> (ok, p\<lparr>pb_delegates := ds\<rparr>))"

text \<open>
  A policy's publisher in a \<^verbatim>\<open>Host\<close>: the plugin is a base class that comes before the
  client's, so its constructor sets the hook of an observable that is constructed after it.
\<close>

definition plugin_constructor :: "'h \<Rightarrow> ('t, 'h) observable \<Rightarrow> ('t, 'h) observable" where
  "plugin_constructor publisher storage = setHook publisher storage"

definition client_constructor :: "'t \<Rightarrow> ('t, 'h) observable \<Rightarrow> ('t, 'h) observable" where
  "client_constructor initial storage = storage\<lparr>ob_hook := None, ob_state := initial\<rparr>"

definition host_constructor :: "'h \<Rightarrow> 't \<Rightarrow> ('t, 'h) observable \<Rightarrow> ('t, 'h) observable" where
  "host_constructor publisher initial storage =
     client_constructor initial (plugin_constructor publisher storage)"

text \<open>
  Any number of publishers that share the counter: \<open>n\<close> additions have been made, \<open>store\<close> holds
  each publisher's entries. Each call runs to its end before the next one.
\<close>

inductive publishers_reachable :: "nat \<Rightarrow> u64 \<Rightarrow> ('p \<Rightarrow> 'c delegates) \<Rightarrow> bool" where
  none_added: "publishers_reachable 0 0 (\<lambda>_. [])"
| added: "publishers_reachable n cur store \<Longrightarrow> addObserver c cur (store p) = (sid, cur', ds) \<Longrightarrow>
     publishers_reachable (Suc n) cur' (store(p := ds))"
| removed: "publishers_reachable n cur store \<Longrightarrow> removeObserver junk sid (store p) = (ok, ds) \<Longrightarrow>
     publishers_reachable n cur (store(p := ds))"

subsection \<open>The identifiers\<close>

definition ids_inv :: "nat \<Rightarrow> u64 \<Rightarrow> ('p \<Rightarrow> 'c delegates) \<Rightarrow> bool" where
  "ids_inv n cur store =
     (unat cur = n \<and> (\<forall>p. distinct (keys (store p))) \<and>
      (\<forall>p. \<forall>sid \<in> set (keys (store p)). unat sid \<le> n) \<and>
      (\<forall>p q. p \<noteq> q \<longrightarrow> set (keys (store p)) \<inter> set (keys (store q)) = {}))"

lemma addObserver_eq:
  "addObserver c cur ds = (cur + 1, cur + 1, ds @ [(cur + 1, c)])"
  by (simp add: addObserver_def add_entry_def Let_def)

lemma removeObserver_absent: "sid \<notin> set (keys ds) \<Longrightarrow> removeObserver junk sid ds = (False, ds)"
  by (simp add: removeObserver_def filter_key_absent)

lemma removeObserver_present:
  assumes "distinct (keys ds)" and "sid \<in> set (keys ds)"
  shows "removeObserver junk sid ds = (True, filter (\<lambda>d. fst d \<noteq> sid) ds)"
proof -
  from length_filter_key_distinct [OF assms]
  have "length ds - length (filter (\<lambda>d. fst d \<noteq> sid) ds) = 1" by simp
  then show ?thesis by (simp add: removeObserver_def Let_def)
qed

lemma removeObserver_keys:
  assumes "distinct (keys ds)" and "removeObserver junk sid ds = (ok, ds')"
  shows "ds' = filter (\<lambda>d. fst d \<noteq> sid) ds"
  using assms removeObserver_absent [of sid ds junk] removeObserver_present [of ds sid junk]
  by (cases "sid \<in> set (keys ds)") (simp_all add: filter_key_absent)

lemma unat_next: "Suc (unat (cur :: u64)) < 2 ^ 64 \<Longrightarrow> unat (cur + 1) = Suc (unat cur)"
  by (simp add: unat_word_ariths)

lemma ids_inv_add:
  assumes "ids_inv n cur store" and "Suc n < 2 ^ 64" and "addObserver c cur (store p) = (sid, cur', ds)"
  shows "ids_inv (Suc n) cur' (store(p := ds)) \<and> (\<forall>q. sid \<notin> set (keys (store q)))"
proof -
  from assms(1,2) have u: "unat (cur + 1) = Suc n"
    using unat_next [of cur] by (simp add: ids_inv_def)
  then have new: "cur + 1 \<notin> set (keys (store q))" for q
    using assms(1) unfolding ids_inv_def by (metis not_less_eq_eq le_refl)
  from assms(3) have e: "sid = cur + 1" "cur' = cur + 1" "ds = store p @ [(cur + 1, c)]"
    by (auto simp: addObserver_eq)
  show ?thesis
    using assms(1) u new unfolding ids_inv_def e
    by (auto simp: le_Suc_eq Ball_def)
qed

lemma ids_inv_remove:
  assumes "ids_inv n cur store" and "removeObserver junk sid (store p) = (ok, ds)"
  shows "ids_inv n cur (store(p := ds))"
proof -
  have ds: "ds = filter (\<lambda>d. fst d \<noteq> sid) (store p)"
    using assms by (intro removeObserver_keys) (simp_all add: ids_inv_def)
  have sub: "set (keys ds) \<subseteq> set (keys (store p))" and dis: "distinct (keys ds)"
    using assms(1) by (auto simp: ds ids_inv_def keys_filter_distinct)
  have sets: "set (keys ((store(p := ds)) q)) \<subseteq> set (keys (store q))" for q
    using sub by simp
  have "distinct (keys ((store(p := ds)) q))" for q
    using assms(1) dis by (simp add: ids_inv_def)
  moreover have "\<forall>i \<in> set (keys ((store(p := ds)) q)). unat i \<le> n" for q
    using assms(1) sets [of q] unfolding ids_inv_def by (meson subsetD)
  moreover have "set (keys ((store(p := ds)) q)) \<inter> set (keys ((store(p := ds)) r)) = {}" if "q \<noteq> r" for q r
    using assms(1) sets [of q] sets [of r] that unfolding ids_inv_def by blast
  ultimately show ?thesis
    using assms(1) unfolding ids_inv_def by blast
qed

lemma reachable_ids_inv:
  "publishers_reachable n cur store \<Longrightarrow> n < 2 ^ 64 \<Longrightarrow> ids_inv n cur store"
proof (induction rule: publishers_reachable.induct)
  case none_added
  then show ?case by (simp add: ids_inv_def)
next
  case (added n cur store c p sid cur' ds)
  then have "ids_inv n cur store" by simp
  from ids_inv_add [OF this _ added.hyps(2)] added.prems show ?case by blast
next
  case (removed n cur store junk sid p ok ds)
  then show ?case by (blast intro: ids_inv_remove)
qed

subsection \<open>Properties\<close>

lemma observer_actions_calls [simp]: "pb_calls (observer_actions junk as p) = pb_calls p"
  by (induction junk as p rule: observer_actions.induct) (auto split: prod.splits)

lemma serial_dispatch_calls:
  "serial_dispatch junk run c s p = (t, p') \<Longrightarrow> t = snd (run c s) \<and> pb_calls p' = pb_calls p @ [(c, s)]"
  by (auto simp: serial_dispatch_def split: prod.splits)

lemma notify_loop_async:
  "\<exists>p'. notify_loop (async_dispatch junk run) s ds p = (False, p') \<and>
     pb_calls p' = pb_calls p @ map (\<lambda>d. (snd d, s)) ds"
proof (induction ds arbitrary: p)
  case Nil
  then show ?case by simp
next
  case (Cons d ds)
  obtain t p1 where s: "serial_dispatch junk run (snd d) s p = (t, p1)" by fastforce
  with serial_dispatch_calls [OF s] Cons [of p1] show ?case
    by (auto simp: async_dispatch_def)
qed

lemma notify_loop_serial:
  "\<exists>p'. notify_loop (serial_dispatch junk run) s ds p =
       (list_ex (\<lambda>d. snd (run (snd d) s)) ds, p') \<and>
     pb_calls p' = pb_calls p @ map (\<lambda>d. (snd d, s)) (takeWhile (\<lambda>d. \<not> snd (run (snd d) s)) ds @
       take 1 (dropWhile (\<lambda>d. \<not> snd (run (snd d) s)) ds))"
proof (induction ds arbitrary: p)
  case Nil
  then show ?case by simp
next
  case (Cons d ds)
  obtain t p1 where s: "serial_dispatch junk run (snd d) s p = (t, p1)" by fastforce
  with serial_dispatch_calls [OF s] Cons [of p1] show ?case
    by (cases "snd (run (snd d) s)") auto
qed

text \<open>
  C20: A new state is handed to the observers registered when it was assigned, in the order of their
  registration, whatever the callbacks do with the publisher meanwhile: an observer a callback
  removes is still called, one it adds is not. The asynchronous dispatcher calls all of them; the
  serial one passes a callback's exception on and calls nobody after it.
\<close>

theorem notify_calls_snapshot:
  assumes "notify (async_dispatch junk run) s p = (ta, pa)"
    and "notify (serial_dispatch junk run) s p = (ts, ps)"
  shows "\<not> ta \<and> pb_calls pa = pb_calls p @ map (\<lambda>d. (snd d, s)) (pb_delegates p) \<and>
    (\<not> ts \<longrightarrow> pb_calls ps = pb_calls pa) \<and>
    (\<forall>before d after. pb_delegates p = before @ d # after \<longrightarrow> snd (run (snd d) s) \<longrightarrow>
      (\<forall>b \<in> set before. \<not> snd (run (snd b) s)) \<longrightarrow>
      ts \<and> pb_calls ps = pb_calls p @ map (\<lambda>b. (snd b, s)) before @ [(snd d, s)])"
proof -
  let ?throws = "\<lambda>d. snd (run (snd d) s)"
  have a: "\<not> ta \<and> pb_calls pa = pb_calls p @ map (\<lambda>d. (snd d, s)) (pb_delegates p)"
    using assms(1) notify_loop_async [of junk run s "pb_delegates p" p] by (auto simp: notify_def)
  have t: "ts = list_ex ?throws (pb_delegates p)" and
    c: "pb_calls ps = pb_calls p @ map (\<lambda>d. (snd d, s)) (takeWhile (\<lambda>d. \<not> ?throws d) (pb_delegates p) @
       take 1 (dropWhile (\<lambda>d. \<not> ?throws d) (pb_delegates p)))"
    using assms(2) notify_loop_serial [of junk run s "pb_delegates p" p] by (auto simp: notify_def)
  have none: "pb_calls ps = pb_calls pa" if "\<not> ts"
  proof -
    from that t have "takeWhile (\<lambda>d. \<not> ?throws d) (pb_delegates p) = pb_delegates p"
      "dropWhile (\<lambda>d. \<not> ?throws d) (pb_delegates p) = []"
      by (simp_all add: list_ex_iff takeWhile_eq_all_conv)
    with a c show ?thesis by simp
  qed
  have "ts \<and> pb_calls ps = pb_calls p @ map (\<lambda>b. (snd b, s)) before @ [(snd d, s)]"
    if "pb_delegates p = before @ d # after" "?throws d" "\<forall>b \<in> set before. \<not> ?throws b" for before d after
    using that t c by (simp add: list_ex_iff)
  with a none show ?thesis by blast
qed

definition example_callbacks :: "(nat, nat) callbacks" where
  "example_callbacks c s = ([Remove_observer 1, Add_observer 7], c = 5)"

theorem notify_calls_snapshot_witness:
  "pb_calls (snd (notify (async_dispatch (\<lambda>_. (0, 0)) example_callbacks) 3
      \<lparr>pb_current_id = 2, pb_delegates = [(1, 4), (2, 5)], pb_calls = []\<rparr>)) = [(4, 3), (5, 3)]"
proof -
  let ?p = "\<lparr>pb_current_id = 2, pb_delegates = [(1, 4), (2, 5)], pb_calls = []\<rparr> :: (nat, nat) publisher"
  obtain ta pa where a: "notify (async_dispatch (\<lambda>_. (0, 0)) example_callbacks) 3 ?p = (ta, pa)" by fastforce
  obtain ts ps where b: "notify (serial_dispatch (\<lambda>_. (0, 0)) example_callbacks) 3 ?p = (ts, ps)" by fastforce
  show ?thesis using notify_calls_snapshot [OF a b] a by simp
qed



text \<open>
  Two publishers of one type have a mutex each but share the counter. When the second one's
  addition comes between the first one's entry and its answer, the first caller is given the
  second one's identifier, with which it cannot remove its observer.
\<close>

theorem observer_id_race:
  assumes "publishers_reachable n cur store" and "n + 2 < 2 ^ 64"
    and "add_entry c cur (store p) = (first, dsp)" and "add_entry c' first (store q) = (answer, dsq)"
  shows "answer \<noteq> first \<and> removeObserver junk answer dsp = (False, dsp)"
proof -
  have inv: "ids_inv n cur store" using assms(1,2) by (intro reachable_ids_inv) simp_all
  have f: "first = cur + 1" "dsp = store p @ [(cur + 1, c)]" and a: "answer = cur + 1 + 1"
    using assms(3,4) by (auto simp: add_entry_def Let_def)
  have u1: "unat (cur + 1) = Suc n"
    using inv assms(2) unat_next [of cur] by (simp add: ids_inv_def)
  then have u2: "unat (cur + 1 + 1) = Suc (Suc n)"
    using assms(2) unat_next [of "cur + 1"] by simp
  have ne: "cur + 1 + 1 \<noteq> cur + 1" using u1 u2 by (metis n_not_Suc_n)
  have "cur + 1 + 1 \<notin> set (keys (store p))"
    using inv u2 unfolding ids_inv_def by (metis not_less_eq_eq le_SucI le_refl)
  then have "answer \<notin> set (keys dsp)" using f a ne by auto
  with ne show ?thesis by (simp add: f a removeObserver_absent)
qed

theorem observer_id_race_witness:
  "removeObserver (\<lambda>_. (0, ''x'')) 2 [(1, ''a'')] = (False, [(1, ''a'')])"
  using observer_id_race [OF none_added, where c = "''a''" and first = 1
      and dsp = "[(1, ''a'')]" and c' = "''b''" and answer = 2 and dsq = "[(2, ''b'')]"
      and junk = "\<lambda>_. (0, ''x'')"]
  by (simp add: add_entry_def)

text \<open>
  The template for classes is never chosen, so an observable of a class is empty: the trait asks
  for a class that is not \<^verbatim>\<open>non_complex_type\<close>, which every class is.
\<close>

theorem observable_class_empty:
  "observable_for T \<noteq> Derived_from_class \<and> observable_for Class_type = Empty_primary"
  by (simp add: observable_for_def complex_type_def non_complex_type_def)

text \<open>
  A policy that advertises a device's state in a host tells nobody: the device's observable is
  constructed after the policy and its hook is empty. Elsewhere the last publisher's hook is the
  one that is called.
\<close>

theorem host_policy_not_notified:
  "snd (observable_assign v (host_constructor publisher initial storage)) = None \<and>
   snd (observable_assign v (setHook h (setHook h' ob))) = Some (h, v)"
  by (simp add: observable_assign_def host_constructor_def client_constructor_def setHook_def)

end
