(* ===== verification/SocketDevices.thy ===== *)
theory SocketDevices
  imports ResourceHandler Addresses Observers
begin

text \<open>
  Socket devices (TransportInfra/Devices/Sockets/SocketDevice.hpp, IOInfra/SocketTypes.h) and the
  policies that connect them: AcceptorPolicy.hpp and ConnectionPolicy.hpp under
  TransportInfra/Policies. The socket system calls are parameters on a kernel state of any type.
  What the policies use of a socket address is a record of its operations; a call that touches
  memory outside an object is \<open>Undef\<close>, one that ends with an exception \<open>Throws\<close>.
\<close>

unbundle bit_operations_syntax

datatype 'a call_result = Returns 'a | Throws | Undef

subsection \<open>The enumerations of SocketTypes.h\<close>

datatype socket_type = E_SOCK_ANY | E_SOCK_STREAM | E_SOCK_DGRAM

datatype address_family = E_PF_UNSPEC | E_PF_UNIX | E_PF_INET | E_PF_INET6

datatype socket_state =
    E_STATE_AVAILABLE | E_STATE_BINDED | E_STATE_LISTENING | E_STATE_CONNECTING
  | E_STATE_CONNECTED | E_STATE_DISCONNECTED | E_STATE_SHUTDOWN | E_STATE_ERROR

datatype shutdown_how = E_SHUTDOWN_READ | E_SHUTDOWN_WRITE | E_SHUTDOWN_READWRITE

datatype socket_io_flag =
    E_MSG_NO_FLAG | E_MSG_DONTWAIT | E_MSG_OOB | E_MSG_PEEK | E_MSG_WAITALL | E_MSG_MORE | E_MSG_NOSIGNAL

fun socket_type_value :: "socket_type \<Rightarrow> int" where
  "socket_type_value E_SOCK_ANY = 0"
| "socket_type_value E_SOCK_STREAM = 1"
| "socket_type_value E_SOCK_DGRAM = 2"

fun address_family_value :: "address_family \<Rightarrow> int" where
  "address_family_value E_PF_UNSPEC = 0"
| "address_family_value E_PF_UNIX = 1"
| "address_family_value E_PF_INET = 2"
| "address_family_value E_PF_INET6 = 10"

fun shutdown_how_value :: "shutdown_how \<Rightarrow> int" where
  "shutdown_how_value E_SHUTDOWN_READ = 0"
| "shutdown_how_value E_SHUTDOWN_WRITE = 1"
| "shutdown_how_value E_SHUTDOWN_READWRITE = 2"

fun socket_io_flag_value :: "socket_io_flag \<Rightarrow> u32" where
  "socket_io_flag_value E_MSG_NO_FLAG = 0"
| "socket_io_flag_value E_MSG_DONTWAIT = 0x80"
| "socket_io_flag_value E_MSG_OOB = 0x01"
| "socket_io_flag_value E_MSG_PEEK = 0x02"
| "socket_io_flag_value E_MSG_WAITALL = 0x100"
| "socket_io_flag_value E_MSG_MORE = 0x8000"
| "socket_io_flag_value E_MSG_NOSIGNAL = 0x4000"

subsection \<open>The system and the addresses\<close>

record ('k, 's) socket_kernel =
  sk_fd :: "'k fd_kernel"
  sk_socket :: "int \<Rightarrow> int \<Rightarrow> 'k \<Rightarrow> fd \<times> 'k"
  sk_bind :: "fd \<Rightarrow> 's \<Rightarrow> nat \<Rightarrow> 'k \<Rightarrow> int \<times> 'k"
  sk_listen :: "fd \<Rightarrow> int \<Rightarrow> 'k \<Rightarrow> int \<times> 'k"
  sk_accept4 :: "fd \<Rightarrow> u32 \<Rightarrow> 'k \<Rightarrow> (fd \<times> 's) \<times> 'k"
  sk_connect :: "fd \<Rightarrow> 's \<Rightarrow> nat \<Rightarrow> 'k \<Rightarrow> int \<times> 'k"
  sk_shutdown :: "fd \<Rightarrow> int \<Rightarrow> 'k \<Rightarrow> int \<times> 'k"
  sk_setreuse :: "fd \<Rightarrow> int \<Rightarrow> 'k \<Rightarrow> int \<times> 'k"
  sk_getreuse :: "fd \<Rightarrow> 'k \<Rightarrow> int \<times> int \<times> nat"
  sk_getfl :: "fd \<Rightarrow> 'k \<Rightarrow> u32"
  sk_setfl :: "fd \<Rightarrow> u32 \<Rightarrow> 'k \<Rightarrow> int \<times> 'k"
  sk_errno :: "'k \<Rightarrow> int"

definition SOCK_NONBLOCK :: u32 where "SOCK_NONBLOCK = 0x800"
definition EINPROGRESS :: int where "EINPROGRESS = 115"

text \<open>
  What the policies use of an address: filling a \<^verbatim>\<open>sockaddr\<close>, the length of its own
  structure, and reading a \<^verbatim>\<open>sockaddr\<close> of 16 bytes into a new address (\<open>None\<close> when
  that reads behind it). The \<^verbatim>\<open>sockaddr\<close> the policies allocate has 16 bytes and the
  address fills all of its own structure, so a longer structure overflows it.
\<close>

record ('a, 's) address_ops =
  ao_getAddress :: "'a \<Rightarrow> 's"
  ao_length :: nat
  ao_setAddress :: "'s \<Rightarrow> 'a option"

definition SOCKADDR_SIZE :: nat where "SOCKADDR_SIZE = 16"

definition inet_ops ::
    "(u8 list \<Rightarrow> string option) \<Rightarrow> u8 list \<Rightarrow> (inet_socket_address, u16 \<times> u32) address_ops" where
  "inet_ops ntop garbage =
     \<lparr>ao_getAddress = inet_getAddress, ao_length = 16,
      ao_setAddress = \<lambda>(port, s_addr).
        Some (inet_setAddress_sockaddr ntop port s_addr (InetSocketAddress_default garbage))\<rparr>"

text \<open>Of a Unix path only the 14 characters inside the \<^verbatim>\<open>sockaddr\<close> can be read.\<close>

definition unix_ops :: "(unix_socket_address, string) address_ops" where
  "unix_ops =
     \<lparr>ao_getAddress = unix_getAddress, ao_length = 110,
      ao_setAddress = \<lambda>sun_path. if NUL \<in> set (take 14 sun_path)
        then unix_setAddress_sockaddr sun_path UnixSocketAddress_default else None\<rparr>"

definition inet6_ops :: "(inet6_socket_address, u16 \<times> u8 list) address_ops" where
  "inet6_ops = \<lparr>ao_getAddress = inet6_getAddress, ao_length = 28, ao_setAddress = \<lambda>_. None\<rparr>"

subsection \<open>The device\<close>

text \<open>
  The last error is an observable enumeration; its hook is the publisher's identity \<open>'h\<close>.
\<close>

record ('a, 'h) socket_device =
  sd_handler :: resource_handler
  sd_address :: 'a
  sd_state :: socket_state
  sd_error :: "(int, 'h) observable"

definition SocketDeviceBase :: "'a \<Rightarrow> ('a, 'h) socket_device" where
  "SocketDeviceBase empty_address =
     \<lparr>sd_handler = UnixResourceHandler DEFAULT_VALUE, sd_address = empty_address,
      sd_state = E_STATE_AVAILABLE, sd_error = Observable 0\<rparr>"

definition E_ERROR_FIRST :: int where "E_ERROR_FIRST = 0"
definition E_ERROR_LAST :: int where "E_ERROR_LAST = 35"

definition setLatestError ::
    "int \<Rightarrow> ('a, 'h) socket_device \<Rightarrow> ('a, 'h) socket_device \<times> ('h \<times> int) option" where
  "setLatestError error_val d =
     (if error_val < E_ERROR_LAST \<and> E_ERROR_FIRST < error_val
      then (case observable_assign error_val (sd_error d) of (e, call) \<Rightarrow> (d\<lparr>sd_error := e\<rparr>, call))
      else (d, None))"

definition sd_getHandle :: "('a, 'h) socket_device \<Rightarrow> fd" where
  "sd_getHandle d = m_handle (sd_handler d)"

definition sd_setHandle ::
    "('k, 's) socket_kernel \<Rightarrow> fd \<Rightarrow> ('a, 'h) socket_device \<Rightarrow> 'k \<Rightarrow> ('a, 'h) socket_device \<times> 'k" where
  "sd_setHandle K h d k =
     (case acquire (sk_fd K) h (sd_handler d) k of (r, k') \<Rightarrow> (d\<lparr>sd_handler := r\<rparr>, k'))"

definition sd_setState :: "socket_state \<Rightarrow> ('a, 'h) socket_device \<Rightarrow> ('a, 'h) socket_device" where
  "sd_setState st d = d\<lparr>sd_state := st\<rparr>"

definition sd_setWorkingAddress :: "'a \<Rightarrow> ('a, 'h) socket_device \<Rightarrow> ('a, 'h) socket_device" where
  "sd_setWorkingAddress a d = d\<lparr>sd_address := a\<rparr>"

definition sd_close ::
    "('k, 's) socket_kernel \<Rightarrow> ('a, 'h) socket_device \<Rightarrow> 'k \<Rightarrow> bool \<times> ('a, 'h) socket_device \<times> 'k" where
  "sd_close K d k =
     (case rh_close (sk_fd K) (sd_handler d) k of (ok, r, k') \<Rightarrow> (ok, d\<lparr>sd_handler := r\<rparr>, k'))"

text \<open>The six devices differ in the arguments of \<^verbatim>\<open>socket\<close>.\<close>

definition socket_device_with ::
    "address_family \<Rightarrow> socket_type \<Rightarrow> ('k, 's) socket_kernel \<Rightarrow> 'a \<Rightarrow> 'k \<Rightarrow> ('a, 'h) socket_device \<times> 'k" where
  "socket_device_with family ty K empty_address k =
     (case sk_socket K (address_family_value family) (socket_type_value ty) k of
        (h, k') \<Rightarrow> sd_setHandle K h (SocketDeviceBase empty_address) k')"

definition unix_stream_device :: "('a, 'b) socket_kernel \<Rightarrow> 'c \<Rightarrow> 'a \<Rightarrow> ('c, 'd) socket_device \<times> 'a" where
  "unix_stream_device = socket_device_with E_PF_UNIX E_SOCK_STREAM"
definition unix_datagram_device :: "('a, 'b) socket_kernel \<Rightarrow> 'c \<Rightarrow> 'a \<Rightarrow> ('c, 'd) socket_device \<times> 'a" where
  "unix_datagram_device = socket_device_with E_PF_UNIX E_SOCK_DGRAM"
definition ipv4_datagram_device :: "('a, 'b) socket_kernel \<Rightarrow> 'c \<Rightarrow> 'a \<Rightarrow> ('c, 'd) socket_device \<times> 'a" where
  "ipv4_datagram_device = socket_device_with E_PF_INET E_SOCK_DGRAM"
definition ipv4_stream_device :: "('a, 'b) socket_kernel \<Rightarrow> 'c \<Rightarrow> 'a \<Rightarrow> ('c, 'd) socket_device \<times> 'a" where
  "ipv4_stream_device = socket_device_with E_PF_INET E_SOCK_STREAM"
definition ipv6_datagram_device :: "('a, 'b) socket_kernel \<Rightarrow> 'c \<Rightarrow> 'a \<Rightarrow> ('c, 'd) socket_device \<times> 'a" where
  "ipv6_datagram_device = socket_device_with E_PF_INET6 E_SOCK_DGRAM"
definition ipv6_stream_device :: "('a, 'b) socket_kernel \<Rightarrow> 'c \<Rightarrow> 'a \<Rightarrow> ('c, 'd) socket_device \<times> 'a" where
  "ipv6_stream_device = socket_device_with E_PF_INET6 E_SOCK_STREAM"

text \<open>
  The base class declares its destructor, which leaves it without move operations: moving a
  device copies it, and copying the handler duplicates the descriptor.
\<close>

definition sd_copy ::
    "('k, 's) socket_kernel \<Rightarrow> ('a, 'h) socket_device \<Rightarrow> 'k \<Rightarrow> ('a, 'h) socket_device \<times> 'k" where
  "sd_copy K other k =
     (case rh_copy (sk_fd K) (sd_handler other) k of (r, k') \<Rightarrow> (other\<lparr>sd_handler := r\<rparr>, k'))"

definition sd_assign ::
    "('k, 's) socket_kernel \<Rightarrow> ('a, 'h) socket_device \<Rightarrow> ('a, 'h) socket_device \<Rightarrow> 'k \<Rightarrow>
     (('a, 'h) socket_device \<times> ('h \<times> int) option) \<times> 'k" where
  "sd_assign K this other k =
     (case rh_copy_assign (sk_fd K) False (sd_handler this) (sd_handler other) k of
        (r, k') \<Rightarrow>
          (case observable_assign_other (sd_error other) (sd_error this) of
             (e, call) \<Rightarrow>
               ((\<lparr>sd_handler = r, sd_address = sd_address other, sd_state = sd_state other, sd_error = e\<rparr>, call), k')))"

definition sd_destroy :: "('k, 's) socket_kernel \<Rightarrow> ('a, 'h) socket_device \<Rightarrow> 'k \<Rightarrow> 'k" where
  "sd_destroy K d k = rh_destroy (sk_fd K) (sd_handler d) k"

subsection \<open>Accepting connections\<close>

definition setReusableAddressOpt ::
    "('k, 's) socket_kernel \<Rightarrow> bool \<Rightarrow> ('a, 'h) socket_device \<Rightarrow> 'k \<Rightarrow> bool \<times> 'k" where
  "setReusableAddressOpt K reusable d k =
     (case sk_setreuse K (sd_getHandle d) (if reusable then 1 else 0) k of (r, k') \<Rightarrow> (r \<noteq> - 1, k'))"

definition socket_bind ::
    "('k, 's) socket_kernel \<Rightarrow> ('a, 's) address_ops \<Rightarrow> 'a \<Rightarrow> bool \<Rightarrow> ('a, 'h) socket_device \<Rightarrow> 'k \<Rightarrow>
     (bool \<times> ('a, 'h) socket_device \<times> 'k) call_result" where
  "socket_bind K A addr reusable d k =
     (if sd_state d \<noteq> E_STATE_AVAILABLE then Returns (False, d, k)
      else let k1 = snd (setReusableAddressOpt K reusable d k)
           in if SOCKADDR_SIZE < ao_length A then Undef
              else case sk_bind K (sd_getHandle d) (ao_getAddress A addr) (ao_length A) k1 of
                     (r, k2) \<Rightarrow> if r = 0 then Returns (True, sd_setState E_STATE_BINDED d, k2)
                                else Returns (False, d, k2))"

definition socket_listen ::
    "('k, 's) socket_kernel \<Rightarrow> int \<Rightarrow> ('a, 'h) socket_device \<Rightarrow> 'k \<Rightarrow> bool \<times> ('a, 'h) socket_device \<times> 'k" where
  "socket_listen K backlog d k =
     (if sd_state d \<noteq> E_STATE_BINDED then (False, d, k)
      else case sk_listen K (sd_getHandle d) backlog k of
             (r, k') \<Rightarrow> if r = 0 then (True, sd_setState E_STATE_LISTENING d, k') else (False, d, k'))"

definition isBinded :: "('a, 'h) socket_device \<Rightarrow> bool" where
  "isBinded d = (sd_state d = E_STATE_BINDED)"

definition isListening :: "('a, 'h) socket_device \<Rightarrow> bool" where
  "isListening d = (sd_state d = E_STATE_LISTENING)"

definition isAddressReusable :: "('k, 's) socket_kernel \<Rightarrow> ('a, 'h) socket_device \<Rightarrow> 'k \<Rightarrow> bool" where
  "isAddressReusable K d k =
     (case sk_getreuse K (sd_getHandle d) k of
        (r, opt_val, val_size) \<Rightarrow> if r \<noteq> - 1 then val_size = 1 else False)"

text \<open>\<open>new_device\<close> is the device's default constructor, which makes a socket of its own.\<close>

definition socket_accept ::
    "('k, 's) socket_kernel \<Rightarrow> ('a, 's) address_ops \<Rightarrow> ('k \<Rightarrow> ('a, 'h) socket_device \<times> 'k) \<Rightarrow> bool \<Rightarrow>
     ('a, 'h) socket_device \<Rightarrow> 'k \<Rightarrow> (('a, 'h) socket_device option \<times> 'k) call_result" where
  "socket_accept K A new_device non_blocking d k =
     (if sd_state d \<noteq> E_STATE_LISTENING then Returns (None, k)
      else case sk_accept4 K (sd_getHandle d) (if non_blocking then SOCK_NONBLOCK else 0) k of
             ((peer_handle, remote_addr), k1) \<Rightarrow>
               if peer_handle \<noteq> - 1 then
                 (case ao_setAddress A remote_addr of
                    None \<Rightarrow> Undef
                  | Some peer_addr \<Rightarrow>
                      (case new_device k1 of
                         (peer, k2) \<Rightarrow>
                           (case sd_setHandle K peer_handle (sd_setWorkingAddress peer_addr peer) k2 of
                              (peer', k3) \<Rightarrow> Returns (Some (sd_setState E_STATE_CONNECTED peer'), k3))))
               else Throws)"

text \<open>The policy for Unix sockets also keeps the path, which its destructor removes.\<close>

definition unix_acceptor_bind ::
    "('k, string) socket_kernel \<Rightarrow> unix_socket_address \<Rightarrow> bool \<Rightarrow> (unix_socket_address, 'h) socket_device \<Rightarrow>
     string \<Rightarrow> 'k \<Rightarrow> ((bool \<times> (unix_socket_address, 'h) socket_device \<times> 'k) \<times> string) call_result" where
  "unix_acceptor_bind K addr reusable d pathname k =
     (if NUL \<notin> set (unix_getAddress addr) then Undef
      else let pathname' = c_string (unix_getAddress addr)
           in case socket_bind K unix_ops addr reusable d k of
                Returns r \<Rightarrow> Returns (r, pathname') | Throws \<Rightarrow> Throws | Undef \<Rightarrow> Undef)"

definition unix_acceptor_destroy :: "'k system \<Rightarrow> string \<Rightarrow> 'k \<Rightarrow> 'k" where
  "unix_acceptor_destroy sys pathname k =
     (if pathname \<noteq> [] \<and> file_exists sys pathname k \<and>
         fi_type (FileInfo (sys_stat sys pathname k)) = E_LOCAL_SOCKET
      then snd (remove_file sys pathname k) else k)"

subsection \<open>Connecting\<close>

definition socket_connect ::
    "('k, 's) socket_kernel \<Rightarrow> ('a, 's) address_ops \<Rightarrow> 'a \<Rightarrow> bool \<Rightarrow> ('a, 'h) socket_device \<Rightarrow> 'k \<Rightarrow>
     (bool \<times> ('a, 'h) socket_device \<times> 'k) call_result" where
  "socket_connect K A addr non_blocking d k =
     (if sd_state d = E_STATE_DISCONNECTED \<and> sd_getHandle d = - 1 then Returns (False, d, k)
      else case (if sd_state d = E_STATE_DISCONNECTED
                 then (case sd_setHandle K (sd_getHandle d) d k of
                         (d', k') \<Rightarrow> (sd_setState E_STATE_AVAILABLE d', k'))
                 else (d, k)) of
             (d1, k1) \<Rightarrow>
               if sd_state d1 \<noteq> E_STATE_AVAILABLE then Returns (False, d1, k1)
               else case (if non_blocking
                          then (case sk_setfl K (sd_getHandle d1) (sk_getfl K (sd_getHandle d1) k1 OR O_NONBLOCK) k1 of
                                  (r, k') \<Rightarrow> (r \<noteq> - 1, k'))
                          else (True, k1)) of
                      (res, k2) \<Rightarrow>
                        if \<not> res then Returns (False, d1, k2)
                        else if SOCKADDR_SIZE < ao_length A then Undef
                        else case sk_connect K (sd_getHandle d1) (ao_getAddress A addr) (ao_length A) k2 of
                               (r, k3) \<Rightarrow>
                                 if r = 0 \<or> non_blocking \<and> sk_errno K k3 = EINPROGRESS
                                 then Returns (True, sd_setState E_STATE_CONNECTED d1, k3)
                                 else Returns (False, d1, k3))"

definition socket_disconnect ::
    "('k, 's) socket_kernel \<Rightarrow> ('a, 'h) socket_device \<Rightarrow> 'k \<Rightarrow> bool \<times> ('a, 'h) socket_device \<times> 'k" where
  "socket_disconnect K d k =
     (if sd_state d \<noteq> E_STATE_CONNECTED then (False, d, k)
      else case sd_close K d k of
             (ok, d', k') \<Rightarrow> if ok then (True, sd_setState E_STATE_DISCONNECTED d', k') else (False, d', k'))"

definition socket_shutdown ::
    "('k, 's) socket_kernel \<Rightarrow> shutdown_how \<Rightarrow> ('a, 'h) socket_device \<Rightarrow> 'k \<Rightarrow> bool \<times> ('a, 'h) socket_device \<times> 'k" where
  "socket_shutdown K how d k =
     (case sk_shutdown K (sd_getHandle d) (shutdown_how_value how) k of
        (r, k') \<Rightarrow> if r \<noteq> - 1 then (True, sd_setState E_STATE_SHUTDOWN d, k') else (False, d, k'))"

definition socket_isConnected :: "('a, 'h) socket_device \<Rightarrow> bool" where
  "socket_isConnected d = (sd_state d = E_STATE_CONNECTED)"

subsection \<open>The life of a socket\<close>

text \<open>
  A device with both policies: every call of one of them, and whatever happens in the kernel in
  between.
\<close>

inductive socket_step ::
    "('k, 's) socket_kernel \<Rightarrow> ('a, 's) address_ops \<Rightarrow>
     ('a, 'h) socket_device \<times> 'k \<Rightarrow> ('a, 'h) socket_device \<times> 'k \<Rightarrow> bool" for K A where
  st_bind: "socket_bind K A addr reusable d k = Returns (ok, d', k') \<Longrightarrow> socket_step K A (d, k) (d', k')"
| st_listen: "socket_listen K backlog d k = (ok, d', k') \<Longrightarrow> socket_step K A (d, k) (d', k')"
| st_accept: "socket_accept K A mk non_blocking d k = Returns (peer, k') \<Longrightarrow> socket_step K A (d, k) (d, k')"
| st_connect: "socket_connect K A addr non_blocking d k = Returns (ok, d', k') \<Longrightarrow> socket_step K A (d, k) (d', k')"
| st_disconnect: "socket_disconnect K d k = (ok, d', k') \<Longrightarrow> socket_step K A (d, k) (d', k')"
| st_shutdown: "socket_shutdown K how d k = (ok, d', k') \<Longrightarrow> socket_step K A (d, k) (d', k')"
| st_kernel: "socket_step K A (d, k) (d, k')"

inductive socket_reachable ::
    "('k, 's) socket_kernel \<Rightarrow> ('a, 's) address_ops \<Rightarrow> ('a, 'h) socket_device \<times> 'k \<Rightarrow> bool" for K A where
  new_socket: "socket_device_with family ty K a k = (d, k') \<Longrightarrow> socket_reachable K A (d, k')"
| next_socket: "socket_reachable K A s \<Longrightarrow> socket_step K A s s' \<Longrightarrow> socket_reachable K A s'"

text \<open>The moves between states the code can make.\<close>

definition socket_moves :: "(socket_state \<times> socket_state) list" where
  "socket_moves =
     [(E_STATE_AVAILABLE, E_STATE_BINDED), (E_STATE_AVAILABLE, E_STATE_CONNECTED),
      (E_STATE_BINDED, E_STATE_LISTENING), (E_STATE_CONNECTED, E_STATE_DISCONNECTED),
      (E_STATE_DISCONNECTED, E_STATE_AVAILABLE), (E_STATE_DISCONNECTED, E_STATE_CONNECTED),
      (E_STATE_AVAILABLE, E_STATE_SHUTDOWN), (E_STATE_BINDED, E_STATE_SHUTDOWN),
      (E_STATE_LISTENING, E_STATE_SHUTDOWN), (E_STATE_CONNECTED, E_STATE_SHUTDOWN),
      (E_STATE_DISCONNECTED, E_STATE_SHUTDOWN)]"

subsection \<open>Properties\<close>

lemma sd_state_simps [simp]:
  "sd_state (sd_setState st d) = st"
  "sd_state (sd_setWorkingAddress a d) = sd_state d"
  "sd_getHandle (sd_setState st d) = sd_getHandle d"
  "sd_handler (sd_setState st d) = sd_handler d"
  by (simp_all add: sd_setState_def sd_setWorkingAddress_def sd_getHandle_def)

lemma sd_setHandle_state: "sd_setHandle K h d k = (d', k') \<Longrightarrow> sd_state d' = sd_state d \<and> sd_getHandle d' = h"
  by (auto simp: sd_setHandle_def sd_getHandle_def acquire_def split: prod.splits)

lemma sd_close_state: "sd_close K d k = (ok, d', k') \<Longrightarrow> sd_state d' = sd_state d \<and> sd_getHandle d' = sd_getHandle d"
  by (auto simp: sd_close_def sd_getHandle_def rh_close_def split: prod.splits if_splits)

lemma socket_bind_state:
  "socket_bind K A addr reusable d k = Returns (ok, d', k') \<Longrightarrow>
    ok \<and> sd_state d = E_STATE_AVAILABLE \<and> d' = sd_setState E_STATE_BINDED d \<or> \<not> ok \<and> d' = d"
  by (auto simp: socket_bind_def Let_def split: prod.splits if_splits)

lemma socket_listen_state:
  "socket_listen K backlog d k = (ok, d', k') \<Longrightarrow>
    ok \<and> sd_state d = E_STATE_BINDED \<and> d' = sd_setState E_STATE_LISTENING d \<or> \<not> ok \<and> d' = d"
  by (auto simp: socket_listen_def split: prod.splits if_splits)

lemma socket_disconnect_state:
  "socket_disconnect K d k = (ok, d', k') \<Longrightarrow>
    ok \<and> sd_state d = E_STATE_CONNECTED \<and> sd_state d' = E_STATE_DISCONNECTED \<and> sd_getHandle d' = sd_getHandle d \<or>
    \<not> ok \<and> sd_state d' = sd_state d"
  by (auto simp: socket_disconnect_def split: prod.splits if_splits dest: sd_close_state)

lemma socket_shutdown_state:
  "socket_shutdown K how d k = (ok, d', k') \<Longrightarrow>
    ok \<and> d' = sd_setState E_STATE_SHUTDOWN d \<or> \<not> ok \<and> d' = d"
  by (auto simp: socket_shutdown_def split: prod.splits if_splits)

lemma socket_connect_state:
  assumes "socket_connect K A addr non_blocking d k = Returns (ok, d', k')"
  shows "ok \<and> sd_state d \<in> {E_STATE_AVAILABLE, E_STATE_DISCONNECTED} \<and> sd_state d' = E_STATE_CONNECTED \<or>
    \<not> ok \<and> (sd_state d' = sd_state d \<or> sd_state d = E_STATE_DISCONNECTED \<and> sd_state d' = E_STATE_AVAILABLE)"
  using assms
  by (auto simp: socket_connect_def split: prod.splits if_splits dest!: sd_setHandle_state)

lemma socket_step_moves:
  assumes "socket_step K A (d, k) (d', k')"
  shows "sd_state d' = sd_state d \<or> (sd_state d, sd_state d') \<in> set socket_moves \<or>
    sd_state d' = E_STATE_SHUTDOWN"
  using assms
proof cases
  case st_bind
  from socket_bind_state [OF this] show ?thesis by (elim disjE conjE) (auto simp: socket_moves_def)
next
  case st_listen
  from socket_listen_state [OF this] show ?thesis by (elim disjE conjE) (auto simp: socket_moves_def)
next
  case st_connect
  from socket_connect_state [OF this] show ?thesis by (elim disjE conjE) (auto simp: socket_moves_def)
next
  case st_disconnect
  from socket_disconnect_state [OF this] show ?thesis by (elim disjE conjE) (auto simp: socket_moves_def)
next
  case st_shutdown
  from socket_shutdown_state [OF this] show ?thesis by (elim disjE conjE) (auto simp: socket_moves_def)
qed auto

lemma new_socket_available: "socket_device_with family ty K a k = (d, k') \<Longrightarrow> sd_state d = E_STATE_AVAILABLE"
  by (auto simp: socket_device_with_def SocketDeviceBase_def split: prod.splits dest!: sd_setHandle_state)

lemma socket_reachable_states:
  "socket_reachable K A s \<Longrightarrow> sd_state (fst s) \<noteq> E_STATE_CONNECTING \<and> sd_state (fst s) \<noteq> E_STATE_ERROR"
proof (induction rule: socket_reachable.induct)
  case new_socket then show ?case by (auto dest: new_socket_available)
next
  case (next_socket s s')
  then show ?case
    using socket_step_moves [of K A "fst s" "snd s" "fst s'" "snd s'"] by (auto simp: socket_moves_def)
qed

text \<open>
  C9: The life of a socket device: it is never \<^verbatim>\<open>E_STATE_CONNECTING\<close> and never
  \<^verbatim>\<open>E_STATE_ERROR\<close>; every call leaves the state alone or makes one of the listed moves;
  after a shutdown no call changes it again.
\<close>

theorem socket_life:
  assumes "socket_reachable K A (d, k)" and "socket_step K A (d, k) (d', k')"
  shows "sd_state d \<notin> {E_STATE_CONNECTING, E_STATE_ERROR} \<and>
    (sd_state d' = sd_state d \<or> (sd_state d, sd_state d') \<in> set socket_moves)"
proof -
  from socket_reachable_states [OF assms(1)]
  have "sd_state d \<notin> {E_STATE_CONNECTING, E_STATE_ERROR}" by simp
  with socket_step_moves [OF assms(2)] show ?thesis
    by (cases "sd_state d") (auto simp: socket_moves_def)
qed

text \<open>
  A kernel that knows which descriptors are open: it gives the numbers of a list to new sockets,
  and remembers what it was asked to connect and to close.
\<close>

record socket_log =
  sl_fds :: "fd list"
  sl_open :: "fd list"
  sl_closed :: "fd list"
  sl_connected :: "fd list"
  sl_accepts :: "fd list"

definition log_new :: "socket_log \<Rightarrow> fd \<times> socket_log" where
  "log_new k = (case sl_fds k of [] \<Rightarrow> (- 1, k) | h # hs \<Rightarrow> (h, k\<lparr>sl_fds := hs, sl_open := h # sl_open k\<rparr>))"

definition socket_log_kernel :: "'s \<Rightarrow> (socket_log, 's) socket_kernel" where
  "socket_log_kernel remote =
     \<lparr>sk_fd = \<lparr>k_dup = \<lambda>h. log_new,
        k_close = \<lambda>h k. if h \<in> set (sl_open k)
          then (0, k\<lparr>sl_open := removeAll h (sl_open k), sl_closed := sl_closed k @ [h]\<rparr>) else (- 1, k),
        k_getfd_ok = \<lambda>h k. h \<in> set (sl_open k)\<rparr>,
      sk_socket = \<lambda>_ _. log_new, sk_bind = \<lambda>_ _ _ k. (0, k), sk_listen = \<lambda>_ _ k. (0, k),
      sk_accept4 = \<lambda>_ _ k. (case sl_accepts k of [] \<Rightarrow> ((- 1, remote), k)
        | h # hs \<Rightarrow> ((h, remote), k\<lparr>sl_accepts := hs, sl_open := h # sl_open k\<rparr>)),
      sk_connect = \<lambda>h _ _ k. (if h \<in> set (sl_open k) then (0, k\<lparr>sl_connected := sl_connected k @ [h]\<rparr>) else (- 1, k)),
      sk_shutdown = \<lambda>_ _ k. (0, k), sk_setreuse = \<lambda>_ _ k. (0, k), sk_getreuse = \<lambda>_ _. (0, 1, 4),
      sk_getfl = \<lambda>_ _. 0, sk_setfl = \<lambda>_ _ k. (0, k), sk_errno = \<lambda>_. 9\<rparr>"

definition plain_ops :: "(nat, nat) address_ops" where
  "plain_ops = \<lparr>ao_getAddress = \<lambda>a. a, ao_length = 16, ao_setAddress = Some\<rparr>"

abbreviation example_sockets :: "(socket_log, nat) socket_kernel" where
  "example_sockets \<equiv> socket_log_kernel (0 :: nat)"
abbreviation example_log :: "socket_log" where
  "example_log \<equiv> \<lparr>sl_fds = [4, 5], sl_open = [], sl_closed = [], sl_connected = [], sl_accepts = [9]\<rparr>"

definition example_socket :: "(nat, nat) socket_device \<times> socket_log" where
  "example_socket = ipv4_stream_device example_sockets 0 example_log"

lemma example_socket_eq:
  "example_socket = (\<lparr>sd_handler = \<lparr>m_handle = 4, m_open = True\<rparr>, sd_address = 0, sd_state = E_STATE_AVAILABLE,
      sd_error = Observable 0\<rparr>, example_log\<lparr>sl_fds := [5], sl_open := [4]\<rparr>)"
  by (simp add: example_socket_def ipv4_stream_device_def socket_device_with_def SocketDeviceBase_def
      socket_log_kernel_def log_new_def sd_setHandle_def acquire_def defaultHandle_def UnixResourceHandler_def
      DEFAULT_VALUE_def)

theorem socket_life_witness:
  "sd_state (sd_setState E_STATE_BINDED (fst example_socket)) \<noteq> E_STATE_ERROR \<and>
   socket_bind example_sockets plain_ops 3 True (fst example_socket) (snd example_socket) =
     Returns (True, sd_setState E_STATE_BINDED (fst example_socket), snd example_socket)"
proof -
  have r: "socket_reachable example_sockets plain_ops (fst example_socket, snd example_socket)"
    by (rule new_socket [of E_PF_INET E_SOCK_STREAM _ 0 example_log])
      (simp add: example_socket_def ipv4_stream_device_def)
  have b: "socket_bind example_sockets plain_ops 3 True (fst example_socket) (snd example_socket) =
     Returns (True, sd_setState E_STATE_BINDED (fst example_socket), snd example_socket)"
    by (simp add: example_socket_eq socket_bind_def setReusableAddressOpt_def socket_log_kernel_def
        plain_ops_def SOCKADDR_SIZE_def)
  have s: "socket_step example_sockets plain_ops (fst example_socket, snd example_socket)
      (sd_setState E_STATE_BINDED (fst example_socket), snd example_socket)"
    by (rule st_bind [OF b])
  have s': "socket_step example_sockets plain_ops (sd_setState E_STATE_BINDED (fst example_socket), snd example_socket)
      (sd_setState E_STATE_BINDED (fst example_socket), snd example_socket)"
    by (rule st_kernel)
  from socket_life [OF next_socket [OF r s] s'] b show ?thesis by simp
qed

text \<open>
  C30: A bound and listening socket that the system gives a connection hands out a connected device
  with that descriptor and the peer's address, and stays as it is; the socket the peer's device
  was born with is closed.
\<close>

theorem socket_accept_effect:
  fixes d born :: "('a, 'h) socket_device"
  assumes "sd_state d = E_STATE_LISTENING"
    and "sk_accept4 K (sd_getHandle d) (if non_blocking then SOCK_NONBLOCK else 0) k = ((h, remote), k1)"
    and "h \<noteq> - 1" and "ao_setAddress A remote = Some peer_addr"
    and "socket_device_with family ty K empty_address k1 = (born, k2)"
    and "sd_getHandle born \<noteq> - 1" and "sd_getHandle born \<noteq> h"
    and "k_close (sk_fd K) (sd_getHandle born) k2 = (0, k3)"
  shows "socket_accept K A (socket_device_with family ty K empty_address) non_blocking d k =
    Returns (Some \<lparr>sd_handler = \<lparr>m_handle = h, m_open = True\<rparr>, sd_address = peer_addr,
      sd_state = E_STATE_CONNECTED, sd_error = Observable 0\<rparr>, k3)"
proof -
  have born: "sd_error born = Observable 0"
    using assms(5) by (auto simp: socket_device_with_def SocketDeviceBase_def sd_setHandle_def split: prod.splits)
  with assms show ?thesis
    by (cases born) (simp add: socket_accept_def sd_setHandle_def sd_setWorkingAddress_def sd_setState_def
        sd_getHandle_def acquire_def rh_close_def defaultHandle_def DEFAULT_VALUE_def)
qed

theorem socket_accept_effect_witness:
  "socket_accept example_sockets plain_ops (ipv4_stream_device example_sockets 0) False
      (sd_setState E_STATE_LISTENING (fst example_socket)) (snd example_socket) =
    Returns (Some \<lparr>sd_handler = \<lparr>m_handle = 9, m_open = True\<rparr>, sd_address = 0,
      sd_state = E_STATE_CONNECTED, sd_error = Observable 0\<rparr>,
      \<lparr>sl_fds = [], sl_open = [9, 4], sl_closed = [5], sl_connected = [], sl_accepts = []\<rparr>)"
  unfolding ipv4_stream_device_def
  by (rule socket_accept_effect [where h = 9 and remote = 0
      and born = "\<lparr>sd_handler = \<lparr>m_handle = 5, m_open = True\<rparr>, sd_address = 0,
        sd_state = E_STATE_AVAILABLE, sd_error = Observable 0\<rparr>"
      and ?k1.0 = "\<lparr>sl_fds = [5], sl_open = [9, 4], sl_closed = [], sl_connected = [], sl_accepts = []\<rparr>"
      and ?k2.0 = "\<lparr>sl_fds = [], sl_open = [5, 9, 4], sl_closed = [], sl_connected = [], sl_accepts = []\<rparr>"])
    (simp_all add: example_socket_eq socket_log_kernel_def plain_ops_def sd_getHandle_def socket_device_with_def
      SocketDeviceBase_def log_new_def sd_setHandle_def acquire_def defaultHandle_def UnixResourceHandler_def
      DEFAULT_VALUE_def)

text \<open>
  An accept that the system refuses (there is no connection yet on a non-blocking socket, or the
  process has run out of descriptors) ends with the exception of an empty optional instead of
  giving no device; so does every later one until a connection is there.
\<close>

theorem socket_accept_failure_throws:
  assumes "sd_state d = E_STATE_LISTENING"
    and "fst (fst (sk_accept4 K (sd_getHandle d) (if non_blocking then SOCK_NONBLOCK else 0) k)) = - 1"
  shows "socket_accept K A new_device non_blocking d k = Throws"
proof -
  obtain h r k' where "sk_accept4 K (sd_getHandle d) (if non_blocking then SOCK_NONBLOCK else 0) k = ((h, r), k')"
    by (metis surj_pair)
  with assms show ?thesis by (simp add: socket_accept_def)
qed

theorem socket_accept_failure_throws_witness:
  "socket_accept example_sockets plain_ops (ipv4_stream_device example_sockets 0) True
      (sd_setState E_STATE_LISTENING (fst example_socket)) (snd example_socket\<lparr>sl_accepts := []\<rparr>) = Throws"
  by (rule socket_accept_failure_throws) (simp_all add: socket_log_kernel_def)

text \<open>
  Connecting again after a disconnection does not make a new socket: it goes to the number of
  the descriptor that \<^verbatim>\<open>disconnect\<close> closed, which is not open any more (or belongs to
  somebody else by then).
\<close>

theorem reconnect_uses_closed_descriptor:
  assumes "socket_disconnect K d k = (True, d1, k1)" and "sd_getHandle d \<noteq> - 1"
    and "\<And>h k r k'. k_close (sk_fd K) h k = (r, k') \<Longrightarrow> r \<noteq> - 1 \<Longrightarrow> \<not> k_getfd_ok (sk_fd K) h k'"
    and "ao_length A \<le> SOCKADDR_SIZE"
  shows "\<not> k_getfd_ok (sk_fd K) (sd_getHandle d) k1 \<and>
    (\<exists>d2. sd_getHandle d2 = sd_getHandle d \<and>
      socket_connect K A addr False d1 k1 =
        (case sk_connect K (sd_getHandle d) (ao_getAddress A addr) (ao_length A) k1 of
           (r, k2) \<Rightarrow> Returns (r = 0, sd_setState (if r = 0 then E_STATE_CONNECTED else E_STATE_AVAILABLE) d2, k2)))"
proof -
  from socket_disconnect_state [OF assms(1)]
  have st: "sd_state d = E_STATE_CONNECTED" "sd_state d1 = E_STATE_DISCONNECTED" and h: "sd_getHandle d1 = sd_getHandle d"
    by auto
  from assms(1) st(1) obtain d0 where c: "sd_close K d k = (True, d0, k1)"
    by (auto simp: socket_disconnect_def split: prod.splits if_splits)
  then have "\<not> k_getfd_ok (sk_fd K) (sd_getHandle d) k1"
    using assms(2,3)
    by (auto simp: sd_close_def rh_close_def sd_getHandle_def defaultHandle_def DEFAULT_VALUE_def
        split: prod.splits if_splits)
  moreover have "sd_setHandle K (sd_getHandle d1) d1 k1 =
      (d1\<lparr>sd_handler := sd_handler d1\<lparr>m_open := True, m_handle := sd_getHandle d1\<rparr>\<rparr>, k1)"
    by (simp add: sd_setHandle_def acquire_def sd_getHandle_def)
  then have "\<exists>d2. sd_getHandle d2 = sd_getHandle d \<and>
      socket_connect K A addr False d1 k1 =
        (case sk_connect K (sd_getHandle d) (ao_getAddress A addr) (ao_length A) k1 of
           (r, k2) \<Rightarrow> Returns (r = 0, sd_setState (if r = 0 then E_STATE_CONNECTED else E_STATE_AVAILABLE) d2, k2))"
    using st(2) h assms(2,4)
    by (intro exI [of _ "d1\<lparr>sd_handler := sd_handler d1\<lparr>m_open := True, m_handle := sd_getHandle d1\<rparr>\<rparr>"])
      (simp add: socket_connect_def sd_setState_def sd_getHandle_def split: prod.split)
  ultimately show ?thesis by blast
qed

theorem reconnect_uses_closed_descriptor_witness:
  "\<not> k_getfd_ok (sk_fd example_sockets) 4 (snd (snd (socket_disconnect example_sockets
      (sd_setState E_STATE_CONNECTED (fst example_socket)) (snd example_socket))))"
proof -
  let ?d = "sd_setState E_STATE_CONNECTED (fst example_socket)"
  obtain ok d1 k1 where r: "socket_disconnect example_sockets ?d (snd example_socket) = (ok, d1, k1)"
    by (metis surj_pair)
  then have ok by (auto simp: example_socket_eq socket_disconnect_def sd_close_def rh_close_def
        socket_log_kernel_def sd_setState_def defaultHandle_def DEFAULT_VALUE_def)
  with r have r': "socket_disconnect example_sockets ?d (snd example_socket) = (True, d1, k1)" by simp
  have h: "sd_getHandle ?d = 4" by (simp add: example_socket_eq sd_getHandle_def)
  have "\<not> k_getfd_ok (sk_fd example_sockets) f k'" if "k_close (sk_fd example_sockets) f k = (r, k')" "r \<noteq> - 1" for f k r k'
    using that by (auto simp: socket_log_kernel_def split: if_splits)
  from reconnect_uses_closed_descriptor [OF r' _ this, where A = plain_ops] h r show ?thesis
    by (simp add: plain_ops_def SOCKADDR_SIZE_def)
qed

text \<open>
  Binding or connecting a Unix socket writes its 110 bytes into the 16 bytes of a
  \<^verbatim>\<open>sockaddr\<close>, and an IPv6 socket its 28; with an IPv4 address both calls stay inside.
\<close>

theorem long_addresses_overflow:
  assumes "sd_state d = E_STATE_AVAILABLE"
  shows "(socket_bind K A addr reusable d k = Undef \<longleftrightarrow> 16 < ao_length A) \<and>
    (socket_connect K A addr False d k = Undef \<longleftrightarrow> 16 < ao_length A) \<and>
    ao_length unix_ops = 110 \<and> ao_length inet6_ops = 28 \<and> ao_length (inet_ops ntop g) = 16"
proof -
  have "socket_bind K A addr reusable d k = Undef \<longleftrightarrow> 16 < ao_length A"
    using assms by (simp add: socket_bind_def SOCKADDR_SIZE_def Let_def split: prod.split)
  moreover have "socket_connect K A addr False d k = Undef \<longleftrightarrow> 16 < ao_length A"
    using assms by (simp add: socket_connect_def SOCKADDR_SIZE_def split: prod.split)
  ultimately show ?thesis by (simp add: unix_ops_def inet6_ops_def inet_ops_def)
qed

theorem long_addresses_overflow_witness:
  "socket_bind (socket_log_kernel '''') unix_ops UnixSocketAddress_default True
     (SocketDeviceBase UnixSocketAddress_default) example_log = Undef"
  by (rule long_addresses_overflow [THEN conjunct1, THEN iffD2]) (simp_all add: SocketDeviceBase_def unix_ops_def)

text \<open>
  A second \<^verbatim>\<open>bind\<close> is refused, but the policy remembers the new path: its destructor
  removes the socket file at that path, which is somebody else's, and leaves its own.
\<close>

theorem refused_bind_removes_other_socket:
  assumes "sd_state d \<noteq> E_STATE_AVAILABLE" and "NUL \<in> set (unix_getAddress addr)"
    and "path' = c_string (unix_getAddress addr)" and "path' \<noteq> []"
    and "file_exists sys path' k" and "fi_type (FileInfo (sys_stat sys path' k)) = E_LOCAL_SOCKET"
  shows "unix_acceptor_bind K addr reusable d path k = Returns ((False, d, k), path') \<and>
    unix_acceptor_destroy sys path' k = snd (sys_unlink sys path' k)"
  using assms
  by (simp add: unix_acceptor_bind_def socket_bind_def unix_acceptor_destroy_def remove_file_def split: prod.split)

text \<open>
  \<^verbatim>\<open>isAddressReusable\<close> compares the length of the option's value with 1 where it means the
  value: the system gives an \<^verbatim>\<open>int\<close>, so the answer is always no.
\<close>

theorem isAddressReusable_never:
  assumes "\<And>h k. snd (snd (sk_getreuse K h k)) = 4"
  shows "\<not> isAddressReusable K d k"
  using assms [of "sd_getHandle d" k] by (auto simp: isAddressReusable_def split: prod.splits)

text \<open>
  A moved device is a copy: it gets a duplicate of the descriptor, and the source keeps its own
  open until it is destroyed.
\<close>

theorem move_duplicates_descriptor:
  assumes "sd_getHandle other \<noteq> - 1" and "k_dup (sk_fd K) (sd_getHandle other) k = (n, k1)" and "n \<noteq> - 1"
  shows "sd_copy K other k = (other\<lparr>sd_handler := \<lparr>m_handle = n, m_open = True\<rparr>\<rparr>, k1) \<and>
    sd_destroy K (fst (sd_copy K other k)) k2 = snd (k_close (sk_fd K) n k2) \<and>
    sd_destroy K other k2 = snd (k_close (sk_fd K) (sd_getHandle other) k2)"
  using assms
  by (auto simp: sd_copy_def rh_copy_def acquire_def sd_getHandle_def defaultHandle_def DEFAULT_VALUE_def
      sd_destroy_def rh_destroy_def rh_close_def split: prod.splits if_splits)

text \<open>The last error stays between the enumeration's first and last member.\<close>

lemma setLatestError_state:
  "ob_state (sd_error (fst (setLatestError e d))) = (if 0 < e \<and> e < 35 then e else ob_state (sd_error d))"
  by (simp add: setLatestError_def E_ERROR_FIRST_def E_ERROR_LAST_def observable_assign_def)

end
