(* ===== verification/NamedPipes.thy ===== *)
theory NamedPipes
  imports ResourceHandler LinuxIO
begin

text \<open>
  Named pipes: NamedPipeDevice.hpp, NamedPipeAddress and NamedPipeFactory under
  TransportInfra/Devices/Pipes, and the acceptor's and connection's policies for them
  (AcceptorPolicy.hpp, ConnectionPolicy.hpp). A device is a descriptor's owner and a path; it is
  opened for reading or for writing by its derived class. Descriptors go through the resource
  handler's calls, files through the system of LinuxIO, both on one state.
\<close>

unbundle bit_operations_syntax

subsection \<open>The address\<close>

type_synonym pipe_address = string

definition pipe_fromString :: "string \<Rightarrow> pipe_address \<Rightarrow> bool \<times> pipe_address" where
  "pipe_fromString addr a = (True, addr)"

definition pipe_setAddress :: "string \<Rightarrow> pipe_address \<Rightarrow> bool \<times> pipe_address" where
  "pipe_setAddress addr a = (True, addr)"

definition pipe_getAddress :: "pipe_address \<Rightarrow> string" where "pipe_getAddress a = a"

definition pipe_address_empty :: "pipe_address \<Rightarrow> bool" where "pipe_address_empty a = (a = [])"

definition pipe_address_print :: "pipe_address \<Rightarrow> string" where
  "pipe_address_print a = ''NamedPipeAddress; pathname = '' @ a @ [CHR 0x0A]"

subsection \<open>The device\<close>

datatype io_profile = read_only_profile | write_only_profile

record pipe_device =
  np_handler :: resource_handler
  np_pathname :: string

record 'k pipe_system =
  ps_fd :: "'k fd_kernel"
  ps_sys :: "'k system"
  ps_setfl :: "fd \<Rightarrow> u32 \<Rightarrow> 'k \<Rightarrow> 'k"

definition NamedPipeDevice :: "string \<Rightarrow> pipe_device" where
  "NamedPipeDevice pathname = \<lparr>np_handler = UnixResourceHandler DEFAULT_VALUE, np_pathname = pathname\<rparr>"

definition np_isOpen :: "'k pipe_system \<Rightarrow> pipe_device \<Rightarrow> 'k \<Rightarrow> bool" where
  "np_isOpen P d k = rh_open (ps_fd P) (np_handler d) k"

definition np_getHandle :: "pipe_device \<Rightarrow> fd" where
  "np_getHandle d = m_handle (np_handler d)"

definition np_setNonBlocking :: "'k pipe_system \<Rightarrow> bool \<Rightarrow> pipe_device \<Rightarrow> 'k \<Rightarrow> 'k" where
  "np_setNonBlocking P non_blocking d k =
     (let flags = FileStatusFlags (sys_getfl (ps_sys P)) k (np_getHandle d)
      in if non_blocking \<noteq> fs_nonBlock flags
         then snd (snd (setNonBlock (sys_getfl (ps_sys P)) (ps_setfl P) non_blocking flags k)) else k)"

definition np_nonBlocking :: "'k pipe_system \<Rightarrow> pipe_device \<Rightarrow> 'k \<Rightarrow> bool" where
  "np_nonBlocking P d k = fs_nonBlock (FileStatusFlags (sys_getfl (ps_sys P)) k (np_getHandle d))"

definition np_setPathname :: "'k pipe_system \<Rightarrow> string \<Rightarrow> pipe_device \<Rightarrow> 'k \<Rightarrow> bool \<times> pipe_device" where
  "np_setPathname P pathname d k =
     (if np_isOpen P d k then (False, d) else (True, d\<lparr>np_pathname := pathname\<rparr>))"

definition np_setAddress :: "'k pipe_system \<Rightarrow> pipe_address \<Rightarrow> pipe_device \<Rightarrow> 'k \<Rightarrow> bool \<times> pipe_device" where
  "np_setAddress P addr d k = np_setPathname P (pipe_getAddress addr) d k"

definition np_close :: "'k pipe_system \<Rightarrow> pipe_device \<Rightarrow> 'k \<Rightarrow> bool \<times> pipe_device \<times> 'k" where
  "np_close P d k =
     (case rh_close (ps_fd P) (np_handler d) k of (ok, r, k') \<Rightarrow> (ok, d\<lparr>np_handler := r\<rparr>, k'))"

definition openPipe ::
    "'k pipe_system \<Rightarrow> string \<Rightarrow> access_mode \<Rightarrow> bool \<Rightarrow> pipe_device \<Rightarrow> 'k \<Rightarrow> bool \<times> pipe_device \<times> 'k" where
  "openPipe P pathname mode non_blocking d k =
     (if pathname = [] \<or> np_isOpen P d k then (False, d, k)
      else case (if file_exists (ps_sys P) pathname k then (True, False, k)
                 else (case makefifo (ps_sys P) pathname k of (made, k') \<Rightarrow> (made, made, k'))) of
             (ready, new_pipe_created, k1) \<Rightarrow>
               if \<not> ready then (False, d, k1)
               else case sys_open (ps_sys P) pathname
                           (getAccessModeFlag mode OR O_CLOEXEC OR (if non_blocking then O_NONBLOCK else 0)) None k1 of
                      (f, k2) \<Rightarrow>
                        if f = - 1 then (False, d, k2)
                        else case acquire (ps_fd P) f (np_handler d) k2 of
                               (r, k3) \<Rightarrow>
                                 (True, \<lparr>np_handler = r, np_pathname = pathname\<rparr>,
                                  if new_pipe_created then snd (sys_unlink (ps_sys P) pathname k3) else k3))"

definition openImpl ::
    "'k pipe_system \<Rightarrow> io_profile \<Rightarrow> string \<Rightarrow> bool \<Rightarrow> pipe_device \<Rightarrow> 'k \<Rightarrow> bool \<times> pipe_device \<times> 'k" where
  "openImpl P profile pathname non_blocking d k =
     openPipe P pathname (if profile = read_only_profile then E_READ_ONLY else E_WRITE_ONLY) non_blocking d k"

text \<open>The three \<^verbatim>\<open>open\<close> of the reading and of the writing device.\<close>

definition reading_open :: "'a pipe_system \<Rightarrow> bool \<Rightarrow> pipe_device \<Rightarrow> 'a \<Rightarrow> bool \<times> pipe_device \<times> 'a" where
  "reading_open P = (\<lambda>non_blocking d. openImpl P read_only_profile (np_pathname d) non_blocking d)"
definition reading_open_path :: "'a pipe_system \<Rightarrow> string \<Rightarrow> bool \<Rightarrow> pipe_device \<Rightarrow> 'a \<Rightarrow> bool \<times> pipe_device \<times> 'a" where
  "reading_open_path P = openImpl P read_only_profile"
definition reading_open_address :: "'a pipe_system \<Rightarrow> string \<Rightarrow> bool \<Rightarrow> pipe_device \<Rightarrow> 'a \<Rightarrow> bool \<times> pipe_device \<times> 'a" where
  "reading_open_address P addr = reading_open_path P (pipe_getAddress addr)"
definition writing_open :: "'a pipe_system \<Rightarrow> bool \<Rightarrow> pipe_device \<Rightarrow> 'a \<Rightarrow> bool \<times> pipe_device \<times> 'a" where
  "writing_open P = (\<lambda>non_blocking d. openImpl P write_only_profile (np_pathname d) non_blocking d)"
definition writing_open_path :: "'a pipe_system \<Rightarrow> string \<Rightarrow> bool \<Rightarrow> pipe_device \<Rightarrow> 'a \<Rightarrow> bool \<times> pipe_device \<times> 'a" where
  "writing_open_path P = openImpl P write_only_profile"
definition writing_open_address :: "'a pipe_system \<Rightarrow> string \<Rightarrow> bool \<Rightarrow> pipe_device \<Rightarrow> 'a \<Rightarrow> bool \<times> pipe_device \<times> 'a" where
  "writing_open_address P addr = writing_open_path P (pipe_getAddress addr)"

subsection \<open>The factory\<close>

definition factory_makefifo :: "'o system \<Rightarrow> string \<Rightarrow> 'o \<Rightarrow> bool \<times> 'o" where
  "factory_makefifo sys pathname w =
     (let (directory, filename) = getDirectoryAndFileName pathname
      in if existingDirectory sys directory w
         then (let w1 = sys_umask sys 0 w; (r, w2) = sys_mkfifo sys pathname (0x100 OR 0x80 OR 0x10) w1
               in (- 1 \<noteq> r, w2))
         else (False, w))"


definition openPipeEndpoint ::
    "'k pipe_system \<Rightarrow> io_profile \<Rightarrow> string \<Rightarrow> bool \<Rightarrow> pipe_device \<Rightarrow> 'k \<Rightarrow> pipe_device \<times> 'k" where
  "openPipeEndpoint P profile pathname non_blocking d k =
     (case (if file_exists (ps_sys P) pathname k then (True, False, k)
            else (case factory_makefifo (ps_sys P) pathname k of (made, k') \<Rightarrow> (made, made, k'))) of
        (ready, new_pipe_created, k1) \<Rightarrow>
          if \<not> ready then (d, k1)
          else case openImpl P profile pathname non_blocking d k1 of
                 (ok, d', k2) \<Rightarrow>
                   (d', if new_pipe_created \<and> np_isOpen P d' k2
                        then snd (sys_unlink (ps_sys P) pathname k2) else k2))"

definition getReadingEndpoint :: "'k pipe_system \<Rightarrow> string \<Rightarrow> bool \<Rightarrow> 'k \<Rightarrow> pipe_device \<times> 'k" where
  "getReadingEndpoint P pathname non_blocking k =
     openPipeEndpoint P read_only_profile pathname non_blocking (NamedPipeDevice []) k"

text \<open>\<open>ignore_sigpipe\<close> is the handler the first call sets; \<open>once\<close> whether a call has.\<close>

definition getWritingEndpoint ::
    "'k pipe_system \<Rightarrow> ('k \<Rightarrow> 'k) \<Rightarrow> string \<Rightarrow> bool \<Rightarrow> bool \<Rightarrow> 'k \<Rightarrow> pipe_device \<times> bool \<times> 'k" where
  "getWritingEndpoint P ignore_sigpipe pathname non_blocking once k =
     (case openPipeEndpoint P write_only_profile pathname non_blocking (NamedPipeDevice [])
             (if once then k else ignore_sigpipe k) of
        (d, k') \<Rightarrow> (d, True, k'))"

subsection \<open>The policies\<close>

definition pipe_acceptor_bind ::
    "'k pipe_system \<Rightarrow> io_profile \<Rightarrow> pipe_address \<Rightarrow> bool \<Rightarrow> pipe_device \<Rightarrow> 'k \<Rightarrow> bool \<times> pipe_device \<times> 'k" where
  "pipe_acceptor_bind P profile addr non_blocking d k =
     (case np_setAddress P addr d k of
        (ok, d1) \<Rightarrow>
          if ok then (True, snd (openImpl P profile (np_pathname d1) non_blocking d1 k))
          else (False, d1, k))"

definition pipe_acceptor_listen :: "int \<Rightarrow> bool" where "pipe_acceptor_listen backlog = True"

definition pipe_acceptor_accept :: "bool \<Rightarrow> pipe_device option" where
  "pipe_acceptor_accept non_blocking = None"

definition pipe_connect ::
    "'k pipe_system \<Rightarrow> io_profile \<Rightarrow> pipe_address \<Rightarrow> bool \<Rightarrow> pipe_device \<Rightarrow> 'k \<Rightarrow> bool \<times> pipe_device \<times> 'k" where
  "pipe_connect P profile addr non_blocking d k =
     openImpl P profile (pipe_getAddress addr) non_blocking d k"

definition pipe_disconnect :: "'k pipe_system \<Rightarrow> pipe_device \<Rightarrow> 'k \<Rightarrow> bool \<times> pipe_device \<times> 'k" where
  "pipe_disconnect P d k = np_close P d k"

text \<open>\<open>how_write\<close> is whether the argument is \<^verbatim>\<open>E_SHUTDOWN_WRITE\<close>.\<close>

definition pipe_shutdown ::
    "'k pipe_system \<Rightarrow> io_profile \<Rightarrow> bool \<Rightarrow> pipe_device \<Rightarrow> 'k \<Rightarrow> bool \<times> pipe_device \<times> 'k" where
  "pipe_shutdown P profile how_write d k =
     (if how_write \<and> profile = read_only_profile then (False, d, k)
      else (True, snd (pipe_disconnect P d k)))"

definition pipe_isConnected :: "'k pipe_system \<Rightarrow> pipe_device \<Rightarrow> 'k \<Rightarrow> bool" where
  "pipe_isConnected P d k = np_isOpen P d k"

text \<open>The policy for a device that needs no connection.\<close>

definition dummy_connect :: "'x \<Rightarrow> bool" where "dummy_connect args = True"

definition dummy_disconnect :: "'k pipe_system \<Rightarrow> pipe_device \<Rightarrow> 'k \<Rightarrow> bool \<times> pipe_device \<times> 'k" where
  "dummy_disconnect P d k = np_close P d k"

subsection \<open>A small system\<close>

text \<open>The names that exist, the descriptors to hand out, the open ones and the closed ones.\<close>

record pipe_world =
  pw_names :: "string list"
  pw_fds :: "fd list"
  pw_open :: "fd list"
  pw_closed :: "fd list"

definition pipe_stat :: "string \<Rightarrow> pipe_world \<Rightarrow> stat_result option" where
  "pipe_stat p w = Some \<lparr>st_mode = 0x4000, st_size = 0, st_dev_major = 0, st_dev_minor = 0, st_ino = 0,
     st_uid = 0, st_gid = 0, st_times = ('''', '''', '''')\<rparr>"

definition pipe_world_open :: "string \<Rightarrow> pipe_world \<Rightarrow> fd \<times> pipe_world" where
  "pipe_world_open p w =
     (case pw_fds w of
        [] \<Rightarrow> (- 1, w)
      | f # fs \<Rightarrow> if p \<in> set (pw_names w) then (f, w\<lparr>pw_fds := fs, pw_open := f # pw_open w\<rparr>) else (- 1, w))"

definition pipe_world_close :: "fd \<Rightarrow> pipe_world \<Rightarrow> int \<times> pipe_world" where
  "pipe_world_close h w =
     (if h \<in> set (pw_open w) then (0, w\<lparr>pw_open := removeAll h (pw_open w), pw_closed := pw_closed w @ [h]\<rparr>)
      else (- 1, w))"

definition example_pipes :: "pipe_world pipe_system" where
  "example_pipes =
     \<lparr>ps_fd = \<lparr>k_dup = \<lambda>_ w. (- 1, w), k_close = pipe_world_close, k_getfd_ok = \<lambda>h w. h \<in> set (pw_open w)\<rparr>,
      ps_sys = \<lparr>sys_open = \<lambda>p _ _. pipe_world_open p, sys_errno = \<lambda>_. 2, sys_close = pipe_world_close,
        sys_fstat = \<lambda>_ _. None, sys_stat = pipe_stat, sys_fchmod = \<lambda>_ _ w. (0, w), sys_getfl = \<lambda>_ _. 0,
        sys_access = \<lambda>p w. (if p \<in> set (pw_names w) then 0 else - 1),
        sys_unlink = \<lambda>p w. (0, w\<lparr>pw_names := removeAll p (pw_names w)\<rparr>),
        sys_mkfifo = \<lambda>p _ w. (0, w\<lparr>pw_names := p # pw_names w\<rparr>), sys_umask = \<lambda>_ w. w,
        sys_lseek = \<lambda>_ _ _ w. (- 1, w), sys_getcwd = \<lambda>_. None\<rparr>,
      ps_setfl = \<lambda>_ _ w. w\<rparr>"

abbreviation example_pipe_world :: "pipe_world" where
  "example_pipe_world \<equiv> \<lparr>pw_names = [''/tmp''], pw_fds = [7, 8], pw_open = [], pw_closed = []\<rparr>"

lemma tmp_split: "getDirectoryAndFileName ''/tmp/f'' = (''/tmp'', ''f'')"
  by code_simp

lemma tmp_dir: "fi_type (FileInfo (pipe_stat p w)) = E_DIRECTORY"
  unfolding pipe_stat_def by code_simp

lemma example_open_new:
  "openPipe example_pipes ''/tmp/f'' E_READ_ONLY True (NamedPipeDevice []) example_pipe_world =
    (True, \<lparr>np_handler = \<lparr>m_handle = 7, m_open = True\<rparr>, np_pathname = ''/tmp/f''\<rparr>,
     example_pipe_world\<lparr>pw_fds := [8], pw_open := [7]\<rparr>)"
  by (simp add: openPipe_def np_isOpen_def rh_open_def NamedPipeDevice_def UnixResourceHandler_def example_pipes_def
      file_exists_def makefifo_def tmp_split existingDirectory_def tmp_dir pipe_world_open_def acquire_def
      defaultHandle_def DEFAULT_VALUE_def)

subsection \<open>Properties\<close>



lemma factory_makefifo_eq: "factory_makefifo sys pathname w = makefifo sys pathname w"
  by (auto simp: factory_makefifo_def makefifo_def split: prod.split)

lemma openPipe_new:
  assumes "\<not> file_exists (ps_sys P) pathname k" and "openPipe P pathname mode non_blocking d k = (True, d', k')"
  shows "\<exists>k1. fst (makefifo (ps_sys P) pathname k) \<and> k' = snd (sys_unlink (ps_sys P) pathname k1)"
  using assms by (auto simp: openPipe_def split: prod.splits if_splits)

text \<open>
  The end of a pipe that is opened first cannot be reached by the other end: the device that
  makes the FIFO removes its name as soon as it has opened it, and whoever opens the same path
  afterwards makes another FIFO.
\<close>

theorem created_pipe_unreachable:
  assumes "\<not> file_exists (ps_sys P) pathname k"
    and "openPipe P pathname mode non_blocking d k = (True, d', k')"
    and "\<And>k. sys_access (ps_sys P) pathname (snd (sys_unlink (ps_sys P) pathname k)) \<noteq> 0"
  shows "\<not> file_exists (ps_sys P) pathname k' \<and>
    (openPipe P pathname mode2 non_blocking2 d2 k' = (True, d2', k2') \<longrightarrow>
      fst (makefifo (ps_sys P) pathname k'))"
proof -
  from openPipe_new [OF assms(1,2)] assms(3)
  have gone: "\<not> file_exists (ps_sys P) pathname k'" by (auto simp: file_exists_def)
  with openPipe_new [OF gone] show ?thesis by blast
qed

theorem created_pipe_unreachable_witness:
  "\<not> file_exists (ps_sys example_pipes) ''/tmp/f''
      (snd (snd (openPipe example_pipes ''/tmp/f'' E_READ_ONLY True (NamedPipeDevice []) example_pipe_world)))"
proof -
  have "\<not> file_exists (ps_sys example_pipes) ''/tmp/f'' example_pipe_world"
    by (simp add: file_exists_def example_pipes_def)
  from created_pipe_unreachable [OF this example_open_new] show ?thesis
    unfolding example_open_new by (simp add: example_pipes_def)
qed

text \<open>
  Binding a pipe answers true whenever the device was not open, whether or not the pipe could be
  opened.
\<close>

theorem pipe_bind_answer:
  assumes "pipe_acceptor_bind P profile addr non_blocking d k = (ok, d', k')"
  shows "(ok \<longleftrightarrow> \<not> np_isOpen P d k) \<and>
    (ok \<longrightarrow> np_pathname d' = addr \<and>
      (snd (openImpl P profile addr non_blocking (d\<lparr>np_pathname := addr\<rparr>) k) = (d', k')))"
  using assms
  by (auto simp: pipe_acceptor_bind_def np_setAddress_def np_setPathname_def pipe_getAddress_def openImpl_def
      split: if_splits prod.splits)
    (auto simp: openPipe_def split: prod.splits if_splits)

theorem pipe_bind_answer_witness:
  "fst (pipe_acceptor_bind example_pipes write_only_profile ''/no/f'' True (NamedPipeDevice []) example_pipe_world) \<and>
   \<not> fst (openImpl example_pipes write_only_profile ''/no/f'' True (NamedPipeDevice []) example_pipe_world)"
proof -
  let ?d = "NamedPipeDevice []"
  obtain ok d' k' where r: "pipe_acceptor_bind example_pipes write_only_profile ''/no/f'' True ?d example_pipe_world = (ok, d', k')"
    by (metis surj_pair)
  have "\<not> np_isOpen example_pipes ?d example_pipe_world"
    by (simp add: np_isOpen_def rh_open_def example_pipes_def)
  moreover have "\<not> fst (makefifo (ps_sys example_pipes) ''/no/f'' example_pipe_world)"
    unfolding makefifo_def by code_simp
  ultimately show ?thesis
    using pipe_bind_answer [OF r] r
    by (auto simp: openImpl_def openPipe_def file_exists_def example_pipes_def split: prod.splits)
qed

text \<open>
  Opening a closed pipe again closes the number of its old descriptor a second time, because
  \<^verbatim>\<open>close\<close> keeps it: a descriptor somebody else was given in between is lost.
\<close>

theorem reopen_closes_old_number:
  assumes "np_getHandle d \<noteq> - 1" and "file_exists (ps_sys P) pathname k"
    and "pathname \<noteq> []" and "\<not> np_isOpen P d k"
    and "sys_open (ps_sys P) pathname (getAccessModeFlag mode OR O_CLOEXEC OR (if non_blocking then O_NONBLOCK else 0)) None k = (f, k1)"
    and "f \<noteq> - 1" and "f \<noteq> np_getHandle d"
  shows "snd (snd (openPipe P pathname mode non_blocking d k)) = snd (k_close (ps_fd P) (np_getHandle d) k1)"
  using assms
  by (auto simp: openPipe_def acquire_def rh_close_def np_getHandle_def defaultHandle_def DEFAULT_VALUE_def
      split: prod.splits if_splits)

end
