(* ===== verification/FileDevices.thy ===== *)
theory FileDevices
  imports NamedPipes
begin

text \<open>
  The devices for files: FileDevice.hpp, TemporaryFileDevice.hpp and ProxyDevice.hpp under
  TransportInfra/Devices, with the policies that ask about a descriptor or move its position
  (Policies/ResourceStatusPolicy.hpp, SeekableOperations.hpp). \<^verbatim>\<open>FileDevice::remove\<close> calls
  itself with an argument it does not take and does not compile; it and the destructor of a
  temporary file that uses it are left out.
\<close>

unbundle bit_operations_syntax

subsection \<open>The file device\<close>

record file_device =
  fl_handler :: resource_handler
  fl_filename :: string
  fl_directory :: string

definition NEW_FILE_NAME :: string where "NEW_FILE_NAME = ''New File.txt''"

definition getFullPath :: "file_device \<Rightarrow> string" where
  "getFullPath d = fullPath (fl_filename d) (fl_directory d)"

definition setDirFilePaths :: "string \<Rightarrow> file_device \<Rightarrow> file_device" where
  "setDirFilePaths pathname d =
     (if pathname \<noteq> getFullPath d then
        (case getDirectoryAndFileName pathname of
           (directory, filename) \<Rightarrow>
             d\<lparr>fl_directory := (if directory \<noteq> [] then directory else fl_directory d),
               fl_filename := (if filename = [] then NEW_FILE_NAME else filename)\<rparr>)
      else d)"

definition FileDevice_default :: "'k pipe_system \<Rightarrow> 'k \<Rightarrow> file_device" where
  "FileDevice_default P k =
     \<lparr>fl_handler = UnixResourceHandler DEFAULT_VALUE, fl_filename = NEW_FILE_NAME,
      fl_directory = getCurrentDir (ps_sys P) k\<rparr>"

definition FileDevice :: "'k pipe_system \<Rightarrow> string \<Rightarrow> 'k \<Rightarrow> file_device" where
  "FileDevice P pathname k =
     setDirFilePaths pathname
       \<lparr>fl_handler = UnixResourceHandler DEFAULT_VALUE, fl_filename = [],
        fl_directory = getCurrentDir (ps_sys P) k\<rparr>"

definition file_copy :: "'k pipe_system \<Rightarrow> file_device \<Rightarrow> 'k \<Rightarrow> file_device \<times> 'k" where
  "file_copy P other k =
     (case rh_copy (ps_fd P) (fl_handler other) k of (r, k') \<Rightarrow>
        (\<lparr>fl_handler = r, fl_filename = fl_filename other, fl_directory = fl_directory other\<rparr>, k'))"

text \<open>The strings of the source of a move are left unspecified: \<open>rest\<close>.\<close>

definition file_move :: "file_device \<Rightarrow> string \<times> string \<Rightarrow> file_device \<times> file_device" where
  "file_move other rest =
     (case rh_move (fl_handler other) of (r, r') \<Rightarrow>
        (\<lparr>fl_handler = r, fl_filename = fl_filename other, fl_directory = fl_directory other\<rparr>,
         \<lparr>fl_handler = r', fl_filename = fst rest, fl_directory = snd rest\<rparr>))"

definition file_copy_assign ::
    "'k pipe_system \<Rightarrow> bool \<Rightarrow> file_device \<Rightarrow> file_device \<Rightarrow> 'k \<Rightarrow> file_device \<times> 'k" where
  "file_copy_assign P same this other k =
     (if same then (this, k)
      else case rh_copy_assign (ps_fd P) False (fl_handler this) (fl_handler other) k of (r, k') \<Rightarrow>
             (\<lparr>fl_handler = r, fl_filename = fl_filename other, fl_directory = fl_directory other\<rparr>, k'))"

definition file_move_assign ::
    "'k pipe_system \<Rightarrow> file_device \<Rightarrow> file_device \<Rightarrow> string \<times> string \<Rightarrow> 'k \<Rightarrow>
     (file_device \<times> file_device) \<times> 'k" where
  "file_move_assign P this other rest k =
     (case rh_move_assign (ps_fd P) (fl_handler this) (fl_handler other) k of ((r, r'), k') \<Rightarrow>
        ((\<lparr>fl_handler = r, fl_filename = fl_filename other, fl_directory = fl_directory other\<rparr>,
          \<lparr>fl_handler = r', fl_filename = fst rest, fl_directory = snd rest\<rparr>), k'))"

definition file_isOpen :: "'k pipe_system \<Rightarrow> file_device \<Rightarrow> 'k \<Rightarrow> bool" where
  "file_isOpen P d k = rh_open (ps_fd P) (fl_handler d) k"

definition file_getHandle :: "file_device \<Rightarrow> fd" where "file_getHandle d = m_handle (fl_handler d)"

definition setFileName :: "'k pipe_system \<Rightarrow> string \<Rightarrow> file_device \<Rightarrow> 'k \<Rightarrow> bool \<times> file_device" where
  "setFileName P pathname d k =
     (if \<not> file_isOpen P d k then (True, setDirFilePaths pathname d) else (False, d))"

definition openFileImpl ::
    "'k pipe_system \<Rightarrow> access_mode \<Rightarrow> u32 \<Rightarrow> u32 \<Rightarrow> file_device \<Rightarrow> 'k \<Rightarrow> bool \<times> file_device \<times> 'k" where
  "openFileImpl P mode flags mode_flags d k =
     (if file_isOpen P d k then (False, d, k)
      else case (if file_exists (ps_sys P) (getFullPath d) k
                 then openExistingFile (ps_sys P) (getFullPath d) mode flags k
                 else openNewFile (ps_sys P) (getFullPath d) mode flags mode_flags k) of
             (local_handle, k1) \<Rightarrow>
               if local_handle \<noteq> DEFAULT_VALUE
               then (case acquire (ps_fd P) local_handle (fl_handler d) k1 of
                       (r, k2) \<Rightarrow> (True, d\<lparr>fl_handler := r\<rparr>, k2))
               else (False, d, k1))"

definition file_open ::
    "'k pipe_system \<Rightarrow> access_mode \<Rightarrow> u32 \<Rightarrow> file_device \<Rightarrow> 'k \<Rightarrow> bool \<times> file_device \<times> 'k" where
  "file_open P mode flags d k = openFileImpl P mode flags 0 d k"

definition file_open_path ::
    "'k pipe_system \<Rightarrow> string \<Rightarrow> access_mode \<Rightarrow> u32 \<Rightarrow> file_device \<Rightarrow> 'k \<Rightarrow> bool \<times> file_device \<times> 'k" where
  "file_open_path P pathname mode flags d k =
     (case setFileName P pathname d k of
        (ok, d1) \<Rightarrow> if ok then openFileImpl P mode flags 0 d1 k else (False, d1, k))"

definition file_close :: "'k pipe_system \<Rightarrow> file_device \<Rightarrow> 'k \<Rightarrow> file_device \<times> 'k" where
  "file_close P d k =
     (case rh_close (ps_fd P) (fl_handler d) k of (ok, r, k') \<Rightarrow> (d\<lparr>fl_handler := r\<rparr>, k'))"

subsection \<open>The temporary file\<close>

definition TEMP_PATH :: string where "TEMP_PATH = ''/tmp/''"
definition TEMP_FILE_LENGTH :: nat where "TEMP_FILE_LENGTH = 8"

text \<open>\<open>draw\<close> is the random engine of \<^verbatim>\<open>generateTempFileName\<close>.\<close>

definition temp_init ::
    "'k pipe_system \<Rightarrow> (nat \<Rightarrow> nat) \<Rightarrow> string \<Rightarrow> file_device \<Rightarrow> 'k \<Rightarrow> file_device \<times> 'k" where
  "temp_init P draw directory_name d k =
     (let file_name = generateTempFileName draw TEMP_FILE_LENGTH;
          d1 = (if directory_name = [] then setDirFilePaths (fullPath file_name TEMP_PATH) d
                else setDirFilePaths (fullPath file_name directory_name) d);
          temp_file_perm = perm_set E_USER_WRITE True (perm_set E_USER_READ True FilePermissions_default)
      in snd (openFileImpl P E_READ_WRITE (perm_flags temp_file_perm) 0 d1 k))"

definition TemporaryFileDevice ::
    "'k pipe_system \<Rightarrow> (nat \<Rightarrow> nat) \<Rightarrow> string \<Rightarrow> 'k \<Rightarrow> file_device \<times> 'k" where
  "TemporaryFileDevice P draw directory_name k =
     temp_init P draw directory_name (FileDevice_default P k) k"

text \<open>\<open>copy\<close> is \<^verbatim>\<open>LinuxIOUtilities::copyTo\<close>.\<close>

definition saveAs ::
    "'k pipe_system \<Rightarrow> (string \<Rightarrow> string \<Rightarrow> 'k \<Rightarrow> bool \<times> 'k) \<Rightarrow> string \<Rightarrow> file_device \<Rightarrow> 'k \<Rightarrow>
     bool \<times> file_device \<times> 'k" where
  "saveAs P copy pathname d k =
     (case getDirectoryAndFileName pathname of
        (directory, filename) \<Rightarrow>
          let saved_file_path = (if directory = [] then fullPath filename (fl_directory d) else pathname)
          in if file_isOpen P d k then
               (let flags = fs_flags (FileStatusFlags (sys_getfl (ps_sys P)) k (file_getHandle d));
                    (d1, k1) = file_close P d k;
                    (ret, k2) = copy (getFullPath d1) saved_file_path k1
                in file_open P E_READ_WRITE flags d1 k2)
             else (case copy (getFullPath d) saved_file_path k of (ret, k1) \<Rightarrow> (ret, d, k1)))"

subsection \<open>The proxy\<close>

text \<open>A reference to the wrapped device, here its handle, once it is set.\<close>

definition proxy_setBaseReference :: "'d \<Rightarrow> 'd option \<Rightarrow> 'd option" where
  "proxy_setBaseReference device proxy = Some device"

definition proxy_getHandle :: "('d \<Rightarrow> fd) \<Rightarrow> 'd option \<Rightarrow> fd" where
  "proxy_getHandle getHandle proxy = (case proxy of None \<Rightarrow> - 1 | Some device \<Rightarrow> getHandle device)"

subsection \<open>The status of a descriptor\<close>

definition isReadable :: "'k system \<Rightarrow> fd \<Rightarrow> 'k \<Rightarrow> bool" where
  "isReadable sys handle k =
     (if - 1 = handle then False
      else fs_access_mode (FileStatusFlags (sys_getfl sys) k handle) = E_READ_ONLY \<or>
           fs_access_mode (FileStatusFlags (sys_getfl sys) k handle) = E_READ_WRITE)"

definition isWritable :: "'k system \<Rightarrow> fd \<Rightarrow> 'k \<Rightarrow> bool" where
  "isWritable sys handle k =
     (fs_access_mode (FileStatusFlags (sys_getfl sys) k handle) = E_WRITE_ONLY \<or>
      fs_access_mode (FileStatusFlags (sys_getfl sys) k handle) = E_READ_WRITE)"

text \<open>Both \<^verbatim>\<open>position\<close> and \<^verbatim>\<open>currentPosition\<close> return the offset as an unsigned number.\<close>

definition current_position :: "'k system \<Rightarrow> fd \<Rightarrow> 'k \<Rightarrow> u64 \<times> 'k" where
  "current_position sys handle k =
     (case sys_lseek sys handle 0 SEEK_CUR k of (r, k') \<Rightarrow> (word_of_int r, k'))"

definition isTty :: "(fd \<Rightarrow> int) \<Rightarrow> fd \<Rightarrow> bool" where
  "isTty isatty handle = (1 = isatty handle)"

definition bytesAvailable :: "'k system \<Rightarrow> fd \<Rightarrow> 'k \<Rightarrow> int" where
  "bytesAvailable sys handle k = fi_available_size (FileInfo (sys_fstat sys handle k))"

definition res_accessMode :: "'k system \<Rightarrow> fd \<Rightarrow> 'k \<Rightarrow> access_mode" where
  "res_accessMode sys handle k = fs_access_mode (FileStatusFlags (sys_getfl sys) k handle)"

definition res_fileType :: "'k system \<Rightarrow> fd \<Rightarrow> 'k \<Rightarrow> file_type" where
  "res_fileType sys handle k = fi_type (FileInfo (sys_fstat sys handle k))"

definition res_permissions :: "'k system \<Rightarrow> fd \<Rightarrow> 'k \<Rightarrow> file_permissions" where
  "res_permissions sys handle k = fi_permissions (FileInfo (sys_fstat sys handle k))"

subsection \<open>Seeking\<close>

definition seek :: "'k system \<Rightarrow> fd \<Rightarrow> int \<Rightarrow> whence \<Rightarrow> 'k \<Rightarrow> bool \<times> 'k" where
  "seek sys handle distance origin k =
     (case sys_lseek sys handle distance origin k of (r, k') \<Rightarrow> (- 1 \<noteq> r, k'))"

definition seekFromStart :: "'k system \<Rightarrow> fd \<Rightarrow> u64 \<Rightarrow> 'k \<Rightarrow> bool \<times> 'k" where
  "seekFromStart sys handle pos k = seek sys handle (sint pos) SEEK_SET k"

definition seekFromCurrent :: "'k system \<Rightarrow> fd \<Rightarrow> int \<Rightarrow> 'k \<Rightarrow> bool \<times> 'k" where
  "seekFromCurrent sys handle pos k = seek sys handle pos SEEK_CUR k"

definition goToStartPosition :: "'k system \<Rightarrow> fd \<Rightarrow> 'k \<Rightarrow> bool \<times> 'k" where
  "goToStartPosition sys handle k =
     (case current_position sys handle k of
        (current_pos, k1) \<Rightarrow>
          if - 1 = current_pos then (False, k1)
          else seekFromCurrent sys handle (sint (- current_pos)) k1)"

subsection \<open>Properties\<close>

text \<open>
  A device set to a path made of a directory and a file name has exactly that path, whatever it
  had before.
\<close>

theorem file_path_kept:
  assumes "directory \<noteq> []" and "filename \<noteq> []" and "PATH_SEPARATOR \<notin> set filename"
  shows "getFullPath (setDirFilePaths (fullPath filename directory) d) = fullPath filename directory"
proof (cases "fullPath filename directory = getFullPath d")
  case True
  then show ?thesis by (simp add: setDirFilePaths_def)
next
  case False
  with path_split [OF assms] assms(1,2) show ?thesis
    by (simp add: setDirFilePaths_def getFullPath_def)
qed

theorem file_path_kept_witness:
  "getFullPath (setDirFilePaths (fullPath ''log'' ''/var'')
     \<lparr>fl_handler = UnixResourceHandler (- 1), fl_filename = ''x'', fl_directory = ''/''\<rparr>) = ''/var/log''"
  using file_path_kept [of "''/var''" "''log''"] by (simp add: PATH_SEPARATOR_def fullPath_def)



text \<open>
  Saving an open temporary file answers whether the file could be opened again, not whether it was
  copied.
\<close>

theorem saveAs_hides_copy_failure:
  assumes "file_isOpen P d k" and "\<And>a b w. snd (copy1 a b w) = snd (copy2 a b w)"
  shows "saveAs P copy1 pathname d k = saveAs P copy2 pathname d k"
  using assms by (simp add: saveAs_def Let_def split: prod.splits) (metis prod.exhaust_sel snd_conv)

text \<open>
  Going to the start moves back by the current position; when the position is unknown (a pipe or
  a socket) it answers false without moving.
\<close>

theorem goToStartPosition_effect:
  assumes "sys_lseek sys handle 0 SEEK_CUR k = (pos, k1)" and "- 1 \<le> pos" and "pos < 2 ^ 63"
  shows "goToStartPosition sys handle k =
    (if pos = - 1 then (False, k1)
     else case sys_lseek sys handle (- pos) SEEK_CUR k1 of (r, k2) \<Rightarrow> (r \<noteq> - 1, k2))"
proof (cases "pos = - 1")
  case True
  with assms(1) show ?thesis by (simp add: goToStartPosition_def current_position_def)
next
  case False
  with assms(2,3) have r: "0 \<le> pos" "pos < 2 ^ 63" by auto
  then have "uint (word_of_int pos :: u64) = pos" by (simp add: uint_word_of_int)
  moreover have "uint (- 1 :: u64) = 2 ^ 64 - 1" by (simp add: unsigned_minus_1_eq_mask mask_eq_exp_minus_1)
  ultimately have ne: "(word_of_int pos :: u64) \<noteq> - 1" using r by auto
  have "sint (word_of_int (- pos) :: u64) = - pos"
    using r by (simp only: sint_sbintrunc') (rule signed_take_bit_int_eq_self, simp_all)
  then have "sint (- (word_of_int pos) :: u64) = - pos" by simp
  with False ne assms(1) show ?thesis
    by (auto simp: goToStartPosition_def current_position_def seekFromCurrent_def seek_def split: prod.split)
qed

end
