(* ===== verification/IOPolicies.thy ===== *)
theory IOPolicies
  imports SocketDevices NamedPipes
begin

text \<open>
  The policies a device reads and writes with (TransportInfra/Policies): StreamIOPolicy.hpp,
  DatagramIOPolicy.hpp, FifoIOPolicy.hpp and IOPolicy.hpp, over the loops of LinuxIO. The system's
  answers are scripts, as there; a member a device's profile does not have is \<open>None\<close>.
\<close>

unbundle bit_operations_syntax

subsection \<open>Stream sockets\<close>

definition waits_for_all :: "u32 \<Rightarrow> bool" where
  "waits_for_all flags = (socket_io_flag_value E_MSG_WAITALL AND flags \<noteq> 0)"

definition stream_send_max :: "nat \<Rightarrow> write_result \<Rightarrow> string \<Rightarrow> string \<Rightarrow> (int \<times> string) outcome" where
  "stream_send_max max_size r data sink =
     (if length data < max_size then Undefined else Done (io_send r (take max_size data) sink))"

definition stream_send :: "write_result \<Rightarrow> string \<Rightarrow> string \<Rightarrow> (int \<times> string) outcome" where
  "stream_send r data sink = stream_send_max (length data) r data sink"

definition stream_recvInBuffer ::
    "nat \<Rightarrow> u32 \<Rightarrow> read_result list \<Rightarrow> (int \<times> string \<times> read_result list) outcome" where
  "stream_recvInBuffer buffer_len flags rs = recvInBuffer (waits_for_all flags) buffer_len rs"

definition stream_recv ::
    "nat \<Rightarrow> u32 \<Rightarrow> read_result list \<Rightarrow> (int \<times> string \<times> read_result list) outcome" where
  "stream_recv max_length flags rs = io_recv (waits_for_all flags) max_length rs"

text \<open>
  The policy's own loop, which appends to the string it is given. The buffer it reads into has
  \<^verbatim>\<open>READ_BUFFER_SIZE\<close> bytes.
\<close>

fun recv_logic_loop ::
    "nat \<Rightarrow> read_result list \<Rightarrow> string \<Rightarrow> int \<Rightarrow> (int \<times> string \<times> read_result list) outcome" where
  "recv_logic_loop max_length [] out_data ret_total = Blocked"
| "recv_logic_loop max_length (r # rs) out_data ret_total =
     (case r of
        Read_error e \<Rightarrow>
          if EINTR = e then recv_logic_loop max_length rs out_data ret_total
          else Done (ret_total, out_data, rs)
      | Read_data d \<Rightarrow>
          if length d = 0 then Done (ret_total, out_data, rs)
          else if READ_BUFFER_SIZE < length d then Undefined
          else if ret_total + int (length d) > int max_length
          then Done (int max_length, out_data @ take (max_length - nat ret_total) d, rs)
          else (let out_data' = out_data @ d; ret_total' = ret_total + int (length d)
                in if READ_BUFFER_SIZE \<noteq> length d then Done (ret_total', out_data', rs)
                   else recv_logic_loop max_length rs out_data' ret_total'))"

definition recvLogic ::
    "nat \<Rightarrow> u32 \<Rightarrow> read_result list \<Rightarrow> string \<Rightarrow> (int \<times> string \<times> read_result list) outcome" where
  "recvLogic max_length flags rs out_data =
     (if waits_for_all flags then
        (case rs of
           [] \<Rightarrow> Blocked
         | Read_error e # rs' \<Rightarrow> Done (- 1, out_data, rs')
         | Read_data d # rs' \<Rightarrow>
             if READ_BUFFER_SIZE < length d then Undefined
             else Done (int (length d), out_data @ d, rs'))
      else recv_logic_loop max_length rs out_data 0)"

subsection \<open>Datagram sockets\<close>

text \<open>One \<^verbatim>\<open>sendto\<close>: the result and what the system was given.\<close>

definition sendTo_max ::
    "('a, 's) address_ops \<Rightarrow> 'a \<Rightarrow> nat \<Rightarrow> write_result \<Rightarrow> string \<Rightarrow> ('s \<times> string) list \<Rightarrow>
     (int \<times> ('s \<times> string) list) outcome" where
  "sendTo_max A peer_socket max_size r data sent =
     (if SOCKADDR_SIZE < ao_length A \<or> length data < max_size then Undefined
      else case r of
             Write_error e \<Rightarrow> Done (- 1, sent)
           | Write_count n \<Rightarrow> Done (int n, sent @ [(ao_getAddress A peer_socket, take n (take max_size data))]))"

definition sendTo ::
    "('a, 's) address_ops \<Rightarrow> 'a \<Rightarrow> write_result \<Rightarrow> string \<Rightarrow> ('s \<times> string) list \<Rightarrow>
     (int \<times> ('s \<times> string) list) outcome" where
  "sendTo A peer_socket r data sent = sendTo_max A peer_socket (length data) r data sent"

text \<open>
  The callable that receives: each call that does not fail also stores the sender's address
  (reading it can leave the \<^verbatim>\<open>sockaddr\<close>). \<open>store_sources\<close> is that effect over
  the calls a loop made.
\<close>

fun store_sources :: "('a, 's) address_ops \<Rightarrow> (read_result \<times> 's) list \<Rightarrow> 'a \<Rightarrow> 'a option" where
  "store_sources A [] source = Some source"
| "store_sources A ((Read_error e, s) # rs) source = store_sources A rs source"
| "store_sources A ((Read_data d, s) # rs) source =
     (case ao_setAddress A s of None \<Rightarrow> None | Some a \<Rightarrow> store_sources A rs a)"

definition with_sources ::
    "('a, 's) address_ops \<Rightarrow> (int \<times> string \<times> read_result list) outcome \<Rightarrow> (read_result \<times> 's) list \<Rightarrow> 'a \<Rightarrow>
     (int \<times> string \<times> 'a \<times> (read_result \<times> 's) list) outcome" where
  "with_sources A received rs source =
     (case received of
        Done (n, data, rest) \<Rightarrow>
          (let calls = length rs - length rest
           in case store_sources A (take calls rs) source of
                None \<Rightarrow> Undefined
              | Some source' \<Rightarrow> Done (n, data, source', drop calls rs))
      | Blocked \<Rightarrow> Blocked
      | Undefined \<Rightarrow> Undefined)"

definition recvFromInBuffer ::
    "('a, 's) address_ops \<Rightarrow> nat \<Rightarrow> u32 \<Rightarrow> (read_result \<times> 's) list \<Rightarrow> 'a \<Rightarrow>
     (int \<times> string \<times> 'a \<times> (read_result \<times> 's) list) outcome" where
  "recvFromInBuffer A buffer_len flags rs source =
     with_sources A (recvInBuffer (waits_for_all flags) buffer_len (map fst rs)) rs source"

definition recvFrom ::
    "('a, 's) address_ops \<Rightarrow> nat \<Rightarrow> u32 \<Rightarrow> (read_result \<times> 's) list \<Rightarrow> 'a \<Rightarrow>
     (int \<times> string \<times> 'a \<times> (read_result \<times> 's) list) outcome" where
  "recvFrom A max_length flags rs source =
     with_sources A (io_recv (waits_for_all flags) max_length (map fst rs)) rs source"

subsection \<open>Named pipes\<close>

definition fifo_read ::
    "io_profile \<Rightarrow> int \<Rightarrow> read_result list \<Rightarrow> string \<Rightarrow> (int \<times> string \<times> read_result list) outcome option" where
  "fifo_read profile avail rs result =
     (if profile = read_only_profile then Some (io_read avail rs result) else None)"

definition fifo_readLine ::
    "io_profile \<Rightarrow> read_result list \<Rightarrow> string \<Rightarrow> (nat \<times> string \<times> read_result list) outcome option" where
  "fifo_readLine profile rs result =
     (if profile = read_only_profile then Some (readLine rs result) else None)"

definition fifo_readInBuffer ::
    "io_profile \<Rightarrow> nat \<Rightarrow> read_result list \<Rightarrow> (int \<times> string \<times> read_result list) outcome option" where
  "fifo_readInBuffer profile buffer_len rs =
     (if profile = read_only_profile then Some (readInBuffer buffer_len rs) else None)"

definition fifo_write ::
    "io_profile \<Rightarrow> write_result list \<Rightarrow> string \<Rightarrow> string \<Rightarrow> (nat \<times> string \<times> write_result list) outcome option" where
  "fifo_write profile ws data sink =
     (if profile = write_only_profile then Some (io_write ws data sink) else None)"

subsection \<open>The generic policy\<close>

text \<open>\<^verbatim>\<open>result.max_size()\<close> of a 64-bit \<^verbatim>\<open>std::string\<close>.\<close>

definition STRING_MAX_SIZE :: nat where "STRING_MAX_SIZE = 2 ^ 63 - 1"

definition generic_socket_read :: "read_result list \<Rightarrow> (int \<times> string \<times> read_result list) outcome" where
  "generic_socket_read rs = stream_recv STRING_MAX_SIZE (socket_io_flag_value E_MSG_NOSIGNAL) rs"

definition generic_socket_readInBuffer ::
    "nat \<Rightarrow> read_result list \<Rightarrow> (int \<times> string \<times> read_result list) outcome" where
  "generic_socket_readInBuffer buffer_len rs =
     stream_recvInBuffer buffer_len (socket_io_flag_value E_MSG_NOSIGNAL) rs"

definition generic_socket_write :: "write_result \<Rightarrow> string \<Rightarrow> string \<Rightarrow> (int \<times> string) outcome" where
  "generic_socket_write r data sink = stream_send r data sink"

definition generic_init :: bool where "generic_init = True"

definition generic_read :: "int \<Rightarrow> read_result list \<Rightarrow> string \<Rightarrow> (int \<times> string \<times> read_result list) outcome" where
  "generic_read = io_read"
definition generic_readLine :: "read_result list \<Rightarrow> string \<Rightarrow> (nat \<times> string \<times> read_result list) outcome" where
  "generic_readLine = readLine"
definition generic_readInBuffer :: "nat \<Rightarrow> read_result list \<Rightarrow> (int \<times> string \<times> read_result list) outcome" where
  "generic_readInBuffer = readInBuffer"
definition generic_write :: "write_result list \<Rightarrow> string \<Rightarrow> string \<Rightarrow> (nat \<times> string \<times> write_result list) outcome" where
  "generic_write = io_write"

subsection \<open>Properties\<close>

lemma nosignal_does_not_wait [simp]: "\<not> waits_for_all (socket_io_flag_value E_MSG_NOSIGNAL)"
  unfolding waits_for_all_def by code_simp

lemma recv_logic_loop_eq:
  "0 \<le> ret_total \<Longrightarrow> recv_logic_loop max_length rs out_data ret_total = recv_loop max_length rs out_data ret_total"
proof (induction max_length rs out_data ret_total rule: recv_logic_loop.induct)
  case (1 max_length out_data ret_total)
  then show ?case by simp
next
  case (2 max_length r rs out_data ret_total)
  have n: "nat (int max_length - ret_total) = max_length - nat ret_total"
    using 2(3) by (simp add: nat_diff_distrib)
  show ?case
  proof (cases r)
    case (Read_error e)
    with 2 show ?thesis by auto
  next
    case (Read_data d)
    with 2 n show ?thesis by (auto simp: READ_BUFFER_SIZE_def)
  qed
qed



fun received_data :: "read_result list \<Rightarrow> string" where
  "received_data [] = []"
| "received_data (Read_error e # rs) = received_data rs"
| "received_data (Read_data d # rs) = d @ received_data rs"

lemma recv_logic_loop_prefix:
  assumes "recv_logic_loop max_length rs out_data tot = Done (n, data, rest)" and "0 \<le> tot" and "tot \<le> int max_length"
  shows "\<exists>used. rs = used @ rest \<and>
    data = out_data @ take (max_length - nat tot) (received_data used) \<and>
    n = tot + int (length data) - int (length out_data)"
  using assms
proof (induction max_length rs out_data tot rule: recv_logic_loop.induct)
  case (1 max_length out_data tot)
  then show ?case by simp
next
  case (2 max_length r rs out_data tot)
  show ?case
  proof (cases r)
    case (Read_error e)
    show ?thesis
    proof (cases "EINTR = e")
      case True
      with 2 Read_error obtain used where "rs = used @ rest"
        "data = out_data @ take (max_length - nat tot) (received_data used)"
        "n = tot + int (length data) - int (length out_data)" by auto
      with Read_error show ?thesis by (intro exI [of _ "r # used"]) simp
    next
      case False
      with 2(3) Read_error show ?thesis by (intro exI [of _ "[r]"]) auto
    qed
  next
    case (Read_data d)
    consider (empty) "d = []" | (more) "d \<noteq> []" "length d \<le> READ_BUFFER_SIZE" "tot + int (length d) > int max_length"
      | (short) "d \<noteq> []" "length d < READ_BUFFER_SIZE" "tot + int (length d) \<le> int max_length"
      | (full) "length d = READ_BUFFER_SIZE" "d \<noteq> []" "tot + int (length d) \<le> int max_length"
      using 2(3) Read_data by (cases "length d < READ_BUFFER_SIZE") (auto simp: linorder_neq_iff split: if_splits)
    then show ?thesis
    proof cases
      case empty
      with 2(3) Read_data show ?thesis by (intro exI [of _ "[r]"]) auto
    next
      case more
      then have "max_length - nat tot \<le> length d" using 2(4,5) by linarith
      with more 2(3-5) Read_data show ?thesis by (intro exI [of _ "[r]"]) (auto simp: min_def nat_le_iff)
    next
      case short
      then have "length d \<le> max_length - nat tot" using 2(4,5) by linarith
      with short 2(3) Read_data show ?thesis by (intro exI [of _ "[r]"]) auto
    next
      case full
      then have l: "length d \<le> max_length - nat tot" using 2(4,5) by linarith
      from full 2(3) Read_data
      have "recv_logic_loop max_length rs (out_data @ d) (tot + int (length d)) = Done (n, data, rest)"
        by (simp add: READ_BUFFER_SIZE_def)
      moreover have "0 < READ_BUFFER_SIZE" by (simp add: READ_BUFFER_SIZE_def)
      ultimately have "\<exists>used. rs = used @ rest \<and>
        data = (out_data @ d) @ take (max_length - nat (tot + int (length d))) (received_data used) \<and>
        n = tot + int (length d) + int (length data) - int (length (out_data @ d))"
        using 2(2) [OF Read_data, of "out_data @ d" "tot + int (length d)"] full 2(4,5) by simp
      then obtain used where u: "rs = used @ rest"
        "data = (out_data @ d) @ take (max_length - nat (tot + int (length d))) (received_data used)"
        "n = tot + int (length d) + int (length data) - int (length (out_data @ d))" by blast
      have "nat (tot + int (length d)) = nat tot + length d" using 2(4) by simp
      with u l Read_data show ?thesis by (intro exI [of _ "r # used"]) simp
    qed
  qed
qed



text \<open>
  Reading from a socket offers the system the maximal length of a string for a buffer of 4096
  bytes on the stack: a peer that has sent more than 4096 bytes overflows it. A shorter block is
  handed out as it is.
\<close>

theorem socket_read_overflow:
  "(4096 < length d \<longrightarrow> generic_socket_read (Read_data d # rs) = Undefined) \<and>
   (0 < length d \<and> length d < 4096 \<longrightarrow> generic_socket_read (Read_data d # rs) = Done (int (length d), d, rs))"
proof (intro conjI impI)
  assume "4096 < length d"
  then show "generic_socket_read (Read_data d # rs) = Undefined"
    by (simp add: generic_socket_read_def stream_recv_def io_recv_def READ_BUFFER_SIZE_def)
next
  assume "0 < length d \<and> length d < 4096"
  then show "generic_socket_read (Read_data d # rs) = Done (int (length d), d, rs)"
    by (auto simp add: generic_socket_read_def stream_recv_def io_recv_def READ_BUFFER_SIZE_def STRING_MAX_SIZE_def
        simp del: socket_io_flag_value.simps)
qed

theorem socket_read_overflow_witness:
  "generic_socket_read (Read_data (replicate 5000 (CHR ''x'')) # []) = Undefined"
  using socket_read_overflow [of "replicate 5000 (CHR ''x'')" "[]"] by simp

text \<open>
  A datagram is sent whole: what the system is given is a prefix of the data with the length it
  answers, for the peer's address. Asking for more than the data has reads behind it.
\<close>

theorem sendTo_effect:
  assumes "ao_length A \<le> 16" and "n \<le> length data"
  shows "sendTo A peer (Write_count n) data sent = Done (int n, sent @ [(ao_getAddress A peer, take n data)]) \<and>
    (length data < max_size \<longrightarrow> sendTo_max A peer max_size r data sent = Undefined)"
  using assms by (simp add: sendTo_def sendTo_max_def SOCKADDR_SIZE_def)

text \<open>
  The sender a receiving loop reports is that of the last datagram it took.
\<close>

lemma store_sources_append:
  "store_sources A (xs @ ys) s = (case store_sources A xs s of None \<Rightarrow> None | Some s' \<Rightarrow> store_sources A ys s')"
  by (induction A xs s rule: store_sources.induct) (auto split: option.splits)

theorem recvFrom_reports_last_sender:
  assumes "io_recv (waits_for_all flags) max_length (map fst rs) = Done (n, data, rest)"
    and "take (length rs - length rest) rs = before @ [(Read_data d, s)]" and "ao_setAddress A s = Some a"
    and "store_sources A before source \<noteq> None"
  shows "\<exists>rs'. recvFrom A max_length flags rs source = Done (n, data, a, rs')"
  using assms by (auto simp: recvFrom_def with_sources_def store_sources_append Let_def)

end
