(* ===== verification/TemplateLists.thy ===== *)
theory TemplateLists
  imports TypeLists
begin

text \<open>
  The lists of templates of UtilitiesInfra/template_typelist.hpp and the rest of the lists of values
  of non_typelist.hpp. A template cannot be a member of a tuple, so the list operations that go
  through tuples pack it first; \<open>None\<close> stands for \<^verbatim>\<open>empty_tt\<close>. The operations the two
  headers define beyond these are in the theory of the lists of types, over values of any type.
\<close>

subsection \<open>Packed templates\<close>

datatype 'a pack = Pack 'a

definition ttl_is_empty :: "'a list \<Rightarrow> bool" where
  "ttl_is_empty ts = (case ts of [] \<Rightarrow> True | _ # _ \<Rightarrow> False)"

definition ttl_size :: "'a list \<Rightarrow> u64" where
  "ttl_size ts = of_nat (length ts)"

text \<open>The template itself and its packed form.\<close>

fun ttl_front :: "'a list \<Rightarrow> 'a option \<times> 'a option pack" where
  "ttl_front [] = (None, Pack None)"
| "ttl_front (h # ts) = (Some h, Pack (Some h))"

fun ttl_pop_front :: "'a list \<Rightarrow> 'a list option" where
  "ttl_pop_front [] = None"
| "ttl_pop_front (h # ts) = Some ts"

definition ttl_push_front :: "'a list \<Rightarrow> 'a \<Rightarrow> 'a list" where
  "ttl_push_front ts e = e # ts"

definition ttl_push_back :: "'a list \<Rightarrow> 'a \<Rightarrow> 'a list" where
  "ttl_push_back ts e = ts @ [e]"

text \<open>
  Behind the end of the list the element is the front of a list that holds only
  \<^verbatim>\<open>empty_tt\<close>.
\<close>

fun ttl_nth_element :: "'a list \<Rightarrow> nat \<Rightarrow> 'a option \<times> 'a option pack" where
  "ttl_nth_element ts 0 = ttl_front ts"
| "ttl_nth_element [] (Suc n) = (case fst (ttl_front [None]) of None \<Rightarrow> (None, Pack None) | Some t \<Rightarrow> (t, Pack t))"
| "ttl_nth_element (h # ts) (Suc n) = ttl_nth_element ts n"

fun ttl_erase_rec :: "'a list \<Rightarrow> 'a \<Rightarrow> 'a list" where
  "ttl_erase_rec [] e = []"
| "ttl_erase_rec (h # ts) e =
     (if h = e then ttl_erase_rec ts e else ttl_push_front (ttl_erase_rec ts e) h)"

definition ttl_to_tuple :: "'a list \<Rightarrow> 'a pack tuple_type" where
  "ttl_to_tuple ts = Std_tuple (map Pack ts)"

fun unpack :: "'a pack \<Rightarrow> 'a" where
  "unpack (Pack t) = t"

fun to_ttlist :: "'a pack tuple_type \<Rightarrow> 'a list" where
  "to_ttlist (Std_tuple ps) = map unpack ps"

definition ttl_concat :: "'a list list \<Rightarrow> 'a list" where
  "ttl_concat tss = to_ttlist (tuple_cat (map ttl_to_tuple tss))"

fun ttl_zero_or_one :: "bool \<Rightarrow> 'a pack \<Rightarrow> 'a list" where
  "ttl_zero_or_one False (Pack e) = []"
| "ttl_zero_or_one True (Pack e) = [e]"

definition ttl_filter :: "('a \<Rightarrow> bool) \<Rightarrow> 'a list \<Rightarrow> bool \<Rightarrow> 'a list" where
  "ttl_filter pred ts filter_in =
     ttl_concat (map (\<lambda>t. ttl_zero_or_one (if filter_in then pred t else \<not> pred t) (Pack t)) ts)"

definition ttl_erase :: "'a list \<Rightarrow> 'a \<Rightarrow> 'a list" where
  "ttl_erase ts e = ttl_filter (\<lambda>t. Pack e = Pack t) ts False"

lemma ttl_tuple_cat: "tuple_cat (map ttl_to_tuple tss) = Std_tuple (map Pack (concat tss))"
  by (induction tss) (auto simp: ttl_to_tuple_def)

lemma ttl_concat_eq [simp]: "ttl_concat tss = concat tss"
  by (simp add: ttl_concat_def ttl_tuple_cat o_def)

lemma ttl_filter_eq: "ttl_filter p ts b = filter (\<lambda>t. p t = b) ts"
  by (induction ts) (auto simp: ttl_filter_def)

lemma ttl_erase_eq: "ttl_erase ts e = filter (\<lambda>t. t \<noteq> e) ts"
  by (auto simp: ttl_erase_def ttl_filter_eq intro: filter_cong)

function ttl_remove_duplicates :: "'a list \<Rightarrow> 'a list" where
  "ttl_remove_duplicates [] = []"
| "ttl_remove_duplicates (h # ts) = ttl_push_front (ttl_remove_duplicates (ttl_erase ts h)) h"
  by pat_completeness auto
termination
  by (relation "measure length") (auto simp: ttl_erase_eq less_Suc_eq_le)

definition get_type_by_index :: "'a list \<Rightarrow> nat \<Rightarrow> 'a option \<times> 'a option pack" where
  "get_type_by_index ts n = ttl_nth_element ts n"

subsection \<open>Lists of values\<close>

definition ntl_is_empty :: "int list \<Rightarrow> bool" where
  "ntl_is_empty es = (case es of [] \<Rightarrow> True | _ # _ \<Rightarrow> False)"

definition ntl_size :: "int list \<Rightarrow> u64" where
  "ntl_size es = of_nat (length es)"

fun ntl_pop_front :: "int list \<Rightarrow> int list option" where
  "ntl_pop_front [] = None"
| "ntl_pop_front (e # es) = Some es"

definition ntl_push_front :: "int list \<Rightarrow> int \<Rightarrow> int list" where
  "ntl_push_front es e = e # es"

definition ntl_push_back :: "int list \<Rightarrow> int \<Rightarrow> int list" where
  "ntl_push_back es e = es @ [e]"

subsection \<open>Properties\<close>

lemma ttl_front_eq: "ttl_front ts = (front ts, Pack (front ts))"
  by (cases ts) (simp_all add: front_def)

lemma ttl_nth_element_eq: "ttl_nth_element ts n = (nth_element ts n, Pack (nth_element ts n))"
  by (induction ts n rule: ttl_nth_element.induct) (simp_all add: ttl_front_eq front_def)

lemma ttl_erase_rec_eq: "ttl_erase_rec ts e = erase_rec ts e"
  by (induction ts) (simp_all add: ttl_push_front_def push_front_def)

lemma ttl_remove_duplicates_eq: "ttl_remove_duplicates ts = remove_duplicates ts"
  by (induction ts rule: ttl_remove_duplicates.induct)
    (simp_all add: ttl_push_front_def push_front_def ttl_erase_eq erase_eq)

text \<open>
  The two headers agree: on templates, which have to be packed to go through a tuple, every
  operation gives what its namesake gives on types.
\<close>

theorem template_lists_agree:
  "ttl_erase ts e = erase ts e \<and> ttl_erase_rec ts e = erase ts e \<and>
    ttl_filter p ts b = tl_filter p ts b \<and> ttl_concat tss = tl_concat tss \<and>
    ttl_remove_duplicates ts = remove_duplicates ts \<and>
    get_type_by_index ts n = (nth_element ts n, Pack (nth_element ts n))"
proof -
  have "erase_rec ts e = erase ts e"
    by (induction ts) (simp_all add: push_front_def erase_eq)
  then show ?thesis
    by (simp add: ttl_erase_eq erase_eq ttl_erase_rec_eq ttl_filter_eq tl_filter_eq
        ttl_remove_duplicates_eq get_type_by_index_def ttl_nth_element_eq)
qed

end
