(* ===== verification/DeviceTypes.thy ===== *)
theory DeviceTypes
  imports NamedPipes TemplateLists Configuration
begin

text \<open>
  The device types and how the library selects code for them at compile time: what a device
  class declares (TransportInfra/Devices/*), the traits that ask for it
  (TransportInfra/Traits/handler_traits.hpp, device_traits.hpp, socket_traits.hpp,
  fifo_traits.hpp, device_constraints.hpp, UtilitiesInfra/traits_utils.hpp), the specialisations
  of the policy templates they guard, and the map between tags and types
  (TransportInfra/Devices/DeviceFactory.hpp). A type is a value of a datatype, a trait a boolean
  function of the class's declarations; a name a class does not declare is \<open>None\<close>.
\<close>

subsection \<open>Classes\<close>

datatype platform = unix_platform | my_custom_platform

text \<open>\<^verbatim>\<open>int\<close>, or some other type of handles.\<close>

datatype handle_type = Int_handle | Other_handle

datatype socket_domain = unix_domain | ipv4_domain | ipv6_domain

datatype socket_kind = stream_socket | datagram_socket

datatype sequential_type = sequential_device | Other_sequential

datatype system_address = sockaddr_un | sockaddr_in | sockaddr_in6 | std_string

datatype address_class =
    IPV4InetSocketAddress | IPV6InetSocketAddress | Unix_SocketAddress | NamedPipeAddress

fun system_address_of :: "address_class \<Rightarrow> system_address" where
  "system_address_of IPV4InetSocketAddress = sockaddr_in"
| "system_address_of IPV6InetSocketAddress = sockaddr_in6"
| "system_address_of Unix_SocketAddress = sockaddr_un"
| "system_address_of NamedPipeAddress = std_string"

record handler_class =
  hc_handle_type :: handle_type
  hc_platform :: platform

definition UnixResourceHandler_class :: handler_class where
  "UnixResourceHandler_class = \<lparr>hc_handle_type = Int_handle, hc_platform = unix_platform\<rparr>"

text \<open>The public types a device class declares.\<close>

record device_class =
  dc_handle_type :: "handle_type option"
  dc_platform :: "platform option"
  dc_socket_domain :: "socket_domain option"
  dc_socket_type :: "socket_kind option"
  dc_address_type :: "address_class option"
  dc_io_profile :: "io_profile option"
  dc_sequential :: "sequential_type option"

definition empty_class :: device_class where
  "empty_class = \<lparr>dc_handle_type = None, dc_platform = None, dc_socket_domain = None, dc_socket_type = None,
     dc_address_type = None, dc_io_profile = None, dc_sequential = None\<rparr>"

subsection \<open>Selecting types\<close>

definition select_if :: "bool \<Rightarrow> 'a \<Rightarrow> 'a \<Rightarrow> 'a" where
  "select_if pred type1 type2 = (if pred then type1 else type2)"

definition apply_predicates :: "'a \<Rightarrow> ('a \<Rightarrow> bool) list \<Rightarrow> bool" where
  "apply_predicates t preds = foldr (\<lambda>p b. p t \<and> b) preds True"

definition has_type :: "('c \<Rightarrow> 't option) \<Rightarrow> 'c \<Rightarrow> bool" where
  "has_type mem_type c = (mem_type c \<noteq> None)"

definition member_type_or_default :: "('c \<Rightarrow> 't option) \<Rightarrow> 'c \<Rightarrow> 't \<Rightarrow> 't" where
  "member_type_or_default mem_type c dflt = (case mem_type c of None \<Rightarrow> dflt | Some t \<Rightarrow> t)"

subsection \<open>Traits of handles\<close>

definition HasUnixHandleTypeT :: "device_class \<Rightarrow> bool" where
  "HasUnixHandleTypeT c = (dc_handle_type c = Some Int_handle)"

definition handler_HasUnixHandleTypeT :: "handler_class \<Rightarrow> bool" where
  "handler_HasUnixHandleTypeT c = (hc_handle_type c = Int_handle)"

definition HasUnixHandle :: "handler_class \<Rightarrow> bool" where
  "HasUnixHandle c = (unix_platform = hc_platform c)"

definition UnixCompatibleHandle :: "handle_type \<Rightarrow> bool" where
  "UnixCompatibleHandle t = (t = Int_handle)"

text \<open>The value \<^verbatim>\<open>U()\<close> of the handler's type when its platform is not the Unix one.\<close>

definition handler_defaultValue :: "(handle_type \<Rightarrow> int) \<Rightarrow> handler_class \<Rightarrow> int" where
  "handler_defaultValue default_constructed c =
     (if unix_platform = hc_platform c then - 1 else default_constructed (hc_handle_type c))"

subsection \<open>Traits of sockets\<close>

definition IsSocketDeviceT :: "device_class \<Rightarrow> bool" where
  "IsSocketDeviceT c = (has_type dc_socket_domain c \<and> has_type dc_socket_type c \<and> has_type dc_address_type c)"

definition HasStreamSocketType :: "device_class \<Rightarrow> bool" where
  "HasStreamSocketType c = (dc_socket_type c = Some stream_socket)"

definition HasDatagramStreamSocketType :: "device_class \<Rightarrow> bool" where
  "HasDatagramStreamSocketType c = (dc_socket_type c = Some datagram_socket)"

definition IsStreamSocketDeviceT :: "device_class \<Rightarrow> bool" where
  "IsStreamSocketDeviceT c = (if select_if (IsSocketDeviceT c) True False then HasStreamSocketType c else False)"

definition IsDatagramSocketDeviceT :: "device_class \<Rightarrow> bool" where
  "IsDatagramSocketDeviceT c =
     (if select_if (IsSocketDeviceT c) True False then HasDatagramStreamSocketType c else False)"

definition UnixSocketRequires :: "handler_class \<Rightarrow> address_class \<Rightarrow> bool" where
  "UnixSocketRequires h a = (handler_HasUnixHandleTypeT h \<and> system_address_of a = sockaddr_un)"

definition IPV4SocketRequires :: "handler_class \<Rightarrow> address_class \<Rightarrow> bool" where
  "IPV4SocketRequires h a = (handler_HasUnixHandleTypeT h \<and> system_address_of a = sockaddr_in)"

definition IPV6SocketRequires :: "handler_class \<Rightarrow> address_class \<Rightarrow> bool" where
  "IPV6SocketRequires h a = (handler_HasUnixHandleTypeT h \<and> system_address_of a = sockaddr_in6)"

text \<open>\<open>convertible a b\<close> is that the type \<open>a\<close> converts to \<open>b\<close>; every name has to be declared.\<close>

definition CompatibleSocketDevices ::
    "(address_class \<Rightarrow> address_class \<Rightarrow> bool) \<Rightarrow> device_class \<Rightarrow> device_class \<Rightarrow> bool" where
  "CompatibleSocketDevices convertible a b =
     ((\<forall>c \<in> set [a, b]. has_type dc_handle_type c \<and> has_type dc_platform c \<and> has_type dc_socket_domain c \<and>
         has_type dc_socket_type c \<and> has_type dc_address_type c) \<and>
      dc_handle_type a = dc_handle_type b \<and> dc_platform a = dc_platform b \<and>
      dc_socket_domain a = dc_socket_domain b \<and> dc_socket_type a = dc_socket_type b \<and>
      convertible (the (dc_address_type b)) (the (dc_address_type a)))"

definition IsUnixPlatformSocketDeviceT :: "device_class \<Rightarrow> bool" where
  "IsUnixPlatformSocketDeviceT c =
     (if select_if (IsSocketDeviceT c) True False then HasUnixHandleTypeT c else False)"

definition IsUnixSocketDeviceT :: "device_class \<Rightarrow> bool" where
  "IsUnixSocketDeviceT c =
     (if select_if (IsUnixPlatformSocketDeviceT c) True False
      then (case dc_address_type c of None \<Rightarrow> False | Some a \<Rightarrow> system_address_of a = sockaddr_un)
      else False)"

subsection \<open>Traits of pipes and files\<close>

definition IsNamedPipeDeviceT :: "device_class \<Rightarrow> bool" where
  "IsNamedPipeDeviceT c = (has_type dc_io_profile c \<and> has_type dc_address_type c)"

definition UnixNamedPipeDevice :: "device_class \<Rightarrow> bool" where
  "UnixNamedPipeDevice c = (if select_if (IsNamedPipeDeviceT c) True False then HasUnixHandleTypeT c else False)"

definition IsFifoDeviceT :: "device_class \<Rightarrow> bool" where
  "IsFifoDeviceT c = has_type dc_io_profile c"

definition fifo_address_type :: "device_class \<Rightarrow> address_class" where
  "fifo_address_type c = member_type_or_default dc_address_type c NamedPipeAddress"

definition HasSequentialType :: "device_class \<Rightarrow> bool" where
  "HasSequentialType c = has_type dc_sequential c"

definition IsSeekableDeviceT :: "device_class \<Rightarrow> bool" where
  "IsSeekableDeviceT c = (dc_sequential c = Some sequential_device)"

subsection \<open>Specialisations\<close>

text \<open>
  A class template is instantiated with its one specialisation whose constraint holds, with the
  primary template when there is none; two that hold (and neither is more special) are an error.
\<close>

datatype 'a selection = Primary | Specialised 'a | Ambiguous

fun select_specialisation :: "(bool \<times> 'a) list \<Rightarrow> 'a selection" where
  "select_specialisation [] = Primary"
| "select_specialisation ((True, a) # cs) =
     (case select_specialisation cs of Primary \<Rightarrow> Specialised a | _ \<Rightarrow> Ambiguous)"
| "select_specialisation ((False, a) # cs) = select_specialisation cs"

datatype device_traits_kind = device_traits | fifo_traits | socket_traits

text \<open>The aliases of device_constraints.hpp.\<close>

definition is_UnixDevice :: "device_class \<Rightarrow> bool" where
  "is_UnixDevice c = HasUnixHandleTypeT c"
definition is_SocketDevice :: "device_class \<Rightarrow> bool" where
  "is_SocketDevice c = IsSocketDeviceT c"
definition is_StreamSocketDevice :: "device_class \<Rightarrow> bool" where
  "is_StreamSocketDevice c = IsStreamSocketDeviceT c"
definition is_DatagramSocketDevice :: "device_class \<Rightarrow> bool" where
  "is_DatagramSocketDevice c =
  (IsDatagramSocketDeviceT c \<and> \<not> IsStreamSocketDeviceT c \<and> \<not> IsNamedPipeDeviceT c)"
definition is_UnixPlatformSocketDevice :: "device_class \<Rightarrow> bool" where
  "is_UnixPlatformSocketDevice c = IsUnixPlatformSocketDeviceT c"
definition is_UnixSocketDevice :: "device_class \<Rightarrow> bool" where
  "is_UnixSocketDevice c = IsUnixSocketDeviceT c"
definition is_NamedPipeDevice :: "device_class \<Rightarrow> bool" where
  "is_NamedPipeDevice c = (IsNamedPipeDeviceT c \<and> \<not> IsSocketDeviceT c)"
definition is_UnixNamedPipeDevice :: "device_class \<Rightarrow> bool" where
  "is_UnixNamedPipeDevice c = UnixNamedPipeDevice c"
definition is_FifoDevice :: "device_class \<Rightarrow> bool" where
  "is_FifoDevice c = (HasUnixHandleTypeT c \<and> IsFifoDeviceT c)"

definition select_traits :: "device_class \<Rightarrow> device_traits_kind selection" where
  "select_traits c = select_specialisation [(is_NamedPipeDevice c, fifo_traits), (IsSocketDeviceT c, socket_traits)]"

datatype policy_code = Inet_socket | Unix_socket | Any_socket | Pipe | Any_other

definition acceptor_code :: "device_class \<Rightarrow> policy_code selection" where
  "acceptor_code c = select_specialisation
     [(IsUnixPlatformSocketDeviceT c \<and> \<not> IsUnixSocketDeviceT c, Inet_socket),
      (IsUnixSocketDeviceT c, Unix_socket),
      (IsNamedPipeDeviceT c \<and> \<not> IsSocketDeviceT c, Pipe)]"

definition connection_code :: "device_class \<Rightarrow> policy_code selection" where
  "connection_code c = select_specialisation
     [(is_SocketDevice c, Any_socket), (IsNamedPipeDeviceT c \<and> \<not> IsSocketDeviceT c, Pipe)]"

definition generic_io_code :: "device_class \<Rightarrow> policy_code selection" where
  "generic_io_code c = select_specialisation
     [(IsUnixPlatformSocketDeviceT c, Any_socket), (HasUnixHandleTypeT c \<and> \<not> IsUnixPlatformSocketDeviceT c, Any_other)]"

definition stream_io_code :: "device_class \<Rightarrow> policy_code selection" where
  "stream_io_code c = select_specialisation [(IsUnixPlatformSocketDeviceT c, Any_socket)]"

definition datagram_io_code :: "device_class \<Rightarrow> policy_code selection" where
  "datagram_io_code c = select_specialisation [(IsUnixPlatformSocketDeviceT c \<and> IsDatagramSocketDeviceT c, Any_socket)]"

definition fifo_io_code :: "device_class \<Rightarrow> policy_code selection" where
  "fifo_io_code c = select_specialisation [(is_UnixNamedPipeDevice c, Pipe)]"

definition seekable_code :: "device_class \<Rightarrow> policy_code selection" where
  "seekable_code c = select_specialisation [(IsSeekableDeviceT c, Any_other)]"

definition resource_status_code :: "device_class \<Rightarrow> policy_code selection" where
  "resource_status_code c = select_specialisation [(is_UnixDevice c, Any_other)]"

subsection \<open>Devices and tags\<close>

datatype device_type_name =
    SocketDevice handler_class address_class socket_domain socket_kind
  | ReadingNamedPipeDevice handler_class
  | WritingNamedPipeDevice handler_class
  | EmptyDevice handler_class
  | File_device handler_class

definition socket_class :: "bool \<Rightarrow> handler_class \<Rightarrow> address_class \<Rightarrow> socket_domain \<Rightarrow> socket_kind \<Rightarrow> device_class" where
  "socket_class requires h a domain k =
     (if requires then
        empty_class\<lparr>dc_handle_type := Some (hc_handle_type h), dc_platform := Some (hc_platform h),
          dc_socket_domain := Some domain, dc_socket_type := Some k, dc_address_type := Some a\<rparr>
      else empty_class)"

text \<open>
  A pipe whose base is the empty primary template does not compile (it names the base's
  address), which is \<open>None\<close>. The empty device's handle is private.
\<close>

definition pipe_class :: "io_profile \<Rightarrow> handler_class \<Rightarrow> device_class option" where
  "pipe_class profile h =
     (if handler_HasUnixHandleTypeT h then
        Some (empty_class\<lparr>dc_handle_type := Some (hc_handle_type h), dc_platform := Some (hc_platform h),
          dc_address_type := Some NamedPipeAddress, dc_io_profile := Some profile\<rparr>)
      else None)"

fun class_of :: "device_type_name \<Rightarrow> device_class option" where
  "class_of (SocketDevice h a unix_domain k) = Some (socket_class (UnixSocketRequires h a) h a unix_domain k)"
| "class_of (SocketDevice h a ipv4_domain k) = Some (socket_class (IPV4SocketRequires h a) h a ipv4_domain k)"
| "class_of (SocketDevice h a ipv6_domain k) = Some (socket_class (IPV6SocketRequires h a) h a ipv6_domain k)"
| "class_of (ReadingNamedPipeDevice h) = pipe_class read_only_profile h"
| "class_of (WritingNamedPipeDevice h) = pipe_class write_only_profile h"
| "class_of (EmptyDevice h) = Some empty_class"
| "class_of (File_device h) =
     Some (if handler_HasUnixHandleTypeT h
           then empty_class\<lparr>dc_handle_type := Some (hc_handle_type h), dc_platform := Some (hc_platform h),
                  dc_sequential := Some sequential_device\<rparr>
           else empty_class)"

text \<open>The handle an empty device gives, \<^verbatim>\<open>default_value\<close> of its type.\<close>

definition EmptyDevice_getHandle :: "(handle_type \<Rightarrow> int) \<Rightarrow> handler_class \<Rightarrow> int" where
  "EmptyDevice_getHandle default_constructed h =
     (if hc_handle_type h = Int_handle then - 1 else default_constructed (hc_handle_type h))"

fun device_tag_of :: "device_type \<Rightarrow> nat" where
  "device_tag_of E_UNDEFINED_DEVICE = 0"
| "device_tag_of E_IPV4_TCP_SOCKET_DEVICE = 1"
| "device_tag_of E_IPV4_UDP_SOCKET_DEVICE = 2"
| "device_tag_of E_IPV6_TCP_SOCKET_DEVICE = 3"
| "device_tag_of E_IPV6_UDP_SOCKET_DEVICE = 4"
| "device_tag_of E_UNIX_STREAM_SOCKET_DEVICE = 5"
| "device_tag_of E_UNIX_DGRAM_SOCKET_DEVICE = 6"
| "device_tag_of E_READING_FIFO_DEVICE = 7"
| "device_tag_of E_WRITING_FIFO_DEVICE = 8"
| "device_tag_of E_LAST_DEVICE = 9"

definition undefined_device_tag :: "nat" where
  "undefined_device_tag = device_tag_of E_UNDEFINED_DEVICE"
definition ipv4_strm_tag :: "nat" where
  "ipv4_strm_tag = device_tag_of E_IPV4_TCP_SOCKET_DEVICE"
definition ipv4_dgram_tag :: "nat" where
  "ipv4_dgram_tag = device_tag_of E_IPV4_UDP_SOCKET_DEVICE"
definition ipv6_strm_tag :: "nat" where
  "ipv6_strm_tag = device_tag_of E_IPV6_TCP_SOCKET_DEVICE"
definition ipv6_dgram_tag :: "nat" where
  "ipv6_dgram_tag = device_tag_of E_IPV6_UDP_SOCKET_DEVICE"
definition unx_strm_tag :: "nat" where
  "unx_strm_tag = device_tag_of E_UNIX_STREAM_SOCKET_DEVICE"
definition unx_dgram_tag :: "nat" where
  "unx_dgram_tag = device_tag_of E_UNIX_DGRAM_SOCKET_DEVICE"
definition read_fifo_tag :: "nat" where
  "read_fifo_tag = device_tag_of E_READING_FIFO_DEVICE"
definition write_fifo_tag :: "nat" where
  "write_fifo_tag = device_tag_of E_WRITING_FIFO_DEVICE"

lemmas tag_defs = undefined_device_tag_def ipv4_strm_tag_def ipv4_dgram_tag_def ipv6_strm_tag_def
  ipv6_dgram_tag_def unx_strm_tag_def unx_dgram_tag_def read_fifo_tag_def write_fifo_tag_def

definition Device2Type :: "nat \<Rightarrow> handler_class \<Rightarrow> device_type_name" where
  "Device2Type tag h =
     (if tag = device_tag_of E_IPV4_TCP_SOCKET_DEVICE then SocketDevice h IPV4InetSocketAddress ipv4_domain stream_socket
      else if tag = device_tag_of E_IPV4_UDP_SOCKET_DEVICE then SocketDevice h IPV4InetSocketAddress ipv4_domain datagram_socket
      else if tag = device_tag_of E_IPV6_TCP_SOCKET_DEVICE then SocketDevice h IPV6InetSocketAddress ipv6_domain stream_socket
      else if tag = device_tag_of E_IPV6_UDP_SOCKET_DEVICE then SocketDevice h IPV6InetSocketAddress ipv6_domain datagram_socket
      else if tag = device_tag_of E_UNIX_STREAM_SOCKET_DEVICE then SocketDevice h Unix_SocketAddress unix_domain stream_socket
      else if tag = device_tag_of E_UNIX_DGRAM_SOCKET_DEVICE then SocketDevice h Unix_SocketAddress unix_domain datagram_socket
      else if tag = device_tag_of E_READING_FIFO_DEVICE then ReadingNamedPipeDevice h
      else if tag = device_tag_of E_WRITING_FIFO_DEVICE then WritingNamedPipeDevice h
      else EmptyDevice h)"

fun Type2DeviceTag :: "device_type_name \<Rightarrow> nat" where
  "Type2DeviceTag (SocketDevice h IPV4InetSocketAddress ipv4_domain stream_socket) = ipv4_strm_tag"
| "Type2DeviceTag (SocketDevice h IPV4InetSocketAddress ipv4_domain datagram_socket) = ipv4_dgram_tag"
| "Type2DeviceTag (SocketDevice h IPV6InetSocketAddress ipv6_domain stream_socket) = ipv6_strm_tag"
| "Type2DeviceTag (SocketDevice h IPV6InetSocketAddress ipv6_domain datagram_socket) = ipv6_dgram_tag"
| "Type2DeviceTag (SocketDevice h Unix_SocketAddress unix_domain stream_socket) = unx_strm_tag"
| "Type2DeviceTag (SocketDevice h Unix_SocketAddress unix_domain datagram_socket) = unx_dgram_tag"
| "Type2DeviceTag (ReadingNamedPipeDevice h) = read_fifo_tag"
| "Type2DeviceTag (WritingNamedPipeDevice h) = write_fifo_tag"
| "Type2DeviceTag d = undefined_device_tag"


subsection \<open>Default devices\<close>

definition IPV4TcpSocketDevice :: "device_type_name" where
  "IPV4TcpSocketDevice = Device2Type ipv4_strm_tag UnixResourceHandler_class"
definition IPV4UdpSocketDevice :: "device_type_name" where
  "IPV4UdpSocketDevice = Device2Type ipv4_dgram_tag UnixResourceHandler_class"
definition IPV6TcpSocketDevice :: "device_type_name" where
  "IPV6TcpSocketDevice = Device2Type ipv6_strm_tag UnixResourceHandler_class"
definition IPV6UdpSocketDevice :: "device_type_name" where
  "IPV6UdpSocketDevice = Device2Type ipv6_dgram_tag UnixResourceHandler_class"
definition UnixStreamSocketDevice :: "device_type_name" where
  "UnixStreamSocketDevice = Device2Type unx_strm_tag UnixResourceHandler_class"
definition UnixDgramSocketDevice :: "device_type_name" where
  "UnixDgramSocketDevice = Device2Type unx_dgram_tag UnixResourceHandler_class"
definition ReadFifoDevice :: "device_type_name" where
  "ReadFifoDevice = Device2Type read_fifo_tag UnixResourceHandler_class"
definition WriteFifoDevice :: "device_type_name" where
  "WriteFifoDevice = Device2Type write_fifo_tag UnixResourceHandler_class"
definition UnixFileDevice :: "device_type_name" where
  "UnixFileDevice = File_device UnixResourceHandler_class"

subsection \<open>Properties\<close>

lemmas trait_defs = HasUnixHandleTypeT_def IsSocketDeviceT_def HasStreamSocketType_def HasDatagramStreamSocketType_def
  IsStreamSocketDeviceT_def IsDatagramSocketDeviceT_def IsUnixPlatformSocketDeviceT_def IsUnixSocketDeviceT_def
  IsNamedPipeDeviceT_def UnixNamedPipeDevice_def IsFifoDeviceT_def IsSeekableDeviceT_def has_type_def select_if_def
  is_UnixDevice_def is_SocketDevice_def is_NamedPipeDevice_def is_UnixNamedPipeDevice_def

lemmas code_defs = acceptor_code_def connection_code_def generic_io_code_def stream_io_code_def datagram_io_code_def
  fifo_io_code_def seekable_code_def resource_status_code_def select_traits_def

lemma select_two:
  "select_specialisation [(p, a), (q, b)] =
    (if p \<and> q then Ambiguous else if p then Specialised a else if q then Specialised b else Primary)"
  by (cases p; cases q) simp_all

lemma select_one: "select_specialisation [(p, a)] = (if p then Specialised a else Primary)"
  by (cases p) simp_all

lemma select_three_disjoint:
  assumes "\<not> (p \<and> q)" and "\<not> (p \<and> r)" and "\<not> (q \<and> r)"
  shows "select_specialisation [(p, a), (q, b), (r, c)] =
    (if p then Specialised a else if q then Specialised b else if r then Specialised c else Primary)"
  using assms by (cases p; cases q; cases r) simp_all

lemmas selections = select_one select_two select_three_disjoint

lemma unix_socket_is_socket: "IsUnixSocketDeviceT c \<Longrightarrow> IsUnixPlatformSocketDeviceT c"
  by (simp add: IsUnixSocketDeviceT_def select_if_def split: if_splits)

lemma platform_socket_is_socket: "IsUnixPlatformSocketDeviceT c \<Longrightarrow> IsSocketDeviceT c"
  by (simp add: IsUnixPlatformSocketDeviceT_def select_if_def split: if_splits)

lemma acceptor_code_eq:
  "acceptor_code c =
    (if IsUnixSocketDeviceT c then Specialised Unix_socket
     else if IsUnixPlatformSocketDeviceT c then Specialised Inet_socket
     else if IsNamedPipeDeviceT c \<and> \<not> IsSocketDeviceT c then Specialised Pipe else Primary)"
  unfolding acceptor_code_def
  using unix_socket_is_socket [of c] platform_socket_is_socket [of c]
  by (subst select_three_disjoint) auto


lemma tag_cases:
  assumes "1 \<le> tag" and "tag \<le> (8 :: nat)"
  obtains "tag = 1" | "tag = 2" | "tag = 3" | "tag = 4" | "tag = 5" | "tag = 6" | "tag = 7" | "tag = 8"
  using assms by linarith

lemma Device2Type_tags:
  "Device2Type 1 h = SocketDevice h IPV4InetSocketAddress ipv4_domain stream_socket"
  "Device2Type 2 h = SocketDevice h IPV4InetSocketAddress ipv4_domain datagram_socket"
  "Device2Type 3 h = SocketDevice h IPV6InetSocketAddress ipv6_domain stream_socket"
  "Device2Type 4 h = SocketDevice h IPV6InetSocketAddress ipv6_domain datagram_socket"
  "Device2Type 5 h = SocketDevice h Unix_SocketAddress unix_domain stream_socket"
  "Device2Type 6 h = SocketDevice h Unix_SocketAddress unix_domain datagram_socket"
  "Device2Type 7 h = ReadingNamedPipeDevice h"
  "Device2Type 8 h = WritingNamedPipeDevice h"
  "Device2Type (Suc 0) h = SocketDevice h IPV4InetSocketAddress ipv4_domain stream_socket"
  by (simp_all add: Device2Type_def)

lemma Device2Type_other: "tag = 0 \<or> 8 < tag \<Longrightarrow> Device2Type tag h = EmptyDevice h"
  by (auto simp: Device2Type_def)

text \<open>
  The code each device of the factory gets, over any handler of integer handles: sockets the
  socket code of the connection, status and stream policies, only datagram sockets that of
  datagrams, pipes the pipe code, and none of them can be positioned.
\<close>

theorem policies_of_devices:
  assumes "1 \<le> tag" and "tag \<le> 8" and "hc_handle_type h = Int_handle"
  shows "\<exists>c. class_of (Device2Type tag h) = Some c \<and>
    acceptor_code c = Specialised (if tag \<le> 4 then Inet_socket else if tag \<le> 6 then Unix_socket else Pipe) \<and>
    connection_code c = Specialised (if tag \<le> 6 then Any_socket else Pipe) \<and>
    generic_io_code c = Specialised (if tag \<le> 6 then Any_socket else Any_other) \<and>
    datagram_io_code c = (if tag \<in> {2, 4, 6} then Specialised Any_socket else Primary) \<and>
    fifo_io_code c = (if tag \<le> 6 then Primary else Specialised Pipe) \<and>
    seekable_code c = Primary \<and> resource_status_code c = Specialised Any_other"
  by (rule tag_cases [OF assms(1,2)])
    (simp_all add: Device2Type_tags socket_class_def pipe_class_def UnixSocketRequires_def IPV4SocketRequires_def
      IPV6SocketRequires_def handler_HasUnixHandleTypeT_def empty_class_def assms(3) acceptor_code_eq connection_code_def
      generic_io_code_def datagram_io_code_def fifo_io_code_def seekable_code_def resource_status_code_def selections
      trait_defs)

theorem policies_of_devices_witness:
  "\<exists>c. class_of UnixDgramSocketDevice = Some c \<and> acceptor_code c = Specialised Unix_socket \<and>
    datagram_io_code c = Specialised Any_socket"
  using policies_of_devices [of 6 UnixResourceHandler_class]
  by (auto simp: UnixDgramSocketDevice_def tag_defs UnixResourceHandler_class_def)

lemma Type2DeviceTag_Device2Type:
  "Type2DeviceTag (Device2Type tag h) = (if 1 \<le> tag \<and> tag \<le> 8 then tag else undefined_device_tag)"
proof (cases "1 \<le> tag \<and> tag \<le> 8")
  case True
  then have "1 \<le> tag" "tag \<le> 8" by simp_all
  then show ?thesis by (rule tag_cases) (simp_all add: Device2Type_tags tag_defs)
next
  case False
  then have "tag = 0 \<or> 8 < tag" by linarith
  then show ?thesis using False by (auto simp: Device2Type_other)
qed

text \<open>
  Tags and device types are inverse: the type of a tag of the enumeration has that tag again and
  every other tag gives the empty device, whose tag is the undefined one; a type with a tag is
  the tag's type.
\<close>

theorem device_tag_round_trip:
  "Type2DeviceTag (Device2Type tag h) = (if 1 \<le> tag \<and> tag \<le> 8 then tag else undefined_device_tag) \<and>
    (Type2DeviceTag d = undefined_device_tag \<or> (\<exists>g. Device2Type (Type2DeviceTag d) g = d))"
proof
  show "Type2DeviceTag (Device2Type tag h) = (if 1 \<le> tag \<and> tag \<le> 8 then tag else undefined_device_tag)"
    by (rule Type2DeviceTag_Device2Type)
  show "Type2DeviceTag d = undefined_device_tag \<or> (\<exists>g. Device2Type (Type2DeviceTag d) g = d)"
    by (cases d rule: Type2DeviceTag.cases) (simp_all add: tag_defs Device2Type_def)
qed

end
