(* ===== verification/TransportTraits.thy ===== *)
theory TransportTraits
  imports DeviceTypes
begin

text \<open>
  How an endpoint's type is put together: the tests for members (\<^verbatim>\<open>DEFINE_HAS_MEMBER\<close> of
  UtilitiesInfra/traits_utils.hpp, Traits/utilities_traits.hpp, Traits/storage_traits.hpp,
  Policies/ExporterPolicy.hpp), the member functions of the classes they ask, and the generators
  of Traits/transport_traits.hpp, over the device types and lists of the theories before.
\<close>

subsection \<open>Members of a class\<close>

record member_decl =
  md_public :: bool
  md_template :: bool

text \<open>The functions a class declares, by name, and its direct bases.\<close>

datatype class_decl = Class "(string \<times> member_decl list) list" "class_decl list"

definition public_functions :: "string \<Rightarrow> nat \<Rightarrow> string \<times> member_decl list" where
  "public_functions n k = (n, replicate k \<lparr>md_public = True, md_template = False\<rparr>)"

definition hidden_function :: "string \<Rightarrow> string \<times> member_decl list" where
  "hidden_function n = (n, [\<lparr>md_public = False, md_template = False\<rparr>])"

definition public_template :: "string \<Rightarrow> string \<times> member_decl list" where
  "public_template n = (n, [\<lparr>md_public = True, md_template = True\<rparr>])"

text \<open>
  The lookup of a name: a class's own declarations hide those of its bases; a name found in two
  bases is ambiguous, which like an unknown name gives no declaration.
\<close>

fun lookup_member :: "class_decl \<Rightarrow> string \<Rightarrow> member_decl list" where
  "lookup_member (Class own bases) n =
     (case map_of own n of
        Some ds \<Rightarrow> ds
      | None \<Rightarrow> (case filter (\<lambda>ds. ds \<noteq> []) (map (\<lambda>b. lookup_member b n) bases) of
                   [ds] \<Rightarrow> ds
                 | _ \<Rightarrow> []))"

text \<open>The address of a member can be taken when it is one public function and no template.\<close>

definition has_member :: "string \<Rightarrow> class_decl \<Rightarrow> bool" where
  "has_member n c = (case lookup_member c n of [d] \<Rightarrow> md_public d \<and> \<not> md_template d | _ \<Rightarrow> False)"

definition IsConnectableDeviceT :: "class_decl \<Rightarrow> bool" where
  "IsConnectableDeviceT d =
     (if select_if (has_member ''connect'' d) True False then has_member ''disconnect'' d else False)"

text \<open>Of an endpoint that may declare its device's type.\<close>

definition HasConnectableDevice :: "class_decl option \<Rightarrow> bool" where
  "HasConnectableDevice device =
     (case device of None \<Rightarrow> False | Some d \<Rightarrow> has_member ''connect'' d \<and> has_member ''disconnect'' d)"

definition IsSendableDeviceT :: "class_decl \<Rightarrow> bool" where
  "IsSendableDeviceT d = has_member ''send'' d"

definition IsWritableDeviceT :: "class_decl \<Rightarrow> bool" where
  "IsWritableDeviceT d = has_member ''write'' d"

definition IsPassiveConnectableDevice :: "class_decl \<Rightarrow> bool" where
  "IsPassiveConnectableDevice d = apply_predicates d [has_member ''bind'', has_member ''listen'', has_member ''accept'']"

text \<open>
  A storage's lookup is tested with a call on its key's type, not by its address, so it may be
  overloaded.
\<close>

definition has_member_getEndpointFor :: "bool \<Rightarrow> class_decl \<Rightarrow> bool" where
  "has_member_getEndpointFor has_key c =
     (if select_if has_key True False
      then (\<exists>d \<in> set (lookup_member c ''getEndpointFor''). md_public d) else False)"

definition is_endpoint_storage :: "bool \<Rightarrow> bool \<Rightarrow> class_decl \<Rightarrow> bool" where
  "is_endpoint_storage has_endpoint has_key c =
     apply_predicates c [has_member ''store'', has_member ''erase'', has_member_getEndpointFor has_key,
       (\<lambda>c. has_endpoint), (\<lambda>c. has_key)]"

definition ExposesDevice :: "bool \<Rightarrow> class_decl \<Rightarrow> bool" where
  "ExposesDevice has_Device endpoint =
     (if select_if has_Device True False then has_member ''getDevice'' endpoint else False)"

subsection \<open>The classes\<close>

datatype policy =
    ConnectionPolicy | AcceptorPolicy | GenericIOPolicy | StreamIOPolicy | ResourceStatusPolicy
  | SeekableOperations | BaseEventHandlingPolicy | BaseDispatcherPolicy | ClientCallbackPolicy
  | ServerCallbackPolicy | AssociativeEndpointStorage | SingleEndpointStorage | Exporter "policy list"

definition crtp_base :: class_decl where
  "crtp_base = Class [(''asDerived'', replicate 2 \<lparr>md_public = False, md_template = False\<rparr>)] []"

definition StreamIOPolicy_members :: class_decl where
  "StreamIOPolicy_members = Class
     [public_functions ''send'' 2, public_functions ''recvInBuffer'' 1, public_functions ''recv'' 2,
      hidden_function ''recvLogic''] [crtp_base]"

fun GenericIOPolicy_members :: "policy_code selection \<Rightarrow> class_decl" where
  "GenericIOPolicy_members (Specialised Any_socket) =
     Class [public_functions ''read'' 1, public_functions ''readInBuffer'' 1, public_functions ''write'' 1]
       [StreamIOPolicy_members]"
| "GenericIOPolicy_members (Specialised Any_other) =
     Class [public_functions ''init'' 1, public_functions ''read'' 1, public_functions ''readInBuffer'' 1,
       public_functions ''write'' 1] [crtp_base]"
| "GenericIOPolicy_members c = Class [] []"

fun ConnectionPolicy_members :: "policy_code selection \<Rightarrow> class_decl" where
  "ConnectionPolicy_members (Specialised Any_socket) =
     Class [public_functions ''connect'' 1, public_functions ''disconnect'' 1, public_functions ''shutdown'' 1,
       public_functions ''isConnected'' 1] [crtp_base]"
| "ConnectionPolicy_members (Specialised Pipe) =
     Class [public_functions ''connect'' 1, public_functions ''disconnect'' 1, public_functions ''shutdown'' 1,
       public_functions ''isConnected'' 1] [crtp_base]"
| "ConnectionPolicy_members c = Class [] []"

definition SocketAcceptorBasePolicy_members :: class_decl where
  "SocketAcceptorBasePolicy_members = Class
     (map hidden_function [''bind'', ''listen'', ''isBinded'', ''isListening'', ''isAddressReusable'',
        ''setReusableAddressOpt'', ''accept'']) [crtp_base]"

fun AcceptorPolicy_members :: "policy_code selection \<Rightarrow> class_decl" where
  "AcceptorPolicy_members (Specialised Pipe) =
     Class [public_functions ''bind'' 1, public_functions ''listen'' 1, public_functions ''accept'' 1] [crtp_base]"
| "AcceptorPolicy_members (Specialised c) =
     Class (map (\<lambda>n. public_functions n 1) [''bind'', ''listen'', ''accept'', ''isBinded'', ''isListening'',
       ''isAddressReusable'', ''setReusableAddressOpt'']) [SocketAcceptorBasePolicy_members]"
| "AcceptorPolicy_members c = Class [] []"

fun ResourceStatusPolicy_members :: "policy_code selection \<Rightarrow> class_decl" where
  "ResourceStatusPolicy_members (Specialised c) =
     Class (map (\<lambda>n. public_functions n 1) [''isReadable'', ''isWritable'', ''isTty'', ''position'',
       ''bytesAvailable'', ''fileType'', ''accessMode'', ''permissions''] @
       map hidden_function [''fileInfo'', ''fileStatusFlags'']) [crtp_base]"
| "ResourceStatusPolicy_members c = Class [] []"

fun SeekableOperations_members :: "policy_code selection \<Rightarrow> class_decl" where
  "SeekableOperations_members (Specialised c) =
     Class (map (\<lambda>n. public_functions n 1) [''currentPosition'', ''seek'', ''seekFromStart'', ''seekFromCurrent'',
       ''goToStartPosition'']) [crtp_base]"
| "SeekableOperations_members c = Class [] []"

definition AccessibleHandleBase_members :: class_decl where
  "AccessibleHandleBase_members = Class [public_functions ''getHandleRestricted'' 1] []"

definition SocketDeviceBase_members :: class_decl where
  "SocketDeviceBase_members = Class
     (public_functions ''getState'' 1 # map hidden_function [''getError'', ''setLatestError'', ''getHandle'',
        ''getLatestIOError'', ''setHandle'', ''setState'', ''setWorkingAddress'', ''close''])
     [AccessibleHandleBase_members]"

definition NamedPipeDevice_members :: class_decl where
  "NamedPipeDevice_members = Class
     (map (\<lambda>n. public_functions n 1) [''isOpen'', ''setNonBlocking'', ''setAddress'', ''setPathname'',
        ''nonBlocking'', ''pathname'', ''close''] @
      (''openImpl'', replicate 2 \<lparr>md_public = False, md_template = True\<rparr>) #
      map hidden_function [''openPipe'', ''getHandle'']) [AccessibleHandleBase_members]"

fun device_members :: "device_type_name \<Rightarrow> class_decl" where
  "device_members (SocketDevice h a d k) =
     (if class_of (SocketDevice h a d k) = Some empty_class then Class [] []
      else Class [public_functions ''createSocketHandle'' 1, public_template ''assign''] [SocketDeviceBase_members])"
| "device_members (ReadingNamedPipeDevice h) = Class [public_functions ''open'' 3] [NamedPipeDevice_members]"
| "device_members (WritingNamedPipeDevice h) = Class [public_functions ''open'' 3] [NamedPipeDevice_members]"
| "device_members (EmptyDevice h) = Class [hidden_function ''getHandle''] []"
| "device_members (File_device h) =
     (if class_of (File_device h) = Some empty_class then Class [] []
      else Class ([public_functions ''open'' 2] @ map (\<lambda>n. public_functions n 1) [''close'', ''remove'', ''setFileName'',
          ''isOpen'', ''getFileName'', ''getFilePath'', ''getFullPath''] @
        map hidden_function [''getHandle'', ''setDirFilePaths'', ''openFileImpl'']) [AccessibleHandleBase_members])"

text \<open>
  A policy over a device of class \<open>c\<close>; the policies of endpoints are not for devices and add
  nothing.
\<close>

fun policy_members :: "policy \<Rightarrow> device_class \<Rightarrow> class_decl" where
  "policy_members ConnectionPolicy c = ConnectionPolicy_members (connection_code c)"
| "policy_members AcceptorPolicy c = AcceptorPolicy_members (acceptor_code c)"
| "policy_members GenericIOPolicy c = GenericIOPolicy_members (generic_io_code c)"
| "policy_members StreamIOPolicy c =
     (if stream_io_code c = Primary then Class [] [] else StreamIOPolicy_members)"
| "policy_members ResourceStatusPolicy c = ResourceStatusPolicy_members (resource_status_code c)"
| "policy_members SeekableOperations c = SeekableOperations_members (seekable_code c)"
| "policy_members p c = Class [] []"

text \<open>A host is the chain of its policies over the device.\<close>

fun AccessContextHierarchy :: "class_decl \<Rightarrow> class_decl list \<Rightarrow> class_decl" where
  "AccessContextHierarchy client [] = Class [] [client]"
| "AccessContextHierarchy client (p # ps) = Class [] [p, AccessContextHierarchy client ps]"

definition Host_members :: "class_decl \<Rightarrow> class_decl list \<Rightarrow> class_decl" where
  "Host_members client ps =
     Class [public_template ''init'', public_functions ''deinit'' 1] [AccessContextHierarchy client ps]"

definition device_host_members :: "device_type_name \<Rightarrow> policy list \<Rightarrow> class_decl" where
  "device_host_members d ps =
     Host_members (device_members d) (map (\<lambda>p. policy_members p (the (class_of d))) ps)"

definition event_handling_members :: class_decl where
  "event_handling_members = Class
     (map (\<lambda>n. public_functions n 1) [''handleEvent'', ''subscribedToListener'', ''listenerSubscribe'',
        ''listenerUnsubscribe''] @ map hidden_function [''setHandle'', ''resetHandle'', ''getListener'', ''asDerived'']) []"

text \<open>The dispatcher and the role, by whether the endpoint has a storage and its device the members asked for.\<close>

definition dispatcher_members :: "bool \<Rightarrow> class_decl \<Rightarrow> class_decl" where
  "dispatcher_members has_storage device =
     (if has_storage then
        Class (map (\<lambda>n. public_functions n 1) [''registerClientInputCallback'', ''registerClientConnectionCallback'',
          ''registerClientDisconnectionCallback''] @
          map hidden_function [''LocalBufferAvailable'', ''ProcessInputEvent'', ''ProcessDisconnection'',
            ''ProcessClientInput'', ''ProcessClientConnected'', ''ProcessClientDisconnected'',
            ''getClientInputAvailableCB'', ''getLocalBuffer'']) []
      else if has_member ''read'' device then
        Class (map (\<lambda>n. public_functions n 1) [''registerInputCallback'', ''registerDisconnectionCallback''] @
          map hidden_function [''ProcessInputEvent'', ''ProcessDisconnection'', ''asDerived'']) []
      else Class [] [])"

definition client_role_members :: "class_decl \<Rightarrow> class_decl" where
  "client_role_members device =
     (if IsConnectableDeviceT device then
        Class ([public_functions ''connect'' 1, public_functions ''disconnect'' 1, public_functions ''onConnected'' 1,
          public_template ''send''] @ map hidden_function [''sendImpl'', ''ProcessInputEvent'', ''ProcessOutputEvent'',
            ''ProcessHangupEvent'', ''ProcessErrorEvent'', ''ProcessDisconnectionEvent'', ''asDerived'']) []
      else Class (map (\<lambda>n. public_functions n 1) [''connect'', ''disconnect'', ''ProcessInputEvent'',
        ''ProcessOutputEvent'', ''ProcessHangupEvent'', ''ProcessErrorEvent'', ''ProcessDisconnectionEvent'']) [])"

definition server_role_members :: "bool \<Rightarrow> class_decl \<Rightarrow> class_decl" where
  "server_role_members has_storage device =
     (if IsPassiveConnectableDevice device \<and> has_storage then
        Class ([public_functions ''bind'' 1, public_functions ''listen'' 1, public_functions ''accept'' 1,
          public_template ''broadcast'', public_template ''send''] @
          map hidden_function [''sendImpl'', ''ProcessInputEvent'', ''ProcessOutputEvent'', ''ProcessHangupEvent'',
            ''ProcessDisconnectionEvent'', ''ProcessErrorEvent'', ''asDerived'']) []
      else Class [] [])"

definition TransportEndpoint_members :: "class_decl \<Rightarrow> class_decl \<Rightarrow> class_decl" where
  "TransportEndpoint_members dispatcher role =
     Class (map (\<lambda>n. public_functions n 1) [''onInputEvent'', ''onWriteAvailable'', ''onDisconnection'',
         ''onHangupEvent'', ''onErrorEvent'', ''setDevice'', ''getConnectionState''] @
       public_functions ''getDevice'' 2 #
       map hidden_function [''setState'', ''getHandle'', ''getListener'', ''getStorage'', ''onClientConnected'',
         ''onClientDisconnected'', ''onClientInputAvailable''])
       [event_handling_members, dispatcher, role]"


subsection \<open>Hosts\<close>

datatype ('c, 'p) host = Host 'c "'p list"

definition PackHost :: "'c \<Rightarrow> 'p list \<Rightarrow> ('c, 'p) host" where
  "PackHost client ps = Host client ps"

fun UnpackHost :: "('c, 'p) host \<Rightarrow> 'c \<times> 'p list" where
  "UnpackHost (Host client ps) = (client, ps)"

type_synonym device_host = "(device_type_name, policy) host"

definition createDevice :: "nat \<Rightarrow> handler_class \<Rightarrow> policy list \<Rightarrow> device_host" where
  "createDevice tag h ps = Host (Device2Type tag h) ps"

definition createDevice_list :: "nat \<Rightarrow> handler_class \<Rightarrow> policy list \<Rightarrow> device_host" where
  "createDevice_list tag h policies_list = PackHost (Device2Type tag h) policies_list"

subsection \<open>Endpoint types\<close>

datatype listener_type = Epoll_reactor | Other_listener

datatype callback_dispatcher = SerialCallbackDispatcher | Other_dispatcher

datatype key_type = Handle_key handle_type | Other_key

text \<open>
  A transport endpoint by the arguments of its template; a storage by the endpoints it keeps
  and its key, \<open>No_storage\<close> is \<^verbatim>\<open>empty_type\<close>.
\<close>

datatype endpoint_type =
    Transport_endpoint (ep_device: device_host) (ep_event_handling: policy) (ep_dispatcher: policy)
      (ep_role: policy) (ep_listener: listener_type) (ep_storage: storage_type)
      (ep_callback_dispatcher: callback_dispatcher)
and storage_type = No_storage | Storage_of policy "(endpoint_type, policy) host" key_type

type_synonym endpoint_host = "(endpoint_type, policy) host"

datatype device_set = Default_device_set | Device_tags "nat list"

text \<open>What a user hands to the generators; an option is a member that may be missing.\<close>

record client_traits =
  ct_DeviceSet :: device_set
  ct_ResourceHandler :: handler_class
  ct_DevicePolicies :: "policy list"
  ct_ExportPolicies :: "policy list"
  ct_TransportPolicies :: "policy list"
  ct_Listener :: listener_type
  ct_ClientServerRolePolicy :: policy
  ct_EventHandlingPolicy :: "policy option"
  ct_DispatcherPolicy :: "policy option"
  ct_StateChangeCallbackDispatcher :: "callback_dispatcher option"

record server_traits = client_traits +
  st_PeerTraits :: "client_traits option"
  st_EndpointStoragePolicy :: "policy option"
  st_EndpointStorageKey :: "key_type option"

definition generate_transport_endpoint ::
    "device_host \<Rightarrow> policy \<Rightarrow> policy \<Rightarrow> policy \<Rightarrow> listener_type \<Rightarrow> storage_type \<Rightarrow> callback_dispatcher \<Rightarrow>
      policy list \<Rightarrow> endpoint_host" where
  "generate_transport_endpoint d ev disp role l st cd ps =
     PackHost (Transport_endpoint d ev disp role l st cd) (ttl_remove_duplicates ps)"

text \<open>The address type of a tag's factory; other tags have none, and the instantiation fails.\<close>

definition DeviceAddressT :: "nat \<Rightarrow> address_class option" where
  "DeviceAddressT tag =
     (if tag = ipv4_strm_tag \<or> tag = ipv4_dgram_tag then Some IPV4InetSocketAddress
      else if tag = ipv6_strm_tag \<or> tag = ipv6_dgram_tag then Some IPV6InetSocketAddress
      else if tag = unx_strm_tag \<or> tag = unx_dgram_tag then Some Unix_SocketAddress
      else if tag = read_fifo_tag \<or> tag = write_fifo_tag then Some NamedPipeAddress
      else None)"

record device_types =
  dt_device :: device_type_name
  dt_handle :: handle_type
  dt_address :: address_class
  dt_host :: device_host

definition generate_device_types :: "nat \<Rightarrow> 'x client_traits_scheme \<Rightarrow> device_types option" where
  "generate_device_types tag tr =
     (let device = Device2Type tag (ct_ResourceHandler tr)
      in case (Option.bind (class_of device) dc_handle_type, DeviceAddressT tag) of
           (Some handle, Some addr) \<Rightarrow>
             Some \<lparr>dt_device = device, dt_handle = handle, dt_address = addr,
                   dt_host = PackHost device (ttl_remove_duplicates (ct_DevicePolicies tr))\<rparr>
         | _ \<Rightarrow> None)"

record endpoint_policies =
  epo_transport :: "policy list"
  epo_event_handling :: policy
  epo_dispatcher :: policy
  epo_callback_dispatcher :: callback_dispatcher
  epo_role :: policy
  epo_listener :: listener_type

definition generate_endpoint_policies :: "'x client_traits_scheme \<Rightarrow> endpoint_policies" where
  "generate_endpoint_policies tr =
     (let export_policies = intersect (ct_ExportPolicies tr) (ct_DevicePolicies tr)
      in \<lparr>epo_transport = select_if (ttl_is_empty export_policies) (ct_TransportPolicies tr)
                            (ttl_push_back (ct_TransportPolicies tr) (Exporter export_policies)),
          epo_event_handling = member_type_or_default ct_EventHandlingPolicy tr BaseEventHandlingPolicy,
          epo_dispatcher = member_type_or_default ct_DispatcherPolicy tr BaseDispatcherPolicy,
          epo_callback_dispatcher = member_type_or_default ct_StateChangeCallbackDispatcher tr SerialCallbackDispatcher,
          epo_role = ct_ClientServerRolePolicy tr,
          epo_listener = ct_Listener tr\<rparr>)"

definition endpoint_over :: "'x client_traits_scheme \<Rightarrow> device_types \<Rightarrow> storage_type \<Rightarrow> endpoint_host" where
  "endpoint_over tr dt st =
     (let ep = generate_endpoint_policies tr
      in generate_transport_endpoint (dt_host dt) (epo_event_handling ep) (epo_dispatcher ep) (epo_role ep)
           (epo_listener ep) st (epo_callback_dispatcher ep) (epo_transport ep))"

text \<open>
  A server's storage keeps endpoints of the peer's traits, without a storage of their own, by
  default under the peer's handle.
\<close>

definition generate_endpoint_storage :: "nat \<Rightarrow> server_traits \<Rightarrow> storage_type option" where
  "generate_endpoint_storage tag tr =
     (if select_if (has_type st_PeerTraits tr \<and> has_type st_EndpointStoragePolicy tr) True False
      then (case (st_PeerTraits tr, st_EndpointStoragePolicy tr) of
              (Some peer, Some storage_policy) \<Rightarrow>
                map_option (\<lambda>dt. Storage_of storage_policy (endpoint_over peer dt No_storage)
                    (member_type_or_default st_EndpointStorageKey tr (Handle_key (dt_handle dt))))
                  (generate_device_types tag peer)
            | _ \<Rightarrow> None)
      else Some No_storage)"

record transport_types =
  tt_device_tag :: nat
  tt_resource_handler :: handler_class
  tt_device_policies :: "policy list"
  tt_device_types :: device_types
  tt_storage :: storage_type
  tt_endpoint :: endpoint_host

definition transport_traits :: "nat \<Rightarrow> server_traits \<Rightarrow> transport_types option" where
  "transport_traits tag tr =
     (case (generate_device_types tag tr, generate_endpoint_storage tag tr) of
        (Some dt, Some st) \<Rightarrow>
          Some \<lparr>tt_device_tag = tag, tt_resource_handler = ct_ResourceHandler tr,
                tt_device_policies = ct_DevicePolicies tr, tt_device_types = dt, tt_storage = st,
                tt_endpoint = endpoint_over tr dt st\<rparr>
      | _ \<Rightarrow> None)"

subsection \<open>Lists of devices and endpoints\<close>

definition default_tags :: "nat list" where
  "default_tags = [ipv4_strm_tag, ipv4_dgram_tag, ipv6_strm_tag, ipv6_dgram_tag, unx_strm_tag, unx_dgram_tag,
     read_fifo_tag, write_fifo_tag]"

definition device_generator :: "nat \<Rightarrow> handler_class \<Rightarrow> policy list \<Rightarrow> device_host" where
  "device_generator tag h ps = PackHost (Device2Type tag h) ps"

fun generate_device_typelist :: "handler_class \<Rightarrow> policy list \<Rightarrow> device_set \<Rightarrow> device_host list" where
  "generate_device_typelist h ps Default_device_set =
     [PackHost (Device2Type ipv4_strm_tag h) ps, PackHost (Device2Type ipv4_dgram_tag h) ps,
      PackHost (Device2Type ipv6_strm_tag h) ps, PackHost (Device2Type ipv6_dgram_tag h) ps,
      PackHost (Device2Type unx_strm_tag h) ps, PackHost (Device2Type unx_dgram_tag h) ps,
      PackHost (Device2Type read_fifo_tag h) ps, PackHost (Device2Type write_fifo_tag h) ps]"
| "generate_device_typelist h ps (Device_tags tags) = generate_typelist tags (\<lambda>tag. device_generator tag h ps)"

definition endpoint_generator :: "server_traits \<Rightarrow> nat \<Rightarrow> endpoint_host option" where
  "endpoint_generator tr tag = map_option tt_endpoint (transport_traits tag tr)"

text \<open>The list exists when every one of its members does.\<close>

fun all_defined :: "'a option list \<Rightarrow> 'a list option" where
  "all_defined [] = Some []"
| "all_defined (None # xs) = None"
| "all_defined (Some x # xs) = map_option ((#) x) (all_defined xs)"

definition generate_endpoint_typelist :: "server_traits \<Rightarrow> device_set \<Rightarrow> endpoint_host list option" where
  "generate_endpoint_typelist tr s =
     (case s of
        Default_device_set \<Rightarrow>
          all_defined
            [map_option tt_endpoint (transport_traits ipv4_strm_tag tr),
             map_option tt_endpoint (transport_traits ipv4_dgram_tag tr),
             map_option tt_endpoint (transport_traits ipv6_strm_tag tr),
             map_option tt_endpoint (transport_traits ipv6_dgram_tag tr),
             map_option tt_endpoint (transport_traits unx_strm_tag tr),
             map_option tt_endpoint (transport_traits unx_dgram_tag tr),
             map_option tt_endpoint (transport_traits read_fifo_tag tr),
             map_option tt_endpoint (transport_traits write_fifo_tag tr)]
      | Device_tags tags \<Rightarrow> all_defined (generate_typelist tags (endpoint_generator tr)))"

definition endpoint_Device :: "endpoint_host \<Rightarrow> device_host" where
  "endpoint_Device e = ep_device (fst (UnpackHost e))"

definition get_devices_from_endpoint_typelist :: "endpoint_host list \<Rightarrow> device_host list" where
  "get_devices_from_endpoint_typelist ts = map endpoint_Device ts"

text \<open>\<open>None\<close> is \<^verbatim>\<open>empty_type\<close>, which has no device.\<close>

definition type_to_device_tag :: "endpoint_host option \<Rightarrow> nat" where
  "type_to_device_tag t =
     (case t of None \<Rightarrow> undefined_device_tag | Some e \<Rightarrow> Type2DeviceTag (fst (UnpackHost (endpoint_Device e))))"

subsection \<open>Properties\<close>

lemma endpoint_over_device: "endpoint_Device (endpoint_over tr dt st) = dt_host dt"
  by (simp add: endpoint_Device_def endpoint_over_def generate_transport_endpoint_def PackHost_def Let_def)

lemma generate_device_types_host:
  "generate_device_types tag tr = Some dt \<Longrightarrow> fst (UnpackHost (dt_host dt)) = Device2Type tag (ct_ResourceHandler tr)"
  by (auto simp: generate_device_types_def PackHost_def Let_def split: option.splits)

lemma endpoint_tag:
  assumes "endpoint_generator tr tag = Some e"
  shows "type_to_device_tag (Some e) = (if 1 \<le> tag \<and> tag \<le> 8 then tag else undefined_device_tag)"
proof -
  obtain dt st where "generate_device_types tag tr = Some dt" and "e = endpoint_over tr dt st"
    using assms by (auto simp: endpoint_generator_def transport_traits_def split: option.splits)
  then show ?thesis
    by (simp only: type_to_device_tag_def option.case endpoint_over_device generate_device_types_host
        Type2DeviceTag_Device2Type)
qed

lemma all_defined_map:
  "all_defined (map g xs) = Some ts \<longleftrightarrow> list_all2 (\<lambda>x t. g x = Some t) xs ts"
proof (induction xs arbitrary: ts)
  case (Cons x xs)
  then show ?case by (cases "g x") (auto simp: list_all2_Cons1)
qed auto

lemma generate_typelist_map: "generate_typelist vs g = map g vs"
proof -
  have "generate_typelist_helper vs g = map g vs"
    by (induction vs g rule: generate_typelist_helper.induct) (simp_all add: push_front_def)
  then show ?thesis by (simp add: generate_typelist_def)
qed

lemma endpoint_typelist_tags:
  "generate_endpoint_typelist tr (Device_tags tags) = Some ts \<longleftrightarrow>
    list_all2 (\<lambda>tag t. endpoint_generator tr tag = Some t) tags ts"
  by (simp add: generate_endpoint_typelist_def generate_typelist_map all_defined_map)

lemma endpoint_typelist_default:
  "generate_endpoint_typelist tr Default_device_set = generate_endpoint_typelist tr (Device_tags default_tags)"
  by (simp add: generate_endpoint_typelist_def generate_typelist_map default_tags_def endpoint_generator_def)

lemma default_tags_eq: "default_tags = [1, 2, 3, 4, 5, 6, 7, 8]"
  by (simp add: default_tags_def tag_defs)

text \<open>
  What a tag reaches through a list of endpoints: the tag of the list's first member selects that
  member, any other one selects the member at its position, whatever that member's tag.
\<close>

lemma dispatch_by_tags:
  assumes "generate_endpoint_typelist tr (Device_tags (t # tags)) = Some ts" and "1 \<le> t" and "t \<le> 8"
    and "length tags < 100"
  shows "dispatch_mapped ts type_to_device_tag tag f s =
    (if tag = t then f (the (endpoint_generator tr t)) s
     else if 0 < tag \<and> tag \<le> length tags then f (the (endpoint_generator tr (tags ! (tag - 1)))) s else s)"
proof -
  obtain e es where ts: "ts = e # es" and e: "endpoint_generator tr t = Some e"
    and es: "list_all2 (\<lambda>tag t. endpoint_generator tr tag = Some t) tags es"
    using assms(1) by (auto simp: endpoint_typelist_tags list_all2_Cons1)
  then have len: "length es = length tags" by (simp add: list_all2_lengthD)
  have nth: "endpoint_generator tr (tags ! i) = Some (es ! i)" if "i < length tags" for i
    using es that by (simp add: list_all2_conv_all_nth)
  have "type_to_device_tag (Some e) = t"
    using endpoint_tag [OF e] assms(2,3) by simp
  then show ?thesis
    using dispatch_mapped_positional [of e es type_to_device_tag tag f s] assms(4) e
    by (auto simp: ts len nth nth_Cons')
qed

text \<open>
  The dynamic endpoint over the default set of devices reaches the wrong endpoint: the tag of the
  first device selects its endpoint, every following one the endpoint of the device behind it in
  the enumeration, to whose type the object is then cast, and the last one nothing.
\<close>

theorem default_set_dispatch_shifted:
  assumes "generate_endpoint_typelist tr Default_device_set = Some ts"
  shows "dispatch_mapped ts type_to_device_tag tag f s =
    (if tag = ipv4_strm_tag then f (the (endpoint_generator tr ipv4_strm_tag)) s
     else if ipv4_strm_tag < tag \<and> tag < write_fifo_tag then f (the (endpoint_generator tr (tag + 1))) s
     else s)"
proof -
  have list: "generate_endpoint_typelist tr (Device_tags [1, 2, 3, 4, 5, 6, 7, 8]) = Some ts"
    using assms by (simp add: endpoint_typelist_default default_tags_eq)
  have nth: "[2, 3, 4, 5, 6, 7, 8] ! (tag - 1) = tag + 1" if "0 < tag" "tag \<le> 7"
  proof -
    have "tag - 1 < 7" and "tag + 1 = tag - 1 + 2" using that by linarith+
    then show ?thesis
      by (auto simp: less_Suc_eq numeral_nat nth_Cons' split: if_splits)
  qed
  have "dispatch_mapped ts type_to_device_tag tag f s =
      (if tag = 1 then f (the (endpoint_generator tr 1)) s
       else if 0 < tag \<and> tag \<le> 7 then f (the (endpoint_generator tr ([2, 3, 4, 5, 6, 7, 8] ! (tag - 1)))) s else s)"
    using dispatch_by_tags [OF list, of tag f s] by simp
  then show ?thesis
    using nth by (auto simp: tag_defs simp del: nth_Cons_pos)
qed

text \<open>
  A set with one device, as the client's own traits have it, is dispatched rightly: exactly its
  tag reaches its endpoint.
\<close>

theorem single_device_dispatch:
  assumes "generate_endpoint_typelist tr (Device_tags [t]) = Some ts" and "1 \<le> t" and "t \<le> 8"
  shows "dispatch_mapped ts type_to_device_tag tag f s =
    (if tag = t then f (the (endpoint_generator tr t)) s else s)"
  using dispatch_by_tags [OF assms, of tag f s] by simp

text \<open>
  No endpoint exports its device's policies: \<^verbatim>\<open>getDevice\<close> has two overloads, its address cannot
  be taken, and the exporter is the empty primary template over every endpoint, whatever its
  dispatcher and role.
\<close>

theorem exporter_never_active:
  "\<not> ExposesDevice has_Device (TransportEndpoint_members disp role) \<and>
    \<not> ExposesDevice has_Device (Host_members (TransportEndpoint_members disp role) [])"
  by (simp add: ExposesDevice_def has_member_def select_if_def TransportEndpoint_members_def public_functions_def
      Host_members_def public_template_def hidden_function_def numeral_2_eq_2)

subsection \<open>The default traits\<close>

definition default_client_traits :: server_traits where
  "default_client_traits =
     \<lparr>ct_DeviceSet = Device_tags [ipv4_strm_tag], ct_ResourceHandler = UnixResourceHandler_class,
      ct_DevicePolicies = [ConnectionPolicy, ResourceStatusPolicy, GenericIOPolicy],
      ct_ExportPolicies = [ResourceStatusPolicy, SeekableOperations], ct_TransportPolicies = [],
      ct_Listener = Epoll_reactor, ct_ClientServerRolePolicy = ClientCallbackPolicy,
      ct_EventHandlingPolicy = None, ct_DispatcherPolicy = None, ct_StateChangeCallbackDispatcher = None,
      st_PeerTraits = None, st_EndpointStoragePolicy = None, st_EndpointStorageKey = None\<rparr>"

definition default_server_traits :: server_traits where
  "default_server_traits =
     \<lparr>ct_DeviceSet = Default_device_set, ct_ResourceHandler = UnixResourceHandler_class,
      ct_DevicePolicies = [AcceptorPolicy, GenericIOPolicy], ct_ExportPolicies = [], ct_TransportPolicies = [],
      ct_Listener = Epoll_reactor, ct_ClientServerRolePolicy = ServerCallbackPolicy,
      ct_EventHandlingPolicy = None, ct_DispatcherPolicy = None, ct_StateChangeCallbackDispatcher = None,
      st_PeerTraits = Some (client_traits.truncate default_client_traits),
      st_EndpointStoragePolicy = Some AssociativeEndpointStorage,
      st_EndpointStorageKey = Some (Handle_key (hc_handle_type UnixResourceHandler_class))\<rparr>"

theorem default_set_dispatch_shifted_witness:
  "\<exists>ts. generate_endpoint_typelist default_server_traits Default_device_set = Some ts \<and>
    dispatch_mapped ts type_to_device_tag ipv4_dgram_tag (\<lambda>e s. Some e) None =
      endpoint_generator default_server_traits ipv6_strm_tag"
proof -
  have "generate_endpoint_typelist default_server_traits Default_device_set \<noteq> None"
    and e: "endpoint_generator default_server_traits 3 \<noteq> None"
    by code_simp+
  then obtain ts where ts: "generate_endpoint_typelist default_server_traits Default_device_set = Some ts"
    by auto
  with default_set_dispatch_shifted [OF ts, of ipv4_dgram_tag "\<lambda>e s. Some e" None] e show ?thesis
    by (auto simp: tag_defs)
qed

theorem single_device_dispatch_witness:
  "\<exists>ts. generate_endpoint_typelist default_client_traits (ct_DeviceSet default_client_traits) = Some ts \<and>
    dispatch_mapped ts type_to_device_tag ipv4_strm_tag (\<lambda>e s. Some e) None =
      endpoint_generator default_client_traits ipv4_strm_tag"
proof -
  have "generate_endpoint_typelist default_client_traits (Device_tags [ipv4_strm_tag]) \<noteq> None"
    and e: "endpoint_generator default_client_traits ipv4_strm_tag \<noteq> None"
    by code_simp+
  then obtain ts where ts: "generate_endpoint_typelist default_client_traits (Device_tags [ipv4_strm_tag]) = Some ts"
    by auto
  have r: "1 \<le> ipv4_strm_tag" "ipv4_strm_tag \<le> 8" by (simp_all add: tag_defs)
  from ts e show ?thesis
    by (simp add: default_client_traits_def single_device_dispatch [OF ts r] option.expand)
qed

text \<open>
  The roles of the default traits fit every device of the factory: a client's device can be
  connected, read and written, a server's listens and accepts and is written. No device counts as
  able to send, for the overloads of \<^verbatim>\<open>send\<close>, so what an endpoint sends is written.
\<close>

theorem default_roles_fit:
  assumes "1 \<le> tag" and "tag \<le> 8" and "hc_handle_type h = Int_handle"
  shows "let client = device_host_members (Device2Type tag h) [ConnectionPolicy, ResourceStatusPolicy, GenericIOPolicy];
             server = device_host_members (Device2Type tag h) [AcceptorPolicy, GenericIOPolicy]
         in IsConnectableDeviceT client \<and> has_member ''read'' client \<and> IsWritableDeviceT client \<and>
            \<not> IsPassiveConnectableDevice client \<and> IsPassiveConnectableDevice server \<and>
            IsWritableDeviceT server \<and> \<not> IsConnectableDeviceT server \<and>
            \<not> IsSendableDeviceT client \<and> \<not> IsSendableDeviceT server"
proof -
  obtain p where h: "h = \<lparr>hc_handle_type = Int_handle, hc_platform = p\<rparr>"
    using assms(3) by (cases h) simp
  show ?thesis
    unfolding h by (rule tag_cases [OF assms(1,2)]; cases p; simp only:; code_simp)
qed

theorem default_roles_fit_witness:
  "IsConnectableDeviceT (device_host_members ReadFifoDevice [ConnectionPolicy, ResourceStatusPolicy, GenericIOPolicy])"
  using default_roles_fit [of 7 UnixResourceHandler_class]
  by (simp add: ReadFifoDevice_def tag_defs UnixResourceHandler_class_def Let_def)

text \<open>The functions of an endpoint's type, with the policies a host adds to it.\<close>

fun endpoint_class :: "endpoint_host \<Rightarrow> class_decl" where
  "endpoint_class (Host (Transport_endpoint d ev disp role l st cd) ps) =
     (let device = device_host_members (fst (UnpackHost d)) (snd (UnpackHost d));
          has_storage = (st \<noteq> No_storage)
      in Host_members
           (TransportEndpoint_members
              (if disp = BaseDispatcherPolicy then dispatcher_members has_storage device else Class [] [])
              (if role = ClientCallbackPolicy then client_role_members device
               else if role = ServerCallbackPolicy then server_role_members has_storage device else Class [] []))
           (map (\<lambda>p. Class [] []) ps))"

lemma lookup_in_host:
  assumes "n \<noteq> ''init''" and "n \<noteq> ''deinit''"
  shows "lookup_member (Host_members c (map (\<lambda>p. Class [] []) ps)) n = lookup_member c n"
proof -
  have one: "(case filter (\<lambda>ds. ds \<noteq> []) [ds] of [ds] \<Rightarrow> ds | _ \<Rightarrow> []) = ds" for ds :: "member_decl list"
    by simp
  have "lookup_member (AccessContextHierarchy c (map (\<lambda>p. Class [] []) ps)) n = lookup_member c n"
    by (induction ps) simp_all
  with assms show ?thesis
    by (simp add: Host_members_def public_template_def public_functions_def)
qed

lemma lookup_send:
  "lookup_member (TransportEndpoint_members (dispatcher_members s d) role) ''send'' = lookup_member role ''send''"
  "lookup_member (TransportEndpoint_members (Class [] []) role) ''send'' = lookup_member role ''send''"
  by (simp_all add: TransportEndpoint_members_def dispatcher_members_def event_handling_members_def
      public_functions_def hidden_function_def)

lemma send_not_addressable: "\<not> has_member ''send'' (endpoint_class e)"
proof -
  obtain d ev disp role l st cd ps where e: "e = Host (Transport_endpoint d ev disp role l st cd) ps"
    by (metis endpoint_type.exhaust host.exhaust)
  have "\<not> has_member ''send'' (client_role_members c)" and "\<not> has_member ''send'' (server_role_members b c)" for b c
    by (simp_all add: has_member_def client_role_members_def server_role_members_def public_functions_def
        public_template_def hidden_function_def)
  then show ?thesis
    by (simp add: e Let_def has_member_def lookup_in_host lookup_send)
qed

end
