(* ===== verification/DeviceAddresses.thy ===== *)
theory DeviceAddresses
  imports TransportTraits Addresses
begin

text \<open>
  Addresses from a configuration: the address factories of
  TransportInfra/Devices/DeviceAddressFactory.hpp over the configuration book and the socket
  and pipe addresses. \<open>garbage\<close> is what the uninitialised bytes of a fresh host address hold;
  an undefined operation is \<open>None\<close>.
\<close>

subsection \<open>Internet addresses\<close>

definition SERVICE_PARAM :: "string" where
  "SERVICE_PARAM = ''SERVICE''"
definition HOST_PARAM :: "string" where
  "HOST_PARAM = ''HOST''"
definition LOCALHOST_VALUE :: "string" where
  "LOCALHOST_VALUE = ''LOCALHOST''"
definition LOCALHOST_VALUE_LC :: "string" where
  "LOCALHOST_VALUE_LC = ''localhost''"
definition PATHNAME_PARAM :: "string" where
  "PATHNAME_PARAM = ''PATHNAME''"

text \<open>
  The template's body up to the host: \<open>any\<close> and \<open>view\<close> are \<^verbatim>\<open>setAddressAny\<close> and
  \<^verbatim>\<open>setAddress\<close> of the host address's type. The port is read when the host is there, and
  its answer decides whether the address is set.
\<close>

definition configured_network ::
    "(host_address \<Rightarrow> host_address) \<Rightarrow> (string \<Rightarrow> host_address \<Rightarrow> host_address) \<Rightarrow> u8 list \<Rightarrow>
      configuration_book \<Rightarrow> string \<Rightarrow> network_address option" where
  "configured_network any view garbage book sect =
     (case valueFor convert_string sect HOST_PARAM [] book of (host_found, host_str_value) \<Rightarrow>
        if \<not> host_found then None
        else case valueFor (convert_arithmetic 0 65535) sect SERVICE_PARAM 0 book of (port_found, port) \<Rightarrow>
          if \<not> port_found then None
          else Some \<lparr>na_port = word_of_int port,
                     na_host = (if host_str_value = LOCALHOST_VALUE \<or> host_str_value = LOCALHOST_VALUE_LC
                                then any (HostAddress_default garbage)
                                else view host_str_value (HostAddress_default garbage))\<rparr>)"

definition inet_createAddress ::
    "(u8 list \<Rightarrow> string option) \<Rightarrow> (string \<Rightarrow> u8 list option) \<Rightarrow> u8 list \<Rightarrow> configuration_book \<Rightarrow> string \<Rightarrow>
      inet_socket_address" where
  "inet_createAddress ntop pton garbage book sect =
     (let ret_addr = InetSocketAddress_default garbage
      in case configured_network (host_setAddressAny ntop)
                (\<lambda>v. host_setAddress_view pton (takeWhile (\<lambda>c. c \<noteq> NUL) v) v) garbage book sect of
           None \<Rightarrow> ret_addr
         | Some network_addr \<Rightarrow> snd (inet_setAddress network_addr ret_addr))"

definition Inet6SocketAddress_default :: "u8 list \<Rightarrow> inet6_socket_address" where
  "Inet6SocketAddress_default garbage =
     \<lparr>is6_address = \<lparr>na_port = 0, na_host = HostAddress_default garbage\<rparr>, is6_sin6_port = 0,
      is6_sin6_addr = replicate 16 0\<rparr>"

definition inet6_createAddress ::
    "(u8 list \<Rightarrow> string option) \<Rightarrow> (string \<Rightarrow> u8 list option) \<Rightarrow> u8 list \<Rightarrow> configuration_book \<Rightarrow> string \<Rightarrow>
      inet6_socket_address" where
  "inet6_createAddress ntop pton garbage book sect =
     (let ret_addr = Inet6SocketAddress_default garbage
      in case configured_network (host6_setAddressAny ntop)
                (\<lambda>v. host_setAddress_view pton (takeWhile (\<lambda>c. c \<noteq> NUL) v) v) garbage book sect of
           None \<Rightarrow> ret_addr
         | Some network_addr \<Rightarrow> snd (inet6_setAddress network_addr ret_addr))"

subsection \<open>The factories by tag\<close>

definition isIPV4SocketDevice :: "nat \<Rightarrow> bool" where
  "isIPV4SocketDevice tag = (tag = device_tag_of E_IPV4_TCP_SOCKET_DEVICE \<or> tag = device_tag_of E_IPV4_UDP_SOCKET_DEVICE)"

definition isIPV6SocketDevice :: "nat \<Rightarrow> bool" where
  "isIPV6SocketDevice tag = (tag = device_tag_of E_IPV6_TCP_SOCKET_DEVICE \<or> tag = device_tag_of E_IPV6_UDP_SOCKET_DEVICE)"

definition isUnixSocketDevice :: "nat \<Rightarrow> bool" where
  "isUnixSocketDevice tag =
     (tag = device_tag_of E_UNIX_STREAM_SOCKET_DEVICE \<or> tag = device_tag_of E_UNIX_DGRAM_SOCKET_DEVICE)"

definition isNamedPipeDevice :: "nat \<Rightarrow> bool" where
  "isNamedPipeDevice tag = (tag = device_tag_of E_READING_FIFO_DEVICE \<or> tag = device_tag_of E_WRITING_FIFO_DEVICE)"

definition unix_createAddress :: "configuration_book \<Rightarrow> string \<Rightarrow> unix_socket_address option" where
  "unix_createAddress book sect =
     (case valueFor convert_string sect PATHNAME_PARAM [] book of (found, pathname) \<Rightarrow>
        if found then map_option snd (unix_setAddress pathname UnixSocketAddress_default)
        else Some UnixSocketAddress_default)"

definition pipe_createAddress :: "configuration_book \<Rightarrow> string \<Rightarrow> pipe_address" where
  "pipe_createAddress book sect =
     (case valueFor convert_string sect PATHNAME_PARAM [] book of (found, pathname) \<Rightarrow>
        if found then snd (pipe_setAddress pathname []) else [])"

datatype device_address =
    Inet_address inet_socket_address | Inet6_address inet6_socket_address
  | Unix_address unix_socket_address | Pipe_address pipe_address

record resolver =
  rs_ntop4 :: "u8 list \<Rightarrow> string option"
  rs_pton4 :: "string \<Rightarrow> u8 list option"
  rs_ntop6 :: "u8 list \<Rightarrow> string option"
  rs_pton6 :: "string \<Rightarrow> u8 list option"
  rs_garbage4 :: "u8 list"
  rs_garbage6 :: "u8 list"

text \<open>
  The factory of a tag: the outer option is that the tag has one at all, the inner that making
  the address is defined.
\<close>

definition createAddress :: "resolver \<Rightarrow> nat \<Rightarrow> configuration_book \<Rightarrow> string \<Rightarrow> device_address option option" where
  "createAddress rs tag book sect =
     (if isIPV4SocketDevice tag
      then Some (Some (Inet_address (inet_createAddress (rs_ntop4 rs) (rs_pton4 rs) (rs_garbage4 rs) book sect)))
      else if isIPV6SocketDevice tag
      then Some (Some (Inet6_address (inet6_createAddress (rs_ntop6 rs) (rs_pton6 rs) (rs_garbage6 rs) book sect)))
      else if isUnixSocketDevice tag then Some (map_option Unix_address (unix_createAddress book sect))
      else if isNamedPipeDevice tag then Some (Some (Pipe_address (pipe_createAddress book sect)))
      else None)"

fun address_empty :: "device_address \<Rightarrow> bool" where
  "address_empty (Inet_address a) = inet_empty a"
| "address_empty (Inet6_address a) = inet6_empty a"
| "address_empty (Unix_address a) = unix_empty a"
| "address_empty (Pipe_address a) = pipe_address_empty a"

text \<open>Every address type has \<^verbatim>\<open>toString\<close>.\<close>

fun address_toString :: "device_address \<Rightarrow> string" where
  "address_toString (Inet_address a) = inet_toString a"
| "address_toString (Inet6_address a) = network_toString (is6_address a)"
| "address_toString (Unix_address a) = unix_toString a"
| "address_toString (Pipe_address a) = pipe_getAddress a"

definition createAddressStr :: "resolver \<Rightarrow> nat \<Rightarrow> configuration_book \<Rightarrow> string \<Rightarrow> string option option" where
  "createAddressStr rs tag book sect = map_option (map_option address_toString) (createAddress rs tag book sect)"

subsection \<open>Properties\<close>

lemmas address_kind_defs = isIPV4SocketDevice_def isIPV6SocketDevice_def isUnixSocketDevice_def isNamedPipeDevice_def

lemma valueFor_missing: "findValueInTable sect k book = None \<Longrightarrow> valueFor c sect k out book = (False, out)"
  by (simp add: valueFor_def)

lemma valueFor_string: "findValueInTable sect k book = Some v \<Longrightarrow> valueFor convert_string sect k out book = (True, v)"
  by (simp add: valueFor_def convert_string_def)

lemma valueFor_number:
  assumes "findValueInTable sect k book = Some (int_digits v)" and "lo \<le> v" and "v \<le> hi"
  shows "valueFor (convert_arithmetic lo hi) sect k out book = (True, v)"
  using assms from_chars_int_digits [OF assms(2,3)]
  by (simp add: valueFor_def convert_arithmetic_def toArithmetic_into_def)



lemma inet6_setAddress_address: "is6_address (snd (inet6_setAddress n s)) = is6_address s"
  by (simp add: inet6_setAddress_def split: prod.splits)

text \<open>
  An IPv6 device never gets an address from a configuration: \<^verbatim>\<open>setAddress\<close> fills the
  system's structure but not the address the object calls its own, so whatever the section holds
  the address it gives is empty.
\<close>

theorem ipv6_address_always_empty:
  assumes "isIPV6SocketDevice tag"
  shows "\<exists>a. createAddress rs tag book sect = Some (Some a) \<and> address_empty a"
proof -
  have "\<not> isIPV4SocketDevice tag" using assms by (auto simp: address_kind_defs)
  moreover have "is6_address (inet6_createAddress ntop pton g book sect) = \<lparr>na_port = 0, na_host = HostAddress_default g\<rparr>"
    for ntop pton g
    by (cases "configured_network (host6_setAddressAny ntop)
        (\<lambda>v. host_setAddress_view pton (takeWhile (\<lambda>c. c \<noteq> NUL) v) v) g book sect")
      (simp_all add: inet6_createAddress_def inet6_setAddress_address Let_def Inet6SocketAddress_default_def)
  then have "inet6_empty (inet6_createAddress ntop pton g book sect)" for ntop pton g
    by (simp add: inet6_empty_def network_empty_def host_toString_def HostAddress_default_def)
  ultimately show ?thesis
    using assms by (simp add: createAddress_def)
qed

theorem ipv6_address_always_empty_witness:
  "\<exists>a. createAddress \<lparr>rs_ntop4 = \<lambda>b. None, rs_pton4 = \<lambda>s. None, rs_ntop6 = \<lambda>b. Some ''::'',
        rs_pton6 = \<lambda>s. Some (replicate 16 0), rs_garbage4 = [], rs_garbage6 = []\<rparr> ipv6_strm_tag
      \<lparr>file_content = [], reader_stream = None, section_tab = [(''c'', [(''HOST'', ''::1''), (''SERVICE'', ''80'')])]\<rparr>
      ''c'' = Some (Some a) \<and> address_empty a"
  by (rule ipv6_address_always_empty) (simp add: isIPV6SocketDevice_def ipv6_strm_tag_def)

end
