(* ===== verification/DynamicEndpoint.thy ===== *)
theory DynamicEndpoint
  imports DeviceAddresses Connection
begin

text \<open>
  Endpoints whose device is chosen at run time: the adaptors of
  TransportInfra/DynamicTransportEndpointAdaptor.h over the dispatch by tags, the resolution of a
  tag and the connection by configuration of TransportInfra/DeviceTypeSelector.hpp, and the two
  clients (TransportInfra/ConnectorClient.h, AcceptorClient.h) that drive them. Endpoints are
  values of any type \<open>'p\<close> with the operations of their interface on a world \<open>'w\<close>.
\<close>

subsection \<open>The adaptor\<close>

text \<open>
  \<^verbatim>\<open>ITransportEndpoint\<close> and its two derived interfaces; \<open>io_is_client\<close> and \<open>io_is_server\<close> are
  the \<^verbatim>\<open>dynamic_cast\<close>s.
\<close>

record ('p, 'w) interface_ops =
  io_is_client :: "'p \<Rightarrow> bool"
  io_is_server :: "'p \<Rightarrow> bool"
  io_listenerSubscribe :: "events_array \<Rightarrow> 'p \<times> 'w \<Rightarrow> bool \<times> 'p \<times> 'w"
  io_listenerUnsubscribe :: "'p \<times> 'w \<Rightarrow> bool \<times> 'p \<times> 'w"
  io_subscribedToListener :: "'p \<Rightarrow> bool"
  io_getConnectionState :: "'p \<Rightarrow> nat"
  io_onConnected :: "'p \<times> 'w \<Rightarrow> 'p \<times> 'w"
  io_connect :: "string \<Rightarrow> bool \<Rightarrow> 'p \<times> 'w \<Rightarrow> bool \<times> 'p \<times> 'w"
  io_disconnect :: "'p \<times> 'w \<Rightarrow> bool \<times> 'p \<times> 'w"
  io_bind :: "string \<Rightarrow> bool \<Rightarrow> 'p \<times> 'w \<Rightarrow> bool \<times> 'p \<times> 'w"
  io_listen :: "int \<Rightarrow> 'p \<times> 'w \<Rightarrow> bool \<times> 'p \<times> 'w"
  io_accept :: "bool \<Rightarrow> 'p \<times> 'w \<Rightarrow> bool \<times> 'p \<times> 'w"
  io_destroy :: "'p \<Rightarrow> 'w \<Rightarrow> 'w"

record 'p adapter =
  ad_endpoint :: "'p option"
  ad_device_tag :: nat

definition DynamicTransportEndpointAdapter :: "'p option \<Rightarrow> nat \<Rightarrow> 'p adapter" where
  "DynamicTransportEndpointAdapter p_endpoint device_tag = \<lparr>ad_endpoint = p_endpoint, ad_device_tag = device_tag\<rparr>"

definition destroy_endpoint :: "('p, 'w) interface_ops \<Rightarrow> 'p option \<Rightarrow> 'w \<Rightarrow> 'w" where
  "destroy_endpoint io p w = (case p of None \<Rightarrow> w | Some e \<Rightarrow> io_destroy io e w)"

definition adapter_init ::
    "('p, 'w) interface_ops \<Rightarrow> 'p option \<Rightarrow> nat \<Rightarrow> 'p adapter \<times> 'w \<Rightarrow> bool \<times> 'p adapter \<times> 'w" where
  "adapter_init io p_endpoint device_tag st =
     (case st of (a, w) \<Rightarrow>
        (True, a\<lparr>ad_endpoint := p_endpoint, ad_device_tag := device_tag\<rparr>, destroy_endpoint io (ad_endpoint a) w))"

text \<open>An operation on the endpoint, with an answer for an adaptor that has none.\<close>

definition on_endpoint :: "'r \<Rightarrow> ('p \<times> 'w \<Rightarrow> 'r \<times> 'p \<times> 'w) \<Rightarrow> 'p adapter \<times> 'w \<Rightarrow> 'r \<times> 'p adapter \<times> 'w" where
  "on_endpoint none f st =
     (case st of (a, w) \<Rightarrow>
        case ad_endpoint a of
          None \<Rightarrow> (none, a, w)
        | Some p \<Rightarrow> (case f (p, w) of (r, p', w') \<Rightarrow> (r, a\<lparr>ad_endpoint := Some p'\<rparr>, w')))"

text \<open>
  A member called by the tag: \<open>m\<close> describes it over the types of the list, \<open>ts\<close> and \<open>tag_of\<close> are
  the list and the tags of its types. The answer is the variant, \<open>None\<close> its
  \<^verbatim>\<open>monostate\<close>, which it also is without an endpoint.
\<close>

definition adapter_dispatch ::
    "('a, 'r, 'v, 'p \<times> 'w) member_function \<Rightarrow> 'r \<Rightarrow> 'r \<Rightarrow> 'a list \<Rightarrow> ('a option \<Rightarrow> nat) \<Rightarrow>
      'p adapter \<times> 'w \<Rightarrow> ('r \<times> 'v) option \<times> 'p adapter \<times> 'w" where
  "adapter_dispatch m void monostate ts tag_of st =
     on_endpoint None (member_dispatcher_mapped_call m void monostate ts tag_of (ad_device_tag (fst st))) st"

definition adapter_send ::
    "('a, 'r, 'v, 'p \<times> 'w) member_function \<Rightarrow> 'r \<Rightarrow> 'r \<Rightarrow> 'a list \<Rightarrow> ('a option \<Rightarrow> nat) \<Rightarrow>
      'p adapter \<times> 'w \<Rightarrow> ('r \<times> 'v) option \<times> 'p adapter \<times> 'w" where
  "adapter_send m void monostate ts tag_of st = adapter_dispatch m void monostate ts tag_of st"

definition adapter_listenerSubscribe ::
    "('p, 'w) interface_ops \<Rightarrow> events_array \<Rightarrow> 'p adapter \<times> 'w \<Rightarrow> bool \<times> 'p adapter \<times> 'w" where
  "adapter_listenerSubscribe io events st = on_endpoint False (io_listenerSubscribe io events) st"

definition adapter_listenerUnsubscribe :: "('p, 'w) interface_ops \<Rightarrow> 'p adapter \<times> 'w \<Rightarrow> bool \<times> 'p adapter \<times> 'w" where
  "adapter_listenerUnsubscribe io st = on_endpoint False (io_listenerUnsubscribe io) st"

definition adapter_subscribedToListener :: "('p, 'w) interface_ops \<Rightarrow> 'p adapter \<Rightarrow> bool" where
  "adapter_subscribedToListener io a =
     (case ad_endpoint a of None \<Rightarrow> False | Some p \<Rightarrow> io_subscribedToListener io p)"

definition setDeviceTag :: "nat \<Rightarrow> 'p adapter \<Rightarrow> 'p adapter" where
  "setDeviceTag tag a = a\<lparr>ad_device_tag := tag\<rparr>"

text \<open>The state is asked for without a test: \<open>None\<close> is the call through the null pointer.\<close>

definition adapter_getConnectionState :: "('p, 'w) interface_ops \<Rightarrow> 'p adapter \<Rightarrow> nat option" where
  "adapter_getConnectionState io a = map_option (io_getConnectionState io) (ad_endpoint a)"

text \<open>
  The answer of a registration is the member's when it is a \<^verbatim>\<open>bool\<close> (which has to be one of
  the variant's alternatives for the test to compile).
\<close>

definition registerCallback ::
    "('a, 'r, bool, 'p \<times> 'w) member_function \<Rightarrow> 'r \<Rightarrow> 'r \<Rightarrow> 'r \<Rightarrow> 'a list \<Rightarrow> ('a option \<Rightarrow> nat) \<Rightarrow>
      'p adapter \<times> 'w \<Rightarrow> bool \<times> 'p adapter \<times> 'w" where
  "registerCallback m bool_type void monostate ts tag_of st =
     (case adapter_dispatch m void monostate ts tag_of st of (ret, st') \<Rightarrow>
        (case ret of None \<Rightarrow> False | Some (t, v) \<Rightarrow> t = bool_type \<and> v, st'))"

subsection \<open>The client's and the server's adaptor\<close>

definition checked_init ::
    "('p \<Rightarrow> bool) \<Rightarrow> ('p, 'w) interface_ops \<Rightarrow> 'p option \<Rightarrow> nat \<Rightarrow> 'p adapter \<times> 'w \<Rightarrow> bool \<times> 'p adapter \<times> 'w" where
  "checked_init is_kind io p_endpoint device_tag st =
     (case p_endpoint of
        None \<Rightarrow> (False, st)
      | Some p \<Rightarrow> if \<not> is_kind p then (case st of (a, w) \<Rightarrow> (False, a, io_destroy io p w))
                  else adapter_init io p_endpoint device_tag st)"

definition client_adapter_init ::
    "('p, 'w) interface_ops \<Rightarrow> 'p option \<Rightarrow> nat \<Rightarrow> 'p adapter \<times> 'w \<Rightarrow> bool \<times> 'p adapter \<times> 'w" where
  "client_adapter_init io p_endpoint device_tag st = checked_init (io_is_client io) io p_endpoint device_tag st"

definition client_adapter_onConnected :: "('p, 'w) interface_ops \<Rightarrow> 'p adapter \<times> 'w \<Rightarrow> 'p adapter \<times> 'w" where
  "client_adapter_onConnected io st = snd (on_endpoint () (\<lambda>s. ((), io_onConnected io s)) st)"

definition client_adapter_connect ::
    "('p, 'w) interface_ops \<Rightarrow> string \<Rightarrow> bool \<Rightarrow> 'p adapter \<times> 'w \<Rightarrow> bool \<times> 'p adapter \<times> 'w" where
  "client_adapter_connect io addr non_blocking st = on_endpoint False (io_connect io addr non_blocking) st"

definition client_adapter_connect_address ::
    "('a, 'r, 'v, 'p \<times> 'w) member_function \<Rightarrow> 'r \<Rightarrow> 'r \<Rightarrow> 'a list \<Rightarrow> ('a option \<Rightarrow> nat) \<Rightarrow>
      'p adapter \<times> 'w \<Rightarrow> ('r \<times> 'v) option \<times> 'p adapter \<times> 'w" where
  "client_adapter_connect_address m void monostate ts tag_of st = adapter_dispatch m void monostate ts tag_of st"

definition client_adapter_disconnect :: "('p, 'w) interface_ops \<Rightarrow> 'p adapter \<times> 'w \<Rightarrow> 'p adapter \<times> 'w" where
  "client_adapter_disconnect io st = snd (on_endpoint False (io_disconnect io) st)"

definition server_adapter_init ::
    "('p, 'w) interface_ops \<Rightarrow> 'p option \<Rightarrow> nat \<Rightarrow> 'p adapter \<times> 'w \<Rightarrow> bool \<times> 'p adapter \<times> 'w" where
  "server_adapter_init io p_endpoint device_tag st = checked_init (io_is_server io) io p_endpoint device_tag st"

text \<open>The registrations are calls by tag of the member of the same name, described by \<open>m\<close>.\<close>

definition adapter_registerInputCallback ::
    "('a, 'r, bool, 'p \<times> 'w) member_function \<Rightarrow> 'r \<Rightarrow> 'r \<Rightarrow> 'r \<Rightarrow> 'a list \<Rightarrow> ('a option \<Rightarrow> nat) \<Rightarrow>
      'p adapter \<times> 'w \<Rightarrow> bool \<times> 'p adapter \<times> 'w" where
  "adapter_registerInputCallback m bool_type void monostate ts tag_of st = registerCallback m bool_type void monostate ts tag_of st"

definition adapter_registerDisconnectionCallback ::
    "('a, 'r, bool, 'p \<times> 'w) member_function \<Rightarrow> 'r \<Rightarrow> 'r \<Rightarrow> 'r \<Rightarrow> 'a list \<Rightarrow> ('a option \<Rightarrow> nat) \<Rightarrow>
      'p adapter \<times> 'w \<Rightarrow> bool \<times> 'p adapter \<times> 'w" where
  "adapter_registerDisconnectionCallback m bool_type void monostate ts tag_of st =
     registerCallback m bool_type void monostate ts tag_of st"

definition adapter_registerClientInputCallback ::
    "('a, 'r, bool, 'p \<times> 'w) member_function \<Rightarrow> 'r \<Rightarrow> 'r \<Rightarrow> 'r \<Rightarrow> 'a list \<Rightarrow> ('a option \<Rightarrow> nat) \<Rightarrow>
      'p adapter \<times> 'w \<Rightarrow> bool \<times> 'p adapter \<times> 'w" where
  "adapter_registerClientInputCallback m bool_type void monostate ts tag_of st =
     registerCallback m bool_type void monostate ts tag_of st"

definition adapter_registerClientConnectionCallback ::
    "('a, 'r, bool, 'p \<times> 'w) member_function \<Rightarrow> 'r \<Rightarrow> 'r \<Rightarrow> 'r \<Rightarrow> 'a list \<Rightarrow> ('a option \<Rightarrow> nat) \<Rightarrow>
      'p adapter \<times> 'w \<Rightarrow> bool \<times> 'p adapter \<times> 'w" where
  "adapter_registerClientConnectionCallback m bool_type void monostate ts tag_of st =
     registerCallback m bool_type void monostate ts tag_of st"

definition adapter_registerClientDisconnectionCallback ::
    "('a, 'r, bool, 'p \<times> 'w) member_function \<Rightarrow> 'r \<Rightarrow> 'r \<Rightarrow> 'r \<Rightarrow> 'a list \<Rightarrow> ('a option \<Rightarrow> nat) \<Rightarrow>
      'p adapter \<times> 'w \<Rightarrow> bool \<times> 'p adapter \<times> 'w" where
  "adapter_registerClientDisconnectionCallback m bool_type void monostate ts tag_of st =
     registerCallback m bool_type void monostate ts tag_of st"

definition server_adapter_bind ::
    "('p, 'w) interface_ops \<Rightarrow> string \<Rightarrow> bool \<Rightarrow> 'p adapter \<times> 'w \<Rightarrow> bool \<times> 'p adapter \<times> 'w" where
  "server_adapter_bind io addr reusable st = on_endpoint False (io_bind io addr reusable) st"

definition server_adapter_bind_address ::
    "('a, 'r, 'v, 'p \<times> 'w) member_function \<Rightarrow> 'r \<Rightarrow> 'r \<Rightarrow> 'a list \<Rightarrow> ('a option \<Rightarrow> nat) \<Rightarrow>
      'p adapter \<times> 'w \<Rightarrow> ('r \<times> 'v) option \<times> 'p adapter \<times> 'w" where
  "server_adapter_bind_address m void monostate ts tag_of st = adapter_dispatch m void monostate ts tag_of st"

definition server_adapter_listen :: "('p, 'w) interface_ops \<Rightarrow> int \<Rightarrow> 'p adapter \<times> 'w \<Rightarrow> bool \<times> 'p adapter \<times> 'w" where
  "server_adapter_listen io backlog st = on_endpoint False (io_listen io backlog) st"

definition server_adapter_accept :: "('p, 'w) interface_ops \<Rightarrow> bool \<Rightarrow> 'p adapter \<times> 'w \<Rightarrow> bool \<times> 'p adapter \<times> 'w" where
  "server_adapter_accept io non_blocking st = on_endpoint False (io_accept io non_blocking) st"

subsection \<open>Resolving a tag\<close>

text \<open>
  The traits of a tag are the tag; \<open>callable\<close> acts on a state. The helper is instantiated for the
  positions of the list one after the other; the set without a tag has no definition.
\<close>

function forward_helper ::
    "nat list \<Rightarrow> nat \<Rightarrow> nat \<Rightarrow> (nat \<Rightarrow> 's \<Rightarrow> 'r \<times> 's) \<Rightarrow> 'r \<Rightarrow> 's \<Rightarrow> 'r \<times> 's" where
  "forward_helper tags index device_tag callable default_value s =
     (let static_tag = nat (ntl_nth_element 0 (map int tags) index)
      in if static_tag = device_tag then callable static_tag s
         else if index < last_index tags then forward_helper tags (index + 1) device_tag callable default_value s
         else (default_value, s))"
  by pat_completeness auto
termination
  by (relation "measure (\<lambda>(tags, index, tag, c, d, s). last_index tags - index)") auto

declare forward_helper.simps [simp del]

definition forward :: "nat list \<Rightarrow> nat \<Rightarrow> (nat \<Rightarrow> 's \<Rightarrow> 'r \<times> 's) \<Rightarrow> 'r \<Rightarrow> 's \<Rightarrow> 'r \<times> 's" where
  "forward tags device_tag callable default_value s = forward_helper tags 0 device_tag callable default_value s"

definition forward_default :: "nat \<Rightarrow> (nat \<Rightarrow> 's \<Rightarrow> 'r \<times> 's) \<Rightarrow> 'r \<Rightarrow> 's \<Rightarrow> 'r \<times> 's" where
  "forward_default device_tag callable default_value s =
     (if device_tag = ipv4_strm_tag then callable ipv4_strm_tag s
      else if device_tag = ipv4_dgram_tag then callable ipv4_dgram_tag s
      else if device_tag = ipv6_strm_tag then callable ipv6_strm_tag s
      else if device_tag = ipv6_dgram_tag then callable ipv6_dgram_tag s
      else if device_tag = unx_strm_tag then callable unx_strm_tag s
      else if device_tag = unx_dgram_tag then callable unx_dgram_tag s
      else if device_tag = read_fifo_tag then callable read_fifo_tag s
      else if device_tag = write_fifo_tag then callable write_fifo_tag s
      else (default_value, s))"

fun forward_set :: "device_set \<Rightarrow> nat \<Rightarrow> (nat \<Rightarrow> 's \<Rightarrow> 'r \<times> 's) \<Rightarrow> 'r \<Rightarrow> 's \<Rightarrow> 'r \<times> 's" where
  "forward_set Default_device_set = forward_default"
| "forward_set (Device_tags tags) = forward tags"

subsection \<open>Connecting by configuration\<close>

text \<open>
  \<open>setup\<close> is the initialiser's \<^verbatim>\<open>setup\<close> for the traits of a tag. An undefined address makes
  the whole call undefined: the answer is an option, and only of tags that have a factory.
\<close>

definition forwardConnect ::
    "resolver \<Rightarrow> (nat \<Rightarrow> device_address \<Rightarrow> 's \<Rightarrow> bool \<times> 's) \<Rightarrow> configuration_book \<Rightarrow> string \<Rightarrow> nat \<Rightarrow> 's \<Rightarrow>
      bool option \<times> 's" where
  "forwardConnect rs setup book sect tag s =
     (case createAddress rs tag book sect of
        Some (Some dev_addr) \<Rightarrow>
          if address_empty dev_addr then (Some False, s)
          else (case setup tag dev_addr s of (ok, s') \<Rightarrow> (Some ok, s'))
      | _ \<Rightarrow> (None, s))"

definition connect_static ::
    "resolver \<Rightarrow> (nat \<Rightarrow> device_address \<Rightarrow> 's \<Rightarrow> bool \<times> 's) \<Rightarrow> nat \<Rightarrow> configuration_book \<Rightarrow> string \<Rightarrow> 's \<Rightarrow>
      bool option \<times> 's" where
  "connect_static rs setup tag book sect s = forwardConnect rs setup book sect tag s"

definition connect_dynamic ::
    "resolver \<Rightarrow> (nat \<Rightarrow> device_address \<Rightarrow> 's \<Rightarrow> bool \<times> 's) \<Rightarrow> device_set \<Rightarrow> nat \<Rightarrow> configuration_book \<Rightarrow> string \<Rightarrow>
      's \<Rightarrow> bool option \<times> 's" where
  "connect_dynamic rs setup devices device_tag book sect s =
     forward_set devices device_tag (forwardConnect rs setup book sect) (Some False) s"

text \<open>The older selector: it does not test the address, and knows one device.\<close>

definition selector_forwardConnect ::
    "resolver \<Rightarrow> (nat \<Rightarrow> device_address \<Rightarrow> 's \<Rightarrow> bool \<times> 's) \<Rightarrow> configuration_book \<Rightarrow> string \<Rightarrow> nat \<Rightarrow> 's \<Rightarrow>
      bool option \<times> 's" where
  "selector_forwardConnect rs setup book sect tag s =
     (case createAddress rs tag book sect of
        Some (Some address) \<Rightarrow> (case setup tag address s of (ok, s') \<Rightarrow> (Some ok, s'))
      | _ \<Rightarrow> (None, s))"

definition DeviceTypeSelector_connect ::
    "resolver \<Rightarrow> (nat \<Rightarrow> device_address \<Rightarrow> 's \<Rightarrow> bool \<times> 's) \<Rightarrow> nat \<Rightarrow> configuration_book \<Rightarrow> string \<Rightarrow> 's \<Rightarrow>
      bool option \<times> 's" where
  "DeviceTypeSelector_connect rs setup device_tag book sect s =
     (if device_tag = ipv4_strm_tag then selector_forwardConnect rs setup book sect ipv4_strm_tag s
      else (Some False, s))"

subsection \<open>The clients\<close>

text \<open>
  The completion callback of the dynamic endpoint; \<open>reg_input\<close> and \<open>reg_disconnection\<close> are the
  adaptor's registrations of the client's two callbacks.
\<close>

definition dynamic_completion_cb ::
    "('p, 'w) interface_ops \<Rightarrow> ('p adapter \<times> 'w \<Rightarrow> bool \<times> 'p adapter \<times> 'w) \<Rightarrow>
      ('p adapter \<times> 'w \<Rightarrow> bool \<times> 'p adapter \<times> 'w) \<Rightarrow> nat \<Rightarrow> 'p option \<Rightarrow> 'p adapter \<times> 'w \<Rightarrow> 'p adapter \<times> 'w" where
  "dynamic_completion_cb io reg_input reg_disconnection device_type p_endpoint st =
     (case p_endpoint of
        None \<Rightarrow> st
      | Some p \<Rightarrow>
          (case client_adapter_init io p_endpoint device_type st of (ok, st1) \<Rightarrow>
             if \<not> ok then st1 else snd (reg_disconnection (snd (reg_input st1)))))"

record client_application =
  ca_config_file :: string
  ca_device_type :: nat

definition opened_book :: "(string \<Rightarrow> file_stream option) \<Rightarrow> string \<Rightarrow> (bool \<times> configuration_book) option" where
  "opened_book files name =
     book_init \<lparr>file_content = [], reader_stream = files name, section_tab = []\<rparr>"

text \<open>\<open>None\<close> is undefined behaviour, of the parser or of the address.\<close>

definition ConnectorClient_init ::
    "(string \<Rightarrow> file_stream option) \<Rightarrow> resolver \<Rightarrow> (nat \<Rightarrow> device_address \<Rightarrow> 's \<Rightarrow> bool \<times> 's) \<Rightarrow> server_traits \<Rightarrow>
      string \<Rightarrow> client_application \<times> 's \<Rightarrow> (client_application \<times> 's) option" where
  "ConnectorClient_init files rs setup traits sect st =
     (case st of (cl, s) \<Rightarrow>
        case opened_book files (ca_config_file cl) of
          None \<Rightarrow> None
        | Some (ready, book) \<Rightarrow>
            if \<not> ready then Some (cl, s)
            else let device_type = device_tag_of (getDeviceType book sect);
                     cl1 = cl\<lparr>ca_device_type := device_type\<rparr>
                 in if device_tag_of E_UNDEFINED_DEVICE = device_type then Some (cl1, s)
                    else case connect_dynamic rs setup (ct_DeviceSet traits) device_type book sect s of
                           (None, s') \<Rightarrow> None | (Some r, s') \<Rightarrow> Some (cl1, s'))"

definition AcceptorClient_init ::
    "(string \<Rightarrow> file_stream option) \<Rightarrow> resolver \<Rightarrow> (nat \<Rightarrow> device_address \<Rightarrow> 's \<Rightarrow> bool \<times> 's) \<Rightarrow>
      string \<Rightarrow> client_application \<times> 's \<Rightarrow> (client_application \<times> 's) option" where
  "AcceptorClient_init files rs setup sect st =
     (case st of (cl, s) \<Rightarrow>
        case opened_book files (ca_config_file cl) of
          None \<Rightarrow> None
        | Some (ready, book) \<Rightarrow>
            if \<not> ready then Some (cl, s)
            else let device_type = device_tag_of (getDeviceType book sect);
                     cl1 = cl\<lparr>ca_device_type := device_type\<rparr>
                 in if device_tag_of E_UNDEFINED_DEVICE = device_type then Some (cl1, s)
                    else case connect_static rs setup read_fifo_tag book sect s of
                           (None, s') \<Rightarrow> None | (Some r, s') \<Rightarrow> Some (cl1, s'))"

subsection \<open>Properties\<close>

lemma ntl_nth_tags: "n < length tags \<Longrightarrow> nat (ntl_nth_element 0 (map int tags) n) = tags ! n"
proof (induction tags arbitrary: n)
  case (Cons t tags)
  then show ?case by (cases n) (simp_all add: ntl_front_def)
qed simp

lemma forward_helper_selects:
  assumes "length tags < 2 ^ 64"
  shows "n < length tags \<Longrightarrow>
    forward_helper tags n tag callable d s = (if tag \<in> set (drop n tags) then callable tag s else (d, s))"
proof (induction "length tags - n" arbitrary: n)
  case 0
  then show ?case by simp
next
  case (Suc k)
  then have "tags \<noteq> []" by auto
  note L = last_index_eq [OF this assms]
  have drop: "drop n tags = tags ! n # drop (Suc n) tags"
    using Suc.prems by (simp add: Cons_nth_drop_Suc)
  show ?case
  proof (cases "Suc n < length tags")
    case True
    with Suc.hyps have "k = length tags - Suc n" by simp
    from Suc.hyps(1) [OF this True] True Suc.prems show ?thesis
      by (subst forward_helper.simps) (auto simp: Let_def ntl_nth_tags L drop)
  next
    case False
    with Suc.prems show ?thesis
      by (subst forward_helper.simps) (auto simp: Let_def ntl_nth_tags L drop)
  qed
qed

lemma forward_selects:
  assumes "tags \<noteq> []" and "length tags < 2 ^ 64"
  shows "forward tags tag callable d s = (if tag \<in> set tags then callable tag s else (d, s))"
  using forward_helper_selects [OF assms(2), of 0 tag callable d s] assms(1) by (simp add: forward_def)

lemma forward_default_eq: "forward_default tag callable d s = (if tag \<in> set default_tags then callable tag s else (d, s))"
  unfolding forward_default_def default_tags_eq tag_defs by simp

text \<open>
  C26: A run-time tag is resolved to the traits of exactly that tag when the set has it and to the
  default value otherwise, wherever it stands; the switch for the default set does what the
  recursion does on the list of its eight tags.
\<close>

theorem tag_resolution:
  assumes "tags \<noteq> []" and "length tags < 2 ^ 64"
  shows "forward_set (Device_tags tags) tag callable d s = (if tag \<in> set tags then callable tag s else (d, s)) \<and>
    forward_set Default_device_set tag callable d s = forward_set (Device_tags default_tags) tag callable d s"
proof -
  have "default_tags \<noteq> []" and "length default_tags < 2 ^ 64"
    by (simp_all add: default_tags_eq)
  from forward_selects [OF this, of tag callable d s] forward_selects [OF assms, of tag callable d s]
  show ?thesis by (simp add: forward_default_eq)
qed

theorem tag_resolution_witness:
  "forward_set (Device_tags [7, 1, 5]) 5 (\<lambda>t s. (t, s)) 0 () = (5, ())"
  using tag_resolution [of "[7, 1, 5]" 5 "\<lambda>t s. (t, s)" 0 "()"] by simp

text \<open>A run of \<^verbatim>\<open>init\<close>s, the endpoints it is given and the one an adaptor has.\<close>

fun adapter_inits ::
    "('p \<Rightarrow> bool) \<Rightarrow> ('p, 'w) interface_ops \<Rightarrow> ('p option \<times> nat) list \<Rightarrow> 'p adapter \<times> 'w \<Rightarrow> 'p adapter \<times> 'w" where
  "adapter_inits is_kind io [] st = st"
| "adapter_inits is_kind io ((p, tag) # ps) st = adapter_inits is_kind io ps (snd (checked_init is_kind io p tag st))"

fun handed_over :: "('p option \<times> nat) list \<Rightarrow> 'p list" where
  "handed_over [] = []"
| "handed_over ((None, tag) # ps) = handed_over ps"
| "handed_over ((Some p, tag) # ps) = p # handed_over ps"

fun held :: "'p adapter \<Rightarrow> 'p list" where
  "held a = (case ad_endpoint a of None \<Rightarrow> [] | Some p \<Rightarrow> [p])"

lemma adapter_inits_owned:
  assumes "\<And>p w. io_destroy io p w = w @ [p]"
  shows "case adapter_inits is_kind io ps (a, w) of (a', w') \<Rightarrow>
    mset w' + mset (held a') = mset w + mset (held a) + mset (handed_over ps) \<and>
    (list_all is_kind (held a) \<longrightarrow> list_all is_kind (held a'))"
proof (induction ps arbitrary: a w)
  case (Cons q ps)
  obtain p tag where q: "q = (p, tag)" by (cases q)
  define st where "st = checked_init is_kind io p tag (a, w)"
  obtain ok a1 w1 where st: "st = (ok, a1, w1)" by (cases st)
  have "mset w1 + mset (held a1) = mset w + mset (held a) + mset (handed_over [q]) \<and>
      (list_all is_kind (held a) \<longrightarrow> list_all is_kind (held a1))"
    using st unfolding st_def q
    by (cases p; cases "is_kind (the p)"; cases "ad_endpoint a")
      (auto simp: checked_init_def adapter_init_def destroy_endpoint_def assms)
  moreover have "handed_over (q # ps) = handed_over [q] @ handed_over ps"
    by (cases p) (simp_all add: q)
  ultimately show ?case
    using Cons.IH [where a = a1 and w = w1] st unfolding st_def q by (auto simp: ac_simps)
qed simp

text \<open>
  C27: Ownership: an adaptor destroys every endpoint that was ever handed to it exactly once, those it
  refuses at once, those it replaces with the next one and the last one at its own end.
\<close>

theorem adapter_owns_endpoints:
  assumes "\<And>p w. io_destroy io p w = w @ [p]"
    and "adapter_inits is_kind io ps (DynamicTransportEndpointAdapter None tag, w) = (a, w')"
  shows "mset (destroy_endpoint io (ad_endpoint a) w') = mset w + mset (handed_over ps) \<and>
    (\<forall>p. ad_endpoint a = Some p \<longrightarrow> is_kind p)"
  using adapter_inits_owned [where io = io and is_kind = is_kind and ps = ps and w = w
      and a = "DynamicTransportEndpointAdapter None tag", OF assms(1)] assms
  by (auto simp: DynamicTransportEndpointAdapter_def destroy_endpoint_def split: option.splits)

text \<open>An interface over numbered endpoints that notes what is destroyed, for the examples.\<close>

definition log_ops :: "(nat, nat list) interface_ops" where
  "log_ops = \<lparr>io_is_client = \<lambda>p. even p, io_is_server = \<lambda>p. odd p, io_listenerSubscribe = \<lambda>es s. (True, s),
     io_listenerUnsubscribe = \<lambda>s. (True, s), io_subscribedToListener = \<lambda>p. False, io_getConnectionState = \<lambda>p. 0,
     io_onConnected = \<lambda>s. s, io_connect = \<lambda>a nb s. (True, s), io_disconnect = \<lambda>s. (True, s),
     io_bind = \<lambda>a r s. (True, s), io_listen = \<lambda>n s. (True, s), io_accept = \<lambda>nb s. (False, s),
     io_destroy = \<lambda>p w. w @ [p]\<rparr>"

theorem adapter_owns_endpoints_witness:
  "\<exists>a w'. adapter_inits even log_ops [(Some 2, 1), (Some 3, 1), (None, 1), (Some 4, 1)]
      (DynamicTransportEndpointAdapter None 0, []) = (a, w') \<and>
    mset (destroy_endpoint log_ops (ad_endpoint a) w') = {#2, 3, 4#}"
proof -
  obtain a w' where i: "adapter_inits even log_ops [(Some 2, 1), (Some 3, 1), (None, 1), (Some 4, 1)]
      (DynamicTransportEndpointAdapter None 0, []) = (a, w')"
    by (cases "adapter_inits even log_ops [(Some 2, 1), (Some 3, 1), (None, 1), (Some 4, 1)]
      (DynamicTransportEndpointAdapter None 0, [])")
  from adapter_owns_endpoints [OF _ i] i show ?thesis by (auto simp: log_ops_def)
qed

lemma dispatch_mapped_cases:
  "dispatch_mapped ts tag_of tag f s = s \<or> (\<exists>t. dispatch_mapped ts tag_of tag f s = f t s)"
proof -
  have "dispatch_helper ts n tag f s = s \<or> (\<exists>t. dispatch_helper ts n tag f s = f t s)" for n
  proof (induction "last_index ts - n" arbitrary: n)
    case 0
    then show ?case by (subst (1 2) dispatch_helper.simps) (auto split: option.splits)
  next
    case (Suc k)
    from Suc.hyps(2) have "k = last_index ts - Suc n" by simp
    from Suc.hyps(1) [OF this] show ?case
      by (subst (1 2) dispatch_helper.simps) (auto split: option.splits)
  qed
  then show ?thesis
    by (auto simp: dispatch_mapped_def dispatch_helper_mapped_def Let_def split: option.splits)
qed

text \<open>
  What the dynamic endpoint's \<^verbatim>\<open>send\<close> answers is never the number of characters sent: no
  endpoint's \<^verbatim>\<open>send\<close> can be addressed, so its return type is not an alternative of the
  variant, which holds \<^verbatim>\<open>monostate\<close> whether the data was sent or not.
\<close>

theorem dynamic_send_answers_nothing:
  assumes "addressable m = (\<lambda>e. has_member ''send'' (endpoint_class e))" and "\<And>e. returns m e \<noteq> monostate"
  shows "fst (adapter_send m void monostate ts tag_of st) = None"
proof -
  have "tl_filter (addressable m) ts True = []"
    by (simp add: tl_filter_eq assms(1) send_not_addressable)
  then have "\<not> contains_container (Inr (return_variant m void monostate ts)) (returns m e)" for e
    using assms(2) [of e]
    by (simp add: contains_container_def return_variant_def to_variant_def push_front_def
        return_types_from_def erase_eq)
  then have sel: "fst (select_overload m (return_variant m void monostate ts) e (None, s)) = None" for e s
    by (simp add: select_overload_def split: prod.splits)
  have "fst (member_dispatcher_mapped_call m void monostate ts tag_of tag s) = None" for tag s
    using dispatch_mapped_cases [of ts tag_of tag "select_overload m (return_variant m void monostate ts)" "(None, s)"]
    by (auto simp: member_dispatcher_mapped_call_def sel)
  then show ?thesis
    by (simp add: adapter_send_def adapter_dispatch_def on_endpoint_def split: prod.splits option.splits)
      (metis fst_conv)
qed

theorem dynamic_send_answers_nothing_witness:
  "fst (adapter_send \<lparr>addressable = \<lambda>e. has_member ''send'' (endpoint_class e), invocable = \<lambda>e. True,
      returns = \<lambda>e. ''ssize_t'', invoke = \<lambda>e s. (5 :: int, s)\<rparr> ''void'' ''monostate''
      [the (endpoint_generator default_client_traits ipv4_strm_tag)] type_to_device_tag
      (DynamicTransportEndpointAdapter (Some (2 :: nat)) ipv4_strm_tag, ())) = None"
  by (rule dynamic_send_answers_nothing) simp_all

lemma address_of_ipv4_strm:
  "createAddress rs ipv4_strm_tag book sect =
    Some (Some (Inet_address (inet_createAddress (rs_ntop4 rs) (rs_pton4 rs) (rs_garbage4 rs) book sect)))"
  by (simp add: createAddress_def address_kind_defs tag_defs)

lemma address_of_read_fifo: "createAddress rs read_fifo_tag book sect = Some (Some (Pipe_address (pipe_createAddress book sect)))"
  by (simp add: createAddress_def address_kind_defs tag_defs)

text \<open>A file system with one configuration, its stream socket and its pipe, for the examples.\<close>

definition example_files :: "string \<Rightarrow> file_stream option" where
  "example_files name =
     (if name = ''client.cfg'' then
        Some \<lparr>stream_rest = render
          [(''net'', [(''DEVICE_TYPE'', ''socket''), (''SOCKET_DOMAIN'', ''ipv4''), (''SOCKET_TYPE'', ''stream''),
                     (''HOST'', ''10.0.0.7''), (''SERVICE'', ''80'')]),
           (''pipe'', [(''DEVICE_TYPE'', ''pipe''), (''PROFILE'', ''read''), (''PATHNAME'', ''/tmp/p'')])],
          stream_seekable = True\<rparr>
      else None)"

definition example_book :: configuration_book where
  "example_book = snd (the (opened_book example_files ''client.cfg''))"

definition example_resolver :: resolver where
  "example_resolver = \<lparr>rs_ntop4 = example_ntop, rs_pton4 = \<lambda>t. Some [10, 0, 0, 7], rs_ntop6 = \<lambda>b. None,
     rs_pton6 = \<lambda>t. None, rs_garbage4 = [0, 0, 0, 0], rs_garbage6 = []\<rparr>"

lemma example_book_opens: "opened_book example_files ''client.cfg'' = Some (True, example_book)"
proof -
  have "map_option fst (opened_book example_files ''client.cfg'') = Some True" by code_simp
  then show ?thesis by (cases "opened_book example_files ''client.cfg''") (auto simp: example_book_def)
qed

text \<open>
  C28: With its default traits the connector's client sets up one connection, of an IPv4 stream
  socket to the configured address, exactly when the configuration names that device and gives
  an address; any other device is noted and nothing is connected.
\<close>

theorem connector_client_connects:
  assumes "opened_book files (ca_config_file cl) = Some (True, book)"
    and "addr = inet_createAddress (rs_ntop4 rs) (rs_pton4 rs) (rs_garbage4 rs) book sect"
  shows "ConnectorClient_init files rs setup default_client_traits sect (cl, s) =
    Some (cl\<lparr>ca_device_type := device_tag_of (getDeviceType book sect)\<rparr>,
      if getDeviceType book sect = E_IPV4_TCP_SOCKET_DEVICE \<and> \<not> inet_empty addr
      then snd (setup ipv4_strm_tag (Inet_address addr) s) else s)"
proof -
  have "connect_dynamic rs setup (ct_DeviceSet default_client_traits) tag book sect s =
      (if tag = ipv4_strm_tag then forwardConnect rs setup book sect ipv4_strm_tag s else (Some False, s))" for tag
    using forward_selects [of "[ipv4_strm_tag]" tag "forwardConnect rs setup book sect" "Some False" s]
    by (auto simp: connect_dynamic_def default_client_traits_def)
  moreover have "forwardConnect rs setup book sect ipv4_strm_tag s =
      (if inet_empty addr then (Some False, s)
       else (Some (fst (setup ipv4_strm_tag (Inet_address addr) s)), snd (setup ipv4_strm_tag (Inet_address addr) s)))"
    by (simp add: forwardConnect_def address_of_ipv4_strm assms(2) split: prod.splits)
  ultimately show ?thesis
    by (cases "getDeviceType book sect") (simp_all add: ConnectorClient_init_def assms(1) Let_def tag_defs)
qed

theorem connector_client_connects_witness:
  "\<exists>address. ConnectorClient_init example_files example_resolver (\<lambda>tag a s. (True, (tag, a) # s)) default_client_traits
    ''net'' (\<lparr>ca_config_file = ''client.cfg'', ca_device_type = 0\<rparr>, []) =
    Some (\<lparr>ca_config_file = ''client.cfg'', ca_device_type = ipv4_strm_tag\<rparr>, [(ipv4_strm_tag, Inet_address address)])"
proof -
  let ?cl = "\<lparr>ca_config_file = ''client.cfg'', ca_device_type = 0\<rparr>"
  have o: "opened_book example_files (ca_config_file ?cl) = Some (True, example_book)"
    by (simp add: example_book_opens)
  have "getDeviceType example_book ''net'' = E_IPV4_TCP_SOCKET_DEVICE"
    and "\<not> inet_empty (inet_createAddress (rs_ntop4 example_resolver) (rs_pton4 example_resolver)
      (rs_garbage4 example_resolver) example_book ''net'')"
    by code_simp+
  with connector_client_connects [OF o refl, of example_resolver "\<lambda>tag a s. (True, (tag, a) # s)" "''net''" "[]"]
  show ?thesis by (simp add: tag_defs)
qed

text \<open>
  The acceptor's client serves a reading pipe whichever device its configuration names, as long
  as it names one: the tag is fixed when the program is compiled.
\<close>

theorem acceptor_client_serves_pipe:
  assumes "opened_book files (ca_config_file cl) = Some (True, book)"
    and "getDeviceType book sect \<noteq> E_UNDEFINED_DEVICE"
  shows "AcceptorClient_init files rs setup sect (cl, s) =
    Some (cl\<lparr>ca_device_type := device_tag_of (getDeviceType book sect)\<rparr>,
      if pipe_createAddress book sect = [] then s
      else snd (setup read_fifo_tag (Pipe_address (pipe_createAddress book sect)) s))"
proof -
  have "connect_static rs setup read_fifo_tag book sect s =
      (if pipe_createAddress book sect = [] then (Some False, s)
       else (Some (fst (setup read_fifo_tag (Pipe_address (pipe_createAddress book sect)) s)),
             snd (setup read_fifo_tag (Pipe_address (pipe_createAddress book sect)) s)))"
    by (simp add: connect_static_def forwardConnect_def address_of_read_fifo pipe_address_empty_def split: prod.splits)
  with assms show ?thesis
    by (cases "getDeviceType book sect") (simp_all add: AcceptorClient_init_def Let_def)
qed

theorem acceptor_client_serves_pipe_witness:
  "AcceptorClient_init example_files example_resolver (\<lambda>tag a s. (True, (tag, a) # s)) ''pipe''
    (\<lparr>ca_config_file = ''client.cfg'', ca_device_type = 0\<rparr>, []) =
    Some (\<lparr>ca_config_file = ''client.cfg'', ca_device_type = write_fifo_tag\<rparr>, [(read_fifo_tag, Pipe_address ''/tmp/p'')])"
proof -
  let ?cl = "\<lparr>ca_config_file = ''client.cfg'', ca_device_type = 0\<rparr>"
  have o: "opened_book example_files (ca_config_file ?cl) = Some (True, example_book)"
    by (simp add: example_book_opens)
  have d: "getDeviceType example_book ''pipe'' = E_WRITING_FIFO_DEVICE"
    and "pipe_createAddress example_book ''pipe'' = ''/tmp/p''"
    by code_simp+
  with acceptor_client_serves_pipe [OF o, of "''pipe''" example_resolver "\<lambda>tag a s. (True, (tag, a) # s)" "[]"]
  show ?thesis by (simp add: tag_defs)
qed

end
