(* ===== verification/MovedReactors.thy ===== *)
theory MovedReactors
  imports Reactor SharedState
begin

text \<open>
  Moving reactors and demultiplexers: the move operations of Reactor/Reactor.hpp and
  Reactor/EpollDemultiplexer.h with the mutexes of all the objects they touch. Objects live in
  stores indexed by their address; a queue, a table of subscribers and a table of handles has the
  mutex and the assignment operators of the shared containers. \<open>None\<close> is a call that does not
  return, because it waits for a mutex nobody will release or ends the program.
\<close>

subsection \<open>The demultiplexer\<close>

text \<open>\<open>do_queue\<close> is the address the reference \<^verbatim>\<open>m_consumer_queue\<close> is bound to.\<close>

record demux_object =
  do_epoll_fd :: fd
  do_wait_timeout_ms :: u32
  do_monitoring_ended :: bool
  do_locked :: bool
  do_queue :: nat
  do_handle_id_map :: "(fd, u64) table shared"

record 'k move_kernel =
  mk_epoll_create :: "nat \<Rightarrow> 'k \<Rightarrow> fd \<times> 'k"
  mk_close :: "fd \<Rightarrow> 'k \<Rightarrow> 'k"
  mk_dup :: "fd \<Rightarrow> 'k \<Rightarrow> fd \<times> 'k"

record ('k, 'h) reactor_store =
  rs_demux :: "nat \<Rightarrow> demux_object"
  rs_queue :: "nat \<Rightarrow> event_notification queue shared"
  rs_subscribers :: "nat \<Rightarrow> (u64, subscriber_ctx) table shared"
  rs_handlers :: "nat \<Rightarrow> (u64, 'h handler_entry) table"
  rs_locked :: "nat \<Rightarrow> bool"
  rs_threads :: "nat \<Rightarrow> bool \<times> bool"
  rs_running :: "nat \<Rightarrow> bool"
  rs_kernel :: 'k

text \<open>
  Assigning the reference assigns the queue it is bound to. \<open>rest\<close> is what the moved-from table
  of handles holds.
\<close>

definition demux_move_assign ::
    "'k move_kernel \<Rightarrow> (fd, u64) table \<Rightarrow> nat \<Rightarrow> nat \<Rightarrow> ('k, 'h) reactor_store \<Rightarrow> ('k, 'h) reactor_store option" where
  "demux_move_assign K rest this other st =
     (let d = rs_demux st this; o' = rs_demux st other
      in if this = other then Some st
         else if do_locked d \<or> do_locked o' then None
         else case mk_dup K (do_epoll_fd o') (mk_close K (do_epoll_fd d) (rs_kernel st)) of (new_fd, k) \<Rightarrow>
           Option.bind (copy_assign (do_queue d) (do_queue o') (rs_queue st)) (\<lambda>queues.
           Option.bind (move_assign rest this other (\<lambda>a. do_handle_id_map (rs_demux st a))) (\<lambda>maps.
             Some (st\<lparr>rs_kernel := k, rs_queue := queues,
                      rs_demux := (rs_demux st)
                        (this := d\<lparr>do_epoll_fd := new_fd, do_wait_timeout_ms := do_wait_timeout_ms o',
                                   do_monitoring_ended := do_monitoring_ended o', do_locked := True,
                                   do_handle_id_map := maps this\<rparr>,
                         other := o'\<lparr>do_locked := True, do_handle_id_map := maps other\<rparr>)\<rparr>))))"

text \<open>A member function of a demultiplexer under its mutex, of either kind.\<close>

definition demux_with_lock ::
    "(demux_object \<Rightarrow> 'r \<times> demux_object) \<Rightarrow> nat \<Rightarrow> ('k, 'h) reactor_store \<Rightarrow> ('r \<times> ('k, 'h) reactor_store) option" where
  "demux_with_lock f a st =
     (if do_locked (rs_demux st a) then None
      else case f (rs_demux st a) of (r, d) \<Rightarrow> Some (r, st\<lparr>rs_demux := (rs_demux st)(a := d)\<rparr>))"

definition getTimeoutMs :: "nat \<Rightarrow> ('k, 'h) reactor_store \<Rightarrow> (u32 \<times> ('k, 'h) reactor_store) option" where
  "getTimeoutMs a st = demux_with_lock (\<lambda>d. (do_wait_timeout_ms d, d)) a st"

subsection \<open>The reactor\<close>

text \<open>
  The members the two move operations assign, in their order. Assigning to a thread that can be
  joined ends the program; the moved-from thread object is empty. A moved-from hash map is empty.
\<close>

definition move_members ::
    "'k move_kernel \<Rightarrow> (u64, subscriber_ctx) table \<Rightarrow> event_notification queue \<Rightarrow> (fd, u64) table \<Rightarrow>
      nat \<Rightarrow> nat \<Rightarrow> ('k, 'h) reactor_store \<Rightarrow> ('k, 'h) reactor_store option" where
  "move_members K rest_subs rest_queue rest_map this other st =
     (if fst (rs_threads st this) \<or> snd (rs_threads st this) then None
      else let st1 = st\<lparr>rs_threads := (rs_threads st)(this := rs_threads st other, other := (False, False))\<rparr>
      in Option.bind (move_assign rest_subs this other (rs_subscribers st1)) (\<lambda>subs.
         let st2 = st1\<lparr>rs_subscribers := subs,
                       rs_handlers := (rs_handlers st1)(this := rs_handlers st1 other, other := [])\<rparr>
         in Option.bind (move_assign rest_queue this other (rs_queue st2)) (\<lambda>queues.
              demux_move_assign K rest_map this other (st2\<lparr>rs_queue := queues\<rparr>))))"

text \<open>A new reactor at an address, its demultiplexer bound to its own queue.\<close>

definition construct_reactor ::
    "'k move_kernel \<Rightarrow> nat \<Rightarrow> ('k, 'h) reactor_store \<Rightarrow> ('k, 'h) reactor_store" where
  "construct_reactor K this st =
     (case mk_epoll_create K EPOLL_SIZE (rs_kernel st) of (e, k) \<Rightarrow>
        st\<lparr>rs_kernel := k,
           rs_demux := (rs_demux st)(this :=
             \<lparr>do_epoll_fd = e, do_wait_timeout_ms = EPOLL_WAIT_TIMEOUT_MS, do_monitoring_ended = False,
              do_locked = False, do_queue = this, do_handle_id_map = fresh_shared []\<rparr>),
           rs_queue := (rs_queue st)(this := fresh_shared []),
           rs_subscribers := (rs_subscribers st)(this := fresh_shared []),
           rs_handlers := (rs_handlers st)(this := []), rs_locked := (rs_locked st)(this := False),
           rs_threads := (rs_threads st)(this := (False, False)), rs_running := (rs_running st)(this := False)\<rparr>)"

definition reactor_move_construct ::
    "'k move_kernel \<Rightarrow> (u64, subscriber_ctx) table \<Rightarrow> event_notification queue \<Rightarrow> (fd, u64) table \<Rightarrow>
      nat \<Rightarrow> nat \<Rightarrow> ('k, 'h) reactor_store \<Rightarrow> ('k, 'h) reactor_store option" where
  "reactor_move_construct K rest_subs rest_queue rest_map this other st =
     (let st1 = construct_reactor K this st
      in if rs_locked st1 other then None
         else move_members K rest_subs rest_queue rest_map this other st1)"

definition reactor_move_assign ::
    "'k move_kernel \<Rightarrow> (u64, subscriber_ctx) table \<Rightarrow> event_notification queue \<Rightarrow> (fd, u64) table \<Rightarrow>
      nat \<Rightarrow> nat \<Rightarrow> ('k, 'h) reactor_store \<Rightarrow> ('k, 'h) reactor_store option" where
  "reactor_move_assign K rest_subs rest_queue rest_map this other st =
     (if this = other then Some st
      else if rs_locked st this \<or> rs_locked st other then None
      else move_members K rest_subs rest_queue rest_map this other
             (st\<lparr>rs_locked := (rs_locked st)(this := True, other := True)\<rparr>))"

text \<open>The destructor of a demultiplexer closes its epoll descriptor.\<close>

definition demux_destroy :: "'k move_kernel \<Rightarrow> nat \<Rightarrow> ('k, 'h) reactor_store \<Rightarrow> ('k, 'h) reactor_store" where
  "demux_destroy K a st = st\<lparr>rs_kernel := mk_close K (do_epoll_fd (rs_demux st a)) (rs_kernel st)\<rparr>"

subsection \<open>Properties\<close>

lemma copy_assign_locked: "locked (st i) \<Longrightarrow> i \<noteq> j \<Longrightarrow> copy_assign i j st = None"
  by (simp add: copy_assign_def)

lemma demux_move_needs_queues:
  assumes "do_queue (rs_demux st this) = this" and "do_queue (rs_demux st other) = other"
    and "locked (rs_queue st this)" and "this \<noteq> other"
  shows "demux_move_assign K rest this other st = None"
  using assms by (simp add: demux_move_assign_def Let_def copy_assign_locked split: prod.splits)

lemma move_members_diverges:
  assumes "do_queue (rs_demux st this) = this" and "do_queue (rs_demux st other) = other" and "this \<noteq> other"
  shows "move_members K rest_subs rest_queue rest_map this other st = None"
proof -
  show ?thesis
  proof (cases "move_assign rest_queue this other (rs_queue st)")
    case None
    then show ?thesis by (simp add: move_members_def Let_def bind_eq_None_conv)
  next
    case (Some queues)
    have "demux_move_assign K rest_map this other (st'\<lparr>rs_queue := queues\<rparr>) = None"
      if "rs_demux st' = rs_demux st" for st' :: "('a, 'b) reactor_store"
      using that assms move_assign_locks [OF Some assms(3)] by (intro demux_move_needs_queues) simp_all
    with Some show ?thesis by (auto simp: move_members_def Let_def bind_eq_None_conv)
  qed
qed

text \<open>
  C40: No reactor can be moved: the assignment of the queues leaves both their mutexes locked, and the
  demultiplexer's assignment, which follows it, assigns through its reference the same two queues
  and waits for them for ever. Nothing is assumed of the two reactors but that the demultiplexer
  of the moved one is bound to its own queue, as its constructor leaves it.
\<close>

theorem reactor_move_never_returns:
  assumes "do_queue (rs_demux st other) = other" and "this \<noteq> other"
  shows "reactor_move_construct K rest_subs rest_queue rest_map this other st = None \<and>
    (do_queue (rs_demux st this) = this \<longrightarrow>
       reactor_move_assign K rest_subs rest_queue rest_map this other st = None)"
  using assms
  by (simp add: reactor_move_construct_def reactor_move_assign_def construct_reactor_def Let_def
      move_members_diverges split: prod.splits)

text \<open>A kernel that numbers its descriptors, for the examples.\<close>

definition counting_kernel :: "nat move_kernel" where
  "counting_kernel = \<lparr>mk_epoll_create = \<lambda>n k. (int k, Suc k), mk_close = \<lambda>h k. k, mk_dup = \<lambda>h k. (int k, Suc k)\<rparr>"

definition empty_store :: "(nat, string) reactor_store" where
  "empty_store =
     \<lparr>rs_demux = \<lambda>a. \<lparr>do_epoll_fd = - 1, do_wait_timeout_ms = 0, do_monitoring_ended = True, do_locked = False,
        do_queue = a, do_handle_id_map = fresh_shared []\<rparr>,
      rs_queue = \<lambda>a. fresh_shared [], rs_subscribers = \<lambda>a. fresh_shared [], rs_handlers = \<lambda>a. [],
      rs_locked = \<lambda>a. False, rs_threads = \<lambda>a. (False, False), rs_running = \<lambda>a. False, rs_kernel = 3\<rparr>"

theorem reactor_move_never_returns_witness:
  "reactor_move_construct counting_kernel [] [] [] 1 0 (construct_reactor counting_kernel 0 empty_store) = None \<and>
   reactor_move_assign counting_kernel [] [] [] 1 0
     (construct_reactor counting_kernel 1 (construct_reactor counting_kernel 0 empty_store)) = None"
proof -
  let ?a = "construct_reactor counting_kernel 0 empty_store"
  have "do_queue (rs_demux ?a 0) = 0"
    and "do_queue (rs_demux (construct_reactor counting_kernel 1 ?a) 0) = 0"
    and "do_queue (rs_demux (construct_reactor counting_kernel 1 ?a) 1) = 1"
    by (simp_all add: construct_reactor_def counting_kernel_def empty_store_def)
  then show ?thesis
    using reactor_move_never_returns [of ?a 0 1 counting_kernel "[]" "[]" "[]"]
      reactor_move_never_returns [of "construct_reactor counting_kernel 1 ?a" 0 1 counting_kernel "[]" "[]" "[]"]
    by simp
qed

text \<open>
  A demultiplexer can be moved when both are bound to one queue, and then its epoll descriptor is
  a duplicate and its table the other's; but its mutex, the other's and both tables' stay locked,
  so every later call on either of them waits for ever.
\<close>

theorem moved_demux_blocks:
  assumes "demux_move_assign K rest this other st = Some st'" and "this \<noteq> other"
    and "do_queue (rs_demux st this) = do_queue (rs_demux st other)"
  shows "content (do_handle_id_map (rs_demux st' this)) = content (do_handle_id_map (rs_demux st other)) \<and>
    do_epoll_fd (rs_demux st' this) =
      fst (mk_dup K (do_epoll_fd (rs_demux st other)) (mk_close K (do_epoll_fd (rs_demux st this)) (rs_kernel st))) \<and>
    rs_queue st' = rs_queue st \<and>
    (\<forall>a \<in> {this, other}. demux_with_lock f a st' = None \<and> with_lock g (do_handle_id_map (rs_demux st' a)) = None)"
proof -
  have q: "copy_assign (do_queue (rs_demux st this)) (do_queue (rs_demux st other)) (rs_queue st) = Some (rs_queue st)"
    using assms(3) by (simp add: copy_assign_def)
  obtain maps where m: "move_assign rest this other (\<lambda>a. do_handle_id_map (rs_demux st a)) = Some maps"
    using assms(1,2) q by (auto simp: demux_move_assign_def Let_def bind_eq_Some_conv split: if_splits prod.splits)
  have "locked (maps this)" "locked (maps other)"
    and "content (maps this) = content (do_handle_id_map (rs_demux st other))"
    using m assms(2) by (auto simp: move_assign_def split: if_splits)
  then show ?thesis
    using assms(1,2) q m
    by (auto simp: demux_move_assign_def Let_def demux_with_lock_def with_lock_blocked split: if_splits prod.splits)
qed

theorem moved_demux_blocks_witness:
  "\<exists>st'. demux_move_assign counting_kernel [] 1 0 (empty_store\<lparr>rs_demux := (\<lambda>a. rs_demux empty_store 0)\<rparr>) = Some st' \<and>
    getTimeoutMs 1 st' = None \<and> getTimeoutMs 0 st' = None"
proof -
  let ?st = "empty_store\<lparr>rs_demux := (\<lambda>a. rs_demux empty_store 0)\<rparr>"
  obtain st' where st': "demux_move_assign counting_kernel [] 1 0 ?st = Some st'"
    by (simp add: demux_move_assign_def empty_store_def counting_kernel_def copy_assign_def move_assign_def fresh_shared_def)
  from moved_demux_blocks [OF st', of "\<lambda>d. (do_wait_timeout_ms d, d)" "\<lambda>m. ((), m)"] st' show ?thesis
    by (simp add: getTimeoutMs_def)
qed

end
