(* ===== verification/OlderConnector.thy ===== *)
theory OlderConnector
  imports Connection
begin

text \<open>
  Setting up a connection with the older \<^verbatim>\<open>Connector\<close> of TransportInfra/Connector.hpp, which
  does by itself what its successor shares with the acceptor in a base class. Its handling of
  events is in Connection.
\<close>

definition old_postConnectionAction :: "('p, 'w) endpoint_ops \<Rightarrow> 'p \<Rightarrow> 'w \<Rightarrow> 'p \<times> 'w" where
  "old_postConnectionAction eo p w =
     (case eo_onConnected eo p w of (p1, w1) \<Rightarrow>
        snd (eo_listenerSubscribe eo p1 (event_getArray [E_HANDLE_EVENT_IN]) w1))"

definition old_subscribe ::
    "('p, 'w) endpoint_ops \<Rightarrow> 'w listener \<Rightarrow> ('p, 'w) completion \<Rightarrow> 'p \<Rightarrow> ('p, 'w) initialiser \<Rightarrow>
      bool \<times> ('p, 'w) initialiser" where
  "old_subscribe eo l cb p st =
     (case st of (subs, w) \<Rightarrow>
        let subscribed_events = event_getArray [E_HANDLE_EVENT_OUT]; h = eo_handle eo p w
        in case l_subscribe l subscribed_events h w of (sid, w1) \<Rightarrow>
             if NULL_ID \<noteq> sid
             then (True, (AList.update sid \<lparr>es_wrapped_endpoint = Some p, es_completion_callback = cb\<rparr> subs, w1))
             else (False, (subs, eo_destroy eo p w1)))"

definition old_connect ::
    "('p, 'w) endpoint_ops \<Rightarrow> 'w listener \<Rightarrow> ('p, 'w) completion \<Rightarrow> 'p \<Rightarrow> ('p, 'w) initialiser \<Rightarrow>
      bool \<times> ('p, 'w) initialiser" where
  "old_connect eo l cb p st =
     (case st of (subs, w) \<Rightarrow>
        case eo_connect eo p True w of (connected, p1, w1) \<Rightarrow>
          if connected then old_subscribe eo l cb p1 (subs, w1) else (False, (subs, eo_destroy eo p1 w1)))"

text \<open>The endpoint of a failed connection dies when \<^verbatim>\<open>connect\<close> returns, after the callback.\<close>

definition old_connect_fifo ::
    "('p, 'w) endpoint_ops \<Rightarrow> ('p, 'w) completion \<Rightarrow> 'p \<Rightarrow> ('p, 'w) initialiser \<Rightarrow> bool \<times> ('p, 'w) initialiser" where
  "old_connect_fifo eo cb p st =
     (case st of (subs, w) \<Rightarrow>
        case eo_connect eo p True w of (connected, p1, w1) \<Rightarrow>
          if connected
          then (case old_postConnectionAction eo p1 w1 of (p2, w2) \<Rightarrow> (True, (subs, cb (Some p2) w2)))
          else (False, (subs, eo_destroy eo p1 (cb None w1))))"

definition old_setup ::
    "('p, 'w) endpoint_ops \<Rightarrow> 'w listener \<Rightarrow> bool \<Rightarrow> ('p, 'w) completion \<Rightarrow> 'p \<Rightarrow> ('p, 'w) initialiser \<Rightarrow>
      bool \<times> ('p, 'w) initialiser" where
  "old_setup eo l is_pipe cb p st = (if is_pipe then old_connect_fifo eo cb p st else old_connect eo l cb p st)"

text \<open>
  A client's services from beginning to end: it is set up, and then the events come. The older
  connector and its successor do the same to the table, the endpoint, the listener and the
  callback, event by event, as long as none of the events is one that neither acts on.
\<close>

fun old_events ::
    "('p, 'w) endpoint_ops \<Rightarrow> 'w listener \<Rightarrow> (u64 \<times> handle_event) list \<Rightarrow> ('p, 'w) initialiser \<Rightarrow>
      ('p, 'w) initialiser option" where
  "old_events eo l [] st = Some st"
| "old_events eo l ((sid, e) # es) st =
     Option.bind (old_connector_handleEvent eo l sid e st) (\<lambda>(r, st'). old_events eo l es st')"

fun new_events ::
    "('p, 'w) endpoint_ops \<Rightarrow> 'w listener \<Rightarrow> (u64 \<times> handle_event) list \<Rightarrow> ('p, 'w) initialiser \<Rightarrow>
      ('p, 'w) initialiser option" where
  "new_events eo l [] st = Some st"
| "new_events eo l ((sid, e) # es) st =
     Option.bind (connector_handleEvent eo l sid e st) (\<lambda>(r, st'). new_events eo l es st')"

lemma old_setup_eq: "old_setup eo l is_pipe cb p st = connector_setupImpl eo l is_pipe cb p st"
  by (auto simp: old_setup_def connector_setupImpl_def old_connect_def connector_connect_def
      old_subscribe_def base_subscribe_def old_connect_fifo_def connector_connect_fifo_def
      old_postConnectionAction_def connector_postConnectionAction_def Let_def split: prod.splits)

definition all_wrapped :: "('p, 'w) initialiser \<Rightarrow> bool" where
  "all_wrapped st = list_all (\<lambda>(sid, sub). es_wrapped_endpoint sub \<noteq> None) (fst st)"

lemma all_wrapped_lookup: "all_wrapped st \<Longrightarrow> map_of (fst st) sid = Some sub \<Longrightarrow> \<exists>p. es_wrapped_endpoint sub = Some p"
  by (auto simp: all_wrapped_def list_all_iff dest!: map_of_SomeD)

lemma all_wrapped_delete: "all_wrapped (subs, w) \<Longrightarrow> all_wrapped (AList.delete sid subs, w')"
  by (auto simp: all_wrapped_def list_all_iff AList.delete_eq)

lemma event_states_agree:
  assumes "\<And>p sid w. eo_destroy eo p (snd (l_unsubscribe l sid w)) = snd (l_unsubscribe l sid (eo_destroy eo p w))"
    and "all_wrapped st"
  shows "map_option snd (old_connector_handleEvent eo l sid event st) =
      map_option snd (connector_handleEvent eo l sid event st)"
    and "connector_handleEvent eo l sid event st = Some (r, st') \<Longrightarrow> all_wrapped st'"
proof -
  obtain subs w where st: "st = (subs, w)" by (cases st)
  show "map_option snd (old_connector_handleEvent eo l sid event st) =
      map_option snd (connector_handleEvent eo l sid event st)"
  proof (cases "map_of subs sid")
    case None
    then show ?thesis
      by (simp add: st old_connector_handleEvent_def connector_handleEvent_def base_handleEvent_def)
  next
    case (Some sub)
    then obtain p where p: "es_wrapped_endpoint sub = Some p"
      using all_wrapped_lookup [OF assms(2)] by (auto simp: st)
    show ?thesis
      using Some p assms(1)
      by (cases event)
        (auto simp: st old_connector_handleEvent_def connector_handleEvent_def base_handleEvent_def
          connector_event_failure base_handleConnectionSuccess_def base_handleConnectionFailure_def
          old_handleConnectionSuccess_def old_handleConnectionFailure_def completeClientService_def Let_def
          connector_postConnectionAction_def flag_and_def flag_or_def enum_flag_def delete_update_same
          split: prod.splits)
  qed
  show "all_wrapped st'" if h: "connector_handleEvent eo l sid event st = Some (r, st')"
  proof (cases "map_of subs sid")
    case None
    with h assms(2) show ?thesis
      by (auto simp: st connector_handleEvent_def base_handleEvent_def)
  next
    case (Some sub)
    then obtain p where p: "es_wrapped_endpoint sub = Some p"
      using all_wrapped_lookup [OF assms(2)] by (auto simp: st)
    show ?thesis
      using h Some p assms(2) all_wrapped_delete [of subs w sid]
      by (cases event)
        (auto simp: st connector_handleEvent_def base_handleEvent_def connector_event_failure
          base_handleConnectionSuccess_def base_handleConnectionFailure_def completeClientService_def Let_def
          connector_postConnectionAction_def delete_update_same split: prod.splits)
  qed
qed


text \<open>The endpoints of the examples before, whose end leaves no trace.\<close>

definition quiet_ops :: "(nat, string list) endpoint_ops" where
  "quiet_ops = example_ops\<lparr>eo_destroy := \<lambda>p w. w\<rparr>"


end
