(* ===== verification/ServedClients.thy ===== *)
theory ServedClients
  imports ReactorProperties
begin

text \<open>
  What a client of a reactor over the epoll demultiplexer may rely on: a descriptor that is
  subscribed for a client and nobody else is served by it, one notification of one event is one
  call of the client, and whatever happens under one key leaves the other keys' subscribers and
  handlers alone. ReactorClients and ReactorServers rest on it.
\<close>

subsection \<open>Single events\<close>

lemma handle_events_skips_null:
  "handle_events run sid c events r = handle_events run sid c (filter (\<lambda>e. e \<noteq> E_HANDLE_EVENT_NULL) events) r"
proof (induction events arbitrary: r)
  case (Cons e es)
  then show ?case by (cases "call_handler run sid e r") auto
qed simp

lemma sorted_events_single:
  assumes "\<And>es. mset (sorter es) = mset es" and "\<And>e. m AND epoll_bit e \<noteq> 0 \<longleftrightarrow> e = ev"
  shows "filter (\<lambda>e. e \<noteq> E_HANDLE_EVENT_NULL) (sorter (getEventsFromMask m)) = [ev]"
proof -
  define xs where "xs = filter (\<lambda>e. e \<noteq> E_HANDLE_EVENT_NULL) (sorter (getEventsFromMask m))"
  have m: "mset xs = mset (filter (\<lambda>e. e \<noteq> E_HANDLE_EVENT_NULL) (getEventsFromMask m))"
    by (simp add: xs_def assms(1))
  have "distinct xs" and "set xs = {ev}"
    using mset_eq_imp_distinct_iff [OF m] mset_eq_setD [OF m] getEventsFromMask_events [of m] assms(2) by auto
  then have "xs = [ev]"
    by (cases xs; cases "tl xs") auto
  then show ?thesis by (simp add: xs_def)
qed

subsection \<open>A served descriptor\<close>

text \<open>The descriptor \<open>h\<close> is subscribed to the events for a client that nobody is calling.\<close>

definition served ::
    "(fd \<Rightarrow> u64) \<Rightarrow> fd \<Rightarrow> 'h \<Rightarrow> events_array \<Rightarrow> ('k demultiplexer, 'h, 'w) reactor \<Rightarrow> bool" where
  "served hash h cl events r \<longleftrightarrow> epoll_inv hash r \<and>
     map_of (subscribers_table r) (hash h) =
       Some ((SubscriberContext (getEventsMask events) (hash h) h)\<lparr>registered_to_monitor := True\<rparr>) \<and>
     map_of (handlers_table r) (hash h) = Some \<lparr>client = Some cl, in_progress = False\<rparr>"

lemma not_stale_registered: "\<not> stale ((SubscriberContext m sid h)\<lparr>registered_to_monitor := True\<rparr>)"
  by (simp add: stale_def SubscriberContext_def)

lemma inv_app [simp]: "epoll_inv hash (r\<lparr>app := a\<rparr>) = epoll_inv hash r"
  by (rule reactor_inv_cong) simp_all

lemma served_app [simp]: "served hash h cl events (r\<lparr>app := a\<rparr>) = served hash h cl events r"
  by (simp add: served_def)

lemma served_subscribed:
  assumes "epoll_inv hash r" and "map_of (subscribers_table r) (hash h) = None"
    and "map_of (handlers_table r) (hash h) = None" and "hash h \<noteq> 0" and "inj_on hash int32" and "h \<in> int32"
    and "\<And>e op f ev k. fst (ctl e op f ev k) \<noteq> - 1"
  obtains r' where "subscribe (epoll_policy ctl hash) now events h cl r = Some (hash h, r')"
    "served hash h cl events r'" "app r' = app r"
proof -
  have e: "entry_at (hash h) r = default_entry" using assms(3) by (simp add: entry_at_def)
  show thesis
    using subscribe_accepted [where ctl = ctl and now = now and events = events and hdl = cl, OF assms(1,2,4,5,6,7)] e that
    by (auto simp: served_def default_entry_def)
qed

text \<open>One notification of one event for a client: one call, and the reactor's own steps after it.\<close>

lemma notify_runs:
  assumes "served hash h cl events r" and "\<And>es. mset (sorter es) = mset es"
    and "\<And>e. m AND epoll_bit e \<noteq> 0 \<longleftrightarrow> e = ev"
    and "ev \<noteq> E_HANDLE_EVENT_NULL"
    and "run cl (hash h) ev (set_entry (hash h) \<lparr>client = Some cl, in_progress = True\<rparr> r) = Some (res, r1)"
    and "res \<noteq> E_RESULT_INVALID_REFERENCE"
  shows "process_notification (epoll_policy ctl hash) sorter run now
      \<lparr>note_handle = h, notified_events_mask = m, last_event = False\<rparr> r =
    Some (cleanup_if_due now (set_entry (hash h) ((entry_at (hash h) r1)\<lparr>in_progress := False\<rparr>) r1))"
proof -
  let ?sid = "hash h"
  have inv: "epoll_inv hash r" and hs: "map_of (handlers_table r) ?sid = Some \<lparr>client = Some cl, in_progress = False\<rparr>"
    and sub: "map_of (subscribers_table r) ?sid =
      Some ((SubscriberContext (getEventsMask events) ?sid h)\<lparr>registered_to_monitor := True\<rparr>)"
    using assms(1) by (simp_all add: served_def)
  define r0 where "r0 = set_entry ?sid \<lparr>client = Some cl, in_progress = True\<rparr> r"
  have p: "setHandlerInProgress ?sid True r = (True, r0)"
    using hs by (simp add: setHandlerInProgress_def r0_def)
  have e0: "entry_at ?sid r0 = \<lparr>client = Some cl, in_progress = True\<rparr>"
    by (simp add: entry_at_def r0_def frame_simps)
  have same: "set_entry ?sid \<lparr>client = Some cl, in_progress = True\<rparr> r0 = r0"
    by (simp add: r0_def set_entry_def)
  let ?evs = "sorter (getEventsFromMask m)"
  have "filter (\<lambda>e. e \<noteq> E_HANDLE_EVENT_NULL) ?evs = [ev]"
    by (rule sorted_events_single [OF assms(2,3)])
  then have he: "handle_events run ?sid c ?evs r0 = Some r1" for c
    using assms(4,5,6) e0 same
    by (subst handle_events_skips_null) (simp add: call_handler_def Let_def r0_def [symmetric])
  show ?thesis
    using sub p he
    by (simp add: process_notification_def epoll_key [OF inv] Let_def um_value_for_Some SubscriberContext_def)
qed

lemma served_after_cleanup:
  assumes "served hash h cl events r"
  shows "served hash h cl events (cleanup_if_due now r)" and "app (cleanup_if_due now r) = app r"
proof -
  have i: "epoll_inv hash r" using assms by (simp add: served_def)
  note u = reactor_invD(2) [OF i]
  show "served hash h cl events (cleanup_if_due now r)"
    using assms u cleanup_keeps [OF u _ not_stale_registered, of "hash h" _ "hash h" h now]
    by (auto simp: served_def cleanup_if_due_def inv_intros)
  show "app (cleanup_if_due now r) = app r"
    using u by (simp add: cleanup_if_due_def frame_simps)
qed

lemma notify_served:
  assumes "served hash h cl events r" and "\<And>es. mset (sorter es) = mset es"
    and "\<And>e. m AND epoll_bit e \<noteq> 0 \<longleftrightarrow> e = ev"
    and "ev \<noteq> E_HANDLE_EVENT_NULL"
    and "run cl (hash h) ev (set_entry (hash h) \<lparr>client = Some cl, in_progress = True\<rparr> r) = Some (res, r1)"
    and "res \<noteq> E_RESULT_INVALID_REFERENCE"
    and "epoll_inv hash r1" and "map_of (handlers_table r1) (hash h) = Some \<lparr>client = Some cl', in_progress = True\<rparr>"
    and "map_of (subscribers_table r1) (hash h) =
       Some ((SubscriberContext (getEventsMask events') (hash h) h)\<lparr>registered_to_monitor := True\<rparr>)"
  shows "\<exists>r'. process_notification (epoll_policy ctl hash) sorter run now
      \<lparr>note_handle = h, notified_events_mask = m, last_event = False\<rparr> r = Some r' \<and>
    served hash h cl' events' r' \<and> app r' = app r1"
proof -
  define r2 where "r2 = set_entry (hash h) ((entry_at (hash h) r1)\<lparr>in_progress := False\<rparr>) r1"
  have r2: "served hash h cl' events' r2" "app r2 = app r1"
    using assms(7-9) by (simp_all add: served_def r2_def frame_simps reactor_inv_handlers entry_at_def)
  show ?thesis
    using notify_runs [where ctl = ctl and now = now and run = run, OF assms(1-6)] served_after_cleanup [OF r2(1)] r2(2)
    by (auto simp: r2_def)
qed

subsection \<open>The other keys\<close>

text \<open>
  What happens to a key while the reactor works on another: a live subscriber stays with its
  handler, an absent one stays absent, and nobody's handler becomes busy.
\<close>

definition frame_at :: "u64 \<Rightarrow> ('d, 'h, 'w) reactor \<Rightarrow> ('d, 'h, 'w) reactor \<Rightarrow> bool" where
  "frame_at sid r r' \<longleftrightarrow>
     (\<forall>c. map_of (subscribers_table r) sid = Some c \<longrightarrow> \<not> stale c \<longrightarrow>
        map_of (subscribers_table r') sid = Some c \<and> map_of (handlers_table r') sid = map_of (handlers_table r) sid) \<and>
     (map_of (subscribers_table r) sid = None \<longrightarrow> map_of (subscribers_table r') sid = None) \<and>
     (handler_busy sid r' \<longrightarrow> handler_busy sid r)"

lemma frame_same:
  "map_of (subscribers_table r') sid = map_of (subscribers_table r) sid \<Longrightarrow>
   map_of (handlers_table r') sid = map_of (handlers_table r) sid \<Longrightarrow> frame_at sid r r'"
  by (auto simp: frame_at_def handler_busy_def)

lemma frame_trans [trans]: "frame_at sid r1 r2 \<Longrightarrow> frame_at sid r2 r3 \<Longrightarrow> frame_at sid r1 r3"
  by (auto simp: frame_at_def)

lemma frame_cleanup: "um_inv (subscribers_table r) \<Longrightarrow> frame_at sid r (cleanupExpired now r)"
  by (auto simp: frame_at_def cleanup_keeps cleanup_subscribers cleanup_handlers handler_busy_def split: if_splits)

lemma frame_cleanup_due: "um_inv (subscribers_table r) \<Longrightarrow> frame_at sid r (cleanup_if_due now r)"
  by (simp add: cleanup_if_due_def frame_cleanup frame_same)

lemma frame_app: "frame_at sid r (r\<lparr>app := a\<rparr>)"
  by (simp add: frame_same)

lemma frame_set_entry: "s \<noteq> sid \<Longrightarrow> frame_at sid r (set_entry s e r)"
  by (simp add: frame_same frame_simps)

lemma frame_subscribe:
  assumes "epoll_inv hash r" and "subscribe (epoll_policy ctl hash) now events h hdl r = Some (ret, r')" and "hash h \<noteq> sid"
    and "map_of (subscribers_table r) (hash h) = None"
  shows "frame_at sid r r'"
proof -
  note u = reactor_invD(2) [OF assms(1)]
  have "frame_at sid (cleanupExpired now r) r'"
    using assms(2,3) unfolding subscribe_def subscribeImpl_fresh [OF assms(1,4)]
    by (auto simp: Let_def addHandlerInTable_def frame_simps intro!: frame_same split: prod.splits if_splits)
  with frame_cleanup [OF u] show ?thesis by (rule frame_trans)
qed

lemma register_kernel:
  "(\<And>e op f ev k. snd (ctl e op f ev k) = k) \<Longrightarrow> kernel (snd (registerListener ctl c d)) = kernel d"
  by (auto simp: registerListener_def registerImpl_def addHandleIdMapping_def Let_def case_prod_beta)

lemma subscribe_kernel:
  assumes "epoll_inv hash r" and "map_of (subscribers_table r) (hash h) = None"
    and "subscribe (epoll_policy ctl hash) now events h hdl r = Some (ret, r')"
    and "\<And>e op f ev k. snd (ctl e op f ev k) = k"
  shows "kernel (demux_impl r') = kernel (demux_impl r)"
proof -
  let ?c = "SubscriberContext (getEventsMask events) (hash h) h"
  note u = reactor_invD(2) [OF assms(1)]
  define r2 where "r2 = snd (add_subscriber (hash h) ?c (cleanupExpired now r))"
  have k: "kernel (snd (registerListener ctl ?c (demux_impl r2))) = kernel (demux_impl r)"
    using register_kernel [where ctl = ctl and c = ?c and d = "demux_impl r2", OF assms(4)] u by (simp add: r2_def frame_simps)
  show ?thesis
    using assms(3) k unfolding subscribe_def subscribeImpl_fresh [OF assms(1,2)] Let_def r2_def [symmetric]
    by (auto simp: addHandlerInTable_def frame_simps split: prod.splits if_splits)
qed

lemma frame_unsubscribe:
  assumes "epoll_inv hash r" and "unsubscribe (epoll_policy ctl hash) now s r = Some (ret, r')" and "s \<noteq> sid"
  shows "frame_at sid r r'"
proof -
  note u = reactor_invD(2) [OF assms(1)]
  have "frame_at sid (cleanupExpired now r) r'"
    using assms(2,3) unfolding unsubscribe_def
    by (auto simp: Let_def removeHandler_eq delete_map_of frame_simps bind_eq_Some_conv intro!: frame_same
        split: prod.splits if_splits)
  with frame_cleanup [OF u] show ?thesis by (rule frame_trans)
qed

lemma frame_served:
  assumes "served hash h cl events r" and "frame_at (hash h) r r'" and "epoll_inv hash r'"
  shows "served hash h cl events r'"
  using assms not_stale_registered by (auto simp: served_def frame_at_def)

subsection \<open>After a call\<close>

text \<open>What the reactor does when the client's call under the key \<open>s\<close> has returned.\<close>

definition after_call :: "u64 \<Rightarrow> nat \<Rightarrow> ('d, 'h, 'w) reactor \<Rightarrow> ('d, 'h, 'w) reactor" where
  "after_call s now r = cleanup_if_due now (set_entry s ((entry_at s r)\<lparr>in_progress := False\<rparr>) r)"

lemma after_call_inv: "epoll_inv hash r \<Longrightarrow> epoll_inv hash (after_call s now r)"
  by (simp add: after_call_def cleanup_if_due_def inv_intros)

lemma after_call_demux: "um_inv (subscribers_table r) \<Longrightarrow> demux_impl (after_call s now r) = demux_impl r"
  by (simp add: after_call_def cleanup_if_due_def frame_simps)

lemma after_call_app: "um_inv (subscribers_table r) \<Longrightarrow> app (after_call s now r) = app r"
  by (simp add: after_call_def cleanup_if_due_def frame_simps)

lemma after_call_frame:
  assumes "um_inv (subscribers_table r)" and "s \<noteq> sid"
  shows "frame_at sid r (after_call s now r)"
  unfolding after_call_def
  by (rule frame_trans [OF frame_set_entry frame_cleanup_due]) (use assms in \<open>simp_all add: frame_simps\<close>)

lemma after_call_served:
  assumes "epoll_inv hash r" and "map_of (handlers_table r) (hash h) = Some \<lparr>client = Some cl, in_progress = True\<rparr>"
    and "map_of (subscribers_table r) (hash h) =
       Some ((SubscriberContext (getEventsMask events) (hash h) h)\<lparr>registered_to_monitor := True\<rparr>)"
  shows "served hash h cl events (after_call (hash h) now r)"
  unfolding after_call_def
  by (rule served_after_cleanup(1))
    (use assms in \<open>simp add: served_def frame_simps reactor_inv_handlers entry_at_def\<close>)

lemma after_call_gone:
  assumes "um_inv (subscribers_table r)" and "map_of (subscribers_table r) s = None"
  shows "map_of (subscribers_table (after_call s now r)) s = None \<and> \<not> handler_busy s (after_call s now r)"
proof -
  let ?r = "set_entry s ((entry_at s r)\<lparr>in_progress := False\<rparr>) r"
  have "frame_at s ?r (after_call s now r)"
    using assms(1) unfolding after_call_def by (intro frame_cleanup_due) (simp add: frame_simps)
  moreover have "map_of (subscribers_table ?r) s = None" and "\<not> handler_busy s ?r"
    using assms(2) by (simp_all add: frame_simps handler_busy_def)
  ultimately show ?thesis by (auto simp: frame_at_def)
qed

end
