(* ===== verification/ReactorClients.thy ===== *)
theory ReactorClients
  imports ServedClients Connection
begin

text \<open>
  The components together: a connector and the client endpoint it brings to life are clients of a
  reactor over the epoll demultiplexer. The reactor of Reactor is the listener of Connection and
  ClientEndpoint, and the handlers it calls are theirs. The application's part of the reactor's
  state holds the connector's table, the endpoint handed over and what the user keeps. The table
  holds endpoints as data, because a user's callbacks are registered only when the service is
  completed.
\<close>

subsection \<open>The clients' state\<close>

datatype reactor_client = The_connector | The_endpoint

record endpoint_data =
  ed_sub_id :: u64
  ed_handle :: "fd option"
  ed_state :: connection_state
  ed_in_progress :: bool
  ed_local_buffer :: string

record 'u connection_app =
  cn_services :: "(u64 \<times> endpoint_data option) list"
  cn_endpoint :: "endpoint_data option"
  cn_completions :: "bool list"
  cn_user :: 'u

type_synonym ('k, 'u) world = "('k demultiplexer, reactor_client, 'u connection_app) reactor"

definition as_endpoint ::
    "(string \<Rightarrow> 'w \<Rightarrow> 'w) option \<Rightarrow> ('w \<Rightarrow> 'w) option \<Rightarrow> endpoint_data \<Rightarrow> 'w client_endpoint" where
  "as_endpoint icb dcb ed =
     \<lparr>ce_sub_id = ed_sub_id ed, ce_handle = ed_handle ed, ce_state = ed_state ed, ce_in_progress = ed_in_progress ed,
      ce_input_cb = icb, ce_disconnected_cb = dcb, ce_local_buffer = ed_local_buffer ed\<rparr>"

definition data_of :: "'w client_endpoint \<Rightarrow> endpoint_data" where
  "data_of e =
     \<lparr>ed_sub_id = ce_sub_id e, ed_handle = ce_handle e, ed_state = ce_state e, ed_in_progress = ce_in_progress e,
      ed_local_buffer = ce_local_buffer e\<rparr>"

text \<open>
  The reactor as a listener for one of its clients. A call that does not return answers
  arbitrarily here; the theorems below are about reactors on which every call returns.
\<close>

definition reactor_listener ::
    "'k epoll_ctl \<Rightarrow> (fd \<Rightarrow> u64) \<Rightarrow> nat \<Rightarrow> reactor_client \<Rightarrow> ('k, 'u) world listener" where
  "reactor_listener ctl hash now h =
     \<lparr>l_subscribe = \<lambda>events fd r. (case subscribe (epoll_policy ctl hash) now events fd h r of
                                    Some x \<Rightarrow> x | None \<Rightarrow> (NULL_ID, r)),
      l_unsubscribe = \<lambda>sid r. (case unsubscribe (epoll_policy ctl hash) now sid r of
                                  Some x \<Rightarrow> x | None \<Rightarrow> (False, r))\<rparr>"

definition client_ops ::
    "('a, ('k, 'u) world) device \<Rightarrow> 'a \<Rightarrow> ('k, 'u) world listener \<Rightarrow>
      (('k, 'u) world client_endpoint, ('k, 'u) world) endpoint_ops" where
  "client_ops d addr l =
     \<lparr>eo_handle = \<lambda>p w. dv_handle d w, eo_bind = \<lambda>p r w. (False, p, w), eo_listen = \<lambda>p w. (False, p, w),
      eo_accept = \<lambda>p nb w. (False, p, w), eo_connect = \<lambda>p nb w. client_connect d addr nb p w,
      eo_onConnected = onConnected, eo_listenerSubscribe = \<lambda>p es w. listenerSubscribe l d es p w,
      eo_destroy = endpoint_destroy l\<rparr>"

text \<open>The application's completion callback notes how its service ended.\<close>

definition completed :: "(('k, 'u) world client_endpoint, ('k, 'u) world) completion" where
  "completed p w =
     w\<lparr>app := (app w)\<lparr>cn_endpoint := map_option data_of p,
                      cn_completions := cn_completions (app w) @ [case p of None \<Rightarrow> False | Some e \<Rightarrow> True]\<rparr>\<rparr>"

definition subs_of :: "(u64 \<times> endpoint_data option) list \<Rightarrow> (('k, 'u) world client_endpoint, ('k, 'u) world) subscribers" where
  "subs_of services =
     map (\<lambda>(sid, p). (sid, \<lparr>es_wrapped_endpoint = map_option (as_endpoint None None) p, es_completion_callback = completed\<rparr>))
       services"

definition services_of :: "(('k, 'u) world client_endpoint, ('k, 'u) world) subscribers \<Rightarrow> (u64 \<times> endpoint_data option) list" where
  "services_of subs = map (\<lambda>(sid, sub). (sid, map_option data_of (es_wrapped_endpoint sub))) subs"

definition put_services ::
    "(('k, 'u) world client_endpoint, ('k, 'u) world) subscribers \<times> ('k, 'u) world \<Rightarrow> ('k, 'u) world" where
  "put_services st = (case st of (subs, r) \<Rightarrow> r\<lparr>app := (app r)\<lparr>cn_services := services_of subs\<rparr>\<rparr>)"

subsection \<open>The system\<close>

text \<open>What the event thread runs for each client.\<close>

definition run_client ::
    "'k epoll_ctl \<Rightarrow> (fd \<Rightarrow> u64) \<Rightarrow> nat \<Rightarrow> ('a, ('k, 'u) world) device \<Rightarrow> 'a \<Rightarrow>
      (string \<Rightarrow> ('k, 'u) world \<Rightarrow> ('k, 'u) world) option \<Rightarrow> (('k, 'u) world \<Rightarrow> ('k, 'u) world) option \<Rightarrow>
      ('k demultiplexer, reactor_client, 'u connection_app) runner" where
  "run_client ctl hash now d addr icb dcb h sid ev r =
     (case h of
        The_connector \<Rightarrow>
          map_option (\<lambda>(res, st). (res, put_services st))
            (connector_handleEvent (client_ops d addr (reactor_listener ctl hash now The_endpoint))
               (reactor_listener ctl hash now The_connector) sid ev (subs_of (cn_services (app r)), r))
      | The_endpoint \<Rightarrow>
          (case cn_endpoint (app r) of
             None \<Rightarrow> None
           | Some ed \<Rightarrow> (case endpoint_handleEvent d sid ev (as_endpoint icb dcb ed) r of (res, e', r') \<Rightarrow>
                           Some (res, r'\<lparr>app := (app r')\<lparr>cn_endpoint := Some (data_of e')\<rparr>\<rparr>))))"

text \<open>A new endpoint of the device is connected through the connector.\<close>

definition factorEndpoint :: "('a, 'w) device \<Rightarrow> 'w \<Rightarrow> 'w client_endpoint" where
  "factorEndpoint d w = setDevice d TransportEndpoint w"

definition system_setup ::
    "'k epoll_ctl \<Rightarrow> (fd \<Rightarrow> u64) \<Rightarrow> nat \<Rightarrow> ('a, ('k, 'u) world) device \<Rightarrow> 'a \<Rightarrow> ('k, 'u) world \<Rightarrow> bool \<times> ('k, 'u) world" where
  "system_setup ctl hash now d addr r =
     (case connector_setupImpl (client_ops d addr (reactor_listener ctl hash now The_endpoint))
             (reactor_listener ctl hash now The_connector) False completed (factorEndpoint d r)
             (subs_of (cn_services (app r)), r) of
        (ok, st) \<Rightarrow> (ok, put_services st))"

definition system_notify ::
    "'k epoll_ctl \<Rightarrow> (fd \<Rightarrow> u64) \<Rightarrow> (events_array \<Rightarrow> events_array) \<Rightarrow> nat \<Rightarrow> ('a, ('k, 'u) world) device \<Rightarrow> 'a \<Rightarrow>
      (string \<Rightarrow> ('k, 'u) world \<Rightarrow> ('k, 'u) world) option \<Rightarrow> (('k, 'u) world \<Rightarrow> ('k, 'u) world) option \<Rightarrow>
      fd \<Rightarrow> u32 \<Rightarrow> ('k, 'u) world \<Rightarrow> ('k, 'u) world option" where
  "system_notify ctl hash sorter now d addr icb dcb h events r =
     process_notification (epoll_policy ctl hash) sorter (run_client ctl hash now d addr icb dcb) now
       \<lparr>note_handle = h, notified_events_mask = events, last_event = False\<rparr> r"

subsection \<open>Lists and tables\<close>

lemma data_as_endpoint [simp]: "data_of (as_endpoint icb dcb ed) = ed"
  by (simp add: data_of_def as_endpoint_def)

lemma as_endpoint_fields [simp]:
  "ce_sub_id (as_endpoint icb dcb ed) = ed_sub_id ed" "ce_handle (as_endpoint icb dcb ed) = ed_handle ed"
  "ce_state (as_endpoint icb dcb ed) = ed_state ed" "ce_in_progress (as_endpoint icb dcb ed) = ed_in_progress ed"
  "ce_input_cb (as_endpoint icb dcb ed) = icb" "ce_local_buffer (as_endpoint icb dcb ed) = ed_local_buffer ed"
  by (simp_all add: as_endpoint_def)

lemma services_subs [simp]: "services_of (subs_of s) = s"
  by (induction s) (auto simp: services_of_def subs_of_def option.map_comp comp_def option.map_ident)

lemma services_update: "services_of (AList.update sid sub subs) =
    AList.update sid (map_option data_of (es_wrapped_endpoint sub)) (services_of subs)"
  by (induction subs) (auto simp: services_of_def split: prod.splits)

lemma services_delete: "services_of (AList.delete sid subs) = AList.delete sid (services_of subs)"
  by (induction subs) (auto simp: services_of_def split: prod.splits)

lemma subs_of_lookup: "map_of (subs_of s) sid = map_option (\<lambda>p. \<lparr>es_wrapped_endpoint = map_option (as_endpoint None None) p,
    es_completion_callback = completed\<rparr>) (map_of s sid)"
  by (induction s) (auto simp: subs_of_def)

subsection \<open>The life of a connection\<close>

lemma put_services_app:
  "put_services (subs, r) = r\<lparr>app := (app r)\<lparr>cn_services := services_of subs\<rparr>\<rparr>"
  by (simp add: put_services_def)

text \<open>The setup: the endpoint connects, the connector waits for the descriptor to become writable.\<close>

definition connecting_data :: "fd \<Rightarrow> endpoint_data" where
  "connecting_data h = \<lparr>ed_sub_id = NULL_ID, ed_handle = Some h, ed_state = E_CONNECTING, ed_in_progress = True,
     ed_local_buffer = []\<rparr>"

lemma setup_waits:
  assumes "epoll_inv hash r" and "map_of (subscribers_table r) (hash h) = None"
    and "map_of (handlers_table r) (hash h) = None" and "hash h \<noteq> 0" and "inj_on hash int32" and "h \<in> int32"
    and "\<And>e op f ev k. fst (ctl e op f ev k) \<noteq> - 1"
    and "\<And>w. dv_handle d w = h" and "\<And>w. dv_connect d addr True w = (True, w)"
  shows "\<exists>r1. system_setup ctl hash now d addr r = (True, r1) \<and> served hash h The_connector (event_getArray [E_HANDLE_EVENT_OUT]) r1 \<and>
    app r1 = (app r)\<lparr>cn_services := AList.update (hash h) (Some (connecting_data h)) (cn_services (app r))\<rparr>"
proof -
  obtain r1 where s: "subscribe (epoll_policy ctl hash) now (event_getArray [E_HANDLE_EVENT_OUT]) h The_connector r = Some (hash h, r1)"
      "served hash h The_connector (event_getArray [E_HANDLE_EVENT_OUT]) r1" "app r1 = app r"
    using served_subscribed [where ctl = ctl and now = now and events = "event_getArray [E_HANDLE_EVENT_OUT]"
        and cl = The_connector, OF assms(1-7)] by metis
  have l: "l_subscribe (reactor_listener ctl hash now The_connector) (event_getArray [E_HANDLE_EVENT_OUT]) h r = (hash h, r1)"
    using s(1) by (simp add: reactor_listener_def)
  have "connector_setupImpl (client_ops d addr (reactor_listener ctl hash now The_endpoint))
      (reactor_listener ctl hash now The_connector) False completed (factorEndpoint d r)
      (subs_of (cn_services (app r)), r) =
      (True, (AList.update (hash h) \<lparr>es_wrapped_endpoint = Some (as_endpoint None None (connecting_data h)),
          es_completion_callback = completed\<rparr> (subs_of (cn_services (app r))), r1))"
    using assms(4) l
    by (simp add: connector_setupImpl_def connector_connect_def client_ops_def client_connect_def assms(8,9)
        setState_eq factorEndpoint_def setDevice_def TransportEndpoint_def TransportEndpoint_state_def base_subscribe_def
        as_endpoint_def connecting_data_def)
  then have "system_setup ctl hash now d addr r =
      (True, r1\<lparr>app := (app r)\<lparr>cn_services := AList.update (hash h) (Some (connecting_data h)) (cn_services (app r))\<rparr>\<rparr>)"
    by (simp add: system_setup_def put_services_app services_update s(3))
  with s(2) show ?thesis by simp
qed


text \<open>
  The descriptor becomes writable: the connector, inside its handler, ends its own subscription,
  tells the endpoint that it is connected and subscribes it for input under the same identifier,
  and hands it over. The reactor's entry has the endpoint as its handler when the call returns.
\<close>

definition connected_data :: "fd \<Rightarrow> u64 \<Rightarrow> endpoint_data" where
  "connected_data h sid = \<lparr>ed_sub_id = sid, ed_handle = Some h, ed_state = E_CONNECTED, ed_in_progress = False,
     ed_local_buffer = []\<rparr>"

lemma out_connects:
  assumes "served hash h The_connector events r"
    and "map_of (cn_services (app r)) (hash h) = Some (Some (connecting_data h))"
    and "hash h \<noteq> 0" and "inj_on hash int32" and "h \<in> int32" and "\<And>e op f ev k. fst (ctl e op f ev k) \<noteq> - 1"
    and "\<And>w. dv_handle d w = h" and "\<And>es. mset (sorter es) = mset es"
  shows "\<exists>r'. system_notify ctl hash sorter now d addr icb dcb h EPOLLOUT r = Some r' \<and>
    served hash h The_endpoint (event_getArray [E_HANDLE_EVENT_IN]) r' \<and>
    app r' = (app r)\<lparr>cn_services := AList.delete (hash h) (cn_services (app r)),
      cn_endpoint := Some (connected_data h (hash h)), cn_completions := cn_completions (app r) @ [True]\<rparr>"
proof -
  let ?sid = "hash h"
  define r0 where "r0 = set_entry ?sid \<lparr>client = Some The_connector, in_progress = True\<rparr> r"
  have r0: "epoll_inv hash r0" "map_of (subscribers_table r0) ?sid =
      Some ((SubscriberContext (getEventsMask events) ?sid h)\<lparr>registered_to_monitor := True\<rparr>)"
    "map_of (handlers_table r0) ?sid = Some \<lparr>client = Some The_connector, in_progress = True\<rparr>" "app r0 = app r"
    using assms(1) by (simp_all add: served_def r0_def frame_simps reactor_inv_handlers)
  have busy: "handler_busy ?sid r0" by (simp add: handler_busy_def r0(3))
  obtain r1 where r1: "unsubscribe (epoll_policy ctl hash) now ?sid r0 = Some (True, r1)"
      "map_of (subscribers_table r1) ?sid = None"
      "map_of (handlers_table r1) ?sid = Some \<lparr>client = Some The_connector, in_progress = True\<rparr>"
      "epoll_inv hash r1" "app r1 = app r"
    using unsubscribe_live [OF r0(1,2) not_stale_registered, of ctl now] busy r0(3,4) by auto
  have e1: "entry_at ?sid r1 = \<lparr>client = Some The_connector, in_progress = True\<rparr>"
    by (simp add: entry_at_def r1(3))
  obtain r2 where r2: "subscribe (epoll_policy ctl hash) now (event_getArray [E_HANDLE_EVENT_IN]) h The_endpoint r1 = Some (?sid, r2)"
      "epoll_inv hash r2" "map_of (subscribers_table r2) ?sid =
        Some ((SubscriberContext (getEventsMask (event_getArray [E_HANDLE_EVENT_IN])) ?sid h)\<lparr>registered_to_monitor := True\<rparr>)"
      "map_of (handlers_table r2) ?sid = Some \<lparr>client = Some The_endpoint, in_progress = True\<rparr>" "app r2 = app r"
    using subscribe_accepted [where ctl = ctl and now = now and hdl = The_endpoint
        and events = "event_getArray [E_HANDLE_EVENT_IN]", OF r1(4,2) assms(3-6)] e1 r1(5)
    by auto
  let ?le = "reactor_listener ctl hash now The_endpoint" and ?lc = "reactor_listener ctl hash now The_connector"
  let ?ops = "client_ops d addr ?le"
  let ?e = "as_endpoint None None (connecting_data h)" and ?e' = "as_endpoint None None (connected_data h ?sid)"
  have post: "connector_postConnectionAction ?ops ?e r1 = (True, ?e', r2)"
    using r2(1) assms(3)
    by (simp add: connector_postConnectionAction_def client_ops_def onConnected_def setState_eq listenerSubscribe_def
        assms(7) reactor_listener_def as_endpoint_def connecting_data_def connected_data_def)
  have sub: "map_of (subs_of (cn_services (app r0))) ?sid =
      Some \<lparr>es_wrapped_endpoint = Some ?e, es_completion_callback = completed\<rparr>"
    using assms(2) by (simp add: subs_of_lookup r0(4))
  have "connector_handleEvent ?ops ?lc ?sid E_HANDLE_EVENT_OUT (subs_of (cn_services (app r0)), r0) =
      Some (E_RESULT_SUCCESS, (AList.delete ?sid (subs_of (cn_services (app r0))), completed (Some ?e') r2))"
    using connector.success_completes [where eo = ?ops and eoa = ?ops and l = ?lc and w = r0 and event = E_HANDLE_EVENT_OUT, OF sub] post r1(1)
    by (simp add: connector_handleEvent_def connector_event_failure reactor_listener_def)
  then have run: "run_client ctl hash now d addr icb dcb The_connector ?sid E_HANDLE_EVENT_OUT r0 =
      Some (E_RESULT_SUCCESS, r2\<lparr>app := (app r)\<lparr>cn_services := AList.delete ?sid (cn_services (app r)),
        cn_endpoint := Some (connected_data h ?sid), cn_completions := cn_completions (app r) @ [True]\<rparr>\<rparr>)"
    by (simp add: run_client_def put_services_app services_delete completed_def r2(5) r0(4))
  have bit: "EPOLLOUT AND epoll_bit e \<noteq> 0 \<longleftrightarrow> e = E_HANDLE_EVENT_OUT" for e
    by (cases e) (simp_all add: epoll_consts)
  show ?thesis
    unfolding system_notify_def
    using notify_served [where run = "run_client ctl hash now d addr icb dcb" and cl' = The_endpoint and now = now and ctl = ctl
        and events' = "event_getArray [E_HANDLE_EVENT_IN]", OF assms(1,8) bit _ run [unfolded r0_def]] r2
    by simp
qed


text \<open>A message comes in: the endpoint reads it and hands it to the user's callback.\<close>

definition reading :: "string \<Rightarrow> ('a, 'w) device \<Rightarrow> ('a, 'w) device" where
  "reading data d = d\<lparr>dv_read := \<lambda>buffer w. (int (length data), data, w)\<rparr>"

definition user_callback :: "(string \<Rightarrow> 'u \<Rightarrow> 'u) \<Rightarrow> string \<Rightarrow> ('k, 'u) world \<Rightarrow> ('k, 'u) world" where
  "user_callback f data w = w\<lparr>app := (app w)\<lparr>cn_user := f data (cn_user (app w))\<rparr>\<rparr>"

lemma in_delivers:
  assumes "served hash h The_endpoint events r" and "cn_endpoint (app r) = Some (connected_data h (hash h))"
    and "\<And>es. mset (sorter es) = mset es"
  shows "\<exists>r'. system_notify ctl hash sorter now (reading data d) addr (Some (user_callback f)) dcb h EPOLLIN r = Some r' \<and>
    served hash h The_endpoint events r' \<and> app r' = (app r)\<lparr>cn_user := f data (cn_user (app r))\<rparr>"
proof -
  let ?sid = "hash h" and ?icb = "Some (user_callback f)"
  define r0 where "r0 = set_entry ?sid \<lparr>client = Some The_endpoint, in_progress = True\<rparr> r"
  have r0: "epoll_inv hash r0" "map_of (subscribers_table r0) ?sid =
      Some ((SubscriberContext (getEventsMask events) ?sid h)\<lparr>registered_to_monitor := True\<rparr>)"
    "map_of (handlers_table r0) ?sid = Some \<lparr>client = Some The_endpoint, in_progress = True\<rparr>" "app r0 = app r"
    using assms(1) by (simp_all add: served_def r0_def frame_simps reactor_inv_handlers)
  let ?e = "as_endpoint ?icb dcb (connected_data h ?sid)"
  have "endpoint_handleEvent (reading data d) ?sid E_HANDLE_EVENT_IN ?e r0 =
      (E_RESULT_SUCCESS, ?e, user_callback f data r0)"
    by (simp add: endpoint_handleEvent_def endpoint_defs client_ProcessInputEvent_def reading_def Let_def)
      (simp add: as_endpoint_def connected_data_def)
  then have run: "run_client ctl hash now (reading data d) addr ?icb dcb The_endpoint ?sid E_HANDLE_EVENT_IN r0 =
      Some (E_RESULT_SUCCESS, r0\<lparr>app := (app r)\<lparr>cn_user := f data (cn_user (app r))\<rparr>\<rparr>)"
    using assms(2) by (simp add: run_client_def r0(4) user_callback_def)
  have bit: "EPOLLIN AND epoll_bit e \<noteq> 0 \<longleftrightarrow> e = E_HANDLE_EVENT_IN" for e
    by (cases e) (simp_all add: epoll_consts)
  show ?thesis
    unfolding system_notify_def
    using notify_served [where run = "run_client ctl hash now (reading data d) addr ?icb dcb" and cl' = The_endpoint and now = now
        and ctl = ctl and events' = events, OF assms(1,3) bit _ run [unfolded r0_def]]
      r0(1-3) [unfolded r0_def]
    by simp
qed

fun system_inputs ::
    "'k epoll_ctl \<Rightarrow> (fd \<Rightarrow> u64) \<Rightarrow> (events_array \<Rightarrow> events_array) \<Rightarrow> nat \<Rightarrow> ('a, ('k, 'u) world) device \<Rightarrow> 'a \<Rightarrow>
      (string \<Rightarrow> 'u \<Rightarrow> 'u) \<Rightarrow> (('k, 'u) world \<Rightarrow> ('k, 'u) world) option \<Rightarrow> fd \<Rightarrow> string list \<Rightarrow> ('k, 'u) world \<Rightarrow>
      ('k, 'u) world option" where
  "system_inputs ctl hash sorter now d addr f dcb h [] r = Some r"
| "system_inputs ctl hash sorter now d addr f dcb h (m # ms) r =
     Option.bind (system_notify ctl hash sorter now (reading m d) addr (Some (user_callback f)) dcb h EPOLLIN r)
       (system_inputs ctl hash sorter now d addr f dcb h ms)"

lemma inputs_deliver:
  assumes "\<And>es. mset (sorter es) = mset es"
  shows "served hash h The_endpoint events r \<Longrightarrow> cn_endpoint (app r) = Some (connected_data h (hash h)) \<Longrightarrow>
    \<exists>r'. system_inputs ctl hash sorter now d addr f dcb h ms r = Some r' \<and>
      served hash h The_endpoint events r' \<and> app r' = (app r)\<lparr>cn_user := fold f ms (cn_user (app r))\<rparr>"
proof (induction ms arbitrary: r)
  case (Cons m ms)
  obtain r1 where r1: "system_notify ctl hash sorter now (reading m d) addr (Some (user_callback f)) dcb h EPOLLIN r = Some r1"
      "served hash h The_endpoint events r1" "app r1 = (app r)\<lparr>cn_user := f m (cn_user (app r))\<rparr>"
    using in_delivers [where ctl = ctl and now = now and d = d and addr = addr and dcb = dcb and f = f and data = m,
        OF Cons.prems assms] by blast
  from Cons.IH [OF r1(2)] r1(1,3) Cons.prems(2) show ?case by simp
qed simp

subsection \<open>Properties\<close>

text \<open>
  C3: A client's connection from its setup to its messages, through the connector, the endpoint, the
  reactor and the demultiplexer: on a reactor in any reachable state whose descriptor nobody uses,
  the setup succeeds; when the descriptor becomes writable the service is completed exactly once,
  with a connected endpoint; from then on every message that comes in reaches the user's callback,
  once and in order; the connector keeps nothing of the service and the reactor's invariant holds
  throughout. The kernel accepts the requests, and the keys of descriptors do not collide.
\<close>

theorem connection_end_to_end:
  assumes "epoll_inv hash r" and "map_of (subscribers_table r) (hash h) = None"
    and "map_of (handlers_table r) (hash h) = None" and "hash h \<noteq> 0" and "inj_on hash int32" and "h \<in> int32"
    and "\<And>e op f ev k. fst (ctl e op f ev k) \<noteq> - 1"
    and "\<And>w. dv_handle d w = h" and "\<And>w. dv_connect d addr True w = (True, w)"
    and "\<And>es. mset (sorter es) = mset es"
  shows "\<exists>r1 r2 r3. system_setup ctl hash now d addr r = (True, r1) \<and>
    system_notify ctl hash sorter now d addr (Some (user_callback f)) dcb h EPOLLOUT r1 = Some r2 \<and>
    system_inputs ctl hash sorter now d addr f dcb h ms r2 = Some r3 \<and>
    cn_completions (app r3) = cn_completions (app r) @ [True] \<and>
    map_of (cn_services (app r3)) (hash h) = None \<and>
    map_option ed_state (cn_endpoint (app r3)) = Some E_CONNECTED \<and>
    cn_user (app r3) = fold f ms (cn_user (app r)) \<and>
    client (entry_at (hash h) r3) = Some The_endpoint \<and> epoll_inv hash r3"
proof -
  obtain r1 where r1: "system_setup ctl hash now d addr r = (True, r1)"
      "served hash h The_connector (event_getArray [E_HANDLE_EVENT_OUT]) r1"
      "app r1 = (app r)\<lparr>cn_services := AList.update (hash h) (Some (connecting_data h)) (cn_services (app r))\<rparr>"
    using setup_waits [where ctl = ctl and d = d and addr = addr and now = now, OF assms(1-9)] by blast
  have s1: "map_of (cn_services (app r1)) (hash h) = Some (Some (connecting_data h))"
    by (simp add: r1(3) update_conv')
  obtain r2 where r2: "system_notify ctl hash sorter now d addr (Some (user_callback f)) dcb h EPOLLOUT r1 = Some r2"
      "served hash h The_endpoint (event_getArray [E_HANDLE_EVENT_IN]) r2"
      "app r2 = (app r1)\<lparr>cn_services := AList.delete (hash h) (cn_services (app r1)),
        cn_endpoint := Some (connected_data h (hash h)), cn_completions := cn_completions (app r1) @ [True]\<rparr>"
    using out_connects [where ctl = ctl and d = d and addr = addr and now = now and sorter = sorter
        and icb = "Some (user_callback f)" and dcb = dcb, OF r1(2) s1 assms(4,5,6,7,8,10)] by blast
  obtain r3 where r3: "system_inputs ctl hash sorter now d addr f dcb h ms r2 = Some r3"
      "served hash h The_endpoint (event_getArray [E_HANDLE_EVENT_IN]) r3"
      "app r3 = (app r2)\<lparr>cn_user := fold f ms (cn_user (app r2))\<rparr>"
    using inputs_deliver [where ctl = ctl and d = d and addr = addr and now = now and sorter = sorter and f = f
        and dcb = dcb and ms = ms, OF assms(10) r2(2)] r2(3) by auto
  show ?thesis
    using r1 r2(1,3) r3
    by (auto simp: served_def entry_at_def connected_data_def delete_conv')
qed


text \<open>The whole run, for a descriptor of a kernel that accepts everything.\<close>

definition example_device :: "(string, (unit, string list) world) device" where
  "example_device = \<lparr>dv_handle = \<lambda>w. 5, dv_connect = \<lambda>a nb w. (True, w), dv_disconnect = \<lambda>w. (True, w),
     dv_read = \<lambda>b w. (0, [], w), dv_send = None, dv_write = None\<rparr>"

definition example_app :: "string list connection_app" where
  "example_app = \<lparr>cn_services = [], cn_endpoint = None, cn_completions = [], cn_user = []\<rparr>"

theorem connection_end_to_end_witness:
  "\<exists>r1 r2 r3. system_setup ok_ctl demo_hash 0 example_device ''peer'' (new_reactor demo_demux example_app) = (True, r1) \<and>
    system_notify ok_ctl demo_hash rev 0 example_device ''peer'' (Some (user_callback (\<lambda>m ms. ms @ [m]))) None 5 EPOLLOUT r1 = Some r2 \<and>
    system_inputs ok_ctl demo_hash rev 0 example_device ''peer'' (\<lambda>m ms. ms @ [m]) None 5 [''ping'', ''pong''] r2 = Some r3 \<and>
    cn_completions (app r3) = [True] \<and> cn_user (app r3) = [''ping'', ''pong'']"
proof -
  let ?r = "new_reactor demo_demux example_app :: (unit, string list) world"
  have ctl: "fst (ok_ctl e op f ev k) \<noteq> - 1" for e op f ev k by (simp add: ok_ctl_def)
  have i: "epoll_inv demo_hash ?r" by (rule new_reactor_inv) (rule demo_demux_inv)
  have s: "map_of (subscribers_table ?r) (demo_hash 5) = None" and h: "map_of (handlers_table ?r) (demo_hash 5) = None"
    by (simp_all add: new_reactor_def)
  have z: "demo_hash 5 \<noteq> 0" and b: "(5 :: fd) \<in> int32" by (simp_all add: int32_def)
  have dh: "dv_handle example_device w = 5" and dc: "dv_connect example_device ''peer'' True w = (True, w)" for w
    by (simp_all add: example_device_def)
  obtain r1 r2 r3 where
    "system_setup ok_ctl demo_hash 0 example_device ''peer'' ?r = (True, r1)"
    "system_notify ok_ctl demo_hash rev 0 example_device ''peer'' (Some (user_callback (\<lambda>m ms. ms @ [m]))) None 5 EPOLLOUT r1 = Some r2"
    "system_inputs ok_ctl demo_hash rev 0 example_device ''peer'' (\<lambda>m ms. ms @ [m]) None 5 [''ping'', ''pong''] r2 = Some r3"
    "cn_completions (app r3) = cn_completions (app ?r) @ [True]"
    "cn_user (app r3) = fold (\<lambda>m ms. ms @ [m]) [''ping'', ''pong''] (cn_user (app ?r))"
    using connection_end_to_end [where ctl = ok_ctl and hash = demo_hash and h = 5 and d = example_device and addr = "''peer''"
        and sorter = rev and r = ?r and now = 0 and f = "\<lambda>m ms. ms @ [m]" and dcb = None and ms = "[''ping'', ''pong'']",
        OF i s h z inj_demo_hash b ctl dh dc mset_rev] by blast
  then show ?thesis by (simp add: new_reactor_def example_app_def)
qed

text \<open>
  C10: A refused connection, which the kernel reports with two events at once. The connector ends the
  service at the first one, inside the reactor's call: the subscription and the monitoring are
  gone and the user is told. At the second the connector does not know the identifier any more,
  and the reactor files its old copy of the subscriber again, as expired but registered, though
  its descriptor is not monitored; its handler stays too. Unregistering that subscriber, which is
  what the reactor's destructor does next, is undefined as soon as another descriptor is monitored.
\<close>

theorem refused_connection_resurrected:
  assumes "served hash h The_connector events r"
    and "map_of (cn_services (app r)) (hash h) = Some (Some (connecting_data h))"
    and "\<And>es. mset (sorter es) = mset es"
  shows "\<exists>r' c. system_notify ctl hash sorter now d addr icb dcb h (EPOLLERR OR EPOLLHUP) r = Some r' \<and>
    cn_completions (app r') = cn_completions (app r) @ [False] \<and>
    cn_services (app r') = AList.delete (hash h) (cn_services (app r)) \<and>
    map_of (subscribers_table r') (hash h) = Some c \<and> expired c \<and> registered_to_monitor c \<and> handle c = h \<and>
    h \<notin> dom (monitored_handles (demux_impl r')) \<and>
    map_of (handlers_table r') (hash h) = Some \<lparr>client = Some The_connector, in_progress = False\<rparr> \<and>
    (handle_id_map (demux_impl r') \<noteq> [] \<longrightarrow> unregisterListener ctl c (demux_impl r') = None)"
proof -
  let ?sid = "hash h"
  define c where "c = (SubscriberContext (getEventsMask events) ?sid h)\<lparr>registered_to_monitor := True\<rparr>"
  define r0 where "r0 = set_entry ?sid \<lparr>client = Some The_connector, in_progress = True\<rparr> r"
  have inv: "epoll_inv hash r" and hs: "map_of (handlers_table r) ?sid = Some \<lparr>client = Some The_connector, in_progress = False\<rparr>"
    and sub: "map_of (subscribers_table r) ?sid = Some c"
    using assms(1) by (simp_all add: served_def c_def)
  have r0: "epoll_inv hash r0" "map_of (subscribers_table r0) ?sid = Some c"
    "map_of (handlers_table r0) ?sid = Some \<lparr>client = Some The_connector, in_progress = True\<rparr>" "app r0 = app r"
    using inv sub by (simp_all add: r0_def frame_simps reactor_inv_handlers)
  have c: "\<not> stale c" "handle c = h" "registered_to_monitor c" "\<not> expired c" by (simp_all add: c_def stale_def SubscriberContext_def)
  obtain r1 where r1: "unsubscribe (epoll_policy ctl hash) now ?sid r0 = Some (True, r1)"
      "h \<notin> dom (monitored_handles (demux_impl r1))" "epoll_inv hash r1"
      "map_of (handlers_table r1) ?sid = Some \<lparr>client = Some The_connector, in_progress = True\<rparr>"
      "app r1 = app r" "cleanup_ts r1 = now"
    using unsubscribe_live [OF r0(1,2) c(1), of ctl now] r0(3,4) c(2) by (auto simp: handler_busy_def)
  let ?ops = "client_ops d addr (reactor_listener ctl hash now The_endpoint)" and ?lc = "reactor_listener ctl hash now The_connector"
  let ?e = "as_endpoint None None (connecting_data h)"
  let ?run = "run_client ctl hash now d addr icb dcb"
  have s0: "map_of (subs_of (cn_services (app r0))) ?sid = Some \<lparr>es_wrapped_endpoint = Some ?e, es_completion_callback = completed\<rparr>"
    using assms(2) by (simp add: subs_of_lookup r0(4))
  define r2 where "r2 = r1\<lparr>app := (app r)\<lparr>cn_services := AList.delete ?sid (cn_services (app r)),
      cn_endpoint := None, cn_completions := cn_completions (app r) @ [False]\<rparr>\<rparr>"
  have destroy: "eo_destroy ?ops ?e w = w" for w
    by (simp add: client_ops_def endpoint_destroy_def subscribedToListener_def connecting_data_def)
  have first: "?run The_connector ?sid ev r0 = Some (E_RESULT_FAILURE, r2)" if "ev = E_HANDLE_EVENT_ERR \<or> ev = E_HANDLE_EVENT_HUP" for ev
  proof -
    have "connector_handleEventImpl ev = E_RESULT_FAILURE" using that by (auto simp: connector_event_failure)
    then have "connector_handleEvent ?ops ?lc ?sid ev (subs_of (cn_services (app r0)), r0) =
        Some (E_RESULT_FAILURE, (AList.delete ?sid (subs_of (cn_services (app r0))), completed None r1))"
      using connector.failure_completes [where eo = ?ops and l = ?lc and w = r0 and event = ev, OF s0] r1(1) destroy
      by (simp add: connector_handleEvent_def reactor_listener_def)
    then show ?thesis
      by (simp add: run_client_def put_services_app services_delete completed_def r1(5) r0(4) r2_def)
  qed
  have e2: "entry_at ?sid r2 = \<lparr>client = Some The_connector, in_progress = True\<rparr>"
    by (simp add: r2_def entry_at_def r1(4))
  define r3 where "r3 = set_entry ?sid \<lparr>client = Some The_connector, in_progress = True\<rparr> r2"
  have second: "?run The_connector ?sid ev r3 = Some (E_RESULT_INVALID_REFERENCE, r3)" for ev
    by (simp add: run_client_def connector_handleEvent_def base_unknown_id subs_of_lookup r3_def r2_def set_entry_def
        delete_map_of put_services_app)
  let ?evs = "sorter (getEventsFromMask (EPOLLERR OR EPOLLHUP))"
  define es where "es = filter (\<lambda>e. e \<noteq> E_HANDLE_EVENT_NULL) ?evs"
  have m: "mset es = mset (filter (\<lambda>e. e \<noteq> E_HANDLE_EVENT_NULL) (getEventsFromMask (EPOLLERR OR EPOLLHUP)))"
    by (simp add: es_def assms(3))
  have "distinct es" and "set es = {ev. (EPOLLERR OR EPOLLHUP) AND epoll_bit ev \<noteq> 0}"
    using mset_eq_imp_distinct_iff [OF m] mset_eq_setD [OF m] getEventsFromMask_events by auto
  moreover have "(EPOLLERR OR EPOLLHUP) AND epoll_bit ev \<noteq> 0 \<longleftrightarrow> ev = E_HANDLE_EVENT_ERR \<or> ev = E_HANDLE_EVENT_HUP" for ev
    by (cases ev) (simp_all add: epoll_consts)
  ultimately have es: "distinct es" "set es = {E_HANDLE_EVENT_ERR, E_HANDLE_EVENT_HUP}" by auto
  have "length es = 2" using distinct_card [OF es(1)] by (simp add: es(2))
  then obtain ev1 ev2 where two: "es = [ev1, ev2]" by (metis length_0_conv length_Suc_conv numeral_2_eq_2)
  have ev: "ev1 = E_HANDLE_EVENT_ERR \<or> ev1 = E_HANDLE_EVENT_HUP" "ev2 = E_HANDLE_EVENT_ERR \<or> ev2 = E_HANDLE_EVENT_HUP"
    using es(2) two by auto
  then have nn: "ev1 \<noteq> E_HANDLE_EVENT_NULL" "ev2 \<noteq> E_HANDLE_EVENT_NULL" by auto
  define r4 where "r4 = snd (add_subscriber ?sid (c\<lparr>expired := True\<rparr>) r3)"
  have e0: "entry_at ?sid r0 = \<lparr>client = Some The_connector, in_progress = True\<rparr>" by (simp add: entry_at_def r0(3))
  have same: "set_entry ?sid \<lparr>client = Some The_connector, in_progress = True\<rparr> r0 = r0" by (simp add: r0_def set_entry_def)
  have "handle_events ?run ?sid c es r0 = Some r4"
    using nn e0 e2 first [OF ev(1)] second same
    by (simp add: two call_handler_def Let_def r3_def [symmetric] r4_def)
  then have he: "handle_events ?run ?sid c ?evs r0 = Some r4"
    by (subst handle_events_skips_null) (simp add: es_def)
  have p: "setHandlerInProgress ?sid True r = (True, r0)"
    using hs by (simp add: setHandlerInProgress_def r0_def)
  define r5 where "r5 = set_entry ?sid ((entry_at ?sid r4)\<lparr>in_progress := False\<rparr>) r4"
  have "cleanup_ts r5 = now"
    by (simp add: r5_def r4_def r3_def r2_def set_entry_def add_subscriber_def r1(6) split: prod.splits)
  then have "cleanup_if_due now r5 = r5" by (simp add: cleanup_if_due_def CLEANUP_INTERVAL_S_def)
  then have n: "system_notify ctl hash sorter now d addr icb dcb h (EPOLLERR OR EPOLLHUP) r = Some r5"
    using sub c p he
    by (simp add: system_notify_def process_notification_def epoll_key [OF inv] Let_def um_value_for_Some r5_def)
  have d5: "demux_impl r5 = demux_impl r1" and a5: "app r5 = app r2"
    by (simp_all add: r5_def r4_def r3_def r2_def frame_simps)
  have t5: "map_of (subscribers_table r5) ?sid = Some (c\<lparr>expired := True\<rparr>)"
    and h5: "map_of (handlers_table r5) ?sid = Some \<lparr>client = Some The_connector, in_progress = False\<rparr>"
    by (simp_all add: r5_def r4_def r3_def frame_simps entry_at_def)
  have "h \<notin> set (keys (handle_id_map (demux_impl r1)))"
    using r1(2) by (simp add: monitored_handles_def map_of_eq_None_iff dom_map_of_conv_image_fst)
  then have "handle_id_map (demux_impl r5) \<noteq> [] \<longrightarrow> unregisterListener ctl (c\<lparr>expired := True\<rparr>) (demux_impl r5) = None"
    using vec_remove_absent [of h "handle_id_map (demux_impl r1)"] reactor_invD(1) [OF r1(3)] c(2)
    by (simp add: d5 unregisterListener_def unregisterImpl_def removeHandleIdMapping_def demux_inv_def)
  then show ?thesis
    using n d5 a5 t5 h5 c(2,3) r1(2) by (intro exI [of _ r5] exI [of _ "c\<lparr>expired := True\<rparr>"]) (simp add: r2_def)
qed


theorem refused_connection_resurrected_witness:
  "\<exists>r r' c. system_setup ok_ctl demo_hash 0 example_device ''peer'' (new_reactor demo_demux example_app) = (True, r) \<and>
    system_notify ok_ctl demo_hash rev 0 example_device ''peer'' None None 5 (EPOLLERR OR EPOLLHUP) r = Some r' \<and>
    cn_completions (app r') = [False] \<and> map_of (subscribers_table r') 5 = Some c \<and> expired c \<and>
    registered_to_monitor c \<and> 5 \<notin> dom (monitored_handles (demux_impl r'))"
proof -
  let ?r = "new_reactor demo_demux example_app :: (unit, string list) world"
  have ctl: "fst (ok_ctl e op f ev k) \<noteq> - 1" for e op f ev k by (simp add: ok_ctl_def)
  have i: "epoll_inv demo_hash ?r" by (rule new_reactor_inv) (rule demo_demux_inv)
  have s: "map_of (subscribers_table ?r) (demo_hash 5) = None" and h: "map_of (handlers_table ?r) (demo_hash 5) = None"
    by (simp_all add: new_reactor_def)
  have z: "demo_hash 5 \<noteq> 0" "demo_hash 5 = 5" and b: "(5 :: fd) \<in> int32" by (simp_all add: int32_def demo_hash_def)
  have dh: "dv_handle example_device w = 5" and dc: "dv_connect example_device ''peer'' True w = (True, w)" for w
    by (simp_all add: example_device_def)
  obtain r where r: "system_setup ok_ctl demo_hash 0 example_device ''peer'' ?r = (True, r)"
      "served demo_hash 5 The_connector (event_getArray [E_HANDLE_EVENT_OUT]) r"
      "app r = (app ?r)\<lparr>cn_services := AList.update (demo_hash 5) (Some (connecting_data 5)) (cn_services (app ?r))\<rparr>"
    using setup_waits [where ctl = ok_ctl and hash = demo_hash and h = 5 and d = example_device and addr = "''peer''"
        and r = ?r and now = 0, OF i s h z(1) inj_demo_hash b ctl dh dc] by blast
  have c: "map_of (cn_services (app r)) (demo_hash 5) = Some (Some (connecting_data 5))" and e: "cn_completions (app r) = []"
    by (simp_all add: r(3) update_conv' new_reactor_def example_app_def)
  show ?thesis
    using refused_connection_resurrected [where ctl = ok_ctl and hash = demo_hash and h = 5 and d = example_device
        and addr = "''peer''" and sorter = rev and now = 0 and icb = None and dcb = None, OF r(2) c mset_rev] r(1)
    by (auto simp: e z(2) dom_def)
qed

end
