(* ===== verification/ReactorServers.thy ===== *)
theory ReactorServers
  imports ServedClients ServerEndpoint
begin

text \<open>
  A socket's server on a reactor: the server endpoint accepts clients when its descriptor has
  input, every stored client is subscribed to the same reactor under its own descriptor, and
  their events reach the user through the server's callbacks. The reactor of Reactor is the
  listener of ServerEndpoint; the application's part of its state holds what the server keeps.
\<close>

subsection \<open>The server's state\<close>

datatype server_role = The_server | The_stored fd

record 'u server_app =
  sa_own_id :: u64
  sa_state :: connection_state
  sa_storage :: "(fd, stored_client) associative_storage"
  sa_dispatcher :: "'u server_dispatcher"
  sa_user :: 'u

type_synonym ('k, 'u) server_world = "('k demultiplexer, server_role, 'u server_app) reactor"

definition server_of :: "('k, 'u) server_world \<Rightarrow> (('k, 'u) server_world, 'u) server" where
  "server_of r =
     \<lparr>sv_state = sa_state (app r), sv_storage = sa_storage (app r), sv_dispatcher = sa_dispatcher (app r),
      sv_world = r, sv_user = sa_user (app r)\<rparr>"

definition put_server :: "(('k, 'u) server_world, 'u) server \<Rightarrow> ('k, 'u) server_world" where
  "put_server s =
     (sv_world s)\<lparr>app := (app (sv_world s))\<lparr>sa_state := sv_state s, sa_storage := sv_storage s,
                                            sa_dispatcher := sv_dispatcher s, sa_user := sv_user s\<rparr>\<rparr>"

text \<open>
  The reactor as the listener of the clients the server accepts: the handler of a client's
  descriptor is that client. A call that does not return answers arbitrarily here; in the
  theorems below every call returns.
\<close>

definition clients_listener :: "'k epoll_ctl \<Rightarrow> (fd \<Rightarrow> u64) \<Rightarrow> nat \<Rightarrow> ('k, 'u) server_world listener" where
  "clients_listener ctl hash now =
     \<lparr>l_subscribe = \<lambda>events h r. (case subscribe (epoll_policy ctl hash) now events h (The_stored h) r of
                                   Some x \<Rightarrow> x | None \<Rightarrow> (NULL_ID, r)),
      l_unsubscribe = \<lambda>sid r. (case unsubscribe (epoll_policy ctl hash) now sid r of
                                 Some x \<Rightarrow> x | None \<Rightarrow> (False, r))\<rparr>"

text \<open>What the event thread runs.\<close>

definition run_server ::
    "'k epoll_ctl \<Rightarrow> (fd \<Rightarrow> u64) \<Rightarrow> nat \<Rightarrow> ('a, ('k, 'u) server_world) server_device \<Rightarrow>
      ('k demultiplexer, server_role, 'u server_app) runner" where
  "run_server ctl hash now d role sid ev r =
     (case role of
        The_server \<Rightarrow>
          (case server_handleEvent (clients_listener ctl hash now) d (sa_own_id (app r)) sid ev (server_of r) of
             (res, s) \<Rightarrow> Some (res, put_server s))
      | The_stored key \<Rightarrow>
          map_option (\<lambda>(res, s). (res, put_server s))
            (stored_handleEvent (clients_listener ctl hash now) d key sid ev (server_of r)))"

definition server_notify ::
    "'k epoll_ctl \<Rightarrow> (fd \<Rightarrow> u64) \<Rightarrow> (events_array \<Rightarrow> events_array) \<Rightarrow> nat \<Rightarrow> ('a, ('k, 'u) server_world) server_device \<Rightarrow>
      fd \<Rightarrow> u32 \<Rightarrow> ('k, 'u) server_world \<Rightarrow> ('k, 'u) server_world option" where
  "server_notify ctl hash sorter now d h events r =
     process_notification (epoll_policy ctl hash) sorter (run_server ctl hash now d) now
       \<lparr>note_handle = h, notified_events_mask = events, last_event = False\<rparr> r"

subsection \<open>Inputs\<close>

text \<open>
  What a server is told: a client asks for a connection, a connected client sends a message, the
  connection of a client breaks. Each is one event of one descriptor, with the answers the device
  then gives; each comes with the time at which the event thread takes it.
\<close>

datatype server_input = Arrival fd | Message fd string | Lost fd

definition serve_input ::
    "'k epoll_ctl \<Rightarrow> (fd \<Rightarrow> u64) \<Rightarrow> (events_array \<Rightarrow> events_array) \<Rightarrow> ('a, ('k, 'u) server_world) server_device \<Rightarrow> fd \<Rightarrow>
      nat \<times> server_input \<Rightarrow> ('k, 'u) server_world \<Rightarrow> ('k, 'u) server_world option" where
  "serve_input ctl hash sorter d sh ni r =
     (case ni of (now, i) \<Rightarrow>
        (case i of
           Arrival h \<Rightarrow> server_notify ctl hash sorter now (d\<lparr>sdv_accept := \<lambda>nb w. (Some h, w)\<rparr>) sh EPOLLIN r
         | Message h m \<Rightarrow>
             server_notify ctl hash sorter now (d\<lparr>sdv_client_read := \<lambda>key buffer w. (int (length m), m, w)\<rparr>) h EPOLLIN r
         | Lost h \<Rightarrow> server_notify ctl hash sorter now (d\<lparr>sdv_client_disconnect := \<lambda>key w. (True, w)\<rparr>) h EPOLLERR r))"

fun serve_inputs ::
    "'k epoll_ctl \<Rightarrow> (fd \<Rightarrow> u64) \<Rightarrow> (events_array \<Rightarrow> events_array) \<Rightarrow> ('a, ('k, 'u) server_world) server_device \<Rightarrow> fd \<Rightarrow>
      (nat \<times> server_input) list \<Rightarrow> ('k, 'u) server_world \<Rightarrow> ('k, 'u) server_world option" where
  "serve_inputs ctl hash sorter d sh [] r = Some r"
| "serve_inputs ctl hash sorter d sh (i # is) r =
     Option.bind (serve_input ctl hash sorter d sh i r) (serve_inputs ctl hash sorter d sh is)"

text \<open>
  The server as its user sees it: the clients that are there, and the callbacks in the order of
  the inputs. A descriptor may come back after its client was lost.
\<close>

fun present_after :: "server_input \<Rightarrow> fd set \<Rightarrow> fd set" where
  "present_after (Arrival h) present = insert h present"
| "present_after (Message h m) present = present"
| "present_after (Lost h) present = present - {h}"

fun user_sees :: "'u server_dispatcher \<Rightarrow> server_input \<Rightarrow> 'u \<Rightarrow> 'u" where
  "user_sees disp (Arrival h) u = ProcessClientConnected h disp u"
| "user_sees disp (Message h m) u = snd (ProcessClientInput h m disp u)"
| "user_sees disp (Lost h) u = ProcessClientDisconnected h disp u"

fun input_possible :: "(fd \<Rightarrow> u64) \<Rightarrow> fd \<Rightarrow> fd set \<Rightarrow> server_input \<Rightarrow> bool" where
  "input_possible hash sh present (Arrival h) \<longleftrightarrow>
     h \<in> int32 \<and> h \<noteq> null_fd \<and> h \<noteq> sh \<and> h \<notin> present \<and> hash h \<noteq> 0"
| "input_possible hash sh present (Message h m) \<longleftrightarrow> h \<in> present"
| "input_possible hash sh present (Lost h) \<longleftrightarrow> h \<in> present"

fun inputs_possible :: "(fd \<Rightarrow> u64) \<Rightarrow> fd \<Rightarrow> fd set \<Rightarrow> server_input list \<Rightarrow> bool" where
  "inputs_possible hash sh present [] \<longleftrightarrow> True"
| "inputs_possible hash sh present (i # is) \<longleftrightarrow>
     input_possible hash sh present i \<and> inputs_possible hash sh (present_after i present) is"

subsection \<open>The invariant\<close>

definition connected_client :: "u64 \<Rightarrow> stored_client" where
  "connected_client sid =
     \<lparr>sc_sub_id = sid, sc_state = E_CONNECTED, sc_input_registered = True, sc_disconnection_registered = True,
      sc_local_buffer = []\<rparr>"

text \<open>
  The server serves the clients \<open>present\<close>: each is stored under its descriptor, connected, and
  subscribed for input; no other descriptor has a subscriber, and no handler is running.
\<close>

definition serving ::
    "(fd \<Rightarrow> u64) \<Rightarrow> fd \<Rightarrow> 'u server_dispatcher \<Rightarrow> fd set \<Rightarrow> ('k, 'u) server_world \<Rightarrow> bool" where
  "serving hash sh disp present r \<longleftrightarrow>
     served hash sh The_server (event_getArray [E_HANDLE_EVENT_IN]) r \<and> sa_own_id (app r) = hash sh \<and>
     sa_dispatcher (app r) = disp \<and> present \<subseteq> int32 - {sh} \<and>
     (\<forall>h. map_of (sa_storage (app r)) h = (if h \<in> present then Some (connected_client (hash h)) else None)) \<and>
     (\<forall>h\<in>present. served hash h (The_stored h) (event_getArray [E_HANDLE_EVENT_IN]) r \<and> hash h \<noteq> 0) \<and>
     (\<forall>h\<in>int32 - {sh} - present. map_of (subscribers_table r) (hash h) = None \<and> \<not> handler_busy (hash h) r)"

lemma servingD:
  assumes "serving hash sh disp present r"
  shows "served hash sh The_server (event_getArray [E_HANDLE_EVENT_IN]) r" and "sa_own_id (app r) = hash sh"
    and "sa_dispatcher (app r) = disp" and "present \<subseteq> int32 - {sh}"
    and "map_of (sa_storage (app r)) h = (if h \<in> present then Some (connected_client (hash h)) else None)"
    and "h \<in> present \<Longrightarrow> served hash h (The_stored h) (event_getArray [E_HANDLE_EVENT_IN]) r"
    and "h \<in> present \<Longrightarrow> hash h \<noteq> 0"
    and "h \<in> int32 \<Longrightarrow> h \<noteq> sh \<Longrightarrow> h \<notin> present \<Longrightarrow> map_of (subscribers_table r) (hash h) = None \<and> \<not> handler_busy (hash h) r"
    and "epoll_inv hash r"
  using assms by (auto simp: serving_def served_def)

text \<open>A call under the keys of \<open>D\<close> leaves what the server keeps of the others as it was.\<close>

lemma serving_step:
  assumes "serving hash sh disp present r" and "epoll_inv hash r'" and "inj_on hash int32" and "sh \<in> int32"
    and "\<forall>sid. sid \<notin> hash ` D \<longrightarrow> frame_at sid r r'" and "D \<subseteq> int32"
    and "present' \<subseteq> int32 - {sh}" and "present' - D = present - D"
    and "sh \<in> D \<Longrightarrow> served hash sh The_server (event_getArray [E_HANDLE_EVENT_IN]) r'"
    and "\<And>h. h \<in> D \<Longrightarrow> h \<in> present' \<Longrightarrow> served hash h (The_stored h) (event_getArray [E_HANDLE_EVENT_IN]) r' \<and> hash h \<noteq> 0"
    and "\<And>h. h \<in> D \<Longrightarrow> h \<noteq> sh \<Longrightarrow> h \<notin> present' \<Longrightarrow>
      map_of (subscribers_table r') (hash h) = None \<and> \<not> handler_busy (hash h) r'"
    and "sa_own_id (app r') = hash sh" and "sa_dispatcher (app r') = disp"
    and "\<And>h. map_of (sa_storage (app r')) h = (if h \<in> present' then Some (connected_client (hash h)) else None)"
  shows "serving hash sh disp present' r'"
proof -
  note s = servingD [OF assms(1)]
  have f: "frame_at (hash h) r r'" if "h \<in> int32" "h \<notin> D" for h
    using assms(3,5,6) that by (auto dest: inj_onD)
  have "served hash sh The_server (event_getArray [E_HANDLE_EVENT_IN]) r'"
    using assms(9) frame_served [OF s(1) f assms(2)] assms(4) by blast
  moreover have "served hash h (The_stored h) (event_getArray [E_HANDLE_EVENT_IN]) r' \<and> hash h \<noteq> 0" if "h \<in> present'" for h
    using assms(7,8,10) that frame_served [OF s(6) f assms(2)] s(7) by blast
  moreover have "map_of (subscribers_table r') (hash h) = None \<and> \<not> handler_busy (hash h) r'"
    if "h \<in> int32 - {sh} - present'" for h
  proof (cases "h \<in> D")
    case False
    then have "h \<notin> present" using assms(8) that by blast
    then show ?thesis using s(8) [of h] f [of h] False that by (auto simp: frame_at_def)
  qed (use assms(11) that in auto)
  ultimately show ?thesis
    using assms(7,12-14) by (simp add: serving_def)
qed

subsection \<open>One input\<close>

lemma in_bit: "EPOLLIN AND epoll_bit e \<noteq> 0 \<longleftrightarrow> e = E_HANDLE_EVENT_IN"
  and err_bit: "EPOLLERR AND epoll_bit e \<noteq> 0 \<longleftrightarrow> e = E_HANDLE_EVENT_ERR"
  by (cases e; simp add: epoll_consts)+

lemma epoll_inv_entry: "epoll_inv hash r \<Longrightarrow> epoll_inv hash (set_entry s e r)"
  by (rule reactor_inv_handlers)

lemma server_call:
  assumes "served hash h cl events r" and "\<And>es. mset (sorter es) = mset es" and "\<And>e. m AND epoll_bit e \<noteq> 0 \<longleftrightarrow> e = ev"
    and "run_server ctl hash now d cl (hash h) ev (set_entry (hash h) \<lparr>client = Some cl, in_progress = True\<rparr> r) = Some (res, r1)"
    and "ev \<noteq> E_HANDLE_EVENT_NULL" and "res \<noteq> E_RESULT_INVALID_REFERENCE"
  shows "server_notify ctl hash sorter now d h m r = Some (after_call (hash h) now r1)"
  unfolding server_notify_def after_call_def
  using notify_runs [where run = "run_server ctl hash now d" and ctl = ctl and now = now, OF assms(1-3,5,4,6)] .

lemma message_served:
  assumes "serving hash sh disp present r" and "\<And>es. mset (sorter es) = mset es" and "inj_on hash int32" and "sh \<in> int32"
    and "sd_local_buffer disp = None" and "h \<in> present"
  shows "\<exists>r'. serve_input ctl hash sorter d sh (now, Message h m) r = Some r' \<and> serving hash sh disp present r' \<and>
    sa_user (app r') = user_sees disp (Message h m) (sa_user (app r))"
proof -
  note s = servingD [OF assms(1)]
  define r0 where "r0 = set_entry (hash h) \<lparr>client = Some (The_stored h), in_progress = True\<rparr> r"
  define dm where "dm = d\<lparr>sdv_client_read := \<lambda>key buffer w. (int (length m), m, w)\<rparr>"
  have r0: "epoll_inv hash r0" "app r0 = app r" "map_of (handlers_table r0) (hash h) = Some \<lparr>client = Some (The_stored h), in_progress = True\<rparr>"
    "subscribers_table r0 = subscribers_table r"
    using s(9) by (simp_all add: r0_def frame_simps epoll_inv_entry)
  have st: "map_of (sa_storage (app r)) h = Some (connected_client (hash h))" using s(5) assms(6) by simp
  define U where "U = user_sees disp (Message h m) (sa_user (app r))"
  define A where "A = (app r)\<lparr>
      sa_storage := AList.update h (connected_client (hash h))
        (AList.update h ((connected_client (hash h))\<lparr>sc_local_buffer := m\<rparr>) (sa_storage (app r))),
      sa_user := U\<rparr>"
  have pci: "ProcessClientInput h m disp (sa_user (app r)) = (disp, U)"
    using assms(5) by (simp add: U_def ProcessClientInput_def split: option.splits)
  have run: "run_server ctl hash now dm (The_stored h) (hash h) E_HANDLE_EVENT_IN r0 = Some (E_RESULT_SUCCESS, r0\<lparr>app := A\<rparr>)"
    using st s(3) pci
    by (simp add: run_server_def stored_handleEvent_def server_of_def r0(2) stored_onInputEvent_def dm_def stored_update_def
        server_ProcessClientInput_def Let_def event_result_of_def put_server_def A_def connected_client_def)
  define r' where "r' = after_call (hash h) now (r0\<lparr>app := A\<rparr>)"
  have n: "server_notify ctl hash sorter now dm h EPOLLIN r = Some r'"
    unfolding r'_def using server_call [OF s(6) [OF assms(6)] assms(2) in_bit run [unfolded r0_def], folded r0_def] by simp
  have i: "epoll_inv hash (r0\<lparr>app := A\<rparr>)" and u: "um_inv (subscribers_table (r0\<lparr>app := A\<rparr>))"
    using r0(1) reactor_invD(2) [OF r0(1)] by simp_all
  have i': "epoll_inv hash r'" and a': "app r' = A"
    unfolding r'_def using after_call_inv [OF i] after_call_app [OF u] by simp_all
  have f: "frame_at sid r r'" if "sid \<noteq> hash h" for sid
  proof -
    have "frame_at sid r r0" using that by (auto simp: r0_def intro: frame_set_entry)
    also have "frame_at sid r0 (r0\<lparr>app := A\<rparr>)" by (rule frame_app)
    also have "frame_at sid (r0\<lparr>app := A\<rparr>) r'"
      unfolding r'_def by (rule after_call_frame [OF u]) (use that in auto)
    finally show ?thesis .
  qed
  have own: "served hash h (The_stored h) (event_getArray [E_HANDLE_EVENT_IN]) r'"
    unfolding r'_def by (rule after_call_served [OF i]) (use r0(3,4) s(6) [OF assms(6)] in \<open>simp_all add: served_def\<close>)
  have "serving hash sh disp present r'"
    by (rule serving_step [OF assms(1) i' assms(3,4), where D = "{h}"])
      (use f s assms(6) own in \<open>auto simp: a' A_def update_conv'\<close>)
  then show ?thesis
    using n by (simp add: serve_input_def dm_def a' A_def U_def)
qed

lemma loss_served:
  assumes "serving hash sh disp present r" and "\<And>es. mset (sorter es) = mset es" and "inj_on hash int32" and "sh \<in> int32"
    and "\<And>k w. sdv_close d k w = w" and "h \<in> present"
  shows "\<exists>r'. serve_input ctl hash sorter d sh (now, Lost h) r = Some r' \<and> serving hash sh disp (present - {h}) r' \<and>
    sa_user (app r') = user_sees disp (Lost h) (sa_user (app r))"
proof -
  note s = servingD [OF assms(1)]
  define r0 where "r0 = set_entry (hash h) \<lparr>client = Some (The_stored h), in_progress = True\<rparr> r"
  define dm where "dm = d\<lparr>sdv_client_disconnect := \<lambda>key w. (True, w)\<rparr>"
  have sub: "map_of (subscribers_table r) (hash h) =
      Some ((SubscriberContext (getEventsMask (event_getArray [E_HANDLE_EVENT_IN])) (hash h) h)\<lparr>registered_to_monitor := True\<rparr>)"
    using s(6) [OF assms(6)] by (simp add: served_def)
  have r0: "epoll_inv hash r0" "app r0 = app r" "subscribers_table r0 = subscribers_table r"
    using s(9) by (simp_all add: r0_def frame_simps epoll_inv_entry)
  obtain r1 where r1: "unsubscribe (epoll_policy ctl hash) now (hash h) r0 = Some (True, r1)"
      "map_of (subscribers_table r1) (hash h) = None" "epoll_inv hash r1" "app r1 = app r"
    using unsubscribe_live [OF r0(1), of "hash h" _ ctl now] sub not_stale_registered r0(2,3) by metis
  have st: "map_of (sa_storage (app r)) h = Some (connected_client (hash h))" using s(5) assms(6) by simp
  define A where "A = (app r)\<lparr>
      sa_storage := assoc_erase h (AList.update h ((connected_client (hash h))\<lparr>sc_state := E_DISCONNECTED\<rparr>) (sa_storage (app r))),
      sa_user := ProcessClientDisconnected h disp (sa_user (app r))\<rparr>"
  have run: "run_server ctl hash now dm (The_stored h) (hash h) E_HANDLE_EVENT_ERR r0 = Some (E_RESULT_SUCCESS, r1\<lparr>app := A\<rparr>)"
    using st s(3) s(7) [OF assms(6)] r1(1,4) assms(5)
    by (simp add: run_server_def stored_handleEvent_def server_of_def r0(2) stored_onErrorEvent_def dm_def stored_update_def
        stored_ProcessDisconnection_def server_ProcessClientDisconnection_def client_destroy_def clients_listener_def
        Let_def event_result_of_def put_server_def A_def connected_client_def update_conv')
  define r' where "r' = after_call (hash h) now (r1\<lparr>app := A\<rparr>)"
  have n: "server_notify ctl hash sorter now dm h EPOLLERR r = Some r'"
    unfolding r'_def using server_call [OF s(6) [OF assms(6)] assms(2) err_bit run [unfolded r0_def]] by simp
  have i: "epoll_inv hash (r1\<lparr>app := A\<rparr>)" and u: "um_inv (subscribers_table (r1\<lparr>app := A\<rparr>))"
    using r1(3) reactor_invD(2) [OF r1(3)] by simp_all
  have i': "epoll_inv hash r'" and a': "app r' = A"
    unfolding r'_def using after_call_inv [OF i] after_call_app [OF u] by simp_all
  have f: "frame_at sid r r'" if "sid \<noteq> hash h" for sid
  proof -
    have "frame_at sid r r0" using that by (auto simp: r0_def intro: frame_set_entry)
    also have "frame_at sid r0 r1" using that by (intro frame_unsubscribe [OF r0(1) r1(1)]) auto
    also have "frame_at sid r1 (r1\<lparr>app := A\<rparr>)" by (rule frame_app)
    also have "frame_at sid (r1\<lparr>app := A\<rparr>) r'"
      unfolding r'_def by (rule after_call_frame [OF u]) (use that in auto)
    finally show ?thesis .
  qed
  have gone: "map_of (subscribers_table r') (hash h) = None \<and> \<not> handler_busy (hash h) r'"
    unfolding r'_def by (rule after_call_gone [OF u]) (simp add: r1(2))
  have "serving hash sh disp (present - {h}) r'"
    by (rule serving_step [OF assms(1) i' assms(3,4), where D = "{h}"])
      (use f s assms(6) gone in \<open>auto simp: a' A_def update_conv'\<close>)
  then show ?thesis
    using n by (simp add: serve_input_def dm_def a' A_def)
qed

text \<open>
  The client that is accepted; accepting may change the kernel, and the kernel may keep what
  requests to the demultiplexer do not touch.
\<close>

definition put_kernel :: "'k \<Rightarrow> ('k, 'u) server_world \<Rightarrow> ('k, 'u) server_world" where
  "put_kernel k r = r\<lparr>demux_impl := (demux_impl r)\<lparr>kernel := k\<rparr>\<rparr>"

lemma put_kernel_frame [simp]:
  "app (put_kernel k r) = app r"
  "subscribers_table (put_kernel k r) = subscribers_table r"
  "handlers_table (put_kernel k r) = handlers_table r"
  "kernel (demux_impl (put_kernel k r)) = k"
  "entry_at sid (put_kernel k r) = entry_at sid r"
  "put_kernel (kernel (demux_impl r)) r = r"
  by (simp_all add: put_kernel_def entry_at_def)

lemma put_kernel_inv [simp]: "epoll_inv hash (put_kernel k r) = epoll_inv hash r"
  by (simp add: put_kernel_def reactor_inv_def monitored_kernel)

lemma put_kernel_frame_at: "frame_at sid r (put_kernel k r)"
  by (simp add: frame_same)

lemma arrival_accepted:
  assumes "serving hash sh disp present r" and "\<And>es. mset (sorter es) = mset es" and "inj_on hash int32" and "sh \<in> int32"
    and "\<And>e op f ev k. fst (ctl e op f ev k) \<noteq> - 1" and "input_possible hash sh present (Arrival h)"
    and acc: "\<And>nb w. kernel (demux_impl w) = kernel (demux_impl r) \<Longrightarrow> sdv_accept dm nb w = (Some h, put_kernel k w)"
  shows "\<exists>r'. server_notify ctl hash sorter now dm sh EPOLLIN r = Some r' \<and> serving hash sh disp (insert h present) r' \<and>
    sa_user (app r') = user_sees disp (Arrival h) (sa_user (app r)) \<and>
    ((\<forall>e op f ev k. snd (ctl e op f ev k) = k) \<longrightarrow> kernel (demux_impl r') = k)"
proof -
  note s = servingD [OF assms(1)]
  have h: "h \<in> int32" "h \<noteq> null_fd" "h \<noteq> sh" "h \<notin> present" "hash h \<noteq> 0" and ne: "hash h \<noteq> hash sh"
    using assms(3,4,6) by (auto dest: inj_onD)
  define r0 where "r0 = set_entry (hash sh) \<lparr>client = Some The_server, in_progress = True\<rparr> r"
  let ?in = "event_getArray [E_HANDLE_EVENT_IN]"
  have r0: "epoll_inv hash r0" "app r0 = app r" "subscribers_table r0 = subscribers_table r"
    "map_of (handlers_table r0) (hash sh) = Some \<lparr>client = Some The_server, in_progress = True\<rparr>"
    and k0: "kernel (demux_impl r0) = kernel (demux_impl r)"
    using s(9) by (simp_all add: r0_def frame_simps epoll_inv_entry)
  define ra where "ra = put_kernel k r0"
  have ra: "epoll_inv hash ra" "app ra = app r" "subscribers_table ra = subscribers_table r0"
    "handlers_table ra = handlers_table r0" "kernel (demux_impl ra) = k" "entry_at (hash h) ra = entry_at (hash h) r0"
    using r0 by (simp_all add: ra_def)
  have free: "map_of (subscribers_table r0) (hash h) = None" "\<not> in_progress (entry_at (hash h) r0)"
    using s(8) [OF h(1,3,4)] ne r0(3)
    by (auto simp: r0_def frame_simps handler_busy_def entry_at_def default_entry_def split: option.splits)
  obtain r1 where r1: "subscribe (epoll_policy ctl hash) now ?in h (The_stored h) ra = Some (hash h, r1)" "epoll_inv hash r1"
      "map_of (subscribers_table r1) (hash h) = Some ((SubscriberContext (getEventsMask ?in) (hash h) h)\<lparr>registered_to_monitor := True\<rparr>)"
      "map_of (handlers_table r1) (hash h) = Some ((entry_at (hash h) r0)\<lparr>client := Some (The_stored h)\<rparr>)" "app r1 = app r"
    using subscribe_accepted [where ctl = ctl and now = now and events = ?in and hdl = "The_stored h",
        OF ra(1) free(1) [folded ra(3)] h(5) assms(3) h(1) assms(5)] ra(2,6) by auto
  have own0: "served hash h (The_stored h) ?in r1"
    using r1(2-4) free(2) by (simp add: served_def)
  have st: "map_of (sa_storage (app r)) h = None" using s(5) h(4) by simp
  define A where "A = (app r)\<lparr>
      sa_storage := AList.update h (connected_client (hash h))
        (AList.update h ((connected_client (hash h))\<lparr>sc_input_registered := False, sc_disconnection_registered := False\<rparr>) (sa_storage (app r))),
      sa_user := ProcessClientConnected h disp (sa_user (app r))\<rparr>"
  have run: "run_server ctl hash now dm The_server (hash sh) E_HANDLE_EVENT_IN r0 = Some (E_RESULT_SUCCESS, r1\<lparr>app := A\<rparr>)"
    using st s(2,3) r1(1,5) h(2,5) acc [of r0, OF k0, folded ra_def]
    by (simp add: run_server_def server_handleEvent_def server_ProcessInputEvent_def server_accept_def server_of_def r0(2) ra(2)
        setupClientEndpoint_def generateKey_def clients_listener_def server_onClientConnected_def storage_store_def assoc_store_def
        Let_def event_result_of_def put_server_def A_def connected_client_def update_conv')
  define r' where "r' = after_call (hash sh) now (r1\<lparr>app := A\<rparr>)"
  have n: "server_notify ctl hash sorter now dm sh EPOLLIN r = Some r'"
    unfolding r'_def using server_call [OF s(1) assms(2) in_bit run [unfolded r0_def]] by simp
  have i: "epoll_inv hash (r1\<lparr>app := A\<rparr>)" and u: "um_inv (subscribers_table (r1\<lparr>app := A\<rparr>))"
    using r1(2) reactor_invD(2) [OF r1(2)] by simp_all
  have i': "epoll_inv hash r'" and a': "app r' = A"
    unfolding r'_def using after_call_inv [OF i] after_call_app [OF u] by simp_all
  have f1: "frame_at sid r0 (r1\<lparr>app := A\<rparr>)" if "sid \<noteq> hash h" for sid
    using frame_trans [OF put_kernel_frame_at [of _ r0 k, folded ra_def]
        frame_trans [OF frame_subscribe [OF ra(1) r1(1) _ free(1) [folded ra(3)]] frame_app]] that by auto
  have f2: "frame_at sid (r1\<lparr>app := A\<rparr>) r'" if "sid \<noteq> hash sh" for sid
    unfolding r'_def by (rule after_call_frame [OF u]) (use that in auto)
  have f: "frame_at sid r r'" if "sid \<notin> hash ` {h, sh}" for sid
  proof -
    have "frame_at sid r r0" using that by (auto simp: r0_def intro: frame_set_entry)
    also have "frame_at sid r0 (r1\<lparr>app := A\<rparr>)" using that by (auto intro: f1)
    also have "frame_at sid (r1\<lparr>app := A\<rparr>) r'" using that by (auto intro: f2)
    finally show ?thesis .
  qed
  have srv: "map_of (subscribers_table r0) (hash sh) = Some ((SubscriberContext (getEventsMask ?in) (hash sh) sh)\<lparr>registered_to_monitor := True\<rparr>)"
    using s(1) r0(3) by (simp add: served_def)
  then have "served hash sh The_server ?in r'"
    unfolding r'_def using f1 [of "hash sh"] ne r0(4) not_stale_registered
    by (intro after_call_served [OF i]) (auto simp: frame_at_def)
  moreover have "served hash h (The_stored h) ?in r'"
    by (rule frame_served [OF _ f2 i']) (use own0 ne in \<open>simp_all add: served_app\<close>)
  ultimately have "serving hash sh disp (insert h present) r'"
    by (intro serving_step [OF assms(1) i' assms(3,4), where D = "{h, sh}"])
      (use f s assms(4) h in \<open>auto simp: a' A_def update_conv'\<close>)
  moreover have "kernel (demux_impl r') = k" if "\<forall>e op f ev k. snd (ctl e op f ev k) = k"
    unfolding r'_def after_call_demux [OF u]
    using subscribe_kernel [OF ra(1) free(1) [folded ra(3)] r1(1)] that ra(5) by simp
  ultimately show ?thesis
    using n by (simp add: a' A_def)
qed

lemma arrival_served:
  assumes "serving hash sh disp present r" and "\<And>es. mset (sorter es) = mset es" and "inj_on hash int32" and "sh \<in> int32"
    and "\<And>e op f ev k. fst (ctl e op f ev k) \<noteq> - 1" and "input_possible hash sh present (Arrival h)"
  shows "\<exists>r'. serve_input ctl hash sorter d sh (now, Arrival h) r = Some r' \<and> serving hash sh disp (insert h present) r' \<and>
    sa_user (app r') = user_sees disp (Arrival h) (sa_user (app r))"
proof -
  let ?d = "d\<lparr>sdv_accept := \<lambda>nb w. (Some h, w)\<rparr>"
  have "sdv_accept ?d nb w = (Some h, put_kernel (kernel (demux_impl r)) w)"
    if "kernel (demux_impl w) = kernel (demux_impl r)" for nb w
    by (simp add: that [symmetric])
  from arrival_accepted [where ctl = ctl and now = now and dm = ?d, OF assms this] show ?thesis
    by (auto simp: serve_input_def)
qed


lemma input_served:
  assumes "serving hash sh disp present r" and "\<And>es. mset (sorter es) = mset es" and "inj_on hash int32" and "sh \<in> int32"
    and "\<And>k w. sdv_close d k w = w" and "\<And>e op f ev k. fst (ctl e op f ev k) \<noteq> - 1" and "sd_local_buffer disp = None"
    and "input_possible hash sh present i"
  shows "\<exists>r'. serve_input ctl hash sorter d sh (now, i) r = Some r' \<and> serving hash sh disp (present_after i present) r' \<and>
    sa_user (app r') = user_sees disp i (sa_user (app r))"
proof (cases i)
  case (Arrival h)
  have "input_possible hash sh present (Arrival h)" using assms(8) Arrival by simp
  from arrival_served [where ctl = ctl and now = now and d = d, OF assms(1-4,6) this] Arrival show ?thesis by auto
next
  case (Message h m)
  have "h \<in> present" using assms(8) Message by simp
  from message_served [where ctl = ctl and now = now and d = d and m = m, OF assms(1-4,7) this] Message show ?thesis by auto
next
  case (Lost h)
  have "h \<in> present" using assms(8) Lost by simp
  from loss_served [where ctl = ctl and now = now, OF assms(1-5) this] Lost show ?thesis by auto
qed

lemma inputs_served:
  assumes "\<And>es. mset (sorter es) = mset es" and "inj_on hash int32" and "sh \<in> int32"
    and "\<And>k w. sdv_close d k w = w" and "\<And>e op f ev k. fst (ctl e op f ev k) \<noteq> - 1" and "sd_local_buffer disp = None"
  shows "serving hash sh disp present r \<Longrightarrow> inputs_possible hash sh present (map snd is) \<Longrightarrow>
    \<exists>r'. serve_inputs ctl hash sorter d sh is r = Some r' \<and> serving hash sh disp (fold present_after (map snd is) present) r' \<and>
      sa_user (app r') = fold (user_sees disp) (map snd is) (sa_user (app r))"
proof (induction "is" arbitrary: present r)
  case (Cons ni ns)
  obtain now i where ni: "ni = (now, i)" by (cases ni)
  have p: "input_possible hash sh present i" "inputs_possible hash sh (present_after i present) (map snd ns)"
    using Cons.prems(2) by (simp_all add: ni)
  obtain r1 where r1: "serve_input ctl hash sorter d sh (now, i) r = Some r1" "serving hash sh disp (present_after i present) r1"
      "sa_user (app r1) = user_sees disp i (sa_user (app r))"
    using input_served [where ctl = ctl and now = now, OF Cons.prems(1) assms(1-6) p(1)] by blast
  from Cons.IH [OF r1(2) p(2)] r1(1,3) show ?case by (simp add: ni)
qed simp

subsection \<open>Properties\<close>

text \<open>A bound server starts to listen to its descriptor.\<close>

definition server_start ::
    "'k epoll_ctl \<Rightarrow> (fd \<Rightarrow> u64) \<Rightarrow> nat \<Rightarrow> fd \<Rightarrow> ('k, 'u) server_world \<Rightarrow> ('k, 'u) server_world option" where
  "server_start ctl hash now sh r =
     map_option (\<lambda>(sid, r'). r'\<lparr>app := (app r')\<lparr>sa_own_id := sid\<rparr>\<rparr>)
       (subscribe (epoll_policy ctl hash) now (event_getArray [E_HANDLE_EVENT_IN]) sh The_server r)"

lemma start_serving:
  assumes "epoll_inv hash r" and "\<And>h. h \<in> int32 \<Longrightarrow> map_of (subscribers_table r) (hash h) = None \<and> map_of (handlers_table r) (hash h) = None"
    and "sa_storage (app r) = []" and "inj_on hash int32" and "sh \<in> int32" and "hash sh \<noteq> 0"
    and "\<And>e op f ev k. fst (ctl e op f ev k) \<noteq> - 1"
  shows "\<exists>r'. server_start ctl hash now sh r = Some r' \<and> serving hash sh (sa_dispatcher (app r)) {} r' \<and>
    sa_user (app r') = sa_user (app r)"
proof -
  note f = assms(2) [OF assms(5), THEN conjunct1] assms(2) [OF assms(5), THEN conjunct2]
  obtain r1 where r1: "subscribe (epoll_policy ctl hash) now (event_getArray [E_HANDLE_EVENT_IN]) sh The_server r = Some (hash sh, r1)"
      "served hash sh The_server (event_getArray [E_HANDLE_EVENT_IN]) r1" "app r1 = app r"
    using served_subscribed [where ctl = ctl and now = now, OF assms(1) f assms(6,4,5,7)] by metis
  have "map_of (subscribers_table r1) (hash h) = None \<and> \<not> handler_busy (hash h) r1" if "h \<in> int32 - {sh}" for h
  proof -
    have "hash sh \<noteq> hash h" using that assms(4,5) by (auto dest: inj_onD)
    from frame_subscribe [OF assms(1) r1(1) this f(1)] assms(2) [of h] that show ?thesis
      by (auto simp: frame_at_def handler_busy_def split: option.splits)
  qed
  then have "serving hash sh (sa_dispatcher (app r)) {} (r1\<lparr>app := (app r1)\<lparr>sa_own_id := hash sh\<rparr>\<rparr>)"
    using r1(2,3) assms(3) by (simp add: serving_def handler_busy_def)
  with r1 show ?thesis by (simp add: server_start_def)
qed


text \<open>Two clients of a server that notes what its callbacks are called with.\<close>

definition noting :: "string list server_dispatcher" where
  "noting = \<lparr>sd_local_buffer = None, sd_input_cb = Some (\<lambda>h m u. u @ [m]), sd_connected_cb = Some (\<lambda>h u. u @ [''connected'']),
     sd_disconnected_cb = Some (\<lambda>h u. u @ [''gone''])\<rparr>"

definition example_server_app :: "string list server_app" where
  "example_server_app = \<lparr>sa_own_id = 0, sa_state = E_LISTENING, sa_storage = [], sa_dispatcher = noting, sa_user = []\<rparr>"

definition example_server_device :: "(string, (unit, string list) server_world) server_device" where
  "example_server_device =
     \<lparr>sdv_bind = \<lambda>a ru w. (True, w), sdv_listen = \<lambda>b w. (True, w), sdv_accept = \<lambda>nb w. (None, w), sdv_close = \<lambda>h w. w,
      sdv_client_disconnect = \<lambda>h w. (True, w), sdv_client_read = \<lambda>h b w. (0, [], w), sdv_client_send = \<lambda>h m w. (0, w)\<rparr>"

definition example_inputs :: "(nat \<times> server_input) list" where
  "example_inputs = [(0, Arrival 5), (1, Message 5 ''a''), (2, Arrival 6), (400, Lost 5), (401, Arrival 5), (402, Message 6 ''b''),
     (403, Message 5 ''c'')]"


text \<open>
  A client in the middle of a notification: the event thread is in its handler, and the client is
  still stored (\<open>client_live\<close>), or erased and destroyed already (\<open>client_dead\<close>).
\<close>

definition client_live :: "(fd \<Rightarrow> u64) \<Rightarrow> fd \<Rightarrow> ('k, 'u) server_world \<Rightarrow> bool" where
  "client_live hash h r \<longleftrightarrow> epoll_inv hash r \<and> hash h \<noteq> 0 \<and>
     map_of (subscribers_table r) (hash h) =
       Some ((SubscriberContext (getEventsMask (event_getArray [E_HANDLE_EVENT_IN])) (hash h) h)\<lparr>registered_to_monitor := True\<rparr>) \<and>
     map_of (handlers_table r) (hash h) = Some \<lparr>client = Some (The_stored h), in_progress = True\<rparr> \<and>
     map_of (sa_storage (app r)) h = Some (connected_client (hash h))"

definition client_dead :: "(fd \<Rightarrow> u64) \<Rightarrow> fd \<Rightarrow> ('k, 'u) server_world \<Rightarrow> bool" where
  "client_dead hash h r \<longleftrightarrow>
     map_of (handlers_table r) (hash h) = Some \<lparr>client = Some (The_stored h), in_progress = True\<rparr> \<and>
     map_of (sa_storage (app r)) h = None"

lemma put_server_of [simp]: "put_server (server_of r) = r"
  by (simp add: put_server_def server_of_def)

lemma call_stored:
  assumes "map_of (handlers_table r) sid = Some \<lparr>client = Some (The_stored h), in_progress = True\<rparr>"
  shows "call_handler run sid ev r = run (The_stored h) sid ev (set_entry sid \<lparr>client = Some (The_stored h), in_progress = True\<rparr> r)"
  using assms by (simp add: call_handler_def entry_at_def Let_def)

lemma dead_client_called:
  assumes "client_dead hash h r" and "E_HANDLE_EVENT_IN \<in> set es"
  shows "handle_events (run_server ctl hash now d) (hash h) c es r = None"
  using assms(2)
proof (induction es)
  case (Cons e es)
  have "call_handler (run_server ctl hash now d) (hash h) ev r = None" for ev
    using assms(1)
    by (simp add: client_dead_def call_stored run_server_def stored_handleEvent_def server_of_def frame_simps)
  then show ?case using Cons by auto
qed simp

lemma live_client_error:
  assumes "client_live hash h r" and "\<And>k w. sdv_close d k w = w" and "\<And>w. sdv_client_disconnect d h w = (True, w)"
  shows "\<exists>r'. call_handler (run_server ctl hash now d) (hash h) E_HANDLE_EVENT_ERR r = Some (E_RESULT_SUCCESS, r') \<and> client_dead hash h r'"
proof -
  define r0 where "r0 = set_entry (hash h) \<lparr>client = Some (The_stored h), in_progress = True\<rparr> r"
  have r0: "epoll_inv hash r0" "app r0 = app r" "map_of (handlers_table r0) (hash h) = Some \<lparr>client = Some (The_stored h), in_progress = True\<rparr>"
    "map_of (subscribers_table r0) (hash h) =
       Some ((SubscriberContext (getEventsMask (event_getArray [E_HANDLE_EVENT_IN])) (hash h) h)\<lparr>registered_to_monitor := True\<rparr>)"
    "map_of (sa_storage (app r0)) h = Some (connected_client (hash h))"
    using assms(1) by (simp_all add: client_live_def r0_def frame_simps epoll_inv_entry)
  obtain r1 where r1: "unsubscribe (epoll_policy ctl hash) now (hash h) r0 = Some (True, r1)" "app r1 = app r"
      "map_of (handlers_table r1) (hash h) = Some \<lparr>client = Some (The_stored h), in_progress = True\<rparr>"
    using unsubscribe_live [OF r0(1,4) not_stale_registered, of ctl now] r0(2,3) by (auto simp: handler_busy_def)
  have "call_handler (run_server ctl hash now d) (hash h) E_HANDLE_EVENT_ERR r = run_server ctl hash now d (The_stored h) (hash h) E_HANDLE_EVENT_ERR r0"
    using assms(1) by (simp add: client_live_def call_stored r0_def)
  then show ?thesis
    using r0(2,5) r1 assms
    by (simp add: run_server_def stored_handleEvent_def server_of_def stored_onErrorEvent_def stored_update_def
        stored_ProcessDisconnection_def server_ProcessClientDisconnection_def client_destroy_def clients_listener_def
        Let_def event_result_of_def put_server_def connected_client_def update_conv' client_live_def client_dead_def)
qed

lemma live_client_quiet:
  assumes "client_live hash h r" and "e \<in> {E_HANDLE_EVENT_HUP, E_HANDLE_EVENT_OUT, E_HANDLE_EVENT_PRIO_IN, E_HANDLE_EVENT_LAST}"
  shows "\<exists>res r'. call_handler (run_server ctl hash now d) (hash h) e r = Some (res, r') \<and> res \<noteq> E_RESULT_INVALID_REFERENCE \<and>
    client_live hash h r'"
proof -
  define r0 where "r0 = set_entry (hash h) \<lparr>client = Some (The_stored h), in_progress = True\<rparr> r"
  have r0: "client_live hash h r0"
    using assms(1) by (simp add: client_live_def r0_def frame_simps epoll_inv_entry)
  have "run_server ctl hash now d (The_stored h) (hash h) e r0 =
      Some (if e \<in> {E_HANDLE_EVENT_HUP, E_HANDLE_EVENT_OUT} then E_RESULT_SUCCESS else E_RESULT_METHOD_NOT_IMPLEMENTED, r0)"
    using assms(2) r0 by (auto simp: client_live_def run_server_def stored_handleEvent_def server_of_def connected_client_def
        put_server_def)
  then show ?thesis
    using assms(1) r0 by (auto simp: client_live_def call_stored r0_def)
qed

lemma live_client_fails:
  assumes "client_live hash h r" and "\<And>w. sdv_client_disconnect d h w = (True, w)" and "\<And>b w. sdv_client_read d h b w = (- 1, b, w)"
    and "e \<in> {E_HANDLE_EVENT_IN, E_HANDLE_EVENT_SHUTDOWN}"
  shows "call_handler (run_server ctl hash now d) (hash h) e r = None"
proof -
  have c: "map_of (handlers_table r) (hash h) = Some \<lparr>client = Some (The_stored h), in_progress = True\<rparr>"
    and s: "map_of (sa_storage (app r)) h = Some (connected_client (hash h))"
    using assms(1) by (simp_all add: client_live_def)
  show ?thesis
    using assms(2-4) s
    by (auto simp: call_stored [OF c] run_server_def stored_handleEvent_def server_of_def frame_simps connected_client_def
        stored_onInputEvent_def stored_onErrorEvent_def stored_ProcessDisconnection_def stored_onDisconnection_def Let_def)
qed

lemma live_client_reset:
  assumes "\<And>k w. sdv_close d k w = w" and "\<And>w. sdv_client_disconnect d h w = (True, w)"
    and "\<And>b w. sdv_client_read d h b w = (- 1, b, w)"
  shows "client_live hash h r \<Longrightarrow> E_HANDLE_EVENT_IN \<in> set es \<Longrightarrow>
    handle_events (run_server ctl hash now d) (hash h) c es r = None"
proof (induction es arbitrary: r)
  case (Cons e es)
  note live = Cons.prems(1)
  consider "e = E_HANDLE_EVENT_NULL" | "e \<in> {E_HANDLE_EVENT_IN, E_HANDLE_EVENT_SHUTDOWN}" | "e = E_HANDLE_EVENT_ERR"
    | "e \<in> {E_HANDLE_EVENT_HUP, E_HANDLE_EVENT_OUT, E_HANDLE_EVENT_PRIO_IN, E_HANDLE_EVENT_LAST}"
    by (cases e) auto
  then show ?case
  proof cases
    case 1
    then show ?thesis using Cons by simp
  next
    case 2
    then show ?thesis using live_client_fails [OF live assms(2,3) 2] by auto
  next
    case 3
    then have "E_HANDLE_EVENT_IN \<in> set es" using Cons.prems(2) by simp
    then show ?thesis
      using live_client_error [OF live assms(1,2), of ctl now] dead_client_called 3 by fastforce
  next
    case 4
    then have "E_HANDLE_EVENT_IN \<in> set es" using Cons.prems(2) by auto
    then show ?thesis
      using live_client_quiet [OF live 4, of ctl now d] Cons.IH 4 by fastforce
  qed
qed simp

text \<open>
  C12: A client of a server resets its connection. The kernel reports input, an error and a hangup at
  once, and reading fails. Whatever the order in which the reactor takes them, the endpoint that
  fails calls back the server, which erases it from the storage in the middle of its own member
  function, or of the notification: the next step is on a destroyed object. So it is for any mask
  with an input event whose read fails.
\<close>

theorem reset_client_use_after_free:
  assumes "serving hash sh disp present r" and "h \<in> present" and "\<And>k w. sdv_close d k w = w"
    and "\<And>w. sdv_client_disconnect d h w = (True, w)" and "\<And>b w. sdv_client_read d h b w = (- 1, b, w)"
    and "\<And>es. mset (sorter es) = mset es" and "m AND EPOLLIN \<noteq> 0"
  shows "server_notify ctl hash sorter now d h m r = None"
proof -
  note s = servingD [OF assms(1)]
  have sub: "map_of (subscribers_table r) (hash h) =
      Some ((SubscriberContext (getEventsMask (event_getArray [E_HANDLE_EVENT_IN])) (hash h) h)\<lparr>registered_to_monitor := True\<rparr>)"
    and hs: "map_of (handlers_table r) (hash h) = Some \<lparr>client = Some (The_stored h), in_progress = False\<rparr>"
    using s(6) [OF assms(2)] by (simp_all add: served_def)
  define r0 where "r0 = set_entry (hash h) \<lparr>client = Some (The_stored h), in_progress = True\<rparr> r"
  have live: "client_live hash h r0"
    using sub s(5) [of h] s(7) [OF assms(2)] s(9) assms(2)
    by (simp add: client_live_def r0_def frame_simps epoll_inv_entry)
  have "E_HANDLE_EVENT_IN \<in> set (getEventsFromMask m)"
  proof -
    have "epoll_bit E_HANDLE_EVENT_IN = EPOLLIN" by (simp add: epoll_consts)
    with assms(7) have "E_HANDLE_EVENT_IN \<in> {e. m AND epoll_bit e \<noteq> 0}" by simp
    then show ?thesis unfolding getEventsFromMask_events(2) [symmetric] by simp
  qed
  then have "E_HANDLE_EVENT_IN \<in> set (sorter (getEventsFromMask m))"
    using mset_eq_setD [OF assms(6)] by simp
  note none = live_client_reset [OF assms(3-5) live this]
  have "setHandlerInProgress (hash h) True r = (True, r0)"
    using hs by (simp add: setHandlerInProgress_def r0_def)
  with none sub show ?thesis
    by (simp add: server_notify_def process_notification_def epoll_key [OF s(9)] Let_def um_value_for_Some SubscriberContext_def)
qed

theorem reset_client_use_after_free_witness:
  "\<exists>r1 r2. server_start ok_ctl demo_hash 0 4 (new_reactor demo_demux example_server_app) = Some r1 \<and>
    serve_inputs ok_ctl demo_hash rev example_server_device 4 [(0, Arrival 5)] r1 = Some r2 \<and>
    server_notify ok_ctl demo_hash rev 1 (example_server_device\<lparr>sdv_client_read := \<lambda>h b w. (- 1, b, w)\<rparr>) 5
      (EPOLLIN OR EPOLLERR OR EPOLLHUP) r2 = None"
proof -
  let ?r = "new_reactor demo_demux example_server_app :: (unit, string list) server_world"
  let ?d = "example_server_device\<lparr>sdv_client_read := \<lambda>h b w. (- 1, b, w)\<rparr>"
  have ctl: "fst (ok_ctl e op f ev k) \<noteq> - 1" for e op f ev k by (simp add: ok_ctl_def)
  have i: "epoll_inv demo_hash ?r" by (rule new_reactor_inv) (rule demo_demux_inv)
  have free: "map_of (subscribers_table ?r) (demo_hash h) = None \<and> map_of (handlers_table ?r) (demo_hash h) = None" for h
    by (simp add: new_reactor_def)
  have app: "app ?r = example_server_app" by (simp add: new_reactor_def)
  have st: "sa_storage (app ?r) = []" and lb: "sd_local_buffer (sa_dispatcher (app ?r)) = None"
    unfolding app by (simp_all add: example_server_app_def noting_def)
  have z: "demo_hash 4 \<noteq> 0" "demo_hash 5 \<noteq> 0" and b: "(4 :: fd) \<in> int32"
    by (simp_all add: int32_def demo_hash_def)
  have cl: "sdv_close example_server_device k w = w" and cl': "sdv_close ?d k w = w"
    and dc: "sdv_client_disconnect ?d 5 w = (True, w)" and rd: "sdv_client_read ?d 5 bf w = (- 1, bf, w)" for k w bf
    by (simp_all add: example_server_device_def)
  have p: "inputs_possible demo_hash 4 {} (map snd [(0 :: nat, Arrival 5)])"
    by (simp add: z int32_def)
  obtain r1 where r1: "server_start ok_ctl demo_hash 0 4 ?r = Some r1" "serving demo_hash 4 (sa_dispatcher (app ?r)) {} r1"
    using start_serving [where ctl = ok_ctl and now = 0, OF i free st inj_demo_hash b z(1) ctl] by blast
  obtain r2 where r2: "serve_inputs ok_ctl demo_hash rev example_server_device 4 [(0, Arrival 5)] r1 = Some r2"
      "serving demo_hash 4 (sa_dispatcher (app ?r)) {5} r2"
    using inputs_served [where ctl = ok_ctl, OF mset_rev inj_demo_hash b cl ctl lb r1(2) p] by auto
  have "(EPOLLIN OR EPOLLERR OR EPOLLHUP) AND EPOLLIN \<noteq> 0" by (simp add: epoll_consts)
  from reset_client_use_after_free [where ctl = ok_ctl and now = 1, OF r2(2) _ cl' dc rd mset_rev this] r1(1) r2(1)
  show ?thesis by auto
qed

end
