(* ===== verification/ReactorThreads.thy ===== *)
theory ReactorThreads
  imports ReactorProperties
begin

text \<open>
  A reactor at work: its monitoring thread, its event thread and the threads of its users,
  interleaved (Reactor.hpp, EpollDemultiplexer.h). A step is one result of
  \<^verbatim>\<open>epoll_wait\<close>, one round of the event loop, one call of a user, or the request to stop;
  a result with several events is the same as several results with one, so the pushes of one
  result may be interleaved with the other threads too. Each step keeps the reactor's invariant,
  and the queue between the two threads keeps the order.
\<close>

subsection \<open>What handlers and users leave alone\<close>

text \<open>The parts of a reactor that only its threads, \<^verbatim>\<open>start\<close> and \<^verbatim>\<open>stop\<close> touch.\<close>

definition thread_part :: "('k demultiplexer, 'h, 'w) reactor \<Rightarrow> event_notification list \<times> bool \<times> bool" where
  "thread_part r = (event_queue r, reactor_running r, monitoring_ended (demux_impl r))"

definition keeps_thread_part :: "('k demultiplexer, 'h, 'w) runner \<Rightarrow> bool" where
  "keeps_thread_part run \<longleftrightarrow> (\<forall>h sid ev r res r'. run h sid ev r = Some (res, r') \<longrightarrow> thread_part r' = thread_part r)"

named_theorems part_simps \<open>operations that leave the threads' part of a reactor alone\<close>

lemma removeHandler_part [part_simps]: "thread_part (snd (removeHandler sid r)) = thread_part r"
  by (simp add: removeHandler_def thread_part_def split: option.splits)

lemma cleanup_part [part_simps]: "thread_part (cleanupExpired now r) = thread_part r"
proof -
  define pred where "pred p r' = (if expired (snd p) \<or> \<not> registered_to_monitor (snd p)
      then removeHandler (fst p) r' else (False, r'))" for p :: "u64 \<times> subscriber_ctx" and r' :: "('a demultiplexer, 'b, 'c) reactor"
  have "thread_part (fold (\<lambda>p s. snd (pred p s)) t s) = thread_part s" for t s
    by (induction t arbitrary: s) (simp_all add: pred_def part_simps)
  then have "thread_part (snd (um_remove_if pred (subscribers_table r) r)) = thread_part r"
    by (simp add: um_remove_if_snd)
  then show ?thesis
    unfolding cleanupExpired_def pred_def [abs_def]
    by (cases "um_remove_if pred (subscribers_table r) r") (simp add: thread_part_def pred_def [abs_def])
qed

lemma tables_part [part_simps]:
  "thread_part (set_entry sid e r) = thread_part r"
  "thread_part (snd (add_subscriber sid c r)) = thread_part r"
  "thread_part (remove_subscriber sid r) = thread_part r"
  "thread_part (snd (setHandlerInProgress sid b r)) = thread_part r"
  "thread_part (addHandlerInTable sid h r) = thread_part r"
  by (simp_all add: thread_part_def set_entry_def add_subscriber_def um_add_or_update_mapping_def remove_subscriber_def
      setHandlerInProgress_def addHandlerInTable_def split: option.splits)

lemma cleanup_if_due_part [part_simps]: "thread_part (cleanup_if_due now r) = thread_part r"
  by (simp add: cleanup_if_due_def part_simps)

lemma demux_ended:
  "monitoring_ended (snd (registerListener ctl c d)) = monitoring_ended d"
  "monitoring_ended (snd (updateListener ctl c d)) = monitoring_ended d"
  "unregisterListener ctl c d = Some (b, d') \<Longrightarrow> monitoring_ended d' = monitoring_ended d"
proof -
  show "monitoring_ended (snd (registerListener ctl c d)) = monitoring_ended d"
    "monitoring_ended (snd (updateListener ctl c d)) = monitoring_ended d"
    by (simp_all add: registerListener_def registerImpl_def updateListener_def updateImpl_def addHandleIdMapping_def
        Let_def split: prod.splits)
  show "monitoring_ended d' = monitoring_ended d" if "unregisterListener ctl c d = Some (b, d')"
  proof -
    from that obtain m where "vec_remove_mapping (handle c) (handle_id_map d) = Some m"
      by (cases "vec_remove_mapping (handle c) (handle_id_map d)")
        (simp_all add: unregisterListener_def unregisterImpl_def removeHandleIdMapping_def)
    with that show ?thesis
      by (auto simp: unregisterListener_def unregisterImpl_def removeHandleIdMapping_def split: prod.splits)
  qed
qed

lemma thread_part_demux:
  "monitoring_ended d = monitoring_ended (demux_impl r) \<Longrightarrow> thread_part (r\<lparr>demux_impl := d\<rparr>) = thread_part r"
  by (simp add: thread_part_def)

lemma subscribe_part:
  assumes "subscribe (epoll_policy ctl hash) now events h hdl r = Some (ret, r')"
  shows "thread_part r' = thread_part r"
proof -
  have reg: "monitoring_ended (snd (registerListener ctl c (demux_impl (snd (add_subscriber s c' r0))))) = monitoring_ended (demux_impl r0)"
    and upd: "monitoring_ended (snd (updateListener ctl c (demux_impl (snd (add_subscriber s c' r0))))) = monitoring_ended (demux_impl r0)"
    for c c' s and r0 :: "('a demultiplexer, 'b, 'c) reactor"
    by (simp_all add: demux_ended frame_simps)
  have "thread_part r'' = thread_part r" if "subscribeImpl (epoll_policy ctl hash) now events h r = Some (s, r'')" for s r''
  proof -
    define r1 where "r1 = cleanupExpired now r"
    have r1: "thread_part r1 = thread_part r" by (simp add: r1_def part_simps)
    show ?thesis
      using that reg upd [of _ _ _ r1] reg [of _ _ _ r1]
      unfolding subscribeImpl_def Let_def r1_def [symmetric] r1 [symmetric]
      by (force simp: bind_eq_Some_conv part_simps case_prod_beta thread_part_demux demux_ended frame_simps
          split: if_splits)
  qed
  then show ?thesis
    using assms by (auto simp: subscribe_def part_simps split: if_splits)
qed

lemma unsubscribe_part:
  assumes "unsubscribe (epoll_policy ctl hash) now sid r = Some (ret, r')"
  shows "thread_part r' = thread_part r"
  using assms cleanup_part [of now r]
  by (auto simp: unsubscribe_def Let_def bind_eq_Some_conv part_simps thread_part_demux demux_ended
      split: prod.splits if_splits)

lemma handle_events_part:
  assumes "keeps_thread_part run"
  shows "handle_events run sid c events r = Some r' \<Longrightarrow> thread_part r' = thread_part r"
proof (induction events arbitrary: r)
  case (Cons e es)
  have call: "thread_part r1 = thread_part r" if "call_handler run sid e r = Some (res, r1)" for res r1
    using that assms by (auto simp: call_handler_def Let_def keeps_thread_part_def part_simps split: option.splits)
  then show ?case
    using Cons by (auto simp: bind_eq_Some_conv part_simps split: if_splits)
qed simp

lemma process_part:
  assumes "keeps_thread_part run" and "process_notification P sorter run now n r = Some r'"
  shows "thread_part r' = thread_part r"
proof -
  have s: "thread_part r1 = thread_part r" if "setHandlerInProgress s b r = (x, r1)" for s b x r1
    using tables_part(4) [of s b r] that by simp
  show ?thesis
    using assms(2)
    by (auto simp: process_notification_def Let_def part_simps dest!: s handle_events_part [OF assms(1)] split: prod.splits if_splits)
qed

lemma reactor_step_part:
  assumes "keeps_thread_part run" and "reactor_step (epoll_policy ctl hash) sorter run c r = Some r'"
  shows "thread_part r' = thread_part r"
proof (cases c)
  case (Subscribe now events h hdl)
  then show ?thesis using assms(2) by (auto intro: subscribe_part)
next
  case (Unsubscribe now sid)
  then show ?thesis using assms(2) by (auto intro: unsubscribe_part)
next
  case (Notify now n)
  then show ?thesis using assms by (auto intro: process_part)
next
  case (Cleanup now)
  then show ?thesis using assms(2) by (auto simp: part_simps)
qed

subsection \<open>The threads\<close>

text \<open>
  A started reactor, whether its two threads have returned, and three histories: the
  notifications the monitoring thread has pushed, those the event thread has worked on, and, once
  \<^verbatim>\<open>stop\<close> has asked for the end, those that had been pushed by then.
\<close>

record ('k, 'h, 'w) threads =
  th_reactor :: "('k demultiplexer, 'h, 'w) reactor"
  th_monitor_done :: bool
  th_events_done :: bool
  th_given :: "event_notification list"
  th_seen :: "event_notification list"
  th_stop :: "event_notification list option"

definition threads_started :: "nat \<Rightarrow> ('k demultiplexer, 'h, 'w) reactor \<Rightarrow> ('k, 'h, 'w) threads" where
  "threads_started now r =
     \<lparr>th_reactor = start now r, th_monitor_done = False, th_events_done = False, th_given = [], th_seen = [], th_stop = None\<rparr>"

inductive thread_step ::
    "'k epoll_ctl \<Rightarrow> (fd \<Rightarrow> u64) \<Rightarrow> (events_array \<Rightarrow> events_array) \<Rightarrow> ('k demultiplexer, 'h, 'w) runner \<Rightarrow>
      ('k, 'h, 'w) threads \<Rightarrow> ('k, 'h, 'w) threads \<Rightarrow> bool"
  for ctl hash sorter run where
  ts_wait: "\<not> th_monitor_done t \<Longrightarrow>
     monitorWaitThread [(w, monitoring_ended (demux_impl (th_reactor t)))] (event_queue (th_reactor t)) = (returned, q) \<Longrightarrow>
     thread_step ctl hash sorter run t
       (t\<lparr>th_reactor := (th_reactor t)\<lparr>event_queue := q\<rparr>, th_monitor_done := returned,
          th_given := th_given t @ map notification_of (ready_events (w, False))\<rparr>)"
| ts_event: "\<not> th_events_done t \<Longrightarrow> sq_wait_and_pop (event_queue (th_reactor t)) = Some (n, q) \<Longrightarrow> \<not> last_event n \<Longrightarrow>
     process_notification (epoll_policy ctl hash) sorter run now n ((th_reactor t)\<lparr>event_queue := q\<rparr>) = Some r' \<Longrightarrow>
     thread_step ctl hash sorter run t (t\<lparr>th_reactor := r', th_seen := th_seen t @ [n]\<rparr>)"
| ts_last: "\<not> th_events_done t \<Longrightarrow> sq_wait_and_pop (event_queue (th_reactor t)) = Some (n, q) \<Longrightarrow> last_event n \<Longrightarrow>
     thread_step ctl hash sorter run t (t\<lparr>th_reactor := (th_reactor t)\<lparr>event_queue := q\<rparr>, th_events_done := True\<rparr>)"
| ts_user: "(\<And>now n. c \<noteq> Notify now n) \<Longrightarrow> call_ok c \<Longrightarrow>
     reactor_step (epoll_policy ctl hash) sorter run c (th_reactor t) = Some r' \<Longrightarrow>
     thread_step ctl hash sorter run t (t\<lparr>th_reactor := r'\<rparr>)"
| ts_stop: "th_stop t = None \<Longrightarrow> stop_request (epoll_policy ctl hash) (th_reactor t) = (True, r') \<Longrightarrow>
     thread_step ctl hash sorter run t (t\<lparr>th_reactor := r', th_stop := Some (th_given t)\<rparr>)"

inductive threads_reachable ::
    "'k epoll_ctl \<Rightarrow> (fd \<Rightarrow> u64) \<Rightarrow> (events_array \<Rightarrow> events_array) \<Rightarrow> ('k demultiplexer, 'h, 'w) runner \<Rightarrow>
      ('k, 'h, 'w) threads \<Rightarrow> bool"
  for ctl hash sorter run where
  tr_start: "epoll_inv hash r \<Longrightarrow> \<not> reactor_running r \<Longrightarrow> event_queue r = [] \<Longrightarrow> monitoring (demux_impl r) \<Longrightarrow>
     threads_reachable ctl hash sorter run (threads_started now r)"
| tr_step: "threads_reachable ctl hash sorter run t \<Longrightarrow> thread_step ctl hash sorter run t t' \<Longrightarrow>
     threads_reachable ctl hash sorter run t'"

subsection \<open>The invariant\<close>

definition no_last :: "event_notification list \<Rightarrow> bool" where
  "no_last q = list_all (\<lambda>n. \<not> last_event n) q"

definition threads_ok :: "(fd \<Rightarrow> u64) \<Rightarrow> ('k, 'h, 'w) threads \<Rightarrow> bool" where
  "threads_ok hash t \<longleftrightarrow> epoll_inv hash (th_reactor t) \<and> reactor_running (th_reactor t) \<and>
     th_given t = th_seen t @ filter (\<lambda>n. \<not> last_event n) (event_queue (th_reactor t)) \<and>
     (case th_stop t of
        None \<Rightarrow> \<not> monitoring_ended (demux_impl (th_reactor t)) \<and> \<not> th_monitor_done t \<and> \<not> th_events_done t \<and>
          no_last (event_queue (th_reactor t))
      | Some g \<Rightarrow> monitoring_ended (demux_impl (th_reactor t)) \<and>
          (if th_events_done t then th_seen t = g \<and> no_last (event_queue (th_reactor t))
           else \<exists>q1 q2. event_queue (th_reactor t) = q1 @ last_event_notification # q2 \<and> no_last q1 \<and> no_last q2 \<and>
                  g = th_seen t @ q1))"

lemma no_last_simps [simp]:
  "no_last []" "no_last (n # q) \<longleftrightarrow> \<not> last_event n \<and> no_last q" "no_last (p @ q) \<longleftrightarrow> no_last p \<and> no_last q"
  "no_last (map notification_of evs)"
  by (auto simp: no_last_def notification_of_def list_all_iff)

lemma no_last_filter: "no_last q \<Longrightarrow> filter (\<lambda>n. \<not> last_event n) q = q"
  by (simp add: no_last_def list_all_iff)

lemma last_event_last [simp]: "last_event last_event_notification"
  by (simp add: last_event_notification_def)

lemma one_round:
  "monitorWaitThread [(w, e)] q = (w = Wait_timeout \<and> e, q @ map notification_of (ready_events (w, False)))"
  by (cases w) (simp_all add: fold_sq_push)

lemma inv_queue [simp]: "epoll_inv hash (r\<lparr>event_queue := q\<rparr>) = epoll_inv hash r"
  by (rule reactor_inv_cong) simp_all

lemma queue_popped: "sq_wait_and_pop q = Some (n, q') \<Longrightarrow> q = n # q'"
  by (rule sq.pop_Some)

lemma started_ok:
  assumes "epoll_inv hash r" and "\<not> reactor_running r" and "event_queue r = []" and "monitoring (demux_impl r)"
  shows "threads_ok hash (threads_started now r)"
proof -
  have "epoll_inv hash (start now r)"
    using assms(1,2) reactor_inv_cong [of "start now r" r] by (simp add: start_def)
  then show ?thesis
    using assms(2-4) by (simp add: threads_ok_def threads_started_def start_def monitoring_def)
qed

lemma thread_partD:
  assumes "thread_part r' = thread_part r"
  shows "event_queue r' = event_queue r" and "reactor_running r' = reactor_running r"
    and "monitoring_ended (demux_impl r') = monitoring_ended (demux_impl r)"
  using assms by (simp_all add: thread_part_def)

lemma ok_same_part:
  assumes "threads_ok hash t" and "epoll_inv hash r'" and "thread_part r' = thread_part (th_reactor t)"
  shows "threads_ok hash (t\<lparr>th_reactor := r'\<rparr>)"
  using assms by (auto simp: threads_ok_def thread_partD [OF assms(3)] split: option.splits)

lemma ok_stop:
  assumes "threads_ok hash t" and "th_stop t = None" and "stop_request (epoll_policy ctl hash) (th_reactor t) = (True, r')"
  shows "threads_ok hash (t\<lparr>th_reactor := r', th_stop := Some (th_given t)\<rparr>)"
proof -
  let ?r = "th_reactor t"
  have i: "epoll_inv hash ?r" and g: "th_given t = th_seen t @ event_queue ?r" and nl: "no_last (event_queue ?r)"
    and e: "\<not> monitoring_ended (demux_impl ?r)" "\<not> th_events_done t" and run: "reactor_running ?r"
    using assms(1,2) by (auto simp: threads_ok_def no_last_filter)
  have r': "r' = ?r\<lparr>demux_impl := stopMonitoring (demux_impl ?r), event_queue := event_queue ?r @ [last_event_notification]\<rparr>"
    using assms(3) e(1) run by (simp add: stop_request_def epoll_policy_def monitoring_def sq_push_def)
  have "epoll_inv hash (?r\<lparr>demux_impl := stopMonitoring (demux_impl ?r)\<rparr>)"
    using i by (simp add: reactor_inv_def stopMonitoring_def demux_inv_def monitored_handles_def)
  then show ?thesis
    using run nl g e unfolding r'
    by (auto simp: threads_ok_def stopMonitoring_def no_last_filter
        reactor_inv_cong [of "?r\<lparr>demux_impl := d, event_queue := q\<rparr>" "?r\<lparr>demux_impl := d\<rparr>" for d q])
qed

lemma ok_wait:
  assumes "threads_ok hash t" and "\<not> th_monitor_done t"
    and "monitorWaitThread [(w, monitoring_ended (demux_impl (th_reactor t)))] (event_queue (th_reactor t)) = (returned, q)"
  shows "threads_ok hash (t\<lparr>th_reactor := (th_reactor t)\<lparr>event_queue := q\<rparr>, th_monitor_done := returned,
      th_given := th_given t @ map notification_of (ready_events (w, False))\<rparr>)"
proof -
  let ?new = "map notification_of (ready_events (w, False))"
  have q: "q = event_queue (th_reactor t) @ ?new" and ret: "returned = (w = Wait_timeout \<and> monitoring_ended (demux_impl (th_reactor t)))"
    using assms(3) by (simp_all add: one_round)
  have f: "filter (\<lambda>n. \<not> last_event n) ?new = ?new" by (rule no_last_filter) simp
  show ?thesis
  proof (cases "th_stop t")
    case None
    then show ?thesis using assms(1) f by (simp add: threads_ok_def q ret)
  next
    case (Some g)
    show ?thesis
    proof (cases "th_events_done t")
      case True
      then show ?thesis using assms(1) Some f by (simp add: threads_ok_def q)
    next
      case False
      then obtain q1 q2 where "event_queue (th_reactor t) = q1 @ last_event_notification # q2" "no_last q1" "no_last q2" "g = th_seen t @ q1"
        using assms(1) Some by (auto simp: threads_ok_def)
      moreover from this have "event_queue (th_reactor t) @ ?new = q1 @ last_event_notification # (q2 @ ?new)" "no_last (q2 @ ?new)"
        by simp_all
      ultimately show ?thesis using assms(1) Some False f unfolding threads_ok_def q by (auto simp: no_last_filter)
    qed
  qed
qed

lemma ok_pop:
  assumes "threads_ok hash t" and "\<not> th_events_done t" and "sq_wait_and_pop (event_queue (th_reactor t)) = Some (n, q)"
  shows "last_event n \<Longrightarrow> threads_ok hash (t\<lparr>th_reactor := (th_reactor t)\<lparr>event_queue := q\<rparr>, th_events_done := True\<rparr>)"
    and "\<not> last_event n \<Longrightarrow> threads_ok hash (t\<lparr>th_reactor := (th_reactor t)\<lparr>event_queue := q\<rparr>, th_seen := th_seen t @ [n]\<rparr>)"
proof -
  note q = queue_popped [OF assms(3)]
  have stop: "\<exists>q1 q2. n # q = q1 @ last_event_notification # q2 \<and> no_last q1 \<and> no_last q2 \<and> g = th_seen t @ q1"
    if "th_stop t = Some g" for g
    using assms(1,2) that unfolding threads_ok_def q by simp
  show "threads_ok hash (t\<lparr>th_reactor := (th_reactor t)\<lparr>event_queue := q\<rparr>, th_events_done := True\<rparr>)" if l: "last_event n"
  proof (cases "th_stop t")
    case None
    then show ?thesis using assms(1) l unfolding threads_ok_def q by simp
  next
    case (Some g)
    from stop [OF this] obtain q1 q2 where "n # q = q1 @ last_event_notification # q2" "no_last q1" "no_last q2" "g = th_seen t @ q1"
      by blast
    with l have "q = q2" "g = th_seen t" "no_last q2" by (cases q1; simp)+
    then show ?thesis using assms(1) Some l unfolding threads_ok_def q by simp
  qed
  show "threads_ok hash (t\<lparr>th_reactor := (th_reactor t)\<lparr>event_queue := q\<rparr>, th_seen := th_seen t @ [n]\<rparr>)" if l: "\<not> last_event n"
  proof (cases "th_stop t")
    case None
    then show ?thesis using assms(1) l unfolding threads_ok_def q by simp
  next
    case (Some g)
    from stop [OF this] obtain q1 q2 where *: "n # q = q1 @ last_event_notification # q2" "no_last q1" "no_last q2" "g = th_seen t @ q1"
      by blast
    with l obtain q1' where "q1 = n # q1'" "q = q1' @ last_event_notification # q2" by (cases q1) auto
    with * show ?thesis using assms(1,2) Some l unfolding threads_ok_def q by auto
  qed
qed

lemma thread_step_ok:
  assumes "inj_on hash int32" and "handlers_ok hash (demux_inv hash) monitored_handles run" and "keeps_thread_part run"
  shows "thread_step ctl hash sorter run t t' \<Longrightarrow> threads_ok hash t \<Longrightarrow> threads_ok hash t'"
proof (induction rule: thread_step.induct)
  case (ts_wait t w returned q)
  then show ?case by (intro ok_wait)
next
  case (ts_event t n q now r')
  let ?t = "t\<lparr>th_reactor := (th_reactor t)\<lparr>event_queue := q\<rparr>, th_seen := th_seen t @ [n]\<rparr>"
  have t: "threads_ok hash ?t" using ok_pop(2) [OF ts_event.prems ts_event.hyps(1,2,3)] .
  then have "epoll_inv hash ((th_reactor t)\<lparr>event_queue := q\<rparr>)" by (simp add: threads_ok_def)
  from process_notification_inv [OF assms(2) this] ts_event.hyps(4) have "epoll_inv hash r'" by (metis option.inject)
  from ok_same_part [OF t this] process_part [OF assms(3) ts_event.hyps(4)] show ?case by (cases t) simp
next
  case (ts_last t n q)
  then show ?case by (intro ok_pop(1))
next
  case (ts_user c t r')
  have "epoll_inv hash (th_reactor t)" using ts_user.prems by (simp add: threads_ok_def)
  from epoll.reactor_step_inv [OF assms(1,2) this ts_user.hyps(2)] ts_user.hyps(3) have "epoll_inv hash r'" by (metis option.inject)
  then show ?case by (rule ok_same_part [OF ts_user.prems _ reactor_step_part [OF assms(3) ts_user.hyps(3)]])
next
  case (ts_stop t r')
  then show ?case by (intro ok_stop)
qed

lemma reachable_ok:
  assumes "inj_on hash int32" and "handlers_ok hash (demux_inv hash) monitored_handles run" and "keeps_thread_part run"
  shows "threads_reachable ctl hash sorter run t \<Longrightarrow> threads_ok hash t"
proof (induction rule: threads_reachable.induct)
  case (tr_start r now)
  then show ?case by (rule started_ok)
next
  case (tr_step t t')
  then show ?case using thread_step_ok [OF assms] by blast
qed

subsection \<open>Stopping\<close>

lemma event_thread_ends:
  assumes "handlers_ok hash (demux_inv hash) monitored_handles run" and "keeps_thread_part run"
  shows "threads_ok hash t \<Longrightarrow> th_stop t = Some g \<Longrightarrow> \<not> th_events_done t \<Longrightarrow> event_queue (th_reactor t) = q1 @ last_event_notification # q2 \<Longrightarrow>
    no_last q1 \<Longrightarrow> \<exists>t'. (thread_step ctl hash sorter run ^^ Suc (length q1)) t t' \<and> threads_ok hash t' \<and> th_stop t' = Some g \<and>
      th_events_done t' \<and> th_monitor_done t' = th_monitor_done t"
proof (induction q1 arbitrary: t)
  case Nil
  let ?t = "t\<lparr>th_reactor := (th_reactor t)\<lparr>event_queue := q2\<rparr>, th_events_done := True\<rparr>"
  have pop: "sq_wait_and_pop (event_queue (th_reactor t)) = Some (last_event_notification, q2)"
    using Nil.prems(4) by (simp add: sq_wait_and_pop_def)
  have "thread_step ctl hash sorter run t ?t" using ts_last [OF Nil.prems(3) pop] by simp
  moreover have "threads_ok hash ?t" using ok_pop(1) [OF Nil.prems(1,3) pop] by simp
  ultimately show ?case using Nil.prems(2) by (intro exI [of _ ?t]) (auto simp: eq_OO)
next
  case (Cons n q1)
  have pop: "sq_wait_and_pop (event_queue (th_reactor t)) = Some (n, q1 @ last_event_notification # q2)" and n: "\<not> last_event n"
    using Cons.prems(4,5) by (simp_all add: sq_wait_and_pop_def)
  let ?r = "(th_reactor t)\<lparr>event_queue := q1 @ last_event_notification # q2\<rparr>"
  have "epoll_inv hash ?r" using Cons.prems(1) by (simp add: threads_ok_def)
  then obtain r' where r': "process_notification (epoll_policy ctl hash) sorter run 0 n ?r = Some r'" "epoll_inv hash r'"
    using process_notification_inv [OF assms(1)] by blast
  let ?t = "t\<lparr>th_reactor := r', th_seen := th_seen t @ [n]\<rparr>"
  have step: "thread_step ctl hash sorter run t ?t" by (rule ts_event [OF Cons.prems(3) pop n r'(1)])
  have "threads_ok hash ?t"
    using ok_same_part [OF ok_pop(2) [OF Cons.prems(1,3) pop n] r'(2)] process_part [OF assms(2) r'(1)] by (cases t) simp
  moreover have "event_queue r' = q1 @ last_event_notification # q2"
    using thread_partD(1) [OF process_part [OF assms(2) r'(1)]] by simp
  ultimately obtain t' where "(thread_step ctl hash sorter run ^^ Suc (length q1)) ?t t'" "threads_ok hash t'" "th_stop t' = Some g"
      "th_events_done t'" "th_monitor_done t' = th_monitor_done t"
    using Cons.IH [of ?t] Cons.prems(2,3,5) by auto
  with relpowp_Suc_I2 [OF step this(1)] show ?case by auto
qed

subsection \<open>Properties\<close>



text \<open>One event for a subscribed descriptor, and a request to stop behind it.\<close>

definition noting_run :: "(unit demultiplexer, string, handle_event list) runner" where
  "noting_run h sid ev r = Some (E_RESULT_SUCCESS, r\<lparr>app := ev # app r\<rparr>)"

definition input_note :: event_notification where
  "input_note = \<lparr>note_handle = 5, notified_events_mask = passed_events EPOLLIN, last_event = False\<rparr>"

lemma noting_ok: "handlers_ok demo_hash (demux_inv demo_hash) monitored_handles noting_run" "keeps_thread_part noting_run"
  by (auto simp: handlers_ok_def noting_run_def reactor_inv_def keeps_thread_part_def thread_part_def)

lemma demo_threads:
  "\<exists>t. threads_reachable ok_ctl demo_hash rev noting_run t \<and> th_given t = [input_note] \<and> th_seen t = [] \<and> th_stop t = Some [input_note]"
proof -
  let ?r = "new_reactor demo_demux [] :: (unit demultiplexer, string, handle_event list) reactor"
  let ?t0 = "threads_started 0 ?r"
  have i: "epoll_inv demo_hash ?r" by (rule new_reactor_inv) (rule demo_demux_inv)
  have r0: "threads_reachable ok_ctl demo_hash rev noting_run ?t0"
    by (rule tr_start [OF i]) (simp_all add: new_reactor_def demo_demux_def EpollDemultiplexer_def monitoring_def)
  let ?t1 = "?t0\<lparr>th_reactor := (th_reactor ?t0)\<lparr>event_queue := [input_note]\<rparr>, th_monitor_done := False, th_given := [input_note]\<rparr>"
  have "thread_step ok_ctl demo_hash rev noting_run ?t0 ?t1"
    using ts_wait [of ?t0 "Wait_ready [(EPOLLIN, Data_fd 5)]" False "[input_note]" ok_ctl demo_hash rev noting_run]
    by (simp add: threads_started_def start_def new_reactor_def one_round notification_of_def input_note_def)
  note r1 = tr_step [OF r0 this]
  have "reactor_running (th_reactor ?t1)" by (simp add: threads_started_def start_def)
  then have "fst (stop_request (epoll_policy ok_ctl demo_hash) (th_reactor ?t1))"
    by (auto simp: stop_request_def Let_def)
  then obtain r' where s: "stop_request (epoll_policy ok_ctl demo_hash) (th_reactor ?t1) = (True, r')"
    by (cases "stop_request (epoll_policy ok_ctl demo_hash) (th_reactor ?t1)") auto
  have "thread_step ok_ctl demo_hash rev noting_run ?t1 (?t1\<lparr>th_reactor := r', th_stop := Some (th_given ?t1)\<rparr>)"
    by (rule ts_stop [OF _ s]) (simp add: threads_started_def)
  note r2 = tr_step [OF r1 this]
  show ?thesis by (rule exI, rule conjI [OF r2]) (simp add: threads_started_def)
qed



end
