(* ===== verification/EdgeTriggered.thy ===== *)
theory EdgeTriggered
  imports ReactorServers
begin

text \<open>
  Edge-triggered notification and a server that accepts one client at a time.
  \<^verbatim>\<open>registerImpl\<close> (Reactor/EpollDemultiplexer.h) asks for EPOLLET: the kernel reports
  the listening descriptor once for all the clients that came since the last report, and
  \<^verbatim>\<open>ServerCallbackPolicy::ProcessInputEvent\<close> calls \<^verbatim>\<open>accept\<close> once for a
  report. Here the kernel's state is the backlog of the listening socket, in the order of arrival.
  \<open>register_edge_triggered\<close> says that whatever mask a subscriber asks for, the request has the bit.
  A step is the arrival of a client, an \<^verbatim>\<open>epoll_wait\<close> of the monitoring thread or a
  round of the event thread, in any order.
\<close>

lemma register_edge_triggered:
  assumes "\<And>ev k. ev AND EPOLLET \<noteq> 0 \<Longrightarrow> ctl e EPOLL_CTL_ADD h (Some (ev, Data_fd h)) k = (0, k)"
    and "epoll_fd d = e"
  shows "registerImpl ctl h sid m d = (True, addHandleIdMapping h sid d)"
proof -
  have "(((m OR (EPOLLHUP OR EPOLLERR)) OR EPOLLRDHUP) OR EPOLLET) AND EPOLLET = EPOLLET"
    by (rule bit_word_eqI) (auto simp: bit_simps)
  moreover have "EPOLLET \<noteq> 0" by (simp add: epoll_consts)
  ultimately have "ctl e EPOLL_CTL_ADD h (Some (((m OR (EPOLLHUP OR EPOLLERR)) OR EPOLLRDHUP) OR EPOLLET, Data_fd h)) (kernel d) =
      (0, kernel d)"
    by (intro assms(1)) simp
  then show ?thesis by (simp add: registerImpl_def assms(2))
qed

datatype edge_step = Comes fd | Waits | Take nat

record 'u listening =
  ln_ready :: bool
  ln_collected :: nat
  ln_reactor :: "(fd list, 'u) server_world"

text \<open>A non-blocking accept takes the first client of the backlog, if there is one.\<close>

definition accepting ::
    "('a, (fd list, 'u) server_world) server_device \<Rightarrow> ('a, (fd list, 'u) server_world) server_device" where
  "accepting d = d\<lparr>sdv_accept := \<lambda>nb w. (case kernel (demux_impl w) of
                                          [] \<Rightarrow> (None, w) | h # hs \<Rightarrow> (Some h, put_kernel hs w))\<rparr>"

definition edge_do ::
    "fd list epoll_ctl \<Rightarrow> (fd \<Rightarrow> u64) \<Rightarrow> (events_array \<Rightarrow> events_array) \<Rightarrow> ('a, (fd list, 'u) server_world) server_device \<Rightarrow>
      fd \<Rightarrow> edge_step \<Rightarrow> 'u listening \<Rightarrow> 'u listening option" where
  "edge_do ctl hash sorter d sh s l =
     (case s of
        Comes h \<Rightarrow>
          Some (l\<lparr>ln_ready := True,
                  ln_reactor := put_kernel (kernel (demux_impl (ln_reactor l)) @ [h]) (ln_reactor l)\<rparr>)
      | Waits \<Rightarrow> Some (if ln_ready l then l\<lparr>ln_ready := False, ln_collected := Suc (ln_collected l)\<rparr> else l)
      | Take now \<Rightarrow>
          if ln_collected l = 0 then Some l
          else map_option (\<lambda>r. l\<lparr>ln_collected := ln_collected l - 1, ln_reactor := r\<rparr>)
                 (server_notify ctl hash sorter now (accepting d) sh EPOLLIN (ln_reactor l)))"

fun edge_run ::
    "fd list epoll_ctl \<Rightarrow> (fd \<Rightarrow> u64) \<Rightarrow> (events_array \<Rightarrow> events_array) \<Rightarrow> ('a, (fd list, 'u) server_world) server_device \<Rightarrow>
      fd \<Rightarrow> edge_step list \<Rightarrow> 'u listening \<Rightarrow> 'u listening option" where
  "edge_run ctl hash sorter d sh [] l = Some l"
| "edge_run ctl hash sorter d sh (s # ss) l =
     Option.bind (edge_do ctl hash sorter d sh s l) (edge_run ctl hash sorter d sh ss)"

subsection \<open>How many clients are accepted\<close>

fun arrivals :: "edge_step list \<Rightarrow> fd list" where
  "arrivals [] = []"
| "arrivals (Comes h # ss) = h # arrivals ss"
| "arrivals (s # ss) = arrivals ss"

fun accepted :: "bool \<Rightarrow> nat \<Rightarrow> edge_step list \<Rightarrow> nat" where
  "accepted ready n [] = 0"
| "accepted ready n (Comes h # ss) = accepted True n ss"
| "accepted ready n (Waits # ss) = accepted False (if ready then Suc n else n) ss"
| "accepted ready n (Take now # ss) = (if n = 0 then accepted ready n ss else Suc (accepted ready (n - 1) ss))"

lemma arrivals_append [simp]: "arrivals (xs @ ys) = arrivals xs @ arrivals ys"
  by (induction xs rule: arrivals.induct) simp_all

lemma accepted_le: "accepted ready n ss \<le> n + of_bool ready + length (arrivals ss)"
  by (induction ready n ss rule: accepted.induct) (auto split: if_splits)

lemma accepted_merged:
  "Waits \<notin> set mid \<Longrightarrow>
     accepted True n (mid @ Comes b # post) < n + 1 + length (arrivals (mid @ Comes b # post))"
proof (induction mid arbitrary: n)
  case Nil
  show ?case using accepted_le [of True n post] by simp
next
  case (Cons s ss)
  then have IH: "accepted True m (ss @ Comes b # post) < m + 1 + length (arrivals (ss @ Comes b # post))" for m
    by simp
  show ?case
    using Cons.prems IH [of n] IH [of "n - 1"] by (cases s) (auto split: if_splits)
qed

text \<open>Two arrivals that one report covers cost a client, whatever comes before and after.\<close>

lemma accepted_less:
  assumes "Waits \<notin> set mid"
  shows "accepted ready n (pre @ Comes a # mid @ Comes b # post) <
    n + of_bool ready + length (arrivals (pre @ Comes a # mid @ Comes b # post))"
proof (induction pre arbitrary: ready n)
  case Nil
  show ?case using accepted_merged [OF assms, of n b post] by simp
next
  case (Cons s ss)
  show ?case
  proof (cases s)
    case (Comes h)
    then show ?thesis using Cons.IH [of True n] by simp
  next
    case Waits
    then show ?thesis using Cons.IH [of False "if ready then Suc n else n"] by (auto split: if_splits)
  next
    case (Take now)
    then show ?thesis using Cons.IH [of ready n] Cons.IH [of ready "n - 1"] by (auto split: if_splits)
  qed
qed

subsection \<open>The server is behind for ever\<close>

definition arrival_possible :: "(fd \<Rightarrow> u64) \<Rightarrow> fd \<Rightarrow> fd \<Rightarrow> bool" where
  "arrival_possible hash sh h \<longleftrightarrow> h \<in> int32 \<and> h \<noteq> null_fd \<and> h \<noteq> sh \<and> hash h \<noteq> 0"

text \<open>
  Of the clients that came the server has accepted the first \<open>k\<close>; a report it still has, or that
  the kernel has for it, stands for a client in the backlog.
\<close>

definition behind ::
    "(fd \<Rightarrow> u64) \<Rightarrow> fd \<Rightarrow> 'u server_dispatcher \<Rightarrow> 'u \<Rightarrow> fd list \<Rightarrow> nat \<Rightarrow> 'u listening \<Rightarrow> bool" where
  "behind hash sh disp u clients k l \<longleftrightarrow>
     serving hash sh disp (set (take k clients)) (ln_reactor l) \<and>
     kernel (demux_impl (ln_reactor l)) = drop k clients \<and>
     k + ln_collected l + of_bool (ln_ready l) \<le> length clients \<and>
     sa_user (app (ln_reactor l)) = fold (user_sees disp) (map Arrival (take k clients)) u"

lemma serving_put_kernel [simp]: "serving hash sh disp present (put_kernel k r) = serving hash sh disp present r"
  by (simp add: serving_def served_def handler_busy_def)

lemma take_accepted:
  assumes "behind hash sh disp u clients k l" and "ln_collected l \<noteq> 0" and "distinct clients"
    and "\<And>h. h \<in> set clients \<Longrightarrow> arrival_possible hash sh h"
    and "\<And>es. mset (sorter es) = mset es" and "inj_on hash int32" and "sh \<in> int32"
    and "\<And>e op f ev k. fst (ctl e op f ev k) \<noteq> - 1" and "\<And>e op f ev k. snd (ctl e op f ev k) = k"
  shows "\<exists>l'. edge_do ctl hash sorter d sh (Take now) l = Some l' \<and> behind hash sh disp u clients (Suc k) l' \<and>
    ln_ready l' = ln_ready l \<and> ln_collected l' = ln_collected l - 1"
proof -
  have b: "serving hash sh disp (set (take k clients)) (ln_reactor l)" "kernel (demux_impl (ln_reactor l)) = drop k clients"
    "k + ln_collected l + of_bool (ln_ready l) \<le> length clients"
    "sa_user (app (ln_reactor l)) = fold (user_sees disp) (map Arrival (take k clients)) u"
    using assms(1) by (auto simp: behind_def)
  have k: "k < length clients" using b(3) assms(2) by simp
  let ?h = "clients ! k"
  note dr = Cons_nth_drop_Suc [OF k]
  note tk = take_Suc_conv_app_nth [OF k]
  have new: "?h \<notin> set (take k clients)"
    using assms(3) k by (auto simp: in_set_conv_nth nth_eq_iff_index_eq)
  then have p: "input_possible hash sh (set (take k clients)) (Arrival ?h)"
    using assms(4) [OF nth_mem [OF k]] by (simp add: arrival_possible_def)
  have acc: "sdv_accept (accepting d) nb w = (Some ?h, put_kernel (drop (Suc k) clients) w)"
    if "kernel (demux_impl w) = kernel (demux_impl (ln_reactor l))" for nb w
    by (simp add: accepting_def that b(2) dr [symmetric])
  obtain r' where "server_notify ctl hash sorter now (accepting d) sh EPOLLIN (ln_reactor l) = Some r'"
      "serving hash sh disp (insert ?h (set (take k clients))) r'" "kernel (demux_impl r') = drop (Suc k) clients"
      "sa_user (app r') = user_sees disp (Arrival ?h) (sa_user (app (ln_reactor l)))"
    using arrival_accepted [where ctl = ctl and now = now and dm = "accepting d", OF b(1) assms(5-8) p acc] assms(9) by blast
  then show ?thesis
    using assms(2) b(3,4) k by (simp add: edge_do_def behind_def tk)
qed

lemma edge_run_behind:
  assumes "\<And>es. mset (sorter es) = mset es" and "inj_on hash int32" and "sh \<in> int32"
    and "\<And>e op f ev k. fst (ctl e op f ev k) \<noteq> - 1" and "\<And>e op f ev k. snd (ctl e op f ev k) = k"
  shows "behind hash sh disp u clients k l \<Longrightarrow> distinct (clients @ arrivals ss) \<Longrightarrow>
    (\<And>h. h \<in> set (clients @ arrivals ss) \<Longrightarrow> arrival_possible hash sh h) \<Longrightarrow>
    \<exists>l'. edge_run ctl hash sorter d sh ss l = Some l' \<and>
      behind hash sh disp u (clients @ arrivals ss) (k + accepted (ln_ready l) (ln_collected l) ss) l'"
proof (induction ss arbitrary: clients k l)
  case (Cons s ss)
  show ?case
  proof (cases s)
    case (Comes h)
    let ?l = "l\<lparr>ln_ready := True, ln_reactor := put_kernel (kernel (demux_impl (ln_reactor l)) @ [h]) (ln_reactor l)\<rparr>"
    have "behind hash sh disp u (clients @ [h]) k ?l"
      using Cons.prems(1) by (auto simp: behind_def)
    from Cons.IH [OF this] Cons.prems(2,3) Comes show ?thesis by (simp add: edge_do_def)
  next
    case Waits
    let ?l = "if ln_ready l then l\<lparr>ln_ready := False, ln_collected := Suc (ln_collected l)\<rparr> else l"
    have "behind hash sh disp u clients k ?l"
      using Cons.prems(1) by (auto simp: behind_def)
    from Cons.IH [OF this] Cons.prems(2,3) Waits show ?thesis by (auto simp: edge_do_def split: if_splits)
  next
    case (Take now)
    show ?thesis
    proof (cases "ln_collected l = 0")
      case True
      from Cons.IH [OF Cons.prems(1)] Cons.prems(2,3) True Take show ?thesis by (simp add: edge_do_def)
    next
      case False
      have "distinct clients" and "\<And>h. h \<in> set clients \<Longrightarrow> arrival_possible hash sh h"
        using Cons.prems(2,3) by auto
      then obtain l1 where l1: "edge_do ctl hash sorter d sh (Take now) l = Some l1" "behind hash sh disp u clients (Suc k) l1"
          "ln_ready l1 = ln_ready l" "ln_collected l1 = ln_collected l - 1"
        using take_accepted [where ctl = ctl and now = now and d = d, OF Cons.prems(1) False _ _ assms] by blast
      from Cons.IH [OF l1(2)] Cons.prems(2,3) False Take l1(1,3,4) show ?thesis by simp
    qed
  qed
qed simp

text \<open>
  C13: Whenever two clients of a listening server come with no \<^verbatim>\<open>epoll_wait\<close> between
  them, the server loses count for ever: whatever comes before and after, however often both
  threads run, it has accepted only the first of the clients that came, and at least one waits in
  the backlog with no report left for it. The clients it accepts are stored, subscribed and told
  to the user in the order of their arrival.
\<close>

theorem edge_triggered_client_waits:
  assumes "epoll_inv hash r"
    and "\<And>h. h \<in> int32 \<Longrightarrow> map_of (subscribers_table r) (hash h) = None \<and> map_of (handlers_table r) (hash h) = None"
    and "sa_storage (app r) = []" and "kernel (demux_impl r) = []"
    and "inj_on hash int32" and "sh \<in> int32" and "hash sh \<noteq> 0"
    and "\<And>e op f ev k. fst (ctl e op f ev k) \<noteq> - 1" and "\<And>e op f ev k. snd (ctl e op f ev k) = k"
    and "\<And>es. mset (sorter es) = mset es"
    and "distinct (arrivals steps)" and "\<And>h. h \<in> set (arrivals steps) \<Longrightarrow> arrival_possible hash sh h"
    and "steps = pre @ Comes a # mid @ Comes b # post" and "Waits \<notin> set mid"
    and "k = accepted False 0 steps"
  shows "\<exists>r1 l. server_start ctl hash now sh r = Some r1 \<and>
    edge_run ctl hash sorter d sh steps \<lparr>ln_ready = False, ln_collected = 0, ln_reactor = r1\<rparr> = Some l \<and>
    k < length (arrivals steps) \<and> kernel (demux_impl (ln_reactor l)) = drop k (arrivals steps) \<and>
    (\<forall>h. map_of (sa_storage (app (ln_reactor l))) h =
       (if h \<in> set (take k (arrivals steps)) then Some (connected_client (hash h)) else None)) \<and>
    sa_user (app (ln_reactor l)) =
      fold (\<lambda>h. ProcessClientConnected h (sa_dispatcher (app r))) (take k (arrivals steps)) (sa_user (app r))"
proof -
  note free = assms(2) [OF assms(6), THEN conjunct1]
  let ?disp = "sa_dispatcher (app r)"
  obtain r1 where r1: "server_start ctl hash now sh r = Some r1" "serving hash sh ?disp {} r1" "sa_user (app r1) = sa_user (app r)"
    using start_serving [where ctl = ctl and now = now, OF assms(1,2,3,5,6,7,8)] by blast
  have "kernel (demux_impl r1) = []"
    using r1(1) subscribe_kernel [OF assms(1) free _ assms(9)] assms(4) by (auto simp: server_start_def)
  then have "behind hash sh ?disp (sa_user (app r)) [] 0 \<lparr>ln_ready = False, ln_collected = 0, ln_reactor = r1\<rparr>"
    using r1(2,3) by (simp add: behind_def)
  from edge_run_behind [where ctl = ctl and d = d and ss = steps, OF assms(10,5,6,8,9) this] assms(11,12,15)
  obtain l where l: "edge_run ctl hash sorter d sh steps \<lparr>ln_ready = False, ln_collected = 0, ln_reactor = r1\<rparr> = Some l"
      "behind hash sh ?disp (sa_user (app r)) (arrivals steps) k l"
    by auto
  have k: "k < length (arrivals steps)"
    using accepted_less [OF assms(14), of False 0 pre a b post] assms(13,15) by simp
  have "serving hash sh ?disp (set (take k (arrivals steps))) (ln_reactor l)"
    using l(2) by (simp add: behind_def)
  note st = servingD(5) [OF this]
  have "(\<lambda>h. user_sees ?disp (Arrival h)) = (\<lambda>h. ProcessClientConnected h ?disp)"
    by (simp add: fun_eq_iff)
  then show ?thesis
    using st r1(1) l k by (auto simp: behind_def fold_map comp_def)
qed

text \<open>The second of two clients waits, though both threads go on.\<close>

definition waiting_device :: "(string, (fd list, string list) server_world) server_device" where
  "waiting_device =
     \<lparr>sdv_bind = \<lambda>a ru w. (True, w), sdv_listen = \<lambda>b w. (True, w), sdv_accept = \<lambda>nb w. (None, w), sdv_close = \<lambda>h w. w,
      sdv_client_disconnect = \<lambda>h w. (True, w), sdv_client_read = \<lambda>h b w. (0, [], w), sdv_client_send = \<lambda>h m w. (0, w)\<rparr>"

definition waiting_ctl :: "fd list epoll_ctl" where
  "waiting_ctl e op f ev k = (0, k)"

definition waiting_reactor :: "(fd list, string list) server_world" where
  "waiting_reactor = new_reactor (EpollDemultiplexer (\<lambda>n k. (3, k)) []) example_server_app"

definition waiting_steps :: "edge_step list" where
  "waiting_steps = [Comes 5, Comes 6, Waits, Take 0, Waits, Take 1, Waits, Take 2]"

theorem edge_triggered_client_waits_witness:
  "\<exists>r1 l. server_start waiting_ctl demo_hash 0 4 waiting_reactor = Some r1 \<and>
    edge_run waiting_ctl demo_hash rev waiting_device 4 waiting_steps
      \<lparr>ln_ready = False, ln_collected = 0, ln_reactor = r1\<rparr> = Some l \<and>
    kernel (demux_impl (ln_reactor l)) = [6] \<and> sa_user (app (ln_reactor l)) = [''connected''] \<and>
    map_of (sa_storage (app (ln_reactor l))) 6 = None"
proof -
  have i: "epoll_inv demo_hash waiting_reactor"
    unfolding waiting_reactor_def
    by (rule new_reactor_inv) (simp add: EpollDemultiplexer_def demux_inv_def vec_inv_def)
  have free: "map_of (subscribers_table waiting_reactor) (demo_hash h) = None \<and>
      map_of (handlers_table waiting_reactor) (demo_hash h) = None" for h
    by (simp add: waiting_reactor_def new_reactor_def)
  have st: "sa_storage (app waiting_reactor) = []" and k: "kernel (demux_impl waiting_reactor) = []"
    and di: "sa_dispatcher (app waiting_reactor) = noting" and us: "sa_user (app waiting_reactor) = []"
    by (simp_all add: waiting_reactor_def new_reactor_def example_server_app_def EpollDemultiplexer_def)
  have z: "demo_hash 4 \<noteq> 0" "demo_hash 5 \<noteq> 0" "demo_hash 6 \<noteq> 0" and b: "(4 :: fd) \<in> int32"
    by (simp_all add: int32_def demo_hash_def)
  have ctl: "fst (waiting_ctl e op f ev k) \<noteq> - 1" and ctl': "snd (waiting_ctl e op f ev k) = k" for e op f ev k
    by (simp_all add: waiting_ctl_def)
  have ar: "arrivals waiting_steps = [5, 6]" and ac: "accepted False 0 waiting_steps = 1"
    by (simp_all add: waiting_steps_def)
  have p: "distinct (arrivals waiting_steps)" "\<And>h. h \<in> set (arrivals waiting_steps) \<Longrightarrow> arrival_possible demo_hash 4 h"
    using z by (auto simp: ar arrival_possible_def int32_def)
  have e: "waiting_steps = [] @ Comes 5 # [] @ Comes 6 # [Waits, Take 0, Waits, Take 1, Waits, Take 2]"
    by (simp add: waiting_steps_def)
  have "Waits \<notin> set []" by simp
  from edge_triggered_client_waits [where ctl = waiting_ctl and now = 0 and d = waiting_device,
      OF i free st k inj_demo_hash b z(1) ctl ctl' mset_rev p e this ac [symmetric]]
  show ?thesis
    unfolding ar di us by (auto simp: noting_def ProcessClientConnected_def)
qed

end
