(* ===== verification/AddressOrder.thy ===== *)
theory AddressOrder
  imports Addresses
begin

text \<open>
  The rest of the hosts and socket addresses (HostAddress.hpp and InetSocketAddress.hpp): their
  constructors, the IPv6 host from a text, the comparisons, and the copies of an IPv6 socket
  address. The comparisons are those of the addresses as keys of a map, which this theory
  reduces to a linear order.
\<close>

subsection \<open>The IPv4 host\<close>

definition HostAddress_u32 :: "(u8 list \<Rightarrow> string option) \<Rightarrow> u8 list \<Rightarrow> u32 \<Rightarrow> host_address" where
  "HostAddress_u32 ntop garbage ipv4_addr = host_initData_u32 ntop ipv4_addr (HostAddress_default garbage)"

definition HostAddress_view :: "(string \<Rightarrow> u8 list option) \<Rightarrow> u8 list \<Rightarrow> string \<Rightarrow> string \<Rightarrow> host_address" where
  "HostAddress_view pton garbage whole address =
     host_initData_view pton whole address (HostAddress_default garbage)"

definition HostAddress_in_addr :: "(u8 list \<Rightarrow> string option) \<Rightarrow> u8 list \<Rightarrow> u32 \<Rightarrow> host_address" where
  "HostAddress_in_addr ntop garbage s_addr = host_initData_u32 ntop s_addr (HostAddress_default garbage)"

definition host_ne :: "host_address \<Rightarrow> host_address \<Rightarrow> bool" where
  "host_ne a b = (\<not> host_eq a b)"

definition IPV4_ADDR_SIZE :: nat where "IPV4_ADDR_SIZE = 4"

definition host_setAddress_in_addr :: "(u8 list \<Rightarrow> string option) \<Rightarrow> u32 \<Rightarrow> host_address \<Rightarrow> host_address" where
  "host_setAddress_in_addr ntop s_addr h = host_initData_u32 ntop s_addr (if ha_valid h then host_resetData h else h)"

definition host_clear :: "host_address \<Rightarrow> host_address" where
  "host_clear h = host_resetData h"

definition host_getAddressLength :: nat where "host_getAddressLength = IPV4_ADDR_SIZE"

subsection \<open>The IPv6 host\<close>

definition IPV6_ADDR_SIZE :: nat where "IPV6_ADDR_SIZE = 16"

definition HostAddress6_default :: "u8 list \<Rightarrow> host_address" where
  "HostAddress6_default garbage = \<lparr>ha_bytes = garbage, ha_printable = [], ha_valid = False\<rparr>"

definition host6_resetData :: "host_address \<Rightarrow> host_address" where
  "host6_resetData h = h\<lparr>ha_bytes := replicate IPV6_ADDR_SIZE 0, ha_printable := [], ha_valid := False\<rparr>"

definition extractIPv6Address :: "(string \<Rightarrow> u8 list option) \<Rightarrow> string \<Rightarrow> host_address \<Rightarrow> bool \<times> host_address" where
  "extractIPv6Address pton whole h =
     (True, case pton whole of Some bs \<Rightarrow> h\<lparr>ha_bytes := bs\<rparr> | None \<Rightarrow> h)"

definition extractPrintableAddress6 :: "(u8 list \<Rightarrow> string option) \<Rightarrow> u8 list \<Rightarrow> host_address \<Rightarrow> bool \<times> host_address" where
  "extractPrintableAddress6 ntop src h =
     (case ntop src of Some dest \<Rightarrow> (True, h\<lparr>ha_printable := dest\<rparr>) | None \<Rightarrow> (False, h))"

definition host6_initData_view :: "(string \<Rightarrow> u8 list option) \<Rightarrow> string \<Rightarrow> string \<Rightarrow> host_address \<Rightarrow> host_address" where
  "host6_initData_view pton whole address h =
     (case extractIPv6Address pton whole h of (ok, h1) \<Rightarrow>
        if ok then h1\<lparr>ha_printable := address, ha_valid := True\<rparr> else h1)"

definition HostAddress6_bytes :: "(u8 list \<Rightarrow> string option) \<Rightarrow> u8 list \<Rightarrow> u8 list \<Rightarrow> host_address" where
  "HostAddress6_bytes ntop garbage p_ipv6_addr = host6_initData_bytes ntop p_ipv6_addr (HostAddress6_default garbage)"

definition HostAddress6_view :: "(string \<Rightarrow> u8 list option) \<Rightarrow> u8 list \<Rightarrow> string \<Rightarrow> string \<Rightarrow> host_address" where
  "HostAddress6_view pton garbage whole address =
     host6_initData_view pton whole address (HostAddress6_default garbage)"

definition LocalHost6 :: "(u8 list \<Rightarrow> string option) \<Rightarrow> u8 list \<Rightarrow> host_address" where
  "LocalHost6 ntop garbage = HostAddress6_bytes ntop garbage in6addr_loopback"

definition AddressAny6 :: "(u8 list \<Rightarrow> string option) \<Rightarrow> u8 list \<Rightarrow> host_address" where
  "AddressAny6 ntop garbage = HostAddress6_bytes ntop garbage in6addr_any"

definition host6_setAddress_view :: "(string \<Rightarrow> u8 list option) \<Rightarrow> string \<Rightarrow> string \<Rightarrow> host_address \<Rightarrow> host_address" where
  "host6_setAddress_view pton whole address h =
     host6_initData_view pton whole address (if ha_valid h then host6_resetData h else h)"

definition host6_setAddress_in6_addr :: "(u8 list \<Rightarrow> string option) \<Rightarrow> u8 list \<Rightarrow> host_address \<Rightarrow> host_address" where
  "host6_setAddress_in6_addr ntop ipv6_addr h =
     host6_initData_bytes ntop ipv6_addr (if ha_valid h then host6_resetData h else h)"

definition host6_clear :: "host_address \<Rightarrow> host_address" where
  "host6_clear h = host6_resetData h"

definition host6_toString :: "host_address \<Rightarrow> string" where
  "host6_toString h = (if ha_valid h then ha_printable h else [])"

definition host6_toStringFullFormat :: "host_address \<Rightarrow> string" where
  "host6_toStringFullFormat h = addressToString (ha_bytes h)"

definition host6_eq :: "host_address \<Rightarrow> host_address \<Rightarrow> bool" where
  "host6_eq a b = (host6_toString a = host6_toString b)"

definition host6_eq_in6_addr :: "host_address \<Rightarrow> u8 list \<Rightarrow> bool" where
  "host6_eq_in6_addr h ipv6_addr = (ha_bytes h = ipv6_addr)"

definition host6_ne :: "host_address \<Rightarrow> host_address \<Rightarrow> bool" where
  "host6_ne a b = (\<not> host6_eq a b)"

definition host6_less :: "host_address \<Rightarrow> host_address \<Rightarrow> bool" where
  "host6_less a b = string_less (host6_toString a) (host6_toString b)"

definition host6_getAddressLength :: nat where "host6_getAddressLength = IPV6_ADDR_SIZE"

subsection \<open>Socket addresses\<close>

definition NetworkAddress :: "host_address \<Rightarrow> u16 \<Rightarrow> network_address" where
  "NetworkAddress host_addr port = \<lparr>na_port = port, na_host = host_addr\<rparr>"

definition network_print :: "network_address \<Rightarrow> string" where
  "network_print addr =
     ''port: '' @ nat_digits (unat (na_port addr)) @ '' addr: '' @ host_toString (na_host addr) @ [CHR 0x0A]"

definition InetSocketAddress_network :: "u8 list \<Rightarrow> network_address \<Rightarrow> inet_socket_address" where
  "InetSocketAddress_network garbage addr = snd (inet_setAddress addr (InetSocketAddress_default garbage))"

definition inet_print :: "inet_socket_address \<Rightarrow> string" where
  "inet_print s = ''IPV4 InetSocketAddress: address = '' @ network_print (is_address s)"

definition InetSocketAddress6_default :: "u8 list \<Rightarrow> inet6_socket_address" where
  "InetSocketAddress6_default garbage =
     \<lparr>is6_address = \<lparr>na_port = 0, na_host = HostAddress6_default garbage\<rparr>, is6_sin6_port = 0,
      is6_sin6_addr = replicate IPV6_ADDR_SIZE 0\<rparr>"

definition inet6_copy :: "inet6_socket_address \<Rightarrow> inet6_socket_address" where
  "inet6_copy other =
     \<lparr>is6_address = is6_address other, is6_sin6_port = is6_sin6_port other, is6_sin6_addr = is6_sin6_addr other\<rparr>"

definition inet6_assign :: "inet6_socket_address \<Rightarrow> inet6_socket_address \<Rightarrow> inet6_socket_address" where
  "inet6_assign this other =
     this\<lparr>is6_address := is6_address other, is6_sin6_port := is6_sin6_port other, is6_sin6_addr := is6_sin6_addr other\<rparr>"

definition inet6_print :: "inet6_socket_address \<Rightarrow> string" where
  "inet6_print s = ''IPV6 InetSocketAddress: address = '' @ network_print (is6_address s)"

definition inet6_toString :: "inet6_socket_address \<Rightarrow> string" where
  "inet6_toString s = network_toString (is6_address s)"

definition inet6_less :: "inet6_socket_address \<Rightarrow> inet6_socket_address \<Rightarrow> bool" where
  "inet6_less a b = network_less (is6_address a) (is6_address b)"

subsection \<open>The order of the addresses\<close>

lemma string_less_irrefl [simp]: "\<not> string_less a a"
  by (induction a) auto

lemma string_less_trans: "string_less a b \<Longrightarrow> string_less b c \<Longrightarrow> string_less a c"
proof (induction a b arbitrary: c rule: string_less.induct)
  case (3 x xs y ys)
  then show ?case by (cases c) auto
qed (auto elim: string_less.elims)

lemma string_less_total: "string_less a b \<or> a = b \<or> string_less b a"
proof (induction a b rule: string_less.induct)
  case (3 x xs y ys)
  then show ?case by (cases "of_char x :: nat" "of_char y :: nat" rule: linorder_cases) auto
next
  case (1 xs)
  then show ?case by (cases xs) auto
qed auto

text \<open>What an address is compared by: the printed host, which is empty for an invalid one, and the port.\<close>

datatype address_key = Address_key string u16

instantiation address_key :: linorder
begin

fun less_address_key :: "address_key \<Rightarrow> address_key \<Rightarrow> bool" where
  "less_address_key (Address_key h p) (Address_key h' p') \<longleftrightarrow> string_less h h' \<or> h = h' \<and> p < p'"

definition less_eq_address_key :: "address_key \<Rightarrow> address_key \<Rightarrow> bool" where
  "less_eq_address_key a b \<longleftrightarrow> a < b \<or> a = b"

instance
proof
  fix a b c :: address_key
  have irrefl: "\<not> x < x" for x :: address_key by (cases x) simp
  have trans: "x < y \<Longrightarrow> y < z \<Longrightarrow> x < z" for x y z :: address_key
    by (cases x; cases y; cases z) (auto dest: string_less_trans)
  show "a < b \<longleftrightarrow> a \<le> b \<and> \<not> b \<le> a"
    using irrefl [of a] trans [of a b a] unfolding less_eq_address_key_def by auto
  show "a \<le> a" by (simp add: less_eq_address_key_def)
  show "a \<le> b \<Longrightarrow> b \<le> c \<Longrightarrow> a \<le> c"
    using trans [of a b c] unfolding less_eq_address_key_def by auto
  show "a \<le> b \<Longrightarrow> b \<le> a \<Longrightarrow> a = b"
    using irrefl [of a] trans [of a b a] unfolding less_eq_address_key_def by auto
  show "a \<le> b \<or> b \<le> a"
    using string_less_total unfolding less_eq_address_key_def by (cases a; cases b) auto
qed

end

definition key_of :: "network_address \<Rightarrow> address_key" where
  "key_of n = Address_key (host_toString (na_host n)) (na_port n)"

lemma network_less_key: "network_less a b \<longleftrightarrow> key_of a < key_of b"
  by (auto simp: network_less_def key_of_def host_less_def host_eq_def)

lemma network_eq_key: "network_eq a b \<longleftrightarrow> key_of a = key_of b"
  by (auto simp: network_eq_def key_of_def host_eq_def)

text \<open>The IPv6 host compares as the IPv4 host does.\<close>

lemma host6_compare: "host6_eq = host_eq" "host6_less = host_less" "host6_ne = host_ne"
  by (simp_all add: fun_eq_iff host6_eq_def host_eq_def host6_toString_def host_toString_def host6_less_def host_less_def
      host6_ne_def host_ne_def)

subsection \<open>Properties\<close>

text \<open>
  C38: The comparison of socket addresses is a strict weak ordering, as a map keyed by them needs, and
  two addresses that neither comes before the other are exactly those that compare equal: the
  same printed host and port. An address that cannot be printed is as good as an empty one.
\<close>

theorem address_order:
  "\<not> network_less a a \<and> (network_less a b \<and> network_less b c \<longrightarrow> network_less a c) \<and>
   (\<not> network_less a b \<and> \<not> network_less b a \<longleftrightarrow> network_eq a b) \<and>
   (network_eq a b \<longrightarrow> (network_less a c \<longleftrightarrow> network_less b c) \<and> (network_less c a \<longleftrightarrow> network_less c b)) \<and>
   (network_empty a \<longleftrightarrow> network_eq a (NetworkAddress (HostAddress_default garbage) 0))"
proof -
  have "network_empty a \<longleftrightarrow> network_eq a (NetworkAddress (HostAddress_default garbage) 0)"
    by (auto simp: network_empty_def network_eq_def host_eq_def NetworkAddress_def host_toString_def HostAddress_default_def)
  then show ?thesis
    unfolding network_less_key network_eq_key by auto
qed

text \<open>Two ports of one host and another host.\<close>

definition printed_host :: "string \<Rightarrow> host_address" where
  "printed_host p = \<lparr>ha_bytes = [], ha_printable = p, ha_valid = True\<rparr>"

theorem address_order_witness:
  "network_less (NetworkAddress (printed_host ''10.0.0.7'') 80) (NetworkAddress (printed_host ''10.0.0.8'') 22)"
proof -
  let ?a = "NetworkAddress (printed_host ''10.0.0.7'') 80" and ?b = "NetworkAddress (printed_host ''10.0.0.7'') 443"
    and ?c = "NetworkAddress (printed_host ''10.0.0.8'') 22"
  have "network_less ?a ?b"
    by (simp add: network_less_def NetworkAddress_def printed_host_def host_less_def host_eq_def host_toString_def)
  moreover have "network_less ?b ?c"
    by (simp add: network_less_def NetworkAddress_def printed_host_def host_less_def host_eq_def host_toString_def)
  ultimately show ?thesis
    using address_order [of ?a ?b ?c] by blast
qed

text \<open>
  What an IPv6 socket address with a valid host and a port puts into a \<^verbatim>\<open>sockaddr\<close> is read back by
  another one as the same port and the same bytes, and a copy or an assignment carries all of it
  over.
\<close>

theorem sockaddr6_round_trip:
  assumes "ha_valid (na_host addr)" and "length (ha_bytes (na_host addr)) = 16" and "na_port addr \<noteq> 0"
    and "length (is6_sin6_addr s) = 16" and "\<And>bs. ntop bs \<noteq> None" and "inet6_setAddress addr s = (ok, s1)"
    and "s2 = inet6_setAddress_sockaddr ntop (fst (inet6_getAddress (inet6_copy s1))) (snd (inet6_getAddress (inet6_assign s s1))) s0"
  shows "ok \<and> na_port (is6_address s2) = na_port addr \<and> ha_bytes (na_host (is6_address s2)) = ha_bytes (na_host addr) \<and>
    ha_valid (na_host (is6_address s2)) \<and> inet6_getAddress s2 = inet6_getAddress s1"
proof -
  obtain t where "ntop (ha_bytes (na_host addr)) = Some t" using assms(5) by blast
  with assms show ?thesis
    by (auto simp: inet6_setAddress_def inet6_setAddress_sockaddr_def inet6_getAddress_def host6_getAddress_def
        host6_setAddress_bytes_def host6_initData_bytes_def extractPrintableAddress_def inet6_copy_def inet6_assign_def)
qed

theorem sockaddr6_round_trip_witness:
  "\<exists>s1. inet6_setAddress \<lparr>na_port = 80, na_host = LocalHost6 example_ntop []\<rparr> (InetSocketAddress6_default []) = (True, s1) \<and>
    inet6_getAddress s1 = (htons 80, in6addr_loopback)"
proof -
  let ?addr = "\<lparr>na_port = 80, na_host = LocalHost6 example_ntop []\<rparr>"
  let ?s = "InetSocketAddress6_default []"
  obtain ok s1 where s1: "inet6_setAddress ?addr ?s = (ok, s1)" by (cases "inet6_setAddress ?addr ?s")
  have h: "LocalHost6 example_ntop [] = \<lparr>ha_bytes = in6addr_loopback, ha_printable = addressToString in6addr_loopback, ha_valid = True\<rparr>"
    by (simp add: LocalHost6_def HostAddress6_bytes_def host6_initData_bytes_def extractPrintableAddress_def example_ntop_def
        HostAddress6_default_def)
  have l: "length in6addr_loopback = 16" and l': "length (is6_sin6_addr ?s) = 16"
    by (simp_all add: in6addr_loopback_def InetSocketAddress6_default_def IPV6_ADDR_SIZE_def)
  have v: "ha_valid (na_host ?addr)" "length (ha_bytes (na_host ?addr)) = 16" "na_port ?addr \<noteq> 0" "example_ntop bs \<noteq> None" for bs
    using l by (simp_all add: h example_ntop_def)
  have "ok"
    using sockaddr6_round_trip [where ntop = example_ntop and s0 = ?s, OF v(1-3) l' v(4) s1 refl] by blast
  with s1 l l' show ?thesis
    by (auto simp: inet6_setAddress_def inet6_getAddress_def host6_getAddress_def h)
qed

end
