(* ===== verification/SharedContainers.thy ===== *)
theory SharedContainers
  imports LookupTable SharedQueue SharedState
begin

text \<open>
  The lookup table over a vector and the queue as objects with a mutex: their own constructors,
  assignments and locked members (UtilitiesInfra/shared_lookup_table.hpp and shared_queue.hpp),
  over the discipline of SharedState and the contents of LookupTable and SharedQueue. A member
  function that has to wait for the mutex is \<open>None\<close>; a shared lock waits only for a writer, who
  is what \<open>locked\<close> says.
\<close>

subsection \<open>The table over a vector\<close>

type_synonym ('k, 'v) vec_table = "('k, 'v) table shared"

definition vec_table_new :: "('k, 'v) vec_table" where
  "vec_table_new = fresh_shared []"

definition vec_table_copy :: "('k, 'v) vec_table \<Rightarrow> ('k, 'v) vec_table option" where
  "vec_table_copy other = (if locked other then None else Some (vec_table_new\<lparr>content := content other\<rparr>))"

text \<open>A vector that was moved from by a constructor is empty; by an assignment, it is unspecified.\<close>

definition vec_table_move :: "('k, 'v) vec_table \<Rightarrow> (('k, 'v) vec_table \<times> ('k, 'v) vec_table) option" where
  "vec_table_move other =
     (if locked other then None else Some (vec_table_new\<lparr>content := content other\<rparr>, other\<lparr>content := []\<rparr>))"

definition vec_table_copy_assign :: "nat \<Rightarrow> nat \<Rightarrow> (nat \<Rightarrow> ('k, 'v) vec_table) \<Rightarrow> (nat \<Rightarrow> ('k, 'v) vec_table) option" where
  "vec_table_copy_assign this other st =
     (if this = other then Some st
      else if locked (st this) \<or> locked (st other) then None
      else let st1 = st(this := (st this)\<lparr>locked := True\<rparr>, other := (st other)\<lparr>locked := True\<rparr>)
           in Some (st1(this := (st1 this)\<lparr>content := content (st1 other)\<rparr>)))"

definition vec_table_move_assign ::
    "('k, 'v) table \<Rightarrow> nat \<Rightarrow> nat \<Rightarrow> (nat \<Rightarrow> ('k, 'v) vec_table) \<Rightarrow> (nat \<Rightarrow> ('k, 'v) vec_table) option" where
  "vec_table_move_assign rest this other st =
     (if this = other then Some st
      else if locked (st this) \<or> locked (st other) then None
      else let st1 = st(this := (st this)\<lparr>locked := True\<rparr>, other := (st other)\<lparr>locked := True\<rparr>)
           in Some (st1(this := (st1 this)\<lparr>content := content (st1 other)\<rparr>, other := (st1 other)\<lparr>content := rest\<rparr>)))"

definition vec_table_empty :: "('k, 'v) vec_table \<Rightarrow> bool option" where
  "vec_table_empty s = (if locked s then None else Some (content s = []))"

definition vec_table_size :: "('k, 'v) vec_table \<Rightarrow> nat option" where
  "vec_table_size s = (if locked s then None else Some (length (content s)))"

definition vec_table_get_keys_snapshot :: "('k, 'v) vec_table \<Rightarrow> 'k list option" where
  "vec_table_get_keys_snapshot s = (if locked s then None else Some (getKeysFromContainer (content s)))"

definition vec_table_clone :: "('k, 'v) vec_table \<Rightarrow> ('k, 'v) vec_table option" where
  "vec_table_clone s = (if locked s then None else Some (vec_table_new\<lparr>content := content s\<rparr>))"

text \<open>The hash map's snapshot, for a table with a mutex.\<close>

definition um_table_get_keys_snapshot :: "('k, 'v) table shared \<Rightarrow> 'k list option" where
  "um_table_get_keys_snapshot s = (if locked s then None else Some (getKeysFromContainer (content s)))"

subsection \<open>The queue\<close>

definition queue_new :: "'a queue shared" where
  "queue_new = fresh_shared []"

definition queue_copy :: "'a queue shared \<Rightarrow> 'a queue shared option" where
  "queue_copy other = (if locked other then None else Some (queue_new\<lparr>content := content other\<rparr>))"

definition queue_move :: "'a queue \<Rightarrow> 'a queue shared \<Rightarrow> ('a queue shared \<times> 'a queue shared) option" where
  "queue_move rest other =
     (if locked other then None
      else Some (queue_new\<lparr>content := content other\<rparr>, other\<lparr>content := rest\<rparr>))"

definition queue_copy_assign :: "nat \<Rightarrow> nat \<Rightarrow> (nat \<Rightarrow> 'a queue shared) \<Rightarrow> (nat \<Rightarrow> 'a queue shared) option" where
  "queue_copy_assign this other st =
     (if this = other then Some st
      else if locked (st this) \<or> locked (st other) then None
      else let st1 = st(this := (st this)\<lparr>locked := True\<rparr>, other := (st other)\<lparr>locked := True\<rparr>)
           in Some (st1(this := (st1 this)\<lparr>content := content (st1 other)\<rparr>)))"

definition queue_move_assign :: "'a queue \<Rightarrow> nat \<Rightarrow> nat \<Rightarrow> (nat \<Rightarrow> 'a queue shared) \<Rightarrow> (nat \<Rightarrow> 'a queue shared) option" where
  "queue_move_assign rest this other st =
     (if this = other then Some st
      else if locked (st this) \<or> locked (st other) then None
      else let st1 = st(this := (st this)\<lparr>locked := True\<rparr>, other := (st other)\<lparr>locked := True\<rparr>)
           in Some (st1(this := (st1 this)\<lparr>content := content (st1 other)\<rparr>, other := (st1 other)\<lparr>content := rest\<rparr>)))"

subsection \<open>They are the shared containers of SharedState\<close>

lemma table_members:
  "vec_table_copy = copy_construct" "vec_table_move = move_construct []"
  "vec_table_copy_assign = copy_assign" "vec_table_move_assign = move_assign"
  "vec_table_clone = copy_construct"
  by (auto simp: fun_eq_iff vec_table_copy_def copy_construct_def vec_table_move_def move_construct_def vec_table_new_def
      fresh_shared_def vec_table_copy_assign_def copy_assign_def vec_table_move_assign_def move_assign_def vec_table_clone_def
      Let_def)

lemma queue_members:
  "queue_copy = copy_construct" "queue_move = move_construct"
  "queue_copy_assign = copy_assign" "queue_move_assign = move_assign"
  by (auto simp: fun_eq_iff queue_copy_def copy_construct_def queue_move_def move_construct_def queue_new_def
      fresh_shared_def queue_copy_assign_def copy_assign_def queue_move_assign_def move_assign_def Let_def)

subsection \<open>Properties\<close>

text \<open>
  The constructors and the assignment of a table part ways. A copy that is constructed, or a clone,
  answers for the keys the original had, and both go on; a copy that is assigned has the same
  content, but neither object ever answers again, nor is the assignment of anything to either.
\<close>

theorem table_copies:
  assumes "\<not> locked (st j)" and "\<not> locked (st i)" and "i \<noteq> j"
  shows "(\<exists>c. vec_table_copy (st j) = Some c \<and> vec_table_clone (st j) = Some c \<and>
      vec_table_get_keys_snapshot c = vec_table_get_keys_snapshot (st j) \<and>
      vec_table_get_keys_snapshot c = Some (map fst (content (st j)))) \<and>
    (\<exists>st'. vec_table_copy_assign i j st = Some st' \<and> content (st' i) = content (st j) \<and>
      vec_table_get_keys_snapshot (st' i) = None \<and> vec_table_get_keys_snapshot (st' j) = None \<and>
      vec_table_copy (st' j) = None \<and> (\<forall>k. k \<noteq> j \<longrightarrow> vec_table_copy_assign k j st' = None))"
proof -
  obtain st' where st': "copy_assign i j st = Some st'"
    using assms by (simp add: copy_assign_def)
  show ?thesis
    using assms st' copy_assign_content [OF st'] copy_assign_locks [OF st' assms(3)]
    unfolding table_members
    by (auto simp: copy_construct_def vec_table_get_keys_snapshot_def fresh_shared_def getKeysFromContainer_def)
      (auto simp: copy_assign_def)
qed

theorem table_copies_witness:
  "\<exists>st'. vec_table_copy_assign 0 1 (\<lambda>i. fresh_shared [(i, ''a'')]) = Some st' \<and> content (st' 0) = [(1, ''a'')] \<and>
    vec_table_get_keys_snapshot (st' 1) = None"
  using table_copies [of "\<lambda>i. fresh_shared [(i, ''a'')]" 1 0] by (auto simp: fresh_shared_def)

end
