(* ===== verification/FileReport.thy ===== *)
theory FileReport
  imports Configuration
begin

text \<open>
  The printed report of a file (IOInfra/FileInfo.cpp, \<^verbatim>\<open>operator<<\<close>) and the numbers it shows.
  The calendar times are those of the system (\<^verbatim>\<open>localtime\<close> and \<^verbatim>\<open>put_time\<close>), as text
  in \<open>fi_times\<close>.
\<close>

definition file_info_print :: "file_info \<Rightarrow> string" where
  "file_info_print i =
     ''Device info:'' @
     newline # ''Type:                     '' @ typeToString (fi_type i) @
     newline # ''I-node number:            '' @ int_digits (fi_inode i) @
     newline # ''Device containing i-node: major='' @ int_digits (fi_major i) @ '' minor='' @ int_digits (fi_minor i) @
     newline # ''Ownership:                UID='' @ int_digits (fi_user i) @ '' GID='' @ int_digits (fi_group i) @
     newline # ''File mode:                '' @ perm_toString (fi_permissions i) @
     newline # ''Available size:           '' @ int_digits (fi_available_size i) @ '' bytes'' @
     newline # ''Last file access:         '' @ fst (fi_times i) @
     newline # ''Last file modification:   '' @ fst (snd (fi_times i)) @
     newline # ''Last status change:       '' @ snd (snd (fi_times i)) @ [newline]"

lemma to_int32_cases: "to_int32 x = (x + 2 ^ 31) mod 2 ^ 32 - 2 ^ 31"
  by (simp add: to_int32_def signed_of_int signed_take_bit_eq_take_bit_shift take_bit_eq_mod)

lemma to_int32_exact: "to_int32 x = x \<longleftrightarrow> - (2 ^ 31) \<le> x \<and> x < 2 ^ 31"
proof
  assume "to_int32 x = x"
  then have "(x + 2 ^ 31) mod 2 ^ 32 = x + 2 ^ 31" by (simp add: to_int32_cases)
  then show "- (2 ^ 31) \<le> x \<and> x < 2 ^ 31"
    using pos_mod_sign [of "2 ^ 32" "x + 2 ^ 31"] pos_mod_bound [of "2 ^ 32" "x + 2 ^ 31"] by simp
qed (simp add: to_int32_cases mod_pos_pos_trivial)

text \<open>
  The size of a file is kept in an \<^verbatim>\<open>int\<close>: it is exact below 2 GiB, from there to 4 GiB it
  is negative, and the report of a file of 4 GiB says that it is empty. The function that copies a
  file takes a negative size for a failure.
\<close>

theorem reported_size:
  assumes "0 \<le> st_size st" and "i = FileInfo (Some st)"
  shows "(fi_available_size i = st_size st \<longleftrightarrow> st_size st < 2 ^ 31) \<and>
    (2 ^ 31 \<le> st_size st \<and> st_size st < 2 ^ 32 \<longrightarrow> fi_available_size i < 0) \<and>
    (st_size st = 2 ^ 32 \<longrightarrow> fi_available_size i = 0)"
proof -
  have i: "fi_available_size i = to_int32 (st_size st)"
    by (simp add: assms(2) FileInfo_def fi_init_def fi_setFields_def)
  have "(2 ^ 31 \<le> st_size st \<and> st_size st < 2 ^ 32) \<Longrightarrow> (2 ^ 31 + st_size st) mod 2 ^ 32 = st_size st - 2 ^ 31"
    using mod_pos_pos_trivial [of "st_size st - 2 ^ 31" "2 ^ 32"] mod_add_self2 [of "st_size st - 2 ^ 31" "2 ^ 32"] by simp
  then show ?thesis
    using assms(1) unfolding i by (auto simp: to_int32_exact to_int32_cases add.commute [of _ 2147483648])
qed

theorem reported_size_witness:
  "fi_available_size (FileInfo (Some \<lparr>st_mode = 0x81A4, st_size = 3221225472, st_dev_major = 8, st_dev_minor = 1, st_ino = 7,
     st_uid = 0, st_gid = 0, st_times = ('''', '''', '''')\<rparr>)) < 0"
  using reported_size [of "\<lparr>st_mode = 0x81A4, st_size = 3221225472, st_dev_major = 8, st_dev_minor = 1, st_ino = 7,
     st_uid = 0, st_gid = 0, st_times = ('''', '''', '''')\<rparr>"] by simp

end
