(* ===== verification/DynamicServices.thy ===== *)
theory DynamicServices
  imports DynamicEndpoint ServerEndpoint
begin

text \<open>
  A client's and a server's endpoint behind the dynamic adaptors (DynamicTransportEndpointAdaptor.h)
  and the wrappers of TransportEndpoint.hpp: what a user gets who chooses the device at run time.
  The interface of DynamicEndpoint is filled with the wrappers of ClientEndpoint and with those of a
  server, and any sequence of calls is compared with the same calls on the endpoint itself. A wrapper
  in an adaptor owns its endpoint: only a connector releases it, before.
\<close>

subsection \<open>The server's wrapper\<close>

definition server_wrapper_bind ::
    "(string \<Rightarrow> 'a option) \<Rightarrow> ('a, 'w) server_device \<Rightarrow> string \<Rightarrow> bool \<Rightarrow> ('w, 'u) server \<Rightarrow> bool \<times> ('w, 'u) server" where
  "server_wrapper_bind parse d addr reusable s =
     (case parse addr of Some dev_addr \<Rightarrow> server_bind d dev_addr reusable s | None \<Rightarrow> (False, s))"

definition server_wrapper_listen :: "('a, 'w) server_device \<Rightarrow> int \<Rightarrow> ('w, 'u) server \<Rightarrow> bool \<times> ('w, 'u) server" where
  "server_wrapper_listen d backlog s = server_listen d backlog s"

definition server_wrapper_accept ::
    "'w listener \<Rightarrow> ('a, 'w) server_device \<Rightarrow> bool \<Rightarrow> ('w, 'u) server \<Rightarrow> bool \<times> ('w, 'u) server" where
  "server_wrapper_accept l d non_blocking s = server_accept l d non_blocking s"

subsection \<open>The interfaces\<close>

text \<open>A client that owns its endpoint; a call through a wrapper that owns one is defined.\<close>

definition owned_call :: "(('r \<times> 'e option \<times> 'w) option) \<Rightarrow> 'r \<times> 'e \<times> 'w" where
  "owned_call x = (case the x of (r, e, w) \<Rightarrow> (r, the e, w))"

definition client_interface ::
    "(string \<Rightarrow> 'a option) \<Rightarrow> 'w listener \<Rightarrow> ('a, 'w) device \<Rightarrow> ('w client_endpoint, 'w) interface_ops" where
  "client_interface parse l d =
     \<lparr>io_is_client = \<lambda>e. True, io_is_server = \<lambda>e. False,
      io_listenerSubscribe = \<lambda>events (e, w). owned_call (wrapper_listenerSubscribe l d events (Some e) w),
      io_listenerUnsubscribe = \<lambda>(e, w). owned_call (wrapper_listenerUnsubscribe l (Some e) w),
      io_subscribedToListener = \<lambda>e. the (wrapper_subscribedToListener (Some e)),
      io_getConnectionState = \<lambda>e. the (wrapper_getConnectionState (Some e)),
      io_onConnected = \<lambda>(e, w). snd (owned_call (map_option (\<lambda>x. ((), x)) (wrapper_onConnected (Some e) w))),
      io_connect = \<lambda>addr nb (e, w). owned_call (wrapper_connect parse d addr nb (Some e) w),
      io_disconnect = \<lambda>(e, w). owned_call (wrapper_disconnect d (Some e) w),
      io_bind = \<lambda>addr reusable s. (False, s), io_listen = \<lambda>backlog s. (False, s), io_accept = \<lambda>nb s. (False, s),
      io_destroy = \<lambda>e w. endpoint_destroy l e w\<rparr>"

subsection \<open>Calls\<close>

datatype dynamic_call =
    Dyn_subscribe events_array | Dyn_unsubscribe | Dyn_connect string bool | Dyn_disconnect | Dyn_connected

definition dynamic_do ::
    "('p, 'w) interface_ops \<Rightarrow> dynamic_call \<Rightarrow> 'p adapter \<times> 'w \<Rightarrow> bool \<times> 'p adapter \<times> 'w" where
  "dynamic_do io c st =
     (case c of
        Dyn_subscribe events \<Rightarrow> adapter_listenerSubscribe io events st
      | Dyn_unsubscribe \<Rightarrow> adapter_listenerUnsubscribe io st
      | Dyn_connect addr nb \<Rightarrow> client_adapter_connect io addr nb st
      | Dyn_disconnect \<Rightarrow> (True, client_adapter_disconnect io st)
      | Dyn_connected \<Rightarrow> (True, client_adapter_onConnected io st))"

text \<open>The same call on the endpoint itself; disconnecting and connecting answer nothing through the adaptor.\<close>

definition static_do ::
    "(string \<Rightarrow> 'a option) \<Rightarrow> 'w listener \<Rightarrow> ('a, 'w) device \<Rightarrow> dynamic_call \<Rightarrow> 'w client_endpoint \<times> 'w \<Rightarrow>
      bool \<times> 'w client_endpoint \<times> 'w" where
  "static_do parse l d c st =
     (case st of (e, w) \<Rightarrow>
        case c of
          Dyn_subscribe events \<Rightarrow> listenerSubscribe l d events e w
        | Dyn_unsubscribe \<Rightarrow> listenerUnsubscribe l e w
        | Dyn_connect addr nb \<Rightarrow>
            (case parse addr of Some a \<Rightarrow> client_connect d a nb e w | None \<Rightarrow> (False, e, w))
        | Dyn_disconnect \<Rightarrow> (True, snd (client_disconnect d e w))
        | Dyn_connected \<Rightarrow> (True, onConnected e w))"

fun run_calls :: "('c \<Rightarrow> 's \<Rightarrow> bool \<times> 's) \<Rightarrow> 'c list \<Rightarrow> 's \<Rightarrow> bool list \<times> 's" where
  "run_calls f [] s = ([], s)"
| "run_calls f (c # cs) s = (case f c s of (ok, s') \<Rightarrow> (case run_calls f cs s' of (oks, s'') \<Rightarrow> (ok # oks, s'')))"

lemma run_calls_map:
  assumes "\<And>c s. f c (g s) = (case h c s of (ok, s') \<Rightarrow> (ok, g s'))"
  shows "run_calls f cs (g s) = (case run_calls h cs s of (oks, s') \<Rightarrow> (oks, g s'))"
  by (induction cs arbitrary: s) (simp_all add: assms case_prod_beta)

text \<open>An adaptor that holds the endpoint \<open>e\<close> of the device \<open>tag\<close>.\<close>

definition behind_adapter :: "nat \<Rightarrow> 'p \<times> 'w \<Rightarrow> 'p adapter \<times> 'w" where
  "behind_adapter tag st = (DynamicTransportEndpointAdapter (Some (fst st)) tag, snd st)"

lemma client_interface_ops:
  "io_listenerSubscribe (client_interface parse l d) events (e, w) = listenerSubscribe l d events e w"
  "io_listenerUnsubscribe (client_interface parse l d) (e, w) = listenerUnsubscribe l e w"
  "io_onConnected (client_interface parse l d) (e, w) = onConnected e w"
  "io_connect (client_interface parse l d) addr nb (e, w) =
     (case parse addr of Some a \<Rightarrow> client_connect d a nb e w | None \<Rightarrow> (False, e, w))"
  "io_disconnect (client_interface parse l d) (e, w) = client_disconnect d e w"
  "io_subscribedToListener (client_interface parse l d) e = subscribedToListener e"
  "io_getConnectionState (client_interface parse l d) e = connection_state_value (ce_state e)"
  "io_destroy (client_interface parse l d) e w = endpoint_destroy l e w"
  by (simp_all add: client_interface_def owned_call_def wrapper_listenerSubscribe_def wrapper_listenerUnsubscribe_def
      wrapper_onConnected_def wrapper_connect_def wrapper_disconnect_def wrapper_subscribedToListener_def
      wrapper_getConnectionState_def split: option.splits prod.splits)

lemma dynamic_step:
  "dynamic_do (client_interface parse l d) c (behind_adapter tag st) =
     (case static_do parse l d c st of (ok, st') \<Rightarrow> (ok, behind_adapter tag st'))"
  by (cases st; cases c)
    (simp_all add: dynamic_do_def static_do_def behind_adapter_def DynamicTransportEndpointAdapter_def on_endpoint_def
      adapter_listenerSubscribe_def adapter_listenerUnsubscribe_def client_adapter_connect_def client_adapter_disconnect_def
      client_adapter_onConnected_def client_interface_ops case_prod_beta split: option.splits)


subsection \<open>A server behind its adaptor\<close>

text \<open>
  The endpoint of a server with the handle it was given and the identifier of its own subscription.
  Its world is the world of the calls.
\<close>

record ('w, 'u) server_endpoint =
  se_handle :: "fd option"
  se_sub_id :: u64
  se_server :: "('w, 'u) server"

definition in_world :: "(('w, 'u) server \<Rightarrow> bool \<times> ('w, 'u) server) \<Rightarrow> ('w, 'u) server_endpoint \<times> 'w \<Rightarrow> bool \<times> ('w, 'u) server_endpoint \<times> 'w" where
  "in_world f st =
     (case st of (e, w) \<Rightarrow> (case f ((se_server e)\<lparr>sv_world := w\<rparr>) of (ok, s) \<Rightarrow> (ok, e\<lparr>se_server := s\<rparr>, sv_world s)))"

definition server_listenerSubscribe ::
    "'w listener \<Rightarrow> events_array \<Rightarrow> ('w, 'u) server_endpoint \<times> 'w \<Rightarrow> bool \<times> ('w, 'u) server_endpoint \<times> 'w" where
  "server_listenerSubscribe l events st =
     (case st of (e, w) \<Rightarrow>
        case se_handle e of
          None \<Rightarrow> (False, e, w)
        | Some h \<Rightarrow> (case l_subscribe l events h w of (sid, w1) \<Rightarrow>
                       if NULL_ID \<noteq> sid then (True, e\<lparr>se_sub_id := sid\<rparr>, w1) else (False, e, w1)))"

definition server_listenerUnsubscribe ::
    "'w listener \<Rightarrow> ('w, 'u) server_endpoint \<times> 'w \<Rightarrow> bool \<times> ('w, 'u) server_endpoint \<times> 'w" where
  "server_listenerUnsubscribe l st =
     (case st of (e, w) \<Rightarrow>
        case l_unsubscribe l (se_sub_id e) w of (ok, w1) \<Rightarrow>
          if ok then (True, e\<lparr>se_sub_id := NULL_ID\<rparr>, w1) else (False, e, w1))"

definition server_interface ::
    "(string \<Rightarrow> 'a option) \<Rightarrow> 'w listener \<Rightarrow> ('a, 'w) server_device \<Rightarrow> (('w, 'u) server_endpoint, 'w) interface_ops" where
  "server_interface parse l d =
     \<lparr>io_is_client = \<lambda>e. False, io_is_server = \<lambda>e. True,
      io_listenerSubscribe = server_listenerSubscribe l, io_listenerUnsubscribe = server_listenerUnsubscribe l,
      io_subscribedToListener = \<lambda>e. NULL_ID \<noteq> se_sub_id e,
      io_getConnectionState = \<lambda>e. connection_state_value (sv_state (se_server e)),
      io_onConnected = \<lambda>s. s, io_connect = \<lambda>addr nb s. (False, s), io_disconnect = \<lambda>s. (False, s),
      io_bind = \<lambda>addr reusable. in_world (server_wrapper_bind parse d addr reusable),
      io_listen = \<lambda>backlog. in_world (server_wrapper_listen d backlog),
      io_accept = \<lambda>nb. in_world (server_wrapper_accept l d nb),
      io_destroy = \<lambda>e w. if NULL_ID \<noteq> se_sub_id e then snd (snd (server_listenerUnsubscribe l (e, w))) else w\<rparr>"

text \<open>
  A server brought up through its adaptor: once it is given the endpoint, \<^verbatim>\<open>bind\<close>,
  \<^verbatim>\<open>listen\<close> and the subscription leave it listening in its state, subscribed for input, with
  the device's calls made in that order; an address that cannot be read is refused before any of
  them, and a client's endpoint is refused by the adaptor itself and destroyed.
\<close>

theorem dynamic_server_listens:
  assumes "se_handle e = Some h" and "se_server e = empty_server disp w u" and "parse addr = Some a" and "parse bad = None"
    and "sdv_bind d a reusable w = (True, w1)" and "sdv_listen d backlog w1 = (True, w2)"
    and "l_subscribe l (event_getArray [E_HANDLE_EVENT_IN]) h w2 = (sid, w3)" and "sid \<noteq> NULL_ID"
    and "io = server_interface parse l d"
    and "server_adapter_init io (Some e) tag (DynamicTransportEndpointAdapter None tag0, w) = (ok0, st0)"
    and "server_adapter_bind io addr reusable st0 = (ok1, st1)" and "server_adapter_listen io backlog st1 = (ok2, st2)"
    and "adapter_listenerSubscribe io (event_getArray [E_HANDLE_EVENT_IN]) st2 = (ok3, ad, w')"
  shows "ok0 \<and> ok1 \<and> ok2 \<and> ok3 \<and> w' = w3 \<and> ad_device_tag ad = tag \<and>
    adapter_subscribedToListener io ad \<and> adapter_getConnectionState io ad = Some (connection_state_value E_LISTENING) \<and>
    (\<exists>e'. ad_endpoint ad = Some e' \<and> se_sub_id e' = sid \<and> sv_storage (se_server e') = []) \<and>
    server_adapter_bind io bad reusable st0 = (False, st0) \<and>
    client_adapter_init io (Some e) tag st0 = (False, fst st0, io_destroy io e (snd st0))"
proof -
  have st0: "ok0" "st0 = (\<lparr>ad_endpoint = Some e, ad_device_tag = tag\<rparr>, w)"
    using assms(9,10)
    by (auto simp: server_adapter_init_def checked_init_def adapter_init_def server_interface_def destroy_endpoint_def
        DynamicTransportEndpointAdapter_def)
  have e: "se_server e\<lparr>sv_world := w\<rparr> = se_server e" by (simp add: assms(2) empty_server_def)
  define s1 where "s1 = (se_server e)\<lparr>sv_world := w1, sv_state := E_BINDED\<rparr>"
  define s2 where "s2 = s1\<lparr>sv_world := w2, sv_state := E_LISTENING\<rparr>"
  have st1: "ok1" "st1 = (\<lparr>ad_endpoint = Some (e\<lparr>se_server := s1\<rparr>), ad_device_tag = tag\<rparr>, w1)"
    using assms(2,3,5,9,11) e
    by (auto simp: server_adapter_bind_def on_endpoint_def st0 server_interface_def in_world_def server_wrapper_bind_def
        server_bind_def s1_def empty_server_def)
  have st2: "ok2" "st2 = (\<lparr>ad_endpoint = Some (e\<lparr>se_server := s2\<rparr>), ad_device_tag = tag\<rparr>, w2)"
    using assms(2,6,9,12)
    by (auto simp: server_adapter_listen_def on_endpoint_def st1 server_interface_def in_world_def server_wrapper_listen_def
        server_listen_def s1_def s2_def empty_server_def)
  have st3: "ok3" "ad = \<lparr>ad_endpoint = Some (e\<lparr>se_server := s2, se_sub_id := sid\<rparr>), ad_device_tag = tag\<rparr>" "w' = w3"
    using assms(1,7,8,9,13)
    by (auto simp: adapter_listenerSubscribe_def on_endpoint_def st2 server_interface_def server_listenerSubscribe_def)
  have "server_adapter_bind io bad reusable st0 = (False, st0)"
    using assms(4,9) e
    by (simp add: server_adapter_bind_def on_endpoint_def st0 server_interface_def in_world_def server_wrapper_bind_def
        assms(2) empty_server_def)
  moreover have "client_adapter_init io (Some e) tag st0 = (False, fst st0, io_destroy io e (snd st0))"
    by (simp add: client_adapter_init_def checked_init_def st0 assms(9) server_interface_def)
  ultimately show ?thesis
    using st0(1) st1(1) st2(1) st3 assms(2,8,9)
    by (simp add: adapter_subscribedToListener_def adapter_getConnectionState_def server_interface_def s2_def s1_def empty_server_def)
qed

definition noting_listener :: "string list listener" where
  "noting_listener =
     \<lparr>l_subscribe = \<lambda>events h w. (7, w @ [''subscribe'']), l_unsubscribe = \<lambda>sid w. (True, w @ [''unsubscribe''])\<rparr>"

definition noting_server_device :: "(string, string list) server_device" where
  "noting_server_device =
     \<lparr>sdv_bind = \<lambda>a ru w. (True, w @ [''bind '' @ a]), sdv_listen = \<lambda>b w. (True, w @ [''listen'']),
      sdv_accept = \<lambda>nb w. (None, w), sdv_close = \<lambda>h w. w, sdv_client_disconnect = \<lambda>h w. (True, w),
      sdv_client_read = \<lambda>h b w. (0, [], w), sdv_client_send = \<lambda>h m w. (0, w)\<rparr>"

definition noting_server :: "(string list, unit) server_endpoint" where
  "noting_server =
     \<lparr>se_handle = Some 4, se_sub_id = 0,
      se_server = empty_server \<lparr>sd_local_buffer = None, sd_input_cb = None, sd_connected_cb = None, sd_disconnected_cb = None\<rparr> [] ()\<rparr>"

definition noting_interface :: "((string list, unit) server_endpoint, string list) interface_ops" where
  "noting_interface = server_interface (\<lambda>s. if s = [] then None else Some s) noting_listener noting_server_device"

theorem dynamic_server_listens_witness:
  "\<exists>st0 st1 st2 ad.
     server_adapter_init noting_interface (Some noting_server) 6 (DynamicTransportEndpointAdapter None 0, []) = (True, st0) \<and>
     server_adapter_bind noting_interface ''addr'' True st0 = (True, st1) \<and>
     server_adapter_listen noting_interface 5 st1 = (True, st2) \<and>
     adapter_listenerSubscribe noting_interface (event_getArray [E_HANDLE_EVENT_IN]) st2 =
       (True, ad, [''bind addr'', ''listen'', ''subscribe'']) \<and>
     server_adapter_bind noting_interface [] True st0 = (False, st0)"
proof -
  let ?io = noting_interface
  obtain ok0 st0 where 0: "server_adapter_init ?io (Some noting_server) 6 (DynamicTransportEndpointAdapter None 0, []) = (ok0, st0)"
    by (metis surj_pair)
  obtain ok1 st1 where 1: "server_adapter_bind ?io ''addr'' True st0 = (ok1, st1)" by (metis surj_pair)
  obtain ok2 st2 where 2: "server_adapter_listen ?io 5 st1 = (ok2, st2)" by (metis surj_pair)
  obtain ok3 ad w' where 3: "adapter_listenerSubscribe ?io (event_getArray [E_HANDLE_EVENT_IN]) st2 = (ok3, ad, w')"
    by (metis surj_pair)
  have h: "se_handle noting_server = Some 4"
    and s: "se_server noting_server =
      empty_server \<lparr>sd_local_buffer = None, sd_input_cb = None, sd_connected_cb = None, sd_disconnected_cb = None\<rparr> [] ()"
    by (simp_all add: noting_server_def)
  have d: "sdv_bind noting_server_device ''addr'' True [] = (True, [''bind addr''])"
    "sdv_listen noting_server_device 5 [''bind addr''] = (True, [''bind addr'', ''listen''])"
    "l_subscribe noting_listener (event_getArray [E_HANDLE_EVENT_IN]) 4 [''bind addr'', ''listen''] =
       (7, [''bind addr'', ''listen'', ''subscribe''])"
    by (simp_all add: noting_server_device_def noting_listener_def)
  have p: "(\<lambda>s. if s = [] then None else Some s) ''addr'' = Some ''addr''" "(\<lambda>s. if s = [] then None else Some s) [] = None"
    by simp_all
  have sid: "(7 :: u64) \<noteq> NULL_ID" by simp
  note r = dynamic_server_listens [OF h s p d sid noting_interface_def 0 1 2 3]
  then have ok: "ok0 = True" "ok1 = True" "ok2 = True" "ok3 = True" "w' = [''bind addr'', ''listen'', ''subscribe'']"
    and bad: "server_adapter_bind ?io [] True st0 = (False, st0)"
    by blast+
  show ?thesis
    using 0 1 2 3 bad unfolding ok by blast
qed

subsection \<open>The acceptor's client\<close>

text \<open>
  What AcceptorClient does with the endpoint its acceptor completes: a reading pipe's server, released
  from its wrapper, takes the place of the one it held (which is destroyed) and gets the client's
  callbacks. They print, which is what \<open>print_input\<close>, \<open>print_connected\<close> and \<open>print_gone\<close> do to the
  user's state. The dynamic completion callback next to it is never handed over.
\<close>

definition static_completion_cb ::
    "(fd \<Rightarrow> string \<Rightarrow> 'u \<Rightarrow> 'u) \<Rightarrow> (fd \<Rightarrow> 'u \<Rightarrow> 'u) \<Rightarrow> (fd \<Rightarrow> 'u \<Rightarrow> 'u) \<Rightarrow> ('w, 'u) pipe_server option \<Rightarrow>
      ('w, 'u) pipe_server option \<times> ('w, 'u) pipe_server list \<Rightarrow> ('w, 'u) pipe_server option \<times> ('w, 'u) pipe_server list" where
  "static_completion_cb print_input print_connected print_gone p_endpoint st =
     (case st of (cur, dead) \<Rightarrow>
        case p_endpoint of
          None \<Rightarrow> (cur, dead)
        | Some s \<Rightarrow>
            let s1 = snd (pipe_register_input (Some print_input) s);
                d2 = snd (registerClientConnectionCallback (Some print_connected) (ps_dispatcher s1));
                d3 = snd (registerClientDisconnectionCallback (Some print_gone) d2)
            in (Some (s1\<lparr>ps_dispatcher := d3\<rparr>), dead @ (case cur of None \<Rightarrow> [] | Some old \<Rightarrow> [old])))"

text \<open>
  Input that came to a pipe before its server was completed is not lost: the first registration hands
  the whole of it to the client at once, under the key it came with, and leaves the buffer empty.
\<close>

lemma completion_hands_over_input:
  assumes "sd_local_buffer (ps_dispatcher s) = Some b" and "sd_input_cb (ps_dispatcher s) = None"
  shows "\<exists>s'. static_completion_cb print_input pc pg (Some s) (None, []) = (Some s', []) \<and>
    ps_user s' = print_input (lb_key b) (lb_buffer b) (ps_user s) \<and>
    sd_local_buffer (ps_dispatcher s') = Some empty_buffer \<and> ps_world s' = ps_world s"
  using assms
  by (simp add: static_completion_cb_def pipe_register_input_def registerClientInputCallback_def ProcessClientInput_def
      registerClientConnectionCallback_def registerClientDisconnectionCallback_def Let_def buffer_clear_def empty_buffer_def)

end
