(* ===== verification/MetaTests.thy ===== *)
theory MetaTests
  imports TemplateLists DeviceTypes
begin

text \<open>
  The driver's compile-time checks (Driver/meta.cpp) and the traits of functions they rest on
  (UtilitiesInfra/function_traits.hpp): the lists of templates, types and values the file declares,
  its static assertions as boolean values over the model of the three list headers, and the driver's
  dispatch of a call to the members named \<open>test\<close> of seven classes. An assertion that does not hold
  is a program that does not compile, so the assertions being true is what the model of the headers
  owes the code.
\<close>

subsection \<open>Lists of templates\<close>

datatype holder = SingleTypeHolder | TwoTypesHolder | ThreeTypesHolder | FourTypesHolder | FiveTypesHolder

definition first_ttlist :: "holder list" where
  "first_ttlist = [TwoTypesHolder, ThreeTypesHolder]"
definition second_ttlist :: "holder list" where
  "second_ttlist = [FourTypesHolder, FiveTypesHolder]"
definition third_ttlist :: "holder list" where
  "third_ttlist = [ThreeTypesHolder]"
definition fourth_ttlist :: "holder list" where
  "fourth_ttlist = [ThreeTypesHolder, SingleTypeHolder]"
definition fifth_ttlist :: "holder list" where
  "fifth_ttlist = [TwoTypesHolder, FourTypesHolder, TwoTypesHolder, FiveTypesHolder]"
definition sixth_ttlist :: "holder list" where
  "sixth_ttlist = [SingleTypeHolder]"
definition concat_ttlist :: "holder list" where
  "concat_ttlist = [TwoTypesHolder, ThreeTypesHolder, FourTypesHolder, FiveTypesHolder, SingleTypeHolder]"
definition duplicates_ttlist :: "holder list" where
  "duplicates_ttlist = [SingleTypeHolder, TwoTypesHolder, SingleTypeHolder, ThreeTypesHolder, ThreeTypesHolder,
     TwoTypesHolder, SingleTypeHolder, FourTypesHolder, FiveTypesHolder, FourTypesHolder, TwoTypesHolder,
     FiveTypesHolder]"
definition singles_ttlist :: "holder list" where
  "singles_ttlist = [SingleTypeHolder, TwoTypesHolder, ThreeTypesHolder, FourTypesHolder, FiveTypesHolder]"
definition first_tuple :: "holder pack tuple_type" where
  "first_tuple = Std_tuple [Pack TwoTypesHolder, Pack ThreeTypesHolder]"

definition IsTwoTypesHolder :: "holder \<Rightarrow> bool" where
  "IsTwoTypesHolder h = (Pack TwoTypesHolder = Pack h)"

definition filtered_ttlist :: "holder list" where
  "filtered_ttlist = ttl_filter IsTwoTypesHolder fifth_ttlist False"

definition intersect_ttlist1 :: "holder list" where
  "intersect_ttlist1 = [TwoTypesHolder, FourTypesHolder, ThreeTypesHolder]"
definition intersect_ttlist2 :: "holder list" where
  "intersect_ttlist2 = [FiveTypesHolder, ThreeTypesHolder, TwoTypesHolder]"
definition intersection_ttlist12 :: "holder list" where
  "intersection_ttlist12 = [TwoTypesHolder, ThreeTypesHolder]"

text \<open>The types the assertions name; a template with its arguments is one too.\<close>

datatype cpp_type =
    Bool_type | Char_type | Signed_char | Int_type | Unsigned_int | Long_type | Long_long | Float_type | Double_type
  | Std_string | Test_struct | Uint8 | Uint16 | Void_type | Monostate
  | Applied holder "cpp_type list"
  | Test_holder int "cpp_type list"

text \<open>A template of a list with arguments (\<^verbatim>\<open>front_tt\<close>, \<^verbatim>\<open>nth_element_tt\<close>).\<close>

definition front_tt :: "holder list \<Rightarrow> cpp_type list \<Rightarrow> cpp_type option" where
  "front_tt ts args = map_option (\<lambda>t. Applied t args) (fst (ttl_front ts))"

definition nth_element_tt :: "holder list \<Rightarrow> nat \<Rightarrow> cpp_type list \<Rightarrow> cpp_type option" where
  "nth_element_tt ts n args = map_option (\<lambda>t. Applied t args) (fst (ttl_nth_element ts n))"

definition ttl_static_assertions :: "bool list" where
  "ttl_static_assertions =
    [ttl_is_empty ([] :: holder list),
     front_tt [TwoTypesHolder] [Int_type, Double_type] = Some (Applied TwoTypesHolder [Int_type, Double_type]),
     ttl_pop_front first_ttlist = Some [ThreeTypesHolder],
     ttl_push_front third_ttlist TwoTypesHolder = first_ttlist,
     ttl_push_back third_ttlist SingleTypeHolder = fourth_ttlist,
     ttl_erase_rec fifth_ttlist TwoTypesHolder = second_ttlist,
     ttl_to_tuple first_ttlist = first_tuple,
     to_ttlist first_tuple = first_ttlist,
     ttl_concat [first_ttlist, second_ttlist, sixth_ttlist] = concat_ttlist,
     filtered_ttlist = second_ttlist,
     ttl_erase fifth_ttlist TwoTypesHolder = second_ttlist,
     ttl_remove_duplicates duplicates_ttlist = singles_ttlist,
     nth_element_tt singles_ttlist 0 [Unsigned_int] = Some (Applied SingleTypeHolder [Unsigned_int]),
     nth_element_tt singles_ttlist 2 [Char_type, Long_type, Unsigned_int] =
       Some (Applied ThreeTypesHolder [Char_type, Long_type, Unsigned_int]),
     snd (ttl_nth_element singles_ttlist 3) = Pack (Some FourTypesHolder),
     any_of fifth_ttlist IsTwoTypesHolder = True,
     any_of fourth_ttlist IsTwoTypesHolder = False,
     get_index_by_type concat_ttlist FourTypesHolder = 2,
     ttl_size fifth_ttlist = 4,
     intersect intersect_ttlist1 intersect_ttlist2 = intersection_ttlist12]"

subsection \<open>Lists of types\<close>

definition extra_integers_tlist :: "cpp_type list" where
  "extra_integers_tlist = [Bool_type, Int_type, Signed_char, Int_type, Long_type, Int_type, Long_long]"
definition integrals_tlist_sans_int :: "cpp_type list" where
  "integrals_tlist_sans_int = [Bool_type, Signed_char, Long_type, Long_long]"
definition floating_tlist :: "cpp_type list" where
  "floating_tlist = [Float_type, Double_type]"
definition floating_tuple :: "cpp_type tuple_type" where
  "floating_tuple = Std_tuple [Float_type, Double_type]"
definition concat_tlist :: "cpp_type list" where
  "concat_tlist = [Bool_type, Signed_char, Long_type, Long_long, Float_type, Double_type]"

fun is_floating_point :: "cpp_type \<Rightarrow> bool" where
  "is_floating_point Float_type = True"
| "is_floating_point Double_type = True"
| "is_floating_point t = False"

definition filtered_tlist :: "cpp_type list" where
  "filtered_tlist = tl_filter is_floating_point concat_tlist True"
definition no_dup_int_tlist :: "cpp_type list" where
  "no_dup_int_tlist = [Bool_type, Int_type, Signed_char, Long_type, Long_long]"
definition custom_tlist :: "cpp_type list" where
  "custom_tlist = [Bool_type, Int_type, Char_type, Test_struct, Std_string]"

text \<open>The member type \<open>test\<close>, which of these types only the driver's structure has.\<close>

fun test_type :: "cpp_type \<Rightarrow> cpp_type option" where
  "test_type Test_struct = Some Int_type"
| "test_type t = None"

definition test_generator :: "int \<Rightarrow> cpp_type list \<Rightarrow> cpp_type" where
  "test_generator v ts = Test_holder v ts"

definition tags_set :: "int list" where
  "tags_set = [1, 2, 3, 4]"
definition generated_tlist :: "cpp_type list" where
  "generated_tlist = [Test_holder 1 [Double_type], Test_holder 2 [Double_type], Test_holder 3 [Double_type],
     Test_holder 4 [Double_type]]"
definition result_tlist :: "cpp_type list" where
  "result_tlist = generate_typelist tags_set (\<lambda>v. test_generator v [Double_type])"

definition tl_static_assertions :: "bool list" where
  "tl_static_assertions =
    [is_empty ([] :: cpp_type list),
     front [Int_type, Double_type, Char_type] = Some Int_type,
     pop_front [Char_type, Float_type, Unsigned_int] = Some [Float_type, Unsigned_int],
     push_front [Char_type, Float_type, Int_type] Double_type = [Double_type, Char_type, Float_type, Int_type],
     push_back [Float_type, Long_type] Char_type = [Float_type, Long_type, Char_type],
     erase_rec extra_integers_tlist Int_type = integrals_tlist_sans_int,
     to_tuple floating_tlist = floating_tuple,
     to_tlist (Inl floating_tuple) = floating_tlist,
     tl_concat [integrals_tlist_sans_int, floating_tlist] = concat_tlist,
     filtered_tlist = floating_tlist,
     erase extra_integers_tlist Int_type = integrals_tlist_sans_int,
     remove_duplicates extra_integers_tlist = no_dup_int_tlist,
     nth_element concat_tlist 3 = Some Long_long,
     to_variant floating_tlist = Std_variant [Float_type, Double_type],
     tl_size concat_tlist = 6,
     contains concat_tlist Signed_char,
     contains_container (Inl floating_tuple) Double_type,
     nth_element custom_tlist 3 = Some Test_struct,
     get_member_type_by_index test_type custom_tlist 3 = Some (Some Int_type)]"

definition generator_static_assertions :: "bool list" where
  "generator_static_assertions =
    [test_generator 1 [Double_type] = Test_holder 1 [Double_type],
     result_tlist = generated_tlist]"

subsection \<open>Lists of values\<close>

definition ntl_static_assertions :: "bool list" where
  "ntl_static_assertions =
    [ntl_is_empty [],
     ntl_size [1, 2, 3] = 3,
     ntl_size [1] = 1,
     ntl_front [3250, 56111, 3877] = 3250,
     ntl_back [3250, 56111, 3877] = Some 3877,
     ntl_push_front [1, 2, 3] 8 = [8, 1, 2, 3],
     ntl_push_back [1, 2, 3] 8 = [1, 2, 3, 8],
     ntl_nth_element (- 1) [0, 1, 2, 19, 8] 4 = 8,
     ntl_nth_element (- 1) [1] 0 = 1,
     ntl_nth_element (- 1) [1, 2] 1 = 2]"

subsection \<open>Traits\<close>

text \<open>
  \<open>base_of\<close> is \<^verbatim>\<open>std::is_base_of\<close>. The trait of that name in traits_utils.hpp asks in one
  direction, and only of exactly two types; the one of pointer_traits.hpp asks in both.
\<close>

definition are_related :: "('t \<Rightarrow> 't \<Rightarrow> bool) \<Rightarrow> 't \<Rightarrow> 't list \<Rightarrow> bool" where
  "are_related base_of t ts = (case ts of [u] \<Rightarrow> base_of t u | _ \<Rightarrow> False)"

definition meta_are_related :: "('t \<Rightarrow> 't \<Rightarrow> bool) \<Rightarrow> 't \<Rightarrow> 't \<Rightarrow> bool" where
  "meta_are_related base_of a b = (base_of a b \<or> base_of b a)"

datatype test_class = Base | Derived | NonRelated | Int_class

definition is_base_of :: "test_class \<Rightarrow> test_class \<Rightarrow> bool" where
  "is_base_of a b = ((a = b \<and> a \<noteq> Int_class) \<or> (a = Base \<and> b = Derived))"

definition traits_static_assertions :: "bool list" where
  "traits_static_assertions =
    [Int_type = select_if True Int_type Double_type,
     Double_type = select_if False Int_type Double_type,
     are_related is_base_of Base [Derived],
     are_related is_base_of Base [Base],
     \<not> are_related is_base_of Derived [Base],
     \<not> are_related is_base_of Base [Derived, Int_class]]"

definition meta_traits_static_assertions :: "bool list" where
  "meta_traits_static_assertions =
    [is_base_of Base Derived,
     \<not> is_base_of Derived Base,
     \<not> is_base_of Base NonRelated,
     meta_are_related is_base_of Derived Base,
     meta_are_related is_base_of Base Derived,
     \<not> meta_are_related is_base_of Base NonRelated,
     \<not> meta_are_related is_base_of Derived NonRelated]"

subsection \<open>Return types of members\<close>

text \<open>
  A function type is its return type with its qualifiers; \<open>None\<close> is a struct without a
  specialisation, that is code that does not compile. The type of a member's address is a pointer
  to a member of a class, or for a static member a pointer to a function.
\<close>

datatype qualifier = Unqualified | Const_qualified | Rvalue_qualified | Other_qualified

datatype 'r function_type = Function_of 'r qualifier | Function_pointer 'r | No_function

datatype ('c, 'r) address_type = Pointer_to_member 'c "'r function_type" | Plain_type "'r function_type"

fun return_type_from_function :: "'r function_type \<Rightarrow> 'r option" where
  "return_type_from_function (Function_of r Other_qualified) = None"
| "return_type_from_function (Function_of r q) = Some r"
| "return_type_from_function (Function_pointer r) = Some r"
| "return_type_from_function No_function = None"

fun types_from_class_member :: "('c, 'r) address_type \<Rightarrow> ('c \<times> 'r function_type) option" where
  "types_from_class_member (Pointer_to_member c m) = Some (c, m)"
| "types_from_class_member (Plain_type f) = None"

fun is_pointer_to_member :: "('c, 'r) address_type \<Rightarrow> bool" where
  "is_pointer_to_member (Pointer_to_member c m) = True"
| "is_pointer_to_member (Plain_type f) = False"

fun is_pointer_to_static_func :: "('c, 'r) address_type \<Rightarrow> bool" where
  "is_pointer_to_static_func (Plain_type (Function_pointer r)) = True"
| "is_pointer_to_static_func a = False"

definition return_type_from_member_function :: "('c, 'r) address_type \<Rightarrow> 'r option" where
  "return_type_from_member_function a =
     (if is_pointer_to_static_func a
      then (case a of Plain_type f \<Rightarrow> return_type_from_function f | Pointer_to_member c m \<Rightarrow> None)
      else if is_pointer_to_member a
      then (case types_from_class_member a of None \<Rightarrow> None | Some (parent, member) \<Rightarrow> return_type_from_function member)
      else None)"

fun return_types_from_members :: "('a \<Rightarrow> ('c, 'r) address_type option) \<Rightarrow> 'a list \<Rightarrow> 'r list option" where
  "return_types_from_members address [] = Some []"
| "return_types_from_members address (t # ts) =
     (case Option.bind (address t) return_type_from_member_function of
        None \<Rightarrow> None
      | Some r \<Rightarrow> map_option (\<lambda>rs. r # rs) (return_types_from_members address ts))"

text \<open>
  \<^verbatim>\<open>delegate_call\<close> of an address: \<open>compiles\<close> is that the call with the given arguments
  compiles, \<open>constant\<close> that the subject is a constant object, \<open>f\<close> the member's effect. The overload
  for constant subjects has a template parameter that nothing can deduce, so it is never chosen and
  the one that takes anything and does nothing is.
\<close>

definition delegate_call :: "('c, 'r) address_type \<Rightarrow> bool \<Rightarrow> bool \<Rightarrow> ('s \<Rightarrow> 's) \<Rightarrow> 's \<Rightarrow> 's" where
  "delegate_call a compiles constant f s =
     (if is_pointer_to_static_func a then (if compiles then f s else s)
      else if is_pointer_to_member a then (if compiles \<and> \<not> constant then f s else s)
      else s)"

subsection \<open>Objects behind untyped pointers\<close>

text \<open>
  A wrapper holds the object's address, constant or not; a cast to another class than the object's
  is undefined behaviour (\<open>None\<close>). A pointer or reference type is the class with the constancy of
  what it points to.
\<close>

datatype 'o object_wrapper = Object_wrapper (ow_const: bool) (ow_object: 'o)

definition wrap_object :: "'o \<Rightarrow> 'o object_wrapper" where
  "wrap_object v = Object_wrapper False v"

definition wrap_const :: "'o \<Rightarrow> 'o object_wrapper" where
  "wrap_const v = Object_wrapper True v"

text \<open>The overloads of runtime_dispatcher.cpp take an address that has been taken already.\<close>

definition wrap_address :: "'o \<Rightarrow> 'o object_wrapper" where
  "wrap_address pointee = Object_wrapper False pointee"

definition wrap_const_address :: "'o \<Rightarrow> 'o object_wrapper" where
  "wrap_const_address pointee = Object_wrapper True pointee"

definition cast_object :: "'t \<Rightarrow> bool \<Rightarrow> bool \<times> 't" where
  "cast_object t is_const = (is_const, t)"

definition extractValue :: "('o \<Rightarrow> 't) \<Rightarrow> 't \<Rightarrow> 'o object_wrapper \<Rightarrow> ((bool \<times> 't) \<times> 'o) option" where
  "extractValue class_of_object t w =
     (if class_of_object (ow_object w) = t then Some (cast_object t (ow_const w), ow_object w) else None)"

subsection \<open>The driver's dispatch\<close>

datatype tester = Tester | Tester1 | Tester2 | Tester3 | Tester4 | Tester5 | Tester6

text \<open>The objects with their members; a \<^verbatim>\<open>double\<close> that comes from an integer is that integer.\<close>

datatype tester_object =
    Tester_object int | Tester1_object int | Tester2_object int | Tester3_object | Tester4_object
  | Tester5_object int | Tester6_object int

fun class_of_tester :: "tester_object \<Rightarrow> tester" where
  "class_of_tester (Tester_object v) = Tester"
| "class_of_tester (Tester1_object v) = Tester1"
| "class_of_tester (Tester2_object v) = Tester2"
| "class_of_tester Tester3_object = Tester3"
| "class_of_tester Tester4_object = Tester4"
| "class_of_tester (Tester5_object v) = Tester5"
| "class_of_tester (Tester6_object v) = Tester6"

fun default_tester :: "tester \<Rightarrow> tester_object" where
  "default_tester Tester = Tester_object 0"
| "default_tester Tester1 = Tester1_object 0"
| "default_tester Tester2 = Tester2_object 0"
| "default_tester Tester3 = Tester3_object"
| "default_tester Tester4 = Tester4_object"
| "default_tester Tester5 = Tester5_object (- 1)"
| "default_tester Tester6 = Tester6_object (- 1)"

definition T_tag :: "tester \<Rightarrow> nat" where
  "T_tag t = (case t of Tester \<Rightarrow> 0 | Tester1 \<Rightarrow> 1 | Tester2 \<Rightarrow> 2 | Tester3 \<Rightarrow> 3 | Tester4 \<Rightarrow> 4 | Tester5 \<Rightarrow> 5 | Tester6 \<Rightarrow> 6)"

definition test_tlist :: "tester list" where
  "test_tlist = [Tester, Tester1, Tester2, Tester3, Tester4, Tester5, Tester6]"

text \<open>The address of \<open>test\<close>, where it is not overloaded.\<close>

fun test_address :: "tester \<Rightarrow> (tester, cpp_type) address_type option" where
  "test_address Tester = None"
| "test_address Tester1 = Some (Pointer_to_member Tester1 (Function_of Std_string Unqualified))"
| "test_address Tester2 = Some (Pointer_to_member Tester2 (Function_of Long_long Unqualified))"
| "test_address Tester3 = Some (Plain_type (Function_pointer Uint16))"
| "test_address Tester4 = Some (Pointer_to_member Tester4 (Function_of Void_type Rvalue_qualified))"
| "test_address Tester5 = Some (Pointer_to_member Tester5 (Function_of Bool_type Unqualified))"
| "test_address Tester6 = Some (Pointer_to_member Tester6 (Function_of Bool_type Unqualified))"

definition HasMemberT_test :: "tester \<Rightarrow> bool" where
  "HasMemberT_test t = (test_address t \<noteq> None)"

text \<open>
  The arguments: an integer, or an object of the driver's class with its identifier, whose
  constructor converts an integer implicitly.
\<close>

datatype test_argument = Int_value int | Object_lvalue int | Object_rvalue int

fun argument_id :: "test_argument \<Rightarrow> int" where
  "argument_id (Int_value i) = i"
| "argument_id (Object_lvalue i) = i"
| "argument_id (Object_rvalue i) = i"

definition int_argument :: "test_argument list \<Rightarrow> bool" where
  "int_argument args = (case args of [Int_value i] \<Rightarrow> True | _ \<Rightarrow> False)"

text \<open>Which calls compile, on an lvalue or an rvalue of the class.\<close>

fun test_invocable :: "bool \<Rightarrow> test_argument list \<Rightarrow> tester \<Rightarrow> bool" where
  "test_invocable lvalue args Tester = (args = [] \<or> int_argument args)"
| "test_invocable lvalue args Tester1 = int_argument args"
| "test_invocable lvalue args Tester2 = (args = [] \<or> int_argument args)"
| "test_invocable lvalue args Tester3 = (args = [])"
| "test_invocable lvalue args Tester4 = (args = [] \<and> \<not> lvalue)"
| "test_invocable lvalue args Tester5 = (length args = 1)"
| "test_invocable lvalue args Tester6 = (case args of [Object_lvalue i] \<Rightarrow> False | [a] \<Rightarrow> True | _ \<Rightarrow> False)"

definition test_returns :: "test_argument list \<Rightarrow> tester \<Rightarrow> cpp_type" where
  "test_returns args t =
     (case t of
        Tester \<Rightarrow> (if args = [] then Uint8 else Double_type)
      | _ \<Rightarrow> (case Option.bind (test_address t) return_type_from_member_function of None \<Rightarrow> Void_type | Some r \<Rightarrow> r))"

datatype test_value =
    String_value string | Long_long_value int | Double_value int | Uint8_value int | Uint16_value int
  | Bool_value bool | Void_value

fun test_member :: "test_argument list \<Rightarrow> tester_object \<Rightarrow> test_value \<times> tester_object" where
  "test_member args (Tester_object v) =
     (if args = [] then Uint8_value 0 else Double_value (argument_id (List.hd args)), Tester_object v)"
| "test_member args (Tester1_object v) =
     (String_value ''this should go right into the variant'', Tester1_object (argument_id (List.hd args)))"
| "test_member args (Tester2_object v) =
     (let b = (if args = [] then 1 else argument_id (List.hd args)) in (Long_long_value b, Tester2_object b))"
| "test_member args Tester3_object = (Uint16_value 0, Tester3_object)"
| "test_member args Tester4_object = (Void_value, Tester4_object)"
| "test_member args (Tester5_object v) = (Bool_value True, Tester5_object (argument_id (List.hd args)))"
| "test_member args (Tester6_object v) = (Bool_value False, Tester6_object (argument_id (List.hd args)))"

text \<open>
  The call on the object behind the wrapper, in a state that is that object (\<open>None\<close> after a cast to
  another class); the call of the overload without a wrapper is on a new object of the class.
\<close>

definition invoke_wrapped ::
    "test_argument list \<Rightarrow> tester \<Rightarrow> tester_object option \<Rightarrow> test_value \<times> tester_object option" where
  "invoke_wrapped args t st =
     (case Option.bind st (\<lambda>ob. extractValue class_of_tester t (wrap_object ob)) of
        None \<Rightarrow> (Void_value, None)
      | Some (ref, ob) \<Rightarrow> (case test_member args ob of (v, ob') \<Rightarrow> (v, Some ob')))"

definition test_wrapped ::
    "test_argument list \<Rightarrow> (tester, cpp_type, test_value, tester_object option) member_function" where
  "test_wrapped args = \<lparr>addressable = HasMemberT_test, invocable = test_invocable True args,
     returns = test_returns args, invoke = invoke_wrapped args\<rparr>"

definition test_constructed ::
    "test_argument list \<Rightarrow> (tester, cpp_type, test_value, unit) member_function" where
  "test_constructed args = \<lparr>addressable = HasMemberT_test, invocable = test_invocable False args,
     returns = test_returns args, invoke = (\<lambda>t s. (fst (test_member args (default_tester t)), s))\<rparr>"

definition test_dispatcher_wrapped ::
    "nat \<Rightarrow> tester_object \<Rightarrow> test_argument list \<Rightarrow> (cpp_type \<times> test_value) option \<times> tester_object option" where
  "test_dispatcher_wrapped tag ob args =
     member_dispatcher_call (test_wrapped args) Void_type Monostate test_tlist tag (Some ob)"

definition test_dispatcher_new :: "nat \<Rightarrow> test_argument list \<Rightarrow> (cpp_type \<times> test_value) option" where
  "test_dispatcher_new tag args =
     fst (member_dispatcher_call (test_constructed args) Void_type Monostate test_tlist tag ())"

definition return_variant_type :: "cpp_type variant_type option" where
  "return_variant_type =
     map_option (\<lambda>rs. to_variant (push_front (remove_duplicates (erase rs Void_type)) Monostate))
       (return_types_from_members test_address (tl_filter HasMemberT_test test_tlist True))"

text \<open>
  The driver's main function: its static assertions, and its four calls, each with the variant it
  answers and the object it leaves.
\<close>

definition test_tlist_static_assertions :: "bool list" where
  "test_tlist_static_assertions = [nth_element test_tlist 0 = Some Tester]"

definition dispatch_static_assertions :: "bool list" where
  "dispatch_static_assertions =
    (let p_test = Tester1_object 0;
         apply_const = wrap_const p_test;
         apply_non_const = wrap_object p_test
     in [cast_object Tester1 (ow_const apply_const) = (True, Tester1),
         map_option fst (extractValue class_of_tester Tester1 apply_const) = Some (True, Tester1),
         map_option fst (extractValue class_of_tester Tester1 apply_non_const) = Some (False, Tester1),
         cast_object Tester1 True = (True, Tester1),
         cast_object Tester True = (True, Tester),
         cast_object Tester False = (False, Tester)])"

definition dispatch_main :: "((cpp_type \<times> test_value) option \<times> tester_object option) list" where
  "dispatch_main =
    [test_dispatcher_wrapped (T_tag Tester1) (default_tester Tester1) [Int_value 2],
     test_dispatcher_wrapped (T_tag Tester2) (default_tester Tester2) [Int_value 4],
     test_dispatcher_wrapped (T_tag Tester5) (default_tester Tester5) [Object_lvalue 366],
     test_dispatcher_wrapped (T_tag Tester6) (default_tester Tester6) [Object_rvalue 588]]"

subsection \<open>Properties\<close>

text \<open>Every static assertion of the file holds in the model, the model's answers being computed.\<close>

theorem meta_static_assertions_hold:
  "list_all id (ttl_static_assertions @ tl_static_assertions @ generator_static_assertions @ ntl_static_assertions @
     traits_static_assertions @ test_tlist_static_assertions @ dispatch_static_assertions @ meta_traits_static_assertions)"
proof -
  have "list_all id ttl_static_assertions" by code_simp
  moreover have "list_all id tl_static_assertions" by code_simp
  moreover have "list_all id generator_static_assertions" by code_simp
  moreover have "list_all id ntl_static_assertions" by code_simp
  moreover have "list_all id traits_static_assertions" by code_simp
  moreover have "list_all id test_tlist_static_assertions" by code_simp
  moreover have "list_all id dispatch_static_assertions" by code_simp
  moreover have "list_all id meta_traits_static_assertions" by code_simp
  ultimately show ?thesis by simp
qed

lemma test_return_variant:
  "return_variant (test_wrapped args) Void_type Monostate test_tlist =
    Std_variant [Monostate, Std_string, Long_long, Uint16, Bool_type]"
  by (simp add: return_variant_def test_wrapped_def test_tlist_def tl_filter_eq HasMemberT_test_def
      return_types_from_def test_returns_def return_type_from_member_function_def erase_eq push_front_def to_variant_def)

text \<open>
  The return types computed from the members' addresses give the variant the dispatcher uses.
\<close>

theorem return_variant_from_addresses:
  "return_variant_type = Some (return_variant (test_wrapped args) Void_type Monostate test_tlist)"
  by (simp only: test_return_variant) code_simp

lemma test_dispatch:
  "test_dispatcher_wrapped (T_tag t) ob args =
    select_overload (test_wrapped args) (Std_variant [Monostate, Std_string, Long_long, Uint16, Bool_type]) t (None, Some ob)"
proof -
  have "dispatch test_tlist (T_tag t) f s = f t s" for f :: "tester \<Rightarrow> 's \<Rightarrow> 's" and s
    using dispatch_selects [of test_tlist "T_tag t" f s]
    by (cases t) (simp_all add: test_tlist_def T_tag_def)
  then show ?thesis
    by (simp add: test_dispatcher_wrapped_def member_dispatcher_call_def test_return_variant)
qed

text \<open>
  Dispatching to the class of the wrapped object, with any arguments: where the call compiles the
  member runs on the object, and its value is the answer exactly when the member is not overloaded
  (the address of an overloaded one cannot be taken, so its return types are not in the variant).
\<close>

theorem driver_dispatch_answer:
  "test_dispatcher_wrapped (T_tag (class_of_tester ob)) ob args =
    (if test_invocable True args (class_of_tester ob)
     then (case test_member args ob of (v, ob') \<Rightarrow>
       (if HasMemberT_test (class_of_tester ob) then Some (test_returns args (class_of_tester ob), v) else None, Some ob'))
     else (None, Some ob))"
  by (cases ob)
    (simp_all add: test_dispatch select_overload_def test_wrapped_def invoke_wrapped_def extractValue_def wrap_object_def
      contains_container_def test_returns_def return_type_from_member_function_def HasMemberT_test_def int_argument_def
      split: list.splits test_argument.splits)

text \<open>The driver's four calls answer what its messages expect.\<close>

theorem dispatch_main_answers:
  "dispatch_main =
    [(Some (Std_string, String_value ''this should go right into the variant''), Some (Tester1_object 2)),
     (Some (Long_long, Long_long_value 4), Some (Tester2_object 4)),
     (Some (Bool_type, Bool_value True), Some (Tester5_object 366)),
     (Some (Bool_type, Bool_value False), Some (Tester6_object 588))]"
  by code_simp

text \<open>
  A delegated call reaches a member through its address only on a subject that is not constant; on
  a constant one the call compiles, for a member that is constant itself too, and does nothing.
\<close>

theorem delegate_call_constant_subject:
  "delegate_call a compiles constant f s =
    (if compiles \<and> (is_pointer_to_static_func a \<or> is_pointer_to_member a \<and> \<not> constant) then f s else s)"
  by (simp add: delegate_call_def)

end
