(* ===== verification/TransportTests.thy ===== *)
theory TransportTests
  imports TransportTraits FileDevices
begin

text \<open>
  The driver's checks of the traits of devices, policies and endpoints (Driver/transport.cpp): its
  static assertions as boolean values over the model of the traits, with the classes it asks about,
  and the run of its main function, which exports the policies of a device through a holder of it
  (TransportInfra/Policies/ExporterPolicy.hpp, Devices/ProxyDevice.hpp).
\<close>

subsection \<open>The traits a proxy inherits\<close>

text \<open>
  The types that device_traits, fifo_traits and socket_traits give, which name the device's own and
  so need them (\<open>None\<close> does not compile); a proxy derives from the traits selected for its device and
  names the handle's type itself.
\<close>

definition device_traits_class :: "device_class \<Rightarrow> device_class option" where
  "device_traits_class c =
     (if has_type dc_handle_type c \<and> has_type dc_platform c then
        Some (empty_class\<lparr>dc_handle_type := dc_handle_type c, dc_platform := dc_platform c,
          dc_sequential := (if HasSequentialType c then dc_sequential c else None)\<rparr>)
      else None)"

definition fifo_traits_class :: "device_class \<Rightarrow> device_class option" where
  "fifo_traits_class c =
     (if has_type dc_io_profile c \<and> has_type dc_address_type c then
        map_option (\<lambda>t. t\<lparr>dc_io_profile := dc_io_profile c, dc_address_type := Some (fifo_address_type c)\<rparr>)
          (device_traits_class c)
      else None)"

definition socket_traits_class :: "device_class \<Rightarrow> device_class option" where
  "socket_traits_class c =
     (if has_type dc_socket_domain c \<and> has_type dc_socket_type c \<and> has_type dc_address_type c then
        map_option (\<lambda>t. t\<lparr>dc_socket_domain := dc_socket_domain c, dc_socket_type := dc_socket_type c,
            dc_address_type := dc_address_type c\<rparr>) (device_traits_class c)
      else None)"

definition select_traits_class :: "device_class \<Rightarrow> device_class option" where
  "select_traits_class c =
     (case select_traits c of
        Primary \<Rightarrow> device_traits_class c
      | Specialised device_traits \<Rightarrow> device_traits_class c
      | Specialised fifo_traits \<Rightarrow> fifo_traits_class c
      | Specialised socket_traits \<Rightarrow> socket_traits_class c
      | Ambiguous \<Rightarrow> None)"

definition proxy_class :: "device_class \<Rightarrow> device_class option" where
  "proxy_class c = map_option (\<lambda>t. t\<lparr>dc_handle_type := dc_handle_type c\<rparr>) (select_traits_class c)"

text \<open>A member type of a device and of its proxy are the same, and exist.\<close>

definition proxy_agrees :: "(device_class \<Rightarrow> 't option) \<Rightarrow> device_type_name \<Rightarrow> bool" where
  "proxy_agrees mem_type d =
     (case Option.bind (class_of d) proxy_class of
        None \<Rightarrow> False
      | Some p \<Rightarrow> has_type mem_type p \<and> mem_type p = mem_type (the (class_of d)))"

definition proxy_static_assertions :: "bool list" where
  "proxy_static_assertions =
    [proxy_agrees dc_handle_type UnixFileDevice,
     proxy_agrees dc_platform UnixFileDevice,
     proxy_agrees dc_sequential UnixFileDevice,
     proxy_agrees dc_socket_domain IPV4TcpSocketDevice,
     proxy_agrees dc_address_type IPV6TcpSocketDevice,
     proxy_agrees dc_socket_type IPV4UdpSocketDevice,
     proxy_agrees dc_socket_type IPV4UdpSocketDevice,
     proxy_agrees dc_socket_type UnixStreamSocketDevice,
     proxy_agrees dc_io_profile ReadFifoDevice,
     proxy_agrees dc_address_type WriteFifoDevice]"

subsection \<open>Constraints of devices\<close>

text \<open>A constraint as an alias of the device is met when the alias exists.\<close>

definition meets :: "(device_class \<Rightarrow> bool) \<Rightarrow> device_type_name \<Rightarrow> bool" where
  "meets constraint d = (case class_of d of None \<Rightarrow> False | Some c \<Rightarrow> constraint c)"

definition unix_device_static_assertions :: "bool list" where
  "unix_device_static_assertions =
    [meets is_UnixDevice IPV4TcpSocketDevice,
     meets is_UnixDevice IPV6UdpSocketDevice,
     meets is_UnixDevice UnixStreamSocketDevice,
     meets is_UnixDevice WriteFifoDevice,
     meets is_UnixDevice UnixFileDevice]"

definition socket_device_static_assertions :: "bool list" where
  "socket_device_static_assertions =
    [meets is_SocketDevice IPV4UdpSocketDevice,
     meets is_SocketDevice IPV6TcpSocketDevice,
     meets is_SocketDevice UnixDgramSocketDevice,
     \<not> meets is_SocketDevice WriteFifoDevice,
     \<not> meets is_SocketDevice UnixFileDevice]"

definition stream_socket_static_assertions :: "bool list" where
  "stream_socket_static_assertions =
    [\<not> meets is_StreamSocketDevice IPV4UdpSocketDevice,
     \<not> meets is_StreamSocketDevice IPV6UdpSocketDevice,
     \<not> meets is_StreamSocketDevice UnixDgramSocketDevice,
     meets is_StreamSocketDevice IPV4TcpSocketDevice,
     meets is_StreamSocketDevice IPV6TcpSocketDevice,
     meets is_StreamSocketDevice UnixStreamSocketDevice,
     \<not> meets is_StreamSocketDevice ReadFifoDevice,
     \<not> meets is_StreamSocketDevice WriteFifoDevice,
     \<not> meets is_StreamSocketDevice UnixFileDevice]"

definition datagram_socket_static_assertions :: "bool list" where
  "datagram_socket_static_assertions =
    [meets is_DatagramSocketDevice IPV4UdpSocketDevice,
     meets is_DatagramSocketDevice IPV6UdpSocketDevice,
     meets is_DatagramSocketDevice UnixDgramSocketDevice,
     \<not> meets is_DatagramSocketDevice IPV4TcpSocketDevice,
     \<not> meets is_DatagramSocketDevice IPV6TcpSocketDevice,
     \<not> meets is_DatagramSocketDevice UnixStreamSocketDevice,
     \<not> meets is_DatagramSocketDevice ReadFifoDevice,
     \<not> meets is_DatagramSocketDevice WriteFifoDevice,
     \<not> meets is_DatagramSocketDevice UnixFileDevice]"

definition unix_platform_static_assertions :: "bool list" where
  "unix_platform_static_assertions =
    [meets is_UnixPlatformSocketDevice UnixStreamSocketDevice,
     meets is_UnixPlatformSocketDevice UnixDgramSocketDevice,
     meets is_UnixPlatformSocketDevice IPV4TcpSocketDevice,
     \<not> meets is_UnixPlatformSocketDevice ReadFifoDevice]"

definition unix_socket_static_assertions :: "bool list" where
  "unix_socket_static_assertions =
    [meets is_UnixSocketDevice UnixStreamSocketDevice,
     \<not> meets is_UnixSocketDevice IPV6UdpSocketDevice]"

definition requires_static_assertions :: "bool list" where
  "requires_static_assertions =
    [UnixSocketRequires UnixResourceHandler_class Unix_SocketAddress,
     \<not> UnixSocketRequires UnixResourceHandler_class IPV4InetSocketAddress,
     \<not> UnixSocketRequires UnixResourceHandler_class IPV6InetSocketAddress,
     \<not> UnixSocketRequires UnixResourceHandler_class NamedPipeAddress,
     \<not> IPV4SocketRequires UnixResourceHandler_class Unix_SocketAddress,
     IPV4SocketRequires UnixResourceHandler_class IPV4InetSocketAddress,
     \<not> IPV4SocketRequires UnixResourceHandler_class IPV6InetSocketAddress,
     \<not> IPV4SocketRequires UnixResourceHandler_class NamedPipeAddress,
     \<not> IPV6SocketRequires UnixResourceHandler_class Unix_SocketAddress,
     \<not> IPV6SocketRequires UnixResourceHandler_class IPV4InetSocketAddress,
     IPV6SocketRequires UnixResourceHandler_class IPV6InetSocketAddress,
     \<not> IPV6SocketRequires UnixResourceHandler_class NamedPipeAddress]"

definition named_pipe_static_assertions :: "bool list" where
  "named_pipe_static_assertions =
    [meets is_NamedPipeDevice WriteFifoDevice,
     meets is_NamedPipeDevice ReadFifoDevice,
     \<not> meets is_NamedPipeDevice IPV4TcpSocketDevice,
     \<not> meets is_NamedPipeDevice IPV6TcpSocketDevice,
     \<not> meets is_NamedPipeDevice IPV6UdpSocketDevice,
     \<not> meets is_NamedPipeDevice IPV4UdpSocketDevice,
     \<not> meets is_NamedPipeDevice UnixStreamSocketDevice,
     \<not> meets is_NamedPipeDevice UnixDgramSocketDevice]"

definition unix_named_pipe_static_assertions :: "bool list" where
  "unix_named_pipe_static_assertions =
    [Option.bind (class_of WriteFifoDevice) dc_handle_type = Some Int_handle,
     meets is_UnixNamedPipeDevice WriteFifoDevice,
     meets is_UnixNamedPipeDevice ReadFifoDevice,
     \<not> meets is_UnixNamedPipeDevice IPV4TcpSocketDevice,
     \<not> meets is_UnixNamedPipeDevice IPV6TcpSocketDevice,
     \<not> meets is_UnixNamedPipeDevice IPV6UdpSocketDevice,
     \<not> meets is_UnixNamedPipeDevice IPV4UdpSocketDevice,
     \<not> meets is_UnixNamedPipeDevice UnixStreamSocketDevice,
     \<not> meets is_UnixNamedPipeDevice UnixDgramSocketDevice]"

definition fifo_device_static_assertions :: "bool list" where
  "fifo_device_static_assertions =
    [meets is_FifoDevice WriteFifoDevice,
     meets is_FifoDevice ReadFifoDevice]"

definition traits_of :: "device_type_name \<Rightarrow> device_class option" where
  "traits_of d = Option.bind (class_of d) select_traits_class"

definition selected_has :: "(device_class \<Rightarrow> 't option) \<Rightarrow> device_type_name \<Rightarrow> bool" where
  "selected_has mem_type d = (case traits_of d of None \<Rightarrow> False | Some t \<Rightarrow> has_type mem_type t)"

definition select_traits_static_assertions :: "bool list" where
  "select_traits_static_assertions =
    [selected_has dc_io_profile WriteFifoDevice,
     selected_has dc_socket_domain IPV4TcpSocketDevice,
     selected_has dc_sequential UnixFileDevice,
     \<not> selected_has dc_io_profile IPV4TcpSocketDevice,
     map_option (\<lambda>c. member_type_or_default (map_option Inl \<circ> dc_socket_type) c (Inr Int_handle))
       (class_of IPV4TcpSocketDevice) = Some (Inl stream_socket)]"

subsection \<open>Policies\<close>

fun FifoIOPolicy_members :: "policy_code selection \<Rightarrow> class_decl" where
  "FifoIOPolicy_members (Specialised Pipe) =
     Class (map public_template [''read'', ''readLine'', ''readInBuffer'', ''write'']) [crtp_base]"
| "FifoIOPolicy_members c = Class [] []"

definition fifo_status_host :: "device_type_name \<Rightarrow> class_decl" where
  "fifo_status_host d =
     (let c = the (class_of d)
      in Host_members (device_members d)
           [FifoIOPolicy_members (fifo_io_code c), ResourceStatusPolicy_members (resource_status_code c)])"

definition ReadFifoWithPolicies :: class_decl where
  "ReadFifoWithPolicies = fifo_status_host ReadFifoDevice"

definition FileWithPolicies :: class_decl where
  "FileWithPolicies = fifo_status_host UnixFileDevice"

definition AcceptorSocket :: class_decl where
  "AcceptorSocket = device_host_members IPV6TcpSocketDevice [AcceptorPolicy]"

definition device_policies_static_assertions :: "bool list" where
  "device_policies_static_assertions =
    [has_member ''isReadable'' ReadFifoWithPolicies,
     IsPassiveConnectableDevice AcceptorSocket,
     \<not> IsPassiveConnectableDevice FileWithPolicies,
     apply_predicates AcceptorSocket [has_member ''bind'', has_member ''listen'', has_member ''accept''],
     \<not> apply_predicates AcceptorSocket [has_member ''connect'', has_member ''listen'', has_member ''accept'']]"

text \<open>
  A policy with a specialisation for sockets of the Unix platform and one for its pipes; and what a
  host with it and the connection policy names.
\<close>

datatype test_tag = unix_socket_device_test_tag | unix_named_pipe_device_test_tag

definition TestPolicy_tag :: "device_class \<Rightarrow> test_tag selection" where
  "TestPolicy_tag c = select_specialisation
     [(is_UnixPlatformSocketDevice c, unix_socket_device_test_tag),
      (UnixNamedPipeDevice c \<and> \<not> IsUnixPlatformSocketDeviceT c, unix_named_pipe_device_test_tag)]"

definition host_address_type :: "device_type_name \<Rightarrow> address_class option" where
  "host_address_type d = Option.bind (class_of d) dc_address_type"

definition test_policy_static_assertions :: "bool list" where
  "test_policy_static_assertions =
    [map_option TestPolicy_tag (class_of UnixStreamSocketDevice) = Some (Specialised unix_socket_device_test_tag),
     map_option TestPolicy_tag (class_of ReadFifoDevice) = Some (Specialised unix_named_pipe_device_test_tag),
     host_address_type UnixStreamSocketDevice = Some Unix_SocketAddress,
     host_address_type WriteFifoDevice = Some NamedPipeAddress]"

definition address_factory_static_assertions :: "bool list" where
  "address_factory_static_assertions =
    [DeviceAddressT ipv4_strm_tag = Some IPV4InetSocketAddress,
     DeviceAddressT ipv6_dgram_tag = Some IPV6InetSocketAddress,
     DeviceAddressT unx_strm_tag = Some Unix_SocketAddress,
     DeviceAddressT read_fifo_tag = Some NamedPipeAddress]"

subsection \<open>Endpoints\<close>

definition client_endpoint_of :: "nat \<Rightarrow> endpoint_host option" where
  "client_endpoint_of tag = map_option tt_endpoint (transport_traits tag default_client_traits)"

text \<open>The class of an endpoint's device, which every endpoint names.\<close>

definition endpoint_device_class :: "endpoint_host \<Rightarrow> class_decl" where
  "endpoint_device_class e = (case endpoint_Device e of Host d ps \<Rightarrow> device_host_members d ps)"

definition has_endpoint :: "(endpoint_host \<Rightarrow> bool) \<Rightarrow> nat \<Rightarrow> bool" where
  "has_endpoint p tag = (case client_endpoint_of tag of None \<Rightarrow> False | Some e \<Rightarrow> p e)"

definition client_endpoint_static_assertions :: "bool list" where
  "client_endpoint_static_assertions =
    [has_endpoint (\<lambda>e. True) unx_strm_tag,
     has_endpoint (\<lambda>e. has_member ''connect'' (endpoint_device_class e)) unx_strm_tag,
     has_endpoint (\<lambda>e. has_member ''disconnect'' (endpoint_device_class e)) unx_strm_tag,
     has_endpoint (\<lambda>e. HasConnectableDevice (Some (endpoint_device_class e))) unx_strm_tag,
     has_endpoint (\<lambda>e. has_member ''connect'' (endpoint_class e)) unx_strm_tag]"

text \<open>The storages, with their types for endpoints and keys.\<close>

definition SingleEndpointStorage_members :: class_decl where
  "SingleEndpointStorage_members = Class
     [public_functions ''store'' 1, public_functions ''erase'' 1, public_functions ''getEndpointFor'' 2,
      public_template ''forEach''] []"

definition AssociativeEndpointStorage_members :: class_decl where
  "AssociativeEndpointStorage_members = Class
     [public_functions ''store'' 1, public_functions ''erase'' 1, public_functions ''getEndpointFor'' 2,
      public_template ''forEach'', (''valueFor'', replicate 2 \<lparr>md_public = False, md_template = False\<rparr>)] []"

definition single_storage_static_assertions :: "bool list" where
  "single_storage_static_assertions =
    [is_endpoint_storage True True SingleEndpointStorage_members,
     has_member ''store'' SingleEndpointStorage_members,
     has_member ''erase'' SingleEndpointStorage_members,
     has_member_getEndpointFor True SingleEndpointStorage_members,
     has_member ''store'' SingleEndpointStorage_members]"

definition endpoint_tag_static_assertions :: "bool list" where
  "endpoint_tag_static_assertions =
    [has_endpoint (\<lambda>e. fst (UnpackHost (endpoint_Device e)) = IPV4TcpSocketDevice) ipv4_strm_tag,
     Type2DeviceTag IPV4TcpSocketDevice = ipv4_strm_tag,
     has_endpoint (\<lambda>e. type_to_device_tag (Some e) = ipv4_strm_tag) ipv4_strm_tag,
     has_endpoint (\<lambda>e. True) ipv4_strm_tag,
     has_endpoint (\<lambda>e. type_to_device_tag (Some e) = ipv4_strm_tag) ipv4_strm_tag]"

subsection \<open>Exporting a device's policies\<close>

text \<open>
  The exporting policy of a host that is no device but holds one: its base is the exported policies
  over a proxy, and initialising it points the proxy to the device the host gives. A device is a name
  (\<open>'n\<close>) looked up when it is asked, for a proxy sees what its device has become. The policy's own
  \<^verbatim>\<open>getHandle\<close> calls the proxy's and returns nothing, its deduced type being
  \<^verbatim>\<open>void\<close>; the exported policies find the proxy's.
\<close>

definition DeviceHolder_members :: class_decl where
  "DeviceHolder_members = Class [public_functions ''getDevice'' 1] []"

definition exporter_code :: "bool \<Rightarrow> class_decl \<Rightarrow> unit selection" where
  "exporter_code has_Device endpoint = select_specialisation [(ExposesDevice has_Device endpoint, ())]"

definition exporter_init :: "('h \<Rightarrow> 'n) \<Rightarrow> 'h \<Rightarrow> 'n option \<Rightarrow> bool \<times> 'n option" where
  "exporter_init getDevice host proxy = (True, proxy_setBaseReference (getDevice host) proxy)"

definition exporter_getHandle :: "('n \<Rightarrow> fd) \<Rightarrow> 'n option \<Rightarrow> unit" where
  "exporter_getHandle getHandle proxy = (let handle = proxy_getHandle getHandle proxy in ())"

definition exported_isReadable :: "'k system \<Rightarrow> ('n \<Rightarrow> fd) \<Rightarrow> 'n option \<Rightarrow> 'k \<Rightarrow> bool" where
  "exported_isReadable sys getHandle proxy k = isReadable sys (proxy_getHandle getHandle proxy) k"

text \<open>
  The end of the driver's main function: a file device in a holder, the holder's host initialised
  before the file is opened, and whether the host says that the file is readable.
\<close>

definition transport_main_exporter :: "'k pipe_system \<Rightarrow> string \<Rightarrow> 'k \<Rightarrow> bool \<times> bool \<times> bool" where
  "transport_main_exporter P path k =
     (let file_dev_host = FileDevice_default P k
      in case exporter_init (\<lambda>holder. ()) () None of
           (ready, proxy) \<Rightarrow>
             (case file_open_path P path E_READ_ONLY 0 file_dev_host k of
                (opened, file_dev, k1) \<Rightarrow>
                  (ready, opened, exported_isReadable (ps_sys P) (\<lambda>_. file_getHandle file_dev) proxy k1)))"

subsection \<open>Properties\<close>

text \<open>Every static assertion of the file holds in the model, the model's answers being computed.\<close>

theorem device_static_assertions_hold:
  "list_all id (proxy_static_assertions @ unix_device_static_assertions @ socket_device_static_assertions @
     stream_socket_static_assertions @ datagram_socket_static_assertions @ unix_platform_static_assertions @
     unix_socket_static_assertions @ requires_static_assertions @ named_pipe_static_assertions @
     unix_named_pipe_static_assertions @ fifo_device_static_assertions @ select_traits_static_assertions)"
proof -
  have "list_all id proxy_static_assertions" by code_simp
  moreover have "list_all id unix_device_static_assertions" by code_simp
  moreover have "list_all id socket_device_static_assertions" by code_simp
  moreover have "list_all id stream_socket_static_assertions" by code_simp
  moreover have "list_all id datagram_socket_static_assertions" by code_simp
  moreover have "list_all id unix_platform_static_assertions" by code_simp
  moreover have "list_all id unix_socket_static_assertions" by code_simp
  moreover have "list_all id requires_static_assertions" by code_simp
  moreover have "list_all id named_pipe_static_assertions" by code_simp
  moreover have "list_all id unix_named_pipe_static_assertions" by code_simp
  moreover have "list_all id fifo_device_static_assertions" by code_simp
  moreover have "list_all id select_traits_static_assertions" by code_simp
  ultimately show ?thesis by simp
qed

theorem endpoint_static_assertions_hold:
  "list_all id (device_policies_static_assertions @ test_policy_static_assertions @ address_factory_static_assertions @
     client_endpoint_static_assertions @ single_storage_static_assertions @ endpoint_tag_static_assertions)"
proof -
  have "list_all id device_policies_static_assertions" by code_simp
  moreover have "list_all id test_policy_static_assertions" by code_simp
  moreover have "list_all id address_factory_static_assertions" by code_simp
  moreover have "list_all id client_endpoint_static_assertions" by code_simp
  moreover have "list_all id single_storage_static_assertions" by code_simp
  moreover have "list_all id endpoint_tag_static_assertions" by code_simp
  ultimately show ?thesis by simp
qed

text \<open>
  A proxy has the types of its device, whatever the device: where the traits selected for it exist
  they give each of the names they are for as the device does.
\<close>

theorem proxy_class_types:
  assumes "proxy_class c = Some p"
  shows "dc_handle_type p = dc_handle_type c \<and> dc_platform p = dc_platform c \<and> dc_sequential p = dc_sequential c \<and>
    (IsSocketDeviceT c \<longrightarrow> dc_socket_domain p = dc_socket_domain c \<and> dc_socket_type p = dc_socket_type c \<and>
       dc_address_type p = dc_address_type c \<and> dc_io_profile p = None) \<and>
    (is_NamedPipeDevice c \<longrightarrow> dc_io_profile p = dc_io_profile c \<and> dc_address_type p = dc_address_type c \<and>
       dc_socket_domain p = None)"
  using assms
  by (auto simp: proxy_class_def select_traits_class_def select_traits_def selections device_traits_class_def
      fifo_traits_class_def socket_traits_class_def empty_class_def HasSequentialType_def has_type_def
      fifo_address_type_def member_type_or_default_def is_NamedPipeDevice_def
      split: if_splits selection.splits device_traits_kind.splits option.splits)

text \<open>
  A holder with one \<^verbatim>\<open>getDevice\<close> exports, where no transport endpoint does.
\<close>

theorem holder_exports: "exporter_code True DeviceHolder_members = Specialised ()"
  by code_simp

text \<open>
  The driver's host answers for the file as it is after it was opened, though the reference was
  taken before; a file that could not be opened is not readable.
\<close>

theorem transport_main_exporter_answer:
  "transport_main_exporter P path k =
    (case file_open_path P path E_READ_ONLY 0 (FileDevice_default P k) k of
       (opened, d, k1) \<Rightarrow> (True, opened, opened \<and> isReadable (ps_sys P) (file_getHandle d) k1))"
proof -
  obtain opened d k1 where r: "file_open_path P path E_READ_ONLY 0 (FileDevice_default P k) k = (opened, d, k1)"
    by (metis surj_pair)
  have kept: "fl_handler (setDirFilePaths p f) = fl_handler f" for p f
    by (simp add: setDirFilePaths_def split: prod.split)
  have "file_getHandle d = - 1" if "\<not> opened"
    using r that
    by (auto simp: file_open_path_def setFileName_def openFileImpl_def kept FileDevice_default_def file_getHandle_def
        UnixResourceHandler_def DEFAULT_VALUE_def split: prod.splits if_splits)
  then show ?thesis
    using r by (cases opened) (auto simp: transport_main_exporter_def exporter_init_def proxy_setBaseReference_def
        exported_isReadable_def proxy_getHandle_def isReadable_def Let_def)
qed

lemma transport_main_exporter_example:
  "transport_main_exporter example_pipes ''/tmp/f'' (example_pipe_world\<lparr>pw_names := [''/tmp/f'']\<rparr>) = (True, True, True)"
  by code_simp

end
