(* ===== verification/Advertisers.thy ===== *)
theory Advertisers
  imports Observers
begin

text \<open>
  The policies that advertise a device's state to its users: ErrorChangeAdvertiserPolicy.h, the macro
  of StateChangeAdvertiserPolicy.hpp that generates such policies, ConnectionStateChangeAdvertiser.hpp
  (all in TransportInfra/Policies), the device they are tried with (Devices/TestDevice.h), and the
  driver's test of them (Driver/main.cpp).
\<close>

subsection \<open>Which devices are advertised\<close>

text \<open>
  A type names \<^verbatim>\<open>is_observable\<close> when it is an observable of a fundamental type or an
  enumeration, reference or not. A device's getter of the state may be missing, return a reference
  to its observable, or a copy of it.
\<close>

definition is_observable :: "type_kind option \<Rightarrow> bool" where
  "is_observable observed =
     (case observed of None \<Rightarrow> False | Some T \<Rightarrow> observable_for T \<noteq> Empty_primary)"

datatype state_getter = No_getter | Returns_reference "type_kind option" | Returns_copy "type_kind option"

text \<open>
  \<open>None\<close> is code that does not compile: the getter's type is deduced from the body in the macro's
  accessor, so a device without the getter is an error instead of a device that is not advertised.
\<close>

definition HasObservableErrorMemberT :: "state_getter \<Rightarrow> bool" where
  "HasObservableErrorMemberT g =
     (case g of No_getter \<Rightarrow> False | Returns_reference T \<Rightarrow> is_observable T | Returns_copy T \<Rightarrow> is_observable T)"

definition HasObservableStateMemberT :: "state_getter \<Rightarrow> bool option" where
  "HasObservableStateMemberT g =
     (case g of
        No_getter \<Rightarrow> None
      | Returns_reference T \<Rightarrow> Some (is_observable T)
      | Returns_copy T \<Rightarrow> Some (is_observable T))"

text \<open>
  The trait of an endpoint selects on \<^verbatim>\<open>select_if\<close>, a class of its own and neither of the
  two types the specialisations are for: it is declared only, and asking it for its value does not
  compile. In the condition of a specialisation that is a substitution failure, so the advertiser of
  an endpoint is always the empty primary template.
\<close>

datatype selected = True_type | False_type | Select_if_class

definition HasObservableConnectionState_over :: "selected \<Rightarrow> type_kind option \<Rightarrow> bool option" where
  "HasObservableConnectionState_over sel state =
     (case sel of False_type \<Rightarrow> Some False | True_type \<Rightarrow> Some (is_observable state) | Select_if_class \<Rightarrow> None)"

definition HasObservableConnectionState :: "bool \<Rightarrow> type_kind option \<Rightarrow> bool option" where
  "HasObservableConnectionState has_getConnectionState state = HasObservableConnectionState_over Select_if_class state"

definition advertises_connection_state :: "bool \<Rightarrow> type_kind option \<Rightarrow> bool" where
  "advertises_connection_state has_getConnectionState state =
     (HasObservableConnectionState has_getConnectionState state = Some True)"

subsection \<open>The policies\<close>

text \<open>The publisher starts its own list and hooks itself to the observable it is given.\<close>

definition publisher_init :: "'h \<Rightarrow> ('t, 'h) observable \<Rightarrow> ('t, 'h) observable" where
  "publisher_init this observed_state = setHook this observed_state"

text \<open>
  The generated policy's constructor: of a getter that returns a copy it hooks itself to that copy,
  which is gone when the constructor returns.
\<close>

definition state_advertiser_constructor ::
    "state_getter \<Rightarrow> 'h \<Rightarrow> u64 \<Rightarrow> ('t, 'h) observable \<Rightarrow> ('c, 's) publisher \<times> ('t, 'h) observable" where
  "state_advertiser_constructor g this current_id member =
     (case publisher_constructor this current_id member of
        (p, hooked) \<Rightarrow> (p, (case g of Returns_reference T \<Rightarrow> hooked | _ \<Rightarrow> member)))"

definition onErrorChangedSubscribe :: "'c \<Rightarrow> ('c, 's) publisher \<Rightarrow> u64 \<times> ('c, 's) publisher" where
  "onErrorChangedSubscribe cb p =
     (case addObserver cb (pb_current_id p) (pb_delegates p) of
        (sid, cur, ds) \<Rightarrow> (sid, p\<lparr>pb_current_id := cur, pb_delegates := ds\<rparr>))"

definition onErrorChangedUnsubscribe ::
    "(nat \<Rightarrow> u64 \<times> 'c) \<Rightarrow> u64 \<Rightarrow> ('c, 's) publisher \<Rightarrow> bool \<times> ('c, 's) publisher" where
  "onErrorChangedUnsubscribe junk sid p =
     (case removeObserver junk sid (pb_delegates p) of (ok, ds) \<Rightarrow> (ok, p\<lparr>pb_delegates := ds\<rparr>))"

definition onStateChangedSubscribe :: "'c \<Rightarrow> ('c, 's) publisher \<Rightarrow> u64 \<times> ('c, 's) publisher" where
  "onStateChangedSubscribe cb p =
     (case addObserver cb (pb_current_id p) (pb_delegates p) of
        (sid, cur, ds) \<Rightarrow> (sid, p\<lparr>pb_current_id := cur, pb_delegates := ds\<rparr>))"

definition onStateChangedUnsubscribe ::
    "(nat \<Rightarrow> u64 \<times> 'c) \<Rightarrow> u64 \<Rightarrow> ('c, 's) publisher \<Rightarrow> bool \<times> ('c, 's) publisher" where
  "onStateChangedUnsubscribe junk sid p =
     (case removeObserver junk sid (pb_delegates p) of (ok, ds) \<Rightarrow> (ok, p\<lparr>pb_delegates := ds\<rparr>))"

definition state_dispatch ::
    "(nat \<Rightarrow> u64 \<times> 'c) \<Rightarrow> ('c, 's) callbacks \<Rightarrow> 'c \<Rightarrow> 's \<Rightarrow> ('c, 's) publisher \<Rightarrow> bool \<times> ('c, 's) publisher" where
  "state_dispatch junk run c s p =
     (case run c s of (as, throws) \<Rightarrow> (False, observer_actions junk as (p\<lparr>pb_calls := pb_calls p @ [(c, s)]\<rparr>)))"

subsection \<open>The test device\<close>

record 'h test_device =
  td_AEIOU :: "(int, 'h) observable"
  td_Error :: "(int, 'h) observable"

definition E_ERROR_UNKNOWN :: int where "E_ERROR_UNKNOWN = - 1"

definition TestDevice :: "int \<Rightarrow> 'h test_device \<Rightarrow> 'h test_device" where
  "TestDevice err storage =
     \<lparr>td_AEIOU = client_constructor 0 (td_AEIOU storage), td_Error = client_constructor err (td_Error storage)\<rparr>"

definition TestDevice_default :: "'h test_device \<Rightarrow> 'h test_device" where
  "TestDevice_default storage = TestDevice E_ERROR_UNKNOWN storage"

text \<open>The assignment, with the call of the hook it makes.\<close>

definition td_setError :: "int \<Rightarrow> 'h test_device \<Rightarrow> 'h test_device \<times> ('h \<times> int) option" where
  "td_setError err d = (case observable_assign err (td_Error d) of (ob, call) \<Rightarrow> (d\<lparr>td_Error := ob\<rparr>, call))"

definition td_getHandle :: int where "td_getHandle = - 1"

definition td_getError :: "'h test_device \<Rightarrow> (int, 'h) observable" where
  "td_getError d = td_Error d"

text \<open>What the two getters return.\<close>

definition getError_kind :: state_getter where
  "getError_kind = Returns_reference (Some Enum_type)"

definition getAEIOU_kind :: state_getter where
  "getAEIOU_kind = Returns_copy (Some Fundamental_type)"

subsection \<open>The driver's test\<close>

text \<open>
  A host of the test device with the policy: \<open>publisher_first\<close> is the order of the code, the policy
  before the device. The callbacks are the test's lambda and its printer, which only print.
\<close>

datatype test_callback = errorLambda | errorPrinter

definition test_callbacks :: "(test_callback, int) callbacks" where
  "test_callbacks cb s = ([], False)"

definition error_host ::
    "bool \<Rightarrow> u64 \<Rightarrow> unit test_device \<Rightarrow> (test_callback, int) publisher \<times> unit test_device" where
  "error_host publisher_first current_id storage =
     (if publisher_first then
        (case state_advertiser_constructor getError_kind () current_id (td_getError storage) of
           (p, ob) \<Rightarrow> (p, TestDevice_default (storage\<lparr>td_Error := ob\<rparr>)))
      else
        (let d = TestDevice_default storage
         in case state_advertiser_constructor getError_kind () current_id (td_getError d) of
              (p, ob) \<Rightarrow> (p, d\<lparr>td_Error := ob\<rparr>)))"

definition host_setError ::
    "(nat \<Rightarrow> u64 \<times> test_callback) \<Rightarrow> int \<Rightarrow> (test_callback, int) publisher \<times> unit test_device \<Rightarrow>
     (test_callback, int) publisher \<times> unit test_device" where
  "host_setError junk err host =
     (case host of (p, d) \<Rightarrow>
        case td_setError err d of
          (d', None) \<Rightarrow> (p, d')
        | (d', Some (hook, s)) \<Rightarrow> (snd (notify (state_dispatch junk test_callbacks) s p), d'))"

text \<open>The identifier and the answer the test prints, and the calls of its callbacks.\<close>

definition E_ERROR_IO :: int where "E_ERROR_IO = 5"
definition E_ERROR_DOM :: int where "E_ERROR_DOM = 33"
definition E_ERROR_INTR :: int where "E_ERROR_INTR = 4"

definition testErrorChangedPolicy ::
    "bool \<Rightarrow> (nat \<Rightarrow> u64 \<times> test_callback) \<Rightarrow> u64 \<Rightarrow> unit test_device \<Rightarrow>
     u64 \<times> bool \<times> (test_callback \<times> int) list" where
  "testErrorChangedPolicy publisher_first junk current_id storage =
     (case error_host publisher_first current_id storage of (p0, d0) \<Rightarrow>
      case onStateChangedSubscribe errorLambda p0 of (lambda_id, p1) \<Rightarrow>
      case delegate_add errorPrinter p1 of (sub_id, p2) \<Rightarrow>
      case host_setError junk E_ERROR_IO (p2, d0) of (p3, d3) \<Rightarrow>
      case host_setError junk E_ERROR_DOM (p3, d3) of (p4, d4) \<Rightarrow>
      case delegate_remove junk sub_id p4 of (unsubscribed, p5) \<Rightarrow>
      case host_setError junk E_ERROR_INTR (p5, d4) of (p6, d6) \<Rightarrow>
        (sub_id, unsubscribed, pb_calls p6))"

subsection \<open>Properties\<close>

lemma next_ids_differ: "(cur :: u64) + 1 + 1 \<noteq> cur + 1"
proof
  assume "cur + 1 + 1 = cur + 1"
  then have "(1 :: u64) = 0" by (metis add_cancel_right_right)
  then show False by simp
qed

lemmas advertiser_defs = testErrorChangedPolicy_def error_host_def state_advertiser_constructor_def
  publisher_constructor_def getError_kind_def TestDevice_default_def TestDevice_def client_constructor_def
  td_getError_def setHook_def onStateChangedSubscribe_def addObserver_def add_entry_def delegate_add_def
  host_setError_def td_setError_def observable_assign_def delegate_remove_def removeObserver_def Let_def

text \<open>
  The driver's test of the policy shows nothing: it subscribes two callbacks, which get identifiers
  and can be removed, and changes the error three times, but neither callback is ever called.
\<close>

theorem driver_error_test_silent:
  "testErrorChangedPolicy True junk cur storage = (cur + 2, True, [])"
  using next_ids_differ [of cur] by (simp add: advertiser_defs)

text \<open>
  It is the order of construction alone: with the device first, the changes reach the callbacks that
  are subscribed at the time, in the order of their subscription.
\<close>

theorem driver_error_test_device_first:
  "testErrorChangedPolicy False junk cur storage =
    (cur + 2, True, [(errorLambda, E_ERROR_IO), (errorPrinter, E_ERROR_IO), (errorLambda, E_ERROR_DOM),
       (errorPrinter, E_ERROR_DOM), (errorLambda, E_ERROR_INTR)])"
  using next_ids_differ [of cur]
  by (simp add: advertiser_defs notify_def state_dispatch_def test_callbacks_def)

text \<open>
  A state whose getter returns a copy is never advertised, in whatever order policy and device are
  constructed; an endpoint's connection state is not advertised either, whatever the endpoint has.
\<close>

theorem copied_state_not_advertised:
  "snd (state_advertiser_constructor getAEIOU_kind h cur ob) = ob \<and>
    HasObservableStateMemberT getAEIOU_kind = Some True \<and> \<not> advertises_connection_state has_getter state"
  by (simp add: state_advertiser_constructor_def publisher_constructor_def getAEIOU_kind_def HasObservableStateMemberT_def
      is_observable_def observable_for_def complex_type_def advertises_connection_state_def
      HasObservableConnectionState_def HasObservableConnectionState_over_def)

text \<open>
  Where the two traits both have an answer they agree; the generated one has none for a device
  without the getter.
\<close>

theorem advertiser_traits_agree:
  "HasObservableStateMemberT g = (if g = No_getter then None else Some (HasObservableErrorMemberT g))"
  by (cases g) (simp_all add: HasObservableStateMemberT_def HasObservableErrorMemberT_def)

end
