(* ===== verification/DriverTests.thy ===== *)
theory DriverTests
  imports LookupTable EventMasks Connection IOPolicies FileDevices AddressOrder TransportTraits
begin

text \<open>
  The driver's programs (Driver/main.cpp) as runs of the model: the tests of the lookup tables, of the
  addresses as texts, of events and flags, of sockets, pipes and files, each with what it prints or
  decides on, over the same parameters as the components it uses. With them are the assigning
  operators of the flags (UtilitiesInfra/enum_flag.h) and the comparisons of a system call's result
  (UtilitiesInfra/sys_call_eval.h).
\<close>

unbundle bit_operations_syntax

subsection \<open>The lookup tables\<close>

datatype table_message =
    Added_to_map | Added_to_vector | Found_in_map string | Found_in_vector string
  | Not_in_map | Still_in_map | Not_in_vector | Still_in_vector | Key int | Printing_map_keys

definition print_if :: "bool \<Rightarrow> 'm \<Rightarrow> 'm list" where
  "print_if b m = (if b then [m] else [])"

definition later_values :: "(int \<times> string) list" where
  "later_values = [(2, ''two''), (3, ''three''), (4, ''four''), (5, ''five''), (6, ''six'')]"

definition testSharedLookupTable :: "table_message list option" where
  "testSharedLookupTable =
     (case um_add_or_update_mapping (1 :: int) ''one'' [] of (map_added, map1) \<Rightarrow>
      case vec_add_or_update_mapping (1 :: int) ''one'' [] of (vector_added, vector1) \<Rightarrow>
      case vec_value_for [] 1 vector1 of (vector_val, vector_found) \<Rightarrow>
      case um_value_for [] 1 map1 of (map_val, map_found) \<Rightarrow>
        (case vec_remove_mapping 1 vector1 of
           None \<Rightarrow> None
         | Some vector2 \<Rightarrow>
             let map2 = um_remove_mapping 1 map1;
                 vector_still = snd (vec_value_for [] 1 vector2);
                 map_still = snd (um_value_for [] 1 map2);
                 vector3 = fold (\<lambda>(k, v) t. snd (vec_add_or_update_mapping k v t)) later_values vector2;
                 map3 = fold (\<lambda>(k, v) t. snd (um_add_or_update_mapping k v t)) later_values map2
             in Some (print_if map_added Added_to_map @ print_if vector_added Added_to_vector @
                  print_if map_found (Found_in_map map_val) @ print_if vector_found (Found_in_vector vector_val) @
                  [if \<not> map_still then Not_in_map else Still_in_map] @
                  [if \<not> vector_still then Not_in_vector else Still_in_vector] @
                  map Key (getKeysFromContainer vector3) @ [Printing_map_keys] @ map Key (getKeysFromContainer map3))))"

subsection \<open>Addresses as texts\<close>

text \<open>
  For each of the four addresses whether the test says that it was initialised, the text it prints,
  and the text of an address read from that text. \<open>pton4\<close> and \<open>pton6\<close> are \<^verbatim>\<open>inet_pton\<close>.
\<close>

definition fifo_text :: string where
  "fifo_text = ''/home/bfrancu/Documents/Work/myfifo2''"
definition unx_text :: string where
  "unx_text = ''/home/bfrancu/Documents/Work/unix_pathname''"
definition ipv4_text :: string where
  "ipv4_text = ''192.168.0.1:5678''"
definition ipv6_text :: string where
  "ipv6_text = ''2001:0DB8:Ac10:FE01:::3281''"

definition test_ipv4_address ::
    "(string \<Rightarrow> u8 list option) \<Rightarrow> u8 list \<Rightarrow> bool \<times> inet_socket_address \<times> inet_socket_address" where
  "test_ipv4_address pton4 garbage =
     (case inet_fromString pton4 ipv4_text (InetSocketAddress_default garbage) of (done, addr) \<Rightarrow>
        (done, addr, snd (inet_fromString pton4 (inet_toString addr) (InetSocketAddress_default garbage))))"

definition test_ipv6_address ::
    "(string \<Rightarrow> u8 list option) \<Rightarrow> u8 list \<Rightarrow> bool \<times> inet6_socket_address \<times> inet6_socket_address" where
  "test_ipv6_address pton6 garbage =
     (case inet6_fromString pton6 ipv6_text (InetSocketAddress6_default garbage) of (done, addr) \<Rightarrow>
        (done, addr, snd (inet6_fromString pton6 (inet6_toString addr) (InetSocketAddress6_default garbage))))"

definition testAddressToString ::
    "(string \<Rightarrow> u8 list option) \<Rightarrow> (string \<Rightarrow> u8 list option) \<Rightarrow> u8 list \<Rightarrow> u8 list \<Rightarrow>
     (bool \<times> string \<times> string) list option" where
  "testAddressToString pton4 pton6 garbage4 garbage6 =
     (let fifo_addr_str = pipe_getAddress (snd (pipe_setAddress fifo_text []));
          fifo_addr_from_str = snd (pipe_fromString fifo_addr_str [])
      in case unix_fromString unx_text UnixSocketAddress_default of
           None \<Rightarrow> None
         | Some (unx_done, unx_sock_addr) \<Rightarrow>
             (case unix_fromString (unix_toString unx_sock_addr) UnixSocketAddress_default of
                None \<Rightarrow> None
              | Some (ok, unx_from_str) \<Rightarrow>
                  (case test_ipv4_address pton4 garbage4 of (done4, addr4, again4) \<Rightarrow>
                   case test_ipv6_address pton6 garbage6 of (done6, addr6, again6) \<Rightarrow>
                     Some [(True, fifo_addr_str, pipe_getAddress fifo_addr_from_str),
                           (unx_done, unix_toString unx_sock_addr, unix_toString unx_from_str),
                           (done4, inet_toString addr4, inet_toString again4),
                           (done6, inet6_toString addr6, inet6_toString again6)])))"

subsection \<open>Events and flags\<close>

text \<open>The assigning operators: the object's new value, and the copy they return.\<close>

definition flag_and_assign :: "u32 \<Rightarrow> u32 \<Rightarrow> u32 \<times> u32" where
  "flag_and_assign a b = (let a' = a AND b in (a', a'))"
definition flag_or_assign :: "u32 \<Rightarrow> u32 \<Rightarrow> u32 \<times> u32" where
  "flag_or_assign a b = (let a' = a OR b in (a', a'))"
definition flag_xor_assign :: "u32 \<Rightarrow> u32 \<Rightarrow> u32 \<times> u32" where
  "flag_xor_assign a b = (let a' = a XOR b in (a', a'))"
definition flag_shiftl_assign :: "u32 \<Rightarrow> nat \<Rightarrow> u32 \<times> u32" where
  "flag_shiftl_assign a n = (let a' = push_bit n a in (a', a'))"
definition flag_shiftr_assign :: "u32 \<Rightarrow> nat \<Rightarrow> u32 \<times> u32" where
  "flag_shiftr_assign a n = (let a' = signed_drop_bit n a in (a', a'))"

text \<open>The printed numbers, and whether the event is said to be one of the combined.\<close>

definition part_of_combined :: "handle_event \<Rightarrow> u32 \<Rightarrow> bool" where
  "part_of_combined event combined_events = (flag_and (enum_flag event) combined_events \<noteq> 0)"

definition testEnumFlags :: "u32 \<times> u32 \<times> u32 \<times> bool" where
  "testEnumFlags =
     (let combined_events = flag_or (enum_flag E_HANDLE_EVENT_IN) (enum_flag E_HANDLE_EVENT_ERR)
      in (combined_events, enum_flag E_HANDLE_EVENT_IN, enum_flag E_HANDLE_EVENT_ERR,
          part_of_combined E_HANDLE_EVENT_IN combined_events))"

text \<open>
  The masks the test of the arrays prints next to each other, the system's and the library's. The
  first of the system's is read before anything was stored in it (\<open>garbage\<close>).
\<close>

definition testGetEventsArray :: "u32 \<Rightarrow> (u32 \<times> u32) list" where
  "testGetEventsArray garbage =
     (let blank_events = event_getArray [];
          in_events = event_getArray [E_HANDLE_EVENT_IN];
          in_out_events = event_getArray [E_HANDLE_EVENT_IN, E_HANDLE_EVENT_OUT];
          all_events = event_getArray [E_HANDLE_EVENT_SHUTDOWN, E_HANDLE_EVENT_OUT, E_HANDLE_EVENT_IN,
            E_HANDLE_EVENT_HUP, E_HANDLE_EVENT_ERR, E_HANDLE_EVENT_PRIO_IN]
      in [(garbage, getEventsMask blank_events),
          (EPOLLIN, getEventsMask in_events),
          (EPOLLIN OR EPOLLOUT, getEventsMask in_out_events),
          (EPOLLIN OR (EPOLLOUT OR EPOLLPRI OR EPOLLERR OR EPOLLHUP OR EPOLLRDHUP), getEventsMask all_events)])"

subsection \<open>System calls\<close>

text \<open>A null pointer is \<open>None\<close>.\<close>

definition sys_call_zero_eval :: "('args \<Rightarrow> 'k \<Rightarrow> int \<times> 'k) \<Rightarrow> 'args \<Rightarrow> 'k \<Rightarrow> bool \<times> 'k" where
  "sys_call_zero_eval f args k = (case f args k of (r, k') \<Rightarrow> (0 = r, k'))"

definition sys_call_noerr_eval :: "('args \<Rightarrow> 'k \<Rightarrow> int \<times> 'k) \<Rightarrow> 'args \<Rightarrow> 'k \<Rightarrow> bool \<times> 'k" where
  "sys_call_noerr_eval f args k = (case f args k of (r, k') \<Rightarrow> (- 1 \<noteq> r, k'))"

definition sys_call_nonull_eval :: "('args \<Rightarrow> 'k \<Rightarrow> 'p option \<times> 'k) \<Rightarrow> 'args \<Rightarrow> 'k \<Rightarrow> bool \<times> 'k" where
  "sys_call_nonull_eval f args k = (case f args k of (r, k') \<Rightarrow> (r \<noteq> None, k'))"

definition callable_eval ::
    "('t \<Rightarrow> 't \<Rightarrow> bool) \<Rightarrow> 't \<Rightarrow> ('args \<Rightarrow> 'k \<Rightarrow> 't \<times> 'k) \<Rightarrow> 'args \<Rightarrow> 'k \<Rightarrow> bool \<times> 'k" where
  "callable_eval comparator evaluated_value f args k =
     (case f args k of (r, k') \<Rightarrow> (comparator evaluated_value r, k'))"

definition test_sys_call_evaluator :: "'k system \<Rightarrow> 'k \<Rightarrow> bool" where
  "test_sys_call_evaluator sys k =
     fst (sys_call_zero_eval (\<lambda>path k'. (sys_access sys path k', k'))
       ''/home/bfrancu/Documents/Work/IPCInfra/example.txt'' k)"

definition testFileInfo :: "'k system \<Rightarrow> 'k \<Rightarrow> bool" where
  "testFileInfo sys k = existingDirectory sys ''/home/bfrancu/Documents/Work'' k"

subsection \<open>Sockets\<close>

text \<open>
  The test of stream sockets: one to connect with and one to listen, both on any address at one port.
  What it prints of the host, whether the client connected, what it then sent, the states it prints,
  and whether the server was bound and listens.
\<close>

record socket_test =
  so_is_loopback :: bool
  so_is_any :: bool
  so_connected :: bool
  so_sent :: "(int \<times> string) outcome"
  so_before :: socket_state
  so_bound :: bool
  so_after :: socket_state
  so_listening :: bool

definition test_port :: u16 where "test_port = 55123"

definition testSocketDevices ::
    "(u8 list \<Rightarrow> string option) \<Rightarrow> u8 list \<Rightarrow> ('k, u16 \<times> u32) socket_kernel \<Rightarrow> write_result \<Rightarrow> 'k \<Rightarrow>
     (socket_test \<times> 'k) call_result" where
  "testSocketDevices ntop garbage K r k =
     (let empty_address = InetSocketAddress_default garbage;
          (ipv4_stream_sock, k1) = (ipv4_stream_device K empty_address k :: (inet_socket_address, unit) socket_device \<times> 'k);
          (ipv4_client_sock, k2) = (ipv4_stream_device K empty_address k1 :: (inet_socket_address, unit) socket_device \<times> 'k);
          (another_one, k3) = (ipv4_stream_device K empty_address k2 :: (inet_socket_address, unit) socket_device \<times> 'k);
          host_addr = host_setAddressAny ntop (HostAddress_default garbage);
          network_addr = (NetworkAddress host_addr test_port)\<lparr>na_port := test_port, na_host := host_addr\<rparr>;
          inet_addr = snd (inet_setAddress network_addr empty_address);
          A = inet_ops ntop garbage
      in case socket_connect K A inet_addr False ipv4_client_sock k3 of
           Returns (connected, client_sock, k4) \<Rightarrow>
             (let sent = (if connected then generic_socket_write r ''back again\<newline>'' [] else Done (0, []))
              in case socket_bind K A inet_addr True ipv4_stream_sock k4 of
                   Returns (bound, bound_sock, k5) \<Rightarrow>
                     (case socket_listen K 50 bound_sock k5 of
                        (listening, listening_sock, k6) \<Rightarrow>
                          Returns (\<lparr>so_is_loopback = host_isLoopback host_addr, so_is_any = host_isAny host_addr,
                             so_connected = connected, so_sent = sent, so_before = sd_state ipv4_stream_sock,
                             so_bound = bound, so_after = sd_state bound_sock, so_listening = listening\<rparr>, k6))
                 | Throws \<Rightarrow> Throws | Undef \<Rightarrow> Undef)
         | Throws \<Rightarrow> Throws | Undef \<Rightarrow> Undef)"

text \<open>
  The test of datagram sockets: it binds one, receives at most 512 bytes and sends what it received to
  another port of the machine; \<open>rs\<close> is what the system receives, \<open>r\<close> its answer to the sending. The
  result is that of \<^verbatim>\<open>recvFrom\<close> and what the system was given to send.
\<close>

definition any_address :: "(u8 list \<Rightarrow> string option) \<Rightarrow> u8 list \<Rightarrow> u16 \<Rightarrow> inet_socket_address" where
  "any_address ntop garbage port = InetSocketAddress_network garbage (NetworkAddress (AddressAny ntop garbage) port)"

definition datagram_echo ::
    "(u8 list \<Rightarrow> string option) \<Rightarrow> u8 list \<Rightarrow> (read_result \<times> u16 \<times> u32) list \<Rightarrow> write_result \<Rightarrow>
     (int \<times> (int \<times> ((u16 \<times> u32) \<times> string) list)) outcome" where
  "datagram_echo ntop garbage rs r =
     (let A = inet_ops ntop garbage
      in case recvFrom A 512 (socket_io_flag_value E_MSG_NO_FLAG) rs (InetSocketAddress_default garbage) of
           Done (len, received, remote_caller, rs') \<Rightarrow>
             (case sendTo A (any_address ntop garbage 5662) r received [] of
                Done sent \<Rightarrow> Done (len, sent)
              | Blocked \<Rightarrow> Blocked
              | Undefined \<Rightarrow> Undefined)
         | Blocked \<Rightarrow> Blocked
         | Undefined \<Rightarrow> Undefined)"

definition testSocketDatagramIO ::
    "(u8 list \<Rightarrow> string option) \<Rightarrow> u8 list \<Rightarrow> ('k, u16 \<times> u32) socket_kernel \<Rightarrow> (read_result \<times> u16 \<times> u32) list \<Rightarrow>
     write_result \<Rightarrow> 'k \<Rightarrow> (int \<times> (int \<times> ((u16 \<times> u32) \<times> string) list)) outcome option call_result" where
  "testSocketDatagramIO ntop garbage K rs r k =
     (case (ipv4_datagram_device K (InetSocketAddress_default garbage) k ::
              (inet_socket_address, unit) socket_device \<times> 'k) of (sock, k1) \<Rightarrow>
        case socket_bind K (inet_ops ntop garbage) (any_address ntop garbage 5661) True sock k1 of
          Returns (bound, sock', k2) \<Rightarrow>
            Returns (if bound then Some (datagram_echo ntop garbage rs r) else None)
        | Throws \<Rightarrow> Throws
        | Undef \<Rightarrow> Undef)"

subsection \<open>Assigning socket devices\<close>

text \<open>
  \<^verbatim>\<open>assign\<close> takes a compatible device (or a host of one) and assigns the device in it; for
  another device it does not take part in the overload resolution (\<open>None\<close>). That of the Unix stream
  device names a type nothing deduces, so it is only there for a caller that gives it.
\<close>

definition device_assign ::
    "bool \<Rightarrow> ('k, 's) socket_kernel \<Rightarrow> ('a, 'h) socket_device \<Rightarrow> ('a, 'h) socket_device \<Rightarrow> 'k \<Rightarrow>
     ((('a, 'h) socket_device \<times> ('h \<times> int) option) \<times> 'k) option" where
  "device_assign compatible K this other k = (if compatible then Some (sd_assign K this other k) else None)"

definition unix_stream_assign ::
    "bool option \<Rightarrow> ('k, 's) socket_kernel \<Rightarrow> ('a, 'h) socket_device \<Rightarrow> ('a, 'h) socket_device \<Rightarrow> 'k \<Rightarrow>
     ((('a, 'h) socket_device \<times> ('h \<times> int) option) \<times> 'k) option" where
  "unix_stream_assign given_compatible K this other k =
     (if given_compatible = Some True then Some (sd_assign K this other k) else None)"

subsection \<open>Pipes and files\<close>

definition testNamedPipes ::
    "'k pipe_system \<Rightarrow> int \<Rightarrow> read_result list \<Rightarrow> 'k \<Rightarrow> bool \<times> (int \<times> string \<times> read_result list) outcome option" where
  "testNamedPipes P avail rs k =
     (case reading_open_path P fifo_text False (NamedPipeDevice []) k of
        (opened, original_rd_pipe, k1) \<Rightarrow> (opened, fifo_read read_only_profile avail rs []))"

text \<open>
  The test of a file with the policies for reading, seeking and asking: the answer of the read, the
  position and the type it prints, and the file after it was closed; \<open>None\<close> when it could not be
  opened. \<open>reading\<close> is what reading from a descriptor does to the system, such as moving its offset.
\<close>

definition testDevicePolicies ::
    "'k pipe_system \<Rightarrow> (int \<Rightarrow> 'k \<Rightarrow> 'k) \<Rightarrow> int \<Rightarrow> read_result list \<Rightarrow> 'k \<Rightarrow>
     ((int \<times> string \<times> read_result list) outcome \<times> u64 \<times> file_type \<times> file_device \<times> 'k) option" where
  "testDevicePolicies P reading avail rs k =
     (case file_open P E_READ_WRITE 0 (FileDevice P ''/home/bfrancu/Documents/Work/IPCInfra/example.txt'' k) k of
        (opened, file, k1) \<Rightarrow>
          if opened then
            (case seek (ps_sys P) (file_getHandle file) 4 SEEK_SET k1 of
               (sought, k2) \<Rightarrow>
                 (case current_position (ps_sys P) (file_getHandle file) (reading (file_getHandle file) k2) of
                    (pos, k3) \<Rightarrow>
                      (case file_close P file k3 of
                         (file', k4) \<Rightarrow>
                           Some (generic_read avail rs [], pos, res_fileType (ps_sys P) (file_getHandle file) k3, file', k4))))
          else None)"


subsection \<open>Properties\<close>

text \<open>
  The two lookup tables say the same of every step of the test: the first name is added and found, it
  is gone after its removal, and the five later keys are listed in the order they were given.
\<close>

theorem driver_table_test:
  "\<exists>ks. testSharedLookupTable =
      Some ([Added_to_map, Added_to_vector, Found_in_map ''one'', Found_in_vector ''one'', Not_in_map, Not_in_vector] @
        map Key [2, 3, 4, 5, 6] @ Printing_map_keys # map Key ks) \<and>
    distinct ks \<and> set ks = {2, 3, 4, 5, 6}"
  by (rule exI [of _ "[2, 3, 4, 5, 6]"]) code_simp

text \<open>
  The flag operations on events decide little: the events are numbers, not bits of a mask, so every
  event but the blank one and that of a priority input is said to be a part of the reading and the
  error event combined.
\<close>

theorem driver_enum_flag_test:
  "testEnumFlags = (5, 1, 4, True) \<and>
    part_of_combined e (flag_or (enum_flag E_HANDLE_EVENT_IN) (enum_flag E_HANDLE_EVENT_ERR)) =
      (e \<noteq> E_HANDLE_EVENT_NULL \<and> e \<noteq> E_HANDLE_EVENT_PRIO_IN)"
proof
  show "testEnumFlags = (5, 1, 4, True)" by code_simp
  show "part_of_combined e (flag_or (enum_flag E_HANDLE_EVENT_IN) (enum_flag E_HANDLE_EVENT_ERR)) =
      (e \<noteq> E_HANDLE_EVENT_NULL \<and> e \<noteq> E_HANDLE_EVENT_PRIO_IN)"
    by (cases e) (simp_all only:, code_simp+)
qed

text \<open>
  Where the test stores a system's mask before it prints it, the library's is the same; in its first
  line it prints what the variable happened to hold next to the empty mask.
\<close>

theorem driver_masks_test:
  "testGetEventsArray garbage = [(garbage, 0), (1, 1), (5, 5), (8223, 8223)]"
  unfolding testGetEventsArray_def Let_def list.inject prod.inject by (intro conjI refl) code_simp+


text \<open>
  The test of the addresses cannot see that an address loses its host: whatever texts the system
  knows, so long as it refuses those with a colon, all four texts come back as they were, and the
  host that was read for the IPv4 one is 0.0.0.0.
\<close>

lemma ipv4_text_parts: "ipv4_text = ''192.168.0.1'' @ CHR '':'' # nat_digits (unat (5678 :: u16))"
proof -
  have "nat_digits 5678 = map char_of_digit [5, 6, 7, 8]"
    by (simp add: nat_digits.simps [of 5678] nat_digits.simps [of 567] nat_digits.simps [of 56] nat_digits.simps [of 5])
  also have "\<dots> = ''5678''" by code_simp
  finally show ?thesis by (simp add: ipv4_text_def)
qed

theorem driver_address_test:
  assumes "\<And>z. CHR '':'' \<in> set z \<Longrightarrow> pton4 z = None" and "length garbage4 = 4"
    and "test_ipv4_address pton4 garbage4 = (done, addr, again)"
  shows "done \<and> inet_toString addr = ipv4_text \<and> inet_toString again = ipv4_text \<and>
    ha_bytes (na_host (is_address addr)) = [0, 0, 0, 0] \<and> ha_bytes (na_host (is_address again)) = [0, 0, 0, 0]"
proof -
  let ?empty = "InetSocketAddress_default garbage4"
  have len: "length (ha_bytes (na_host (is_address ?empty))) = 4"
    using assms(2) by (simp add: InetSocketAddress_default_def HostAddress_default_def)
  obtain ok s where r: "inet_fromString pton4 ipv4_text ?empty = (ok, s)" by (metis surj_pair)
  from fromString_loses_host [OF assms(1) len r [unfolded ipv4_text_parts]]
  have "ok" "ha_bytes (na_host (is_address s)) = [0, 0, 0, 0]" "inet_toString s = ipv4_text"
    by (simp_all add: ipv4_text_parts)
  with assms(3) r show ?thesis by (auto simp: test_ipv4_address_def)
qed


text \<open>
  The test of the sockets: its host is any host and not the loopback; the server starts available and
  is bound exactly when it says so; it listens only when bound; and nothing is sent by a client that
  did not connect.
\<close>

lemma any_host:
  "host_isAny (host_setAddressAny ntop (HostAddress_default garbage))"
  "\<not> host_isLoopback (host_setAddressAny ntop (HostAddress_default garbage))"
proof -
  have m: "from_memory (memory_bytes 0) = 0" by code_simp
  have zero: "host_getAddress (host_setAddressAny ntop (HostAddress_default garbage)) = 0"
    by (simp add: host_getAddress_def host_setAddressAny_def host_initData_u32_def extractPrintableAddress_def
        HostAddress_default_def INADDR_ANY_def m split: option.split)
  have "htonl INADDR_ANY = 0" "htonl INADDR_LOOPBACK \<noteq> 0" by code_simp+
  with zero show "host_isAny (host_setAddressAny ntop (HostAddress_default garbage))"
    "\<not> host_isLoopback (host_setAddressAny ntop (HostAddress_default garbage))"
    by (simp_all add: host_isAny_def host_isLoopback_def host_eq_in_addr_def)
qed

theorem driver_socket_test:
  assumes "testSocketDevices ntop garbage K r k = Returns (t, k')"
  shows "so_is_any t \<and> \<not> so_is_loopback t \<and> so_before t = E_STATE_AVAILABLE \<and>
    so_after t = (if so_bound t then E_STATE_BINDED else E_STATE_AVAILABLE) \<and>
    (so_listening t \<longrightarrow> so_bound t) \<and> (so_connected t \<or> so_sent t = Done (0, []))"
  using assms
  by (auto simp: testSocketDevices_def Let_def ipv4_stream_device_def any_host
      split: prod.splits call_result.splits if_splits
      dest!: new_socket_available socket_bind_state socket_listen_state)


text \<open>
  The test of the datagrams sends back what it received: a datagram of at most 512 bytes goes whole to
  port 5662 of any host, whoever sent it.
\<close>

lemma any_address_bytes:
  assumes "ntop (memory_bytes 0) \<noteq> None"
  shows "inet_getAddress (any_address ntop garbage port) = (htons port, 0)"
proof -
  have "from_memory (memory_bytes 0) = 0" "htonl 0 = 0" by code_simp+
  then show ?thesis
    using assms
    by (auto simp: any_address_def InetSocketAddress_network_def inet_setAddress_def NetworkAddress_def AddressAny_def
        host_initData_u32_def extractPrintableAddress_def HostAddress_default_def INADDR_ANY_def inet_getAddress_def
        host_getAddress_def)
qed

theorem driver_datagram_test:
  assumes "d \<noteq> []" and "length d \<le> 512" and "ntop (memory_bytes 0) \<noteq> None"
  shows "datagram_echo ntop garbage ((Read_data d, peer) # rs) (Write_count (length d)) =
    Done (int (length d), int (length d), [((htons 5662, 0), d)])"
proof -
  have "\<not> SOCKADDR_SIZE < 16" by (simp add: SOCKADDR_SIZE_def)
  with assms any_address_bytes [of ntop garbage 5662, OF assms(3)] show ?thesis
    by (cases peer) (simp add: datagram_echo_def Let_def recvFrom_def with_sources_def io_recv_def waits_for_all_def
        sendTo_def sendTo_max_def inet_ops_def READ_BUFFER_SIZE_def)
qed

text \<open>
  The file the test opened is closed again whatever it read, and nothing is done with one that could
  not be opened; a Unix stream device cannot be assigned unless the caller names the device's type.
\<close>

theorem driver_file_test:
  "(testDevicePolicies P reading avail rs k = None) =
    (\<not> fst (file_open P E_READ_WRITE 0 (FileDevice P ''/home/bfrancu/Documents/Work/IPCInfra/example.txt'' k) k))"
  by (simp add: testDevicePolicies_def split: prod.split)

theorem assignments_agree:
  "unix_stream_assign None K this other k = None \<and>
    unix_stream_assign (Some compatible) K this other k = device_assign compatible K this other k"
  by (simp add: unix_stream_assign_def device_assign_def)


subsection \<open>Hosts and proxies\<close>

text \<open>Packing a device with its policies, and making one with the factory; policies are their names.\<close>

definition reading_fifo :: "handler_class \<Rightarrow> device_type_name" where
  "reading_fifo h = Device2Type read_fifo_tag h"

definition testPackHost :: "handler_class \<Rightarrow> bool list" where
  "testPackHost h =
     (let policies = [''SeekableOperations'', ''FifoIOPolicy'', ''ConnectionPolicy''];
          packed_host = PackHost (reading_fifo h) policies
      in case UnpackHost packed_host of (unpacked_device, unpacked_policies) \<Rightarrow>
           [reading_fifo h = unpacked_device, policies = unpacked_policies])"

definition testPolicyHolder :: "handler_class \<Rightarrow> (device_type_name, string) host" where
  "testPolicyHolder h = Host (reading_fifo h) [''FifoIOPolicy'']"

text \<open>
  The number of bytes a pipe that is not open has available, printed directly and through a pointer
  without a type.
\<close>

definition testDeviceTypeErasure :: "'k system \<Rightarrow> 'k \<Rightarrow> int \<times> int" where
  "testDeviceTypeErasure sys k =
     (let my_device = NamedPipeDevice ''''; placeholder = my_device
      in (bytesAvailable sys (np_getHandle my_device) k, bytesAvailable sys (np_getHandle placeholder) k))"

text \<open>
  The first half of the main function of Driver/transport.cpp: proxies of a file that is not open and
  of two sockets, and what the policies on top of them print: whether the datagram socket is a
  terminal, its type, that of the file, and that of the stream socket.
\<close>

definition transport_main_proxies ::
    "'k pipe_system \<Rightarrow> (fd \<Rightarrow> int) \<Rightarrow> ('k, 's) socket_kernel \<Rightarrow> unix_socket_address \<Rightarrow> inet6_socket_address \<Rightarrow> 'k \<Rightarrow>
     (bool \<times> file_type \<times> file_type \<times> file_type) \<times> 'k" where
  "transport_main_proxies P isatty K unx_addr ipv6_addr k =
     (let file_dev = FileDevice_default P k;
          (unx_dgram_dev, k1) = (unix_datagram_device K unx_addr k :: (unix_socket_address, unit) socket_device \<times> 'k);
          (ipv6_strm_dev, k2) = (ipv6_stream_device K ipv6_addr k1 :: (inet6_socket_address, unit) socket_device \<times> 'k);
          proxy_host = proxy_setBaseReference file_dev None;
          proxy_host2 = proxy_setBaseReference unx_dgram_dev None;
          proxy_host3 = proxy_setBaseReference ipv6_strm_dev None
      in ((isTty isatty (proxy_getHandle sd_getHandle proxy_host2),
           res_fileType (ps_sys P) (proxy_getHandle sd_getHandle proxy_host2) k2,
           res_fileType (ps_sys P) (proxy_getHandle file_getHandle proxy_host) k2,
           res_fileType (ps_sys P) (proxy_getHandle sd_getHandle proxy_host3) k2), k2))"

text \<open>
  What was packed is unpacked; a device is the same device behind a pointer without a type; and the
  policies on a proxy answer what they would on the device: the closed file has the type of the
  descriptor -1, the sockets that of their own.
\<close>

theorem driver_hosts:
  "testPackHost h = [True, True] \<and> UnpackHost (testPolicyHolder h) = (reading_fifo h, [''FifoIOPolicy'']) \<and>
    fst (testDeviceTypeErasure sys k) = snd (testDeviceTypeErasure sys k)"
  by (simp add: testPackHost_def PackHost_def testPolicyHolder_def testDeviceTypeErasure_def Let_def)

theorem proxies_answer_as_devices:
  assumes "unix_datagram_device K unx_addr k = (d, k1)" and "ipv6_stream_device K ipv6_addr k1 = (s, k2)"
  shows "transport_main_proxies P isatty K unx_addr ipv6_addr k =
    ((isatty (sd_getHandle (d :: (unix_socket_address, unit) socket_device)) = 1, res_fileType (ps_sys P) (sd_getHandle d) k2,
      res_fileType (ps_sys P) (- 1) k2, res_fileType (ps_sys P) (sd_getHandle (s :: (inet6_socket_address, unit) socket_device)) k2), k2)"
proof -
  have kept: "fl_handler (setDirFilePaths p f) = fl_handler f" for p f
    by (simp add: setDirFilePaths_def split: prod.split)
  have "file_getHandle (FileDevice_default P k) = - 1"
    by (simp add: FileDevice_default_def file_getHandle_def kept UnixResourceHandler_def DEFAULT_VALUE_def)
  then show ?thesis
    using assms
    by (auto simp: transport_main_proxies_def Let_def proxy_getHandle_def proxy_setBaseReference_def isTty_def)
qed

end
