(* ===== verification/ConfigurationProgram.thy ===== *)
theory ConfigurationProgram
  imports Configuration
begin

text \<open>
  Collections in a configuration with a separator of any length and any container
  (Configuration/ConfigurationBook.hpp), and the program that reads the repository's example
  (Configuration/main.cpp, Configuration/example.ini).
\<close>

subsection \<open>Collections\<close>

text \<open>
  The searcher: where a separator starts and ends, from a position on; both are the end of the text
  when there is none.
\<close>

fun find_text :: "string \<Rightarrow> string \<Rightarrow> nat option" where
  "find_text sep [] = (if sep = [] then Some 0 else None)"
| "find_text sep (c # cs) =
     (if take (length sep) (c # cs) = sep then Some 0 else map_option Suc (find_text sep cs))"

definition bm_searcher :: "string \<Rightarrow> string \<Rightarrow> nat \<Rightarrow> nat \<times> nat" where
  "bm_searcher sep s start =
     (case find_text sep (drop start s) of
        Some n \<Rightarrow> (start + n, start + n + length sep)
      | None \<Rightarrow> (length s, length s))"

text \<open>
  The loop may run for ever, which is the value \<open>None\<close>; \<open>ins\<close> is the container's
  insertion at its end.
\<close>

partial_function (option) separated_loop ::
    "(string \<Rightarrow> 'a \<Rightarrow> bool \<times> 'a) \<Rightarrow> 'a \<Rightarrow> ('c \<Rightarrow> 'a \<Rightarrow> 'c) \<Rightarrow> string \<Rightarrow> string \<Rightarrow> nat \<Rightarrow> bool \<Rightarrow> 'c \<Rightarrow>
     (bool \<times> 'c) option" where
  "separated_loop convert dflt ins sep s start res out =
     (if start \<ge> length s then Some (res, out)
      else case bm_searcher sep s start of
             (substr_end, after_substr_end) \<Rightarrow>
               (case convert (substr s start (substr_end - start)) dflt of
                  (converted, val_element) \<Rightarrow>
                   separated_loop convert dflt ins sep s after_substr_end (converted \<or> res)
                     (if converted then ins out val_element else out)))"

declare separated_loop.simps [code]

definition collection_for ::
    "(string \<Rightarrow> 'a \<Rightarrow> bool \<times> 'a) \<Rightarrow> 'a \<Rightarrow> ('c \<Rightarrow> 'a \<Rightarrow> 'c) \<Rightarrow> string \<Rightarrow> string \<Rightarrow> string \<Rightarrow> 'c \<Rightarrow>
     configuration_book \<Rightarrow> (bool \<times> 'c) option" where
  "collection_for convert dflt ins sep sect k out b =
     (case findValueInTable sect k b of
        None \<Rightarrow> Some (False, out)
      | Some s \<Rightarrow> separated_loop convert dflt ins sep s 0 False out)"

definition DEFAULT_SEP :: string where "DEFAULT_SEP = '' ''"

text \<open>The insertions of a sequence and of a set.\<close>

definition push_end :: "'a list \<Rightarrow> 'a \<Rightarrow> 'a list" where
  "push_end out v = out @ [v]"

definition set_insert :: "'a set \<Rightarrow> 'a \<Rightarrow> 'a set" where
  "set_insert out v = insert v out"

subsection \<open>The program\<close>

text \<open>Where the set is printed its order is not determined, so the line has the set.\<close>

datatype config_line =
    Table string
  | Service_is int | No_service
  | Host_is string | No_host
  | Primes "int list" | No_primes
  | Primates "string list" | No_primates
  | Friends "string set" | No_friends

definition INT_MIN :: int where "INT_MIN = - 2147483648"
definition INT_MAX :: int where "INT_MAX = 2147483647"

definition config_path :: string where
  "config_path = ''/home/bfrancu/Documents/Work/Projects/IPCInfra/Configuration/example.ini''"

definition opened_book :: "(string \<Rightarrow> file_stream option) \<Rightarrow> configuration_book" where
  "opened_book files = \<lparr>file_content = '''', reader_stream = files config_path, section_tab = []\<rparr>"

definition found_or :: "'l \<Rightarrow> ('c \<Rightarrow> 'l) \<Rightarrow> bool \<times> 'c \<Rightarrow> 'l" where
  "found_or missing line r = (case r of (found, v) \<Rightarrow> if found then line v else missing)"

definition config_lines :: "configuration_book \<Rightarrow> config_line list outcome" where
  "config_lines book =
     (case collection_for (convert_arithmetic INT_MIN INT_MAX) 0 push_end '', '' ''HONEY_BUNNY'' ''primes'' [] book of
        None \<Rightarrow> Blocked
      | Some primes \<Rightarrow>
     (case collection_for convert_string '''' push_end DEFAULT_SEP ''HONEY_BUNNY'' ''primates'' [] book of
        None \<Rightarrow> Blocked
      | Some primates \<Rightarrow>
     (case collection_for convert_string '''' set_insert DEFAULT_SEP ''CONNECTION_DETAILS'' ''FRIENDS'' {} book of
        None \<Rightarrow> Blocked
      | Some friends \<Rightarrow>
          Done [Table (book_printTable book),
                found_or No_service Service_is
                  (valueFor (convert_arithmetic INT_MIN INT_MAX) ''CONNECTION_DETAILS'' ''SERVICE'' 0 book),
                found_or No_host Host_is (valueFor convert_string ''CONNECTION_DETAILS'' ''HOST'' '''' book),
                found_or No_primes Primes primes, found_or No_primates Primates primates,
                found_or No_friends Friends friends])))"

definition config_main :: "(string \<Rightarrow> file_stream option) \<Rightarrow> config_line list outcome" where
  "config_main files =
     (case book_init (opened_book files) of
        None \<Rightarrow> Undefined
      | Some (ok, book) \<Rightarrow> if ok then config_lines book else Done [])"

text \<open>The example, line by line.\<close>

definition example_ini :: string where
  "example_ini =
     concat (map (\<lambda>l. l @ [newline])
       [''[CONNECTION_DETAILS]'', ''TYPE=Server'', '''', ''DEVICE_TYPE=Socket'', ''SOCKET_DOMAIN=ipv4'', '''',
        ''SOCKET_TYPE=Stream'', '''', ''HOST=localhost'', ''SERVICE=55123'', '''',
        ''PATHNAME=/home/bfrancu/Documents/Work/myfifo2'', '''', ''FRIENDS=ross joey chandler phoebe monica rachel'',
        '''', ''[HONEY_BUNNY]'', ''color=blue'', ''food=carrot'', ''age=3'', ''primes=1, 3, 5, 7, 11'',
        ''primates=Caesar''])"

subsection \<open>Files with blank lines\<close>

text \<open>
  A file laid out by hand: any number of blank lines in front of a pair and at the end of a section.
\<close>

type_synonym layout_section = "string \<times> (nat \<times> string \<times> string) list \<times> nat"

definition blank_lines :: "nat \<Rightarrow> string" where
  "blank_lines n = replicate n newline"

definition laid_pairs :: "(nat \<times> string \<times> string) list \<Rightarrow> string" where
  "laid_pairs kvs = concat (map (\<lambda>(n, p). blank_lines n @ render_pair p) kvs)"

definition laid_section :: "layout_section \<Rightarrow> string" where
  "laid_section sec =
     (case sec of (name, kvs, n) \<Rightarrow>
        CHR ''['' # name @ CHR '']'' # newline # laid_pairs kvs @ blank_lines n)"

definition laid_out :: "layout_section list \<Rightarrow> string" where
  "laid_out t = concat (map laid_section t)"

definition bare_section :: "layout_section \<Rightarrow> string \<times> key_values" where
  "bare_section sec = (case sec of (name, kvs, n) \<Rightarrow> (name, map snd kvs))"

lemma laid_simps [simp]:
  "laid_pairs [] = []" "laid_pairs ((n, p) # kvs) = blank_lines n @ render_pair p @ laid_pairs kvs"
  "laid_out [] = []" "laid_out (sec # t) = laid_section sec @ laid_out t"
  by (simp_all add: laid_pairs_def laid_out_def)

lemma bare_section_eq: "bare_section (name, kvs, n) = (name, map snd kvs)"
  by (simp add: bare_section_def)

lemma blank_no_equals: "CHR ''='' \<notin> set (blank_lines n)" "CHR ''['' \<notin> set (blank_lines n)"
  by (auto simp: blank_lines_def newline_def)

lemma search_past:
  assumes "c \<notin> set x"
  shows "search_from c (pre @ x @ y) (length pre) = search_from c (pre @ x @ y) (length (pre @ x))"
proof -
  have "takeWhile (\<lambda>a. a \<noteq> c) (x @ y) = x @ takeWhile (\<lambda>a. a \<noteq> c) y"
    using assms by (induction x) auto
  then show ?thesis by (simp add: search_from_def)
qed

lemma pairs_loop_pair:
  assumes "newline \<notin> set k" "CHR ''='' \<notin> set k" "newline \<notin> set v" and pre: "pre = q @ [newline]"
    and s: "s = pre @ k @ CHR ''='' # v @ newline # rest" and "length pre + length k < stop"
  shows "pairs_loop s stop (search_from (CHR ''='') s (length pre)) =
    (k, v) # pairs_loop s stop (search_from (CHR ''='') s (length (pre @ k @ CHR ''='' # v @ [newline])))"
proof -
  let ?kv = "length pre + length k"
  have eq: "search_from (CHR ''='') s (length pre) = ?kv"
    using assms(2) s by (rule search_found) simp
  have nl: "search_from newline s (Suc ?kv) = Suc ?kv + length v"
    using search_found [of newline v s "pre @ k @ [CHR ''='']" rest] assms(3) s by simp
  have key: "substr s (length pre) (length k) = k"
    unfolding s by (rule substr_append) simp_all
  have start: "line_start s ?kv = length pre"
    unfolding s pre by (rule line_start_found [OF assms(1)])
  have val: "substr s (Suc ?kv) (length v) = v"
    using substr_append [of _ "pre @ k @ [CHR ''='']" "length v" v "newline # rest"] s by simp
  have inside: "Suc ?kv + length v < length s" by (simp add: s)
  have after: "Suc (Suc ?kv + length v) = length (pre @ k @ CHR ''='' # v @ [newline])" by simp
  show ?thesis
    unfolding eq pairs_loop.simps [of s stop ?kv] if_P [OF assms(6)] Let_def nl start if_P [OF inside] after
    using key val by simp
qed

lemma pairs_loop_laid:
  "list_all (pair_ok \<circ> snd) kvs \<Longrightarrow> s = (q @ [newline]) @ laid_pairs kvs @ blank_lines m @ post \<Longrightarrow>
     stop = length ((q @ [newline]) @ laid_pairs kvs @ blank_lines m) \<Longrightarrow>
     pairs_loop s stop (search_from (CHR ''='') s (length (q @ [newline]))) = map snd kvs"
proof (induction kvs arbitrary: q)
  case Nil
  have "search_from (CHR ''='') s (length (q @ [newline])) =
      search_from (CHR ''='') s (length ((q @ [newline]) @ blank_lines m))"
    using search_past [OF blank_no_equals(1), of "q @ [newline]" m post] Nil.prems(2) by simp
  then have "stop \<le> search_from (CHR ''='') s (length (q @ [newline]))"
    using search_from_ge [of stop "CHR ''=''" s] Nil.prems(3) by simp
  then show ?case by (subst pairs_loop.simps) simp
next
  case (Cons kv kvs)
  obtain n k v where kv: "kv = (n, k, v)" by (cases kv)
  have ok: "newline \<notin> set k" "CHR ''='' \<notin> set k" "newline \<notin> set v"
    using Cons.prems(1) by (simp_all add: kv pair_ok_def)
  define rest where "rest = laid_pairs kvs @ blank_lines m @ post"
  define pre where "pre = (q @ [newline]) @ blank_lines n"
  define q' where "q' = pre @ k @ CHR ''='' # v"
  have s: "s = pre @ k @ CHR ''='' # v @ newline # rest"
    using Cons.prems(2) by (simp add: kv render_pair_def rest_def pre_def)
  have past: "search_from (CHR ''='') s (length (q @ [newline])) = search_from (CHR ''='') s (length pre)"
    using search_past [OF blank_no_equals(1), of "q @ [newline]" n "k @ CHR ''='' # v @ newline # rest"]
    by (simp add: s pre_def)
  have pre: "pre = (q @ blank_lines n) @ [newline]"
    by (simp add: pre_def blank_lines_def replicate_append_same)
  have "pairs_loop s stop (search_from (CHR ''='') s (length pre)) =
      (k, v) # pairs_loop s stop (search_from (CHR ''='') s (length (pre @ k @ CHR ''='' # v @ [newline])))"
    using ok pre s by (rule pairs_loop_pair) (simp add: Cons.prems(3) kv render_pair_def pre_def)
  also have "pairs_loop s stop (search_from (CHR ''='') s (length (pre @ k @ CHR ''='' # v @ [newline]))) = map snd kvs"
    using Cons.IH [of q'] Cons.prems(1,3) by (simp add: s q'_def rest_def kv render_pair_def pre_def)
  finally show ?case unfolding past kv by simp
qed

lemma laid_first: "t \<noteq> [] \<Longrightarrow> \<exists>y. laid_out t = CHR ''['' # y"
  by (cases t) (auto simp: laid_section_def)

lemma laid_pairs_no_bracket: "list_all (pair_ok \<circ> snd) kvs \<Longrightarrow> CHR ''['' \<notin> set (laid_pairs kvs)"
  by (induction kvs) (auto simp: render_pair_def pair_ok_def newline_def blank_lines_def)

lemma search_laid_section:
  assumes "CHR ''['' \<notin> set x" and "s = pre @ x @ laid_out t"
  shows "search_from (CHR ''['') s (length pre) = length (pre @ x)"
proof (cases "t = []")
  case True
  then show ?thesis using assms search_none [of "CHR ''[''" x pre] by simp
next
  case False
  then obtain y where "laid_out t = CHR ''['' # y" using laid_first by blast
  then show ?thesis using assms by (simp add: search_found [of _ x _ pre y])
qed

lemma sections_loop_laid:
  "list_all (section_ok \<circ> bare_section) t \<Longrightarrow> s = pre @ laid_out t \<Longrightarrow>
     sections_loop s (length pre) acc = Some (fold (\<lambda>(n, kvs). AList.update n kvs) (map bare_section t) acc)"
proof (induction t arbitrary: pre acc)
  case Nil
  then show ?case by (subst sections_loop.simps) simp
next
  case (Cons sec t)
  obtain name kvs m where sec: "sec = (name, kvs, m)" by (cases sec)
  have ok: "CHR ''['' \<notin> set name" "CHR '']'' \<notin> set name" "kvs \<noteq> []" "list_all (pair_ok \<circ> snd) kvs"
    using Cons.prems(1) by (simp_all add: sec section_ok_def bare_section_def list.pred_map)
  define pre1 where "pre1 = pre @ [CHR ''['']"
  define q where "q = pre1 @ name @ [CHR '']'']"
  define pre2 where "pre2 = (q @ [newline]) @ laid_pairs kvs @ blank_lines m"
  have s: "s = pre1 @ name @ CHR '']'' # newline # laid_pairs kvs @ blank_lines m @ laid_out t"
    and s2: "s = (q @ [newline]) @ laid_pairs kvs @ blank_lines m @ laid_out t" and s3: "s = pre2 @ laid_out t"
    using Cons.prems(2) by (simp_all add: sec laid_section_def pre1_def q_def pre2_def)
  have p1: "Suc (length pre) = length pre1" by (simp add: pre1_def)
  have close: "search_from (CHR '']'') s (length pre1) = length pre1 + length name"
    using ok(2) s by (rule search_found) simp
  have name: "substr s (length pre1) (length pre1 + length name - length pre1) = name"
    unfolding s by (rule substr_append) simp_all
  have q: "Suc (length pre1 + length name) = length q" by (simp add: q_def)
  have kv: "search_from (CHR ''='') s (length q) = search_from (CHR ''='') s (length (q @ [newline]))"
    using search_past [of "CHR ''=''" "[newline]" q "laid_pairs kvs @ blank_lines m @ laid_out t"] s2
    by (simp add: newline_def)
  have open': "search_from (CHR ''['') s (length pre1) = length pre2"
    using search_laid_section [of "name @ CHR '']'' # newline # laid_pairs kvs @ blank_lines m" s pre1 t] ok(1)
      laid_pairs_no_bracket [OF ok(4)] blank_no_equals(2) s
    by (simp add: newline_def pre2_def q_def)
  have pairs: "pairs_loop s (length pre2) (search_from (CHR ''='') s (length (q @ [newline]))) = map snd kvs"
    using ok(4) s2 by (rule pairs_loop_laid) (simp add: pre2_def)
  have inside: "\<not> length pre2 < search_from (CHR ''='') s (length (q @ [newline]))"
  proof
    assume "length pre2 < search_from (CHR ''='') s (length (q @ [newline]))"
    then have "pairs_loop s (length pre2) (search_from (CHR ''='') s (length (q @ [newline]))) = []"
      by (subst pairs_loop.simps) simp
    with pairs ok(3) show False by simp
  qed
  have not_end: "\<not> length s \<le> length pre" "\<not> length s \<le> length pre1 + length name"
    by (simp_all add: s pre1_def)
  have IH: "sections_loop s (length pre2) (AList.update name (map snd kvs) acc) =
      Some (fold (\<lambda>(n, kvs). AList.update n kvs) (map bare_section t) (AList.update name (map snd kvs) acc))"
    using Cons.prems(1) s3 by (intro Cons.IH) simp_all
  show ?case
    unfolding sections_loop.simps [of s "length pre" acc] p1 close open' Let_def q kv name pairs
      if_not_P [OF not_end(1)] if_not_P [OF not_end(2)] if_not_P [OF inside] IH
    by (simp add: sec bare_section_eq)
qed

lemma fold_bare:
  assumes "distinct (map fst t)"
  shows "fold (\<lambda>(n, kvs). AList.update n kvs) (map bare_section t) [] = map bare_section t"
proof -
  have k: "keys (map bare_section t) = map fst t"
    by (induction t) (simp_all add: bare_section_def split: prod.split)
  have "distinct (keys ([] @ map bare_section t))"
    unfolding append_Nil k by (rule assms)
  from fold_update_distinct [OF this] show ?thesis by simp
qed

lemma fillTable_laid:
  assumes "list_all (section_ok \<circ> bare_section) t" and "distinct (map fst t)"
  shows "fillTable (laid_out t) = Some (t \<noteq> [], map bare_section t)"
proof -
  have "search_from (CHR ''['') (laid_out t) 0 = 0"
    using search_laid_section [of "[]" "laid_out t" "[]" t] by simp
  then show ?thesis
    using sections_loop_laid [OF assms(1), of "laid_out t" "[]" "[]"]
    by (simp add: fillTable_def fold_bare [OF assms(2)])
qed

subsection \<open>Loops over the elements\<close>

lemma find_text_length: "find_text sep s = Some n \<Longrightarrow> n + length sep \<le> length s"
proof (induction sep s arbitrary: n rule: find_text.induct)
  case (1 sep)
  then show ?case by (simp split: if_splits)
next
  case (2 sep c cs)
  show ?case
  proof (cases "take (length sep) (c # cs) = sep")
    case True
    then have "length sep \<le> length (c # cs)" by (metis length_take min.absorb_iff1 min.commute)
    then show ?thesis using 2(2) True by simp
  next
    case False
    then show ?thesis using 2 by auto
  qed
qed

lemma bm_searcher_moves:
  assumes "sep \<noteq> []" and "start < length s" and "bm_searcher sep s start = (a, b)"
  shows "start < b" "b \<le> length s"
  using assms find_text_length [of sep "drop start s"] by (auto simp: bm_searcher_def split: option.splits)

text \<open>
  With a separator the loop returns, whatever is converted and whatever the elements go into; without
  one it never returns from a value that is not empty.
\<close>

theorem collection_returns:
  assumes "sep \<noteq> []"
  shows "\<exists>r. collection_for convert dflt ins sep sect k out b = Some r"
proof -
  have "\<exists>r. separated_loop convert dflt ins sep s start res out = Some r" for s start res out
  proof (induction "length s - start" arbitrary: start res out rule: less_induct)
    case less
    show ?case
    proof (cases "start \<ge> length s")
      case True
      then show ?thesis by (subst separated_loop.simps) simp
    next
      case False
      obtain a a' where m: "bm_searcher sep s start = (a, a')" by (metis surj_pair)
      obtain ok v where c: "convert (substr s start (a - start)) dflt = (ok, v)" by (metis surj_pair)
      have "length s - a' < length s - start"
        using False bm_searcher_moves [OF assms _ m] by simp
      then have "\<exists>r. separated_loop convert dflt ins sep s a' (ok \<or> res) (if ok then ins out v else out) = Some r"
        by (rule less)
      then show ?thesis using False m c by (subst separated_loop.simps) simp
    qed
  qed
  then show ?thesis
    unfolding collection_for_def by (cases "findValueInTable sect k b") (simp_all only: option.case, blast)
qed

theorem collection_returns_witness:
  "\<exists>r. collection_for convert_string '''' push_end DEFAULT_SEP ''A'' ''B'' []
    \<lparr>file_content = '''', reader_stream = None, section_tab = [(''A'', [(''B'', ''x y'')])]\<rparr> = Some r"
  by (rule collection_returns) (simp add: DEFAULT_SEP_def)

lemma find_empty_text: "find_text [] s = Some 0"
  by (cases s) simp_all

lemma empty_separator_loops:
  assumes "separated_loop convert dflt ins sep s start res out = Some r"
  shows "sep = [] \<longrightarrow> length s \<le> start"
proof (rule separated_loop.raw_induct
    [where P = "\<lambda>convert dflt ins sep s start res out r. sep = [] \<longrightarrow> length s \<le> start", OF _ assms])
  fix loop convert dflt ins sep s start res out r
  assume IH: "\<And>convert dflt ins sep s start res out r.
      loop convert dflt ins sep s start res out = Some r \<Longrightarrow> sep = [] \<longrightarrow> length s \<le> start"
    and "(if length s \<le> start then Some (res, out)
      else case bm_searcher sep s start of (substr_end, after_substr_end) \<Rightarrow>
        case convert (substr s start (substr_end - start)) dflt of (converted, val_element) \<Rightarrow>
          loop convert dflt ins sep s after_substr_end (converted \<or> res)
            (if converted then ins out val_element else out)) = Some r"
  then show "sep = [] \<longrightarrow> length s \<le> start"
    by (auto simp: bm_searcher_def find_empty_text split: if_splits prod.splits dest: IH)
qed

theorem empty_separator_never_returns:
  assumes "findValueInTable sect k b = Some s" and "s \<noteq> []"
  shows "collection_for convert dflt ins [] sect k out b = None"
proof (cases "separated_loop convert dflt ins [] s 0 False out")
  case None
  then show ?thesis by (simp add: collection_for_def assms(1))
next
  case (Some r)
  then show ?thesis using empty_separator_loops assms(2) by fastforce
qed

text \<open>The loop over a separator of one character, into a sequence, is the loop with the character.\<close>

lemma find_character:
  "find_text [c] t = (if c \<in> set t then Some (length (takeWhile (\<lambda>x. x \<noteq> c) t)) else None)"
  by (induction t) auto

lemma takeWhile_member: "c \<in> set t \<Longrightarrow> length (takeWhile (\<lambda>x. x \<noteq> c) t) < length t"
  by (induction t) auto

lemma search_char:
  assumes "start \<le> length s"
  shows "bm_searcher [c] s start =
    (search_from c s start, if search_from c s start < length s then Suc (search_from c s start) else length s)"
proof (cases "c \<in> set (drop start s)")
  case True
  then show ?thesis
    using takeWhile_member [OF True] by (auto simp: bm_searcher_def search_from_def find_character)
next
  case False
  then have "takeWhile (\<lambda>x. x \<noteq> c) (drop start s) = drop start s"
    by (metis (mono_tags, lifting) takeWhile_eq_all_conv)
  then have "length (takeWhile (\<lambda>x. x \<noteq> c) (drop start s)) = length s - start"
    by (metis length_drop)
  then show ?thesis
    using False assms by (simp add: bm_searcher_def search_from_def find_character)
qed

theorem one_character_separator:
  "collection_for convert dflt push_end [c] sect k out b = Some (collectionFor convert dflt c sect k out b)"
proof -
  have "separated_loop convert dflt push_end [c] s start res out' =
      Some (collection_loop convert dflt c s start (res, out'))" for s start res out'
  proof (induction "length s - start" arbitrary: start res out' rule: less_induct)
    case less
    show ?case
    proof (cases "start \<ge> length s")
      case True
      then show ?thesis by (subst separated_loop.simps, subst collection_loop.simps) simp
    next
      case False
      define e where "e = search_from c s start"
      define a where "a = (if e < length s then Suc e else e)"
      have ge: "start \<le> e" unfolding e_def by (rule search_from_ge)
      have le: "e \<le> length s"
        using False length_takeWhile_le [of "\<lambda>x. x \<noteq> c" "drop start s"] by (simp add: e_def search_from_def)
      have m: "bm_searcher [c] s start = (e, a)"
        using search_char [of start s c] False le by (auto simp: e_def a_def)
      obtain ok v where conv: "convert (substr s start (e - start)) dflt = (ok, v)" by (metis surj_pair)
      have "length s - a < length s - start" using False ge le by (auto simp: a_def)
      then have "separated_loop convert dflt push_end [c] s a (ok \<or> res) (if ok then push_end out' v else out') =
          Some (collection_loop convert dflt c s a (ok \<or> res, if ok then push_end out' v else out'))"
        by (rule less)
      then show ?thesis
        using False m conv
        by (subst separated_loop.simps, subst collection_loop.simps)
          (simp add: e_def [symmetric] a_def [symmetric] push_end_def Let_def)
    qed
  qed
  then show ?thesis
    by (cases "findValueInTable sect k b") (simp_all add: collection_for_def collectionFor_def)
qed


text \<open>
  A collection that was printed with a separator is read back, when no element has the separator's
  first character in it and the last one is not empty (an empty text after the last separator is not
  an element).
\<close>

fun separated :: "string \<Rightarrow> string list \<Rightarrow> string" where
  "separated sep [] = []"
| "separated sep [x] = x"
| "separated sep (x # y # xs) = x @ sep @ separated sep (y # xs)"

lemma find_text_skip:
  assumes "sep \<noteq> []" and "hd sep \<notin> set x"
  shows "find_text sep (x @ sep @ y) = Some (length x)" "find_text sep x = None"
proof -
  obtain c cs where sep: "sep = c # cs" using assms(1) by (cases sep) auto
  show "find_text sep (x @ sep @ y) = Some (length x)"
    using assms(2) by (induction x) (auto simp: sep)
  show "find_text sep x = None"
    using assms(2) by (induction x) (auto simp: sep)
qed

theorem collection_round_trip:
  assumes "sep \<noteq> []" and "\<forall>x \<in> set xs. hd sep \<notin> set x" and "xs \<noteq> []" and "last xs \<noteq> []"
    and "findValueInTable sect k b = Some (separated sep xs)"
  shows "collection_for convert_string '''' push_end sep sect k [] b = Some (True, xs)"
proof -
  have "separated_loop convert_string [] push_end sep (pre @ separated sep xs) (length pre) res out =
      Some (True, out @ xs)" for pre res out
    using assms(2-4)
  proof (induction xs arbitrary: pre res out)
    case Nil
    then show ?case by simp
  next
    case step: (Cons x xs)
    have here: "hd sep \<notin> set x" using step.prems(1) by simp
    show ?case
    proof (cases xs)
      case Nil
      then have "x \<noteq> []" using step.prems(3) by simp
      moreover have "bm_searcher sep (pre @ x) (length pre) = (length (pre @ x), length (pre @ x))"
        using find_text_skip(2) [OF assms(1) here] by (simp add: bm_searcher_def)
      ultimately show ?thesis
        using Nil by (subst separated_loop.simps, simp add: substr_def convert_string_def push_end_def)
          (subst separated_loop.simps, simp)
    next
      case (Cons y ys)
      let ?rest = "separated sep xs"
      have s: "pre @ separated sep (x # xs) = pre @ x @ sep @ ?rest" by (simp add: Cons)
      have m: "bm_searcher sep (pre @ x @ sep @ ?rest) (length pre) =
          (length pre + length x, length (pre @ x @ sep))"
        using find_text_skip(1) [OF assms(1) here, of ?rest] by (simp add: bm_searcher_def)
      have IH: "separated_loop convert_string [] push_end sep ((pre @ x @ sep) @ ?rest) (length (pre @ x @ sep))
          True (out @ [x]) = Some (True, (out @ [x]) @ xs)"
        using step.prems by (intro step.IH) (simp_all add: Cons)
      have "\<not> length (pre @ x @ sep @ ?rest) \<le> length pre" using assms(1) by simp
      then show ?thesis
        using IH unfolding s
        by (subst separated_loop.simps) (simp add: m substr_def convert_string_def push_end_def)
    qed
  qed
  from this [of "[]" False "[]"] show ?thesis
    by (simp add: collection_for_def assms(5))
qed

theorem collection_round_trip_witness:
  "collection_for convert_string '''' push_end '', '' ''A'' ''B'' []
    \<lparr>file_content = '''', reader_stream = None, section_tab = [(''A'', [(''B'', ''x, y, z'')])]\<rparr> =
   Some (True, [''x'', ''y'', ''z''])"
  by (rule collection_round_trip) (simp_all add: findValueInTable_def)


subsection \<open>Properties of the program\<close>

text \<open>Blank lines change nothing: a file laid out with them gives the table of its pairs.\<close>

theorem blank_lines_ignored:
  assumes "list_all (section_ok \<circ> bare_section) t" and "distinct (map fst t)"
  shows "fillTable (laid_out t) = fillTable (render (map bare_section t))"
proof -
  have ok: "list_all section_ok (map bare_section t)" using assms(1) by (simp add: list.pred_map)
  have "search_from (CHR ''['') (render (map bare_section t)) 0 = 0"
    using search_next_section [of "[]" "render (map bare_section t)" "[]" "map bare_section t"] by simp
  then have "fillTable (render (map bare_section t)) = Some (t \<noteq> [], map bare_section t)"
    using sections_loop_render [OF ok, of "render (map bare_section t)" "[]" "[]"]
    by (simp add: fillTable_def fold_bare [OF assms(2)])
  then show ?thesis using fillTable_laid [OF assms] by simp
qed

theorem blank_lines_ignored_witness:
  "fillTable (laid_out [(''A'', [(2, ''x'', ''1''), (1, ''y'', ''2'')], 3)]) = fillTable (render [(''A'', [(''x'', ''1''), (''y'', ''2'')])])"
  using blank_lines_ignored [of "[(''A'', [(2, ''x'', ''1''), (1, ''y'', ''2'')], 3)]"]
  by (simp add: section_ok_def bare_section_def pair_ok_def newline_def)

text \<open>What the program prints of the repository's example.\<close>

definition example_layout :: "layout_section list" where
  "example_layout =
    [(''CONNECTION_DETAILS'',
      [(0, ''TYPE'', ''Server''), (1, ''DEVICE_TYPE'', ''Socket''), (0, ''SOCKET_DOMAIN'', ''ipv4''),
       (1, ''SOCKET_TYPE'', ''Stream''), (1, ''HOST'', ''localhost''), (0, ''SERVICE'', ''55123''),
       (1, ''PATHNAME'', ''/home/bfrancu/Documents/Work/myfifo2''),
       (1, ''FRIENDS'', ''ross joey chandler phoebe monica rachel'')], 1),
     (''HONEY_BUNNY'',
      [(0, ''color'', ''blue''), (0, ''food'', ''carrot''), (0, ''age'', ''3''), (0, ''primes'', ''1, 3, 5, 7, 11''),
       (0, ''primates'', ''Caesar'')], 0)]"

lemma example_laid_out: "example_ini = laid_out example_layout"
  by (simp add: example_ini_def example_layout_def laid_section_def render_pair_def blank_lines_def)

lemma example_parsed: "fillTable example_ini = Some (True, map bare_section example_layout)"
  unfolding example_laid_out
  by (subst fillTable_laid)
    (simp_all add: example_layout_def section_ok_def bare_section_def pair_ok_def newline_def)

definition example_files :: "string \<Rightarrow> file_stream option" where
  "example_files f = (if f = config_path then Some \<lparr>stream_rest = example_ini, stream_seekable = True\<rparr> else None)"

lemma example_values:
  assumes "section_tab book = map bare_section example_layout"
  shows "findValueInTable ''HONEY_BUNNY'' ''primes'' book = Some ''1, 3, 5, 7, 11''"
    "findValueInTable ''HONEY_BUNNY'' ''primates'' book = Some ''Caesar''"
    "findValueInTable ''CONNECTION_DETAILS'' ''FRIENDS'' book = Some ''ross joey chandler phoebe monica rachel''"
    "findValueInTable ''CONNECTION_DETAILS'' ''SERVICE'' book = Some ''55123''"
    "findValueInTable ''CONNECTION_DETAILS'' ''HOST'' book = Some ''localhost''"
  by (simp_all add: findValueInTable_def assms example_layout_def bare_section_def)

lemma example_loops:
  "separated_loop (convert_arithmetic INT_MIN INT_MAX) 0 push_end '', '' ''1, 3, 5, 7, 11'' 0 False [] =
    Some (True, [1, 3, 5, 7, 11])"
  "separated_loop convert_string '''' push_end DEFAULT_SEP ''Caesar'' 0 False [] = Some (True, [''Caesar''])"
  "separated_loop convert_string '''' set_insert DEFAULT_SEP ''ross joey chandler phoebe monica rachel'' 0 False {} =
    Some (True, {''ross'', ''joey'', ''chandler'', ''phoebe'', ''monica'', ''rachel''})"
  by code_simp+

lemma service_digits: "convert_arithmetic INT_MIN INT_MAX ''55123'' 0 = (True, 55123)"
  by (simp add: convert_arithmetic_def toArithmetic_into_def from_chars_def is_digit_def digit_of_def INT_MIN_def
      INT_MAX_def Let_def)

theorem config_example:
  "\<exists>tables. config_main example_files = Done [Table tables, Service_is 55123, Host_is ''localhost'',
    Primes [1, 3, 5, 7, 11], Primates [''Caesar''],
    Friends {''ross'', ''joey'', ''chandler'', ''phoebe'', ''monica'', ''rachel''}]"
proof -
  have "\<exists>book. book_init (opened_book example_files) = Some (True, book) \<and>
      section_tab book = map bare_section example_layout"
    by (simp add: opened_book_def book_init_def readIn_def readContent_def streamSize_def example_files_def example_parsed)
  then obtain book where b: "book_init (opened_book example_files) = Some (True, book)"
    and t: "section_tab book = map bare_section example_layout" by blast
  have "config_lines book = Done [Table (book_printTable book), Service_is 55123, Host_is ''localhost'',
      Primes [1, 3, 5, 7, 11], Primates [''Caesar''],
      Friends {''ross'', ''joey'', ''chandler'', ''phoebe'', ''monica'', ''rachel''}]"
    by (simp add: config_lines_def collection_for_def valueFor_def found_or_def convert_string_def
        example_values [OF t] example_loops service_digits
        del: insert_commute)
  then show ?thesis by (simp add: config_main_def b)
qed

end
