(* ===== verification/TestHandler.thy ===== *)
theory TestHandler
  imports ClientEndpoint
begin

text \<open>
  The event handler the driver tries the reactor with (TransportInfra/Reactor/DeviceTestEventHandler.h):
  the event handling policy and the client role over a device, without a dispatcher, and the driver's
  use of it (\<^verbatim>\<open>testReactor\<close> in Driver/main.cpp). Its state is that of an endpoint that
  has no callbacks. \<open>put\<close> is the device's \<^verbatim>\<open>write\<close>.
\<close>

subsection \<open>The handler\<close>

definition DeviceTestEventHandler :: "'w client_endpoint" where
  "DeviceTestEventHandler = TransportEndpoint_state E_AVAILABLE"

definition th_init :: "('a, 'w) device \<Rightarrow> 'w client_endpoint \<Rightarrow> 'w \<Rightarrow> 'w client_endpoint" where
  "th_init d e w = e\<lparr>ce_handle := Some (dv_handle d w)\<rparr>"

definition th_setState :: "connection_state \<Rightarrow> 'w client_endpoint \<Rightarrow> 'w client_endpoint" where
  "th_setState st e = e\<lparr>ce_state := st\<rparr>"

text \<open>The role's operations over this handler's \<^verbatim>\<open>setState\<close>, which tells nobody.\<close>

definition th_connect ::
    "('a, 'w) device \<Rightarrow> 'a \<Rightarrow> bool \<Rightarrow> 'w client_endpoint \<Rightarrow> 'w \<Rightarrow> bool \<times> 'w client_endpoint \<times> 'w" where
  "th_connect d addr non_blocking e w =
     (case dv_connect d addr non_blocking w of (result, w1) \<Rightarrow>
        (result, if non_blocking \<and> result then th_setState E_CONNECTING (e\<lparr>ce_in_progress := True\<rparr>) else e, w1))"

definition th_ProcessOutputEvent :: "'w client_endpoint \<Rightarrow> bool \<times> 'w client_endpoint" where
  "th_ProcessOutputEvent e =
     (True, if ce_state e = E_CONNECTING \<and> ce_in_progress e
            then th_setState E_CONNECTED (e\<lparr>ce_in_progress := False\<rparr>) else e)"

definition th_onErrorEvent :: "('a, 'w) device \<Rightarrow> 'w client_endpoint \<Rightarrow> 'w \<Rightarrow> bool \<times> 'w client_endpoint \<times> 'w" where
  "th_onErrorEvent d e w =
     (if ce_state e = E_CONNECTED then
        (case dv_disconnect d w of (ok, w1) \<Rightarrow>
           (ok, if ok then th_setState E_DISCONNECTED (th_setState E_DISCONNECTING e)
                else th_setState E_DISCONNECTING e, w1))
      else (True, e, w))"

definition th_onInputEvent :: "('a, 'w) device \<Rightarrow> 'w client_endpoint \<Rightarrow> 'w \<Rightarrow> bool \<times> 'w client_endpoint \<times> 'w" where
  "th_onInputEvent d e w =
     (case dv_read d (ce_local_buffer e) w of (size_read, buffer, w1) \<Rightarrow>
        let e1 = e\<lparr>ce_local_buffer := buffer\<rparr>
        in if size_read = - 1 then (case th_onErrorEvent d e1 w1 of (ret, e2, w2) \<Rightarrow> (False, e2, w2))
           else (True, e1\<lparr>ce_local_buffer := []\<rparr>, w1))"

definition th_onDisconnection :: "'w client_endpoint \<Rightarrow> bool \<times> 'w client_endpoint" where
  "th_onDisconnection e = (True, if ce_state e \<noteq> E_DISCONNECTED then th_setState E_DISCONNECTED e else e)"

definition th_onHangupEvent :: "'w client_endpoint \<Rightarrow> bool \<times> 'w client_endpoint" where
  "th_onHangupEvent e = (True, e)"

definition ping :: string where "ping = ''ping'' @ [CHR 0x0A]"

definition th_onWriteAvailable ::
    "(string \<Rightarrow> 'w \<Rightarrow> int \<times> 'w) \<Rightarrow> 'w client_endpoint \<Rightarrow> 'w \<Rightarrow> bool \<times> 'w client_endpoint \<times> 'w" where
  "th_onWriteAvailable put e w =
     (case th_ProcessOutputEvent e of (ok, e1) \<Rightarrow>
        if \<not> ok then (False, e1, w)
        else (True, e1, if ce_state e1 = E_CONNECTED then snd (put ping w) else w))"

definition th_getConnectionState :: "'w client_endpoint \<Rightarrow> nat" where
  "th_getConnectionState e = connection_state_value (ce_state e)"

definition th_handleEvent ::
    "('a, 'w) device \<Rightarrow> (string \<Rightarrow> 'w \<Rightarrow> int \<times> 'w) \<Rightarrow> u64 \<Rightarrow> handle_event \<Rightarrow> 'w client_endpoint \<Rightarrow> 'w \<Rightarrow>
     event_result \<times> 'w client_endpoint \<times> 'w" where
  "th_handleEvent d put sid event e w =
     (if ce_sub_id e \<noteq> sid then (E_RESULT_INVALID_REFERENCE, e, w)
      else case event of
             E_HANDLE_EVENT_ERR \<Rightarrow> event_result_of (th_onErrorEvent d e w)
           | E_HANDLE_EVENT_HUP \<Rightarrow> event_result_of (case th_onHangupEvent e of (ok, e') \<Rightarrow> (ok, e', w))
           | E_HANDLE_EVENT_IN \<Rightarrow> event_result_of (th_onInputEvent d e w)
           | E_HANDLE_EVENT_OUT \<Rightarrow> event_result_of (th_onWriteAvailable put e w)
           | E_HANDLE_EVENT_SHUTDOWN \<Rightarrow> event_result_of (case th_onDisconnection e of (ok, e') \<Rightarrow> (ok, e', w))
           | _ \<Rightarrow> (E_RESULT_METHOD_NOT_IMPLEMENTED, e, w))"

subsection \<open>The driver's test\<close>

text \<open>
  The test up to its endless loop: whether the device connected, whether the handler subscribed, and
  the handler. The reactor it starts before is the listener.
\<close>

definition testReactor ::
    "'w listener \<Rightarrow> (string, 'w) device \<Rightarrow> 'w \<Rightarrow> bool \<times> bool \<times> 'w client_endpoint \<times> 'w" where
  "testReactor l d w =
     (let ev_handler = th_init d DeviceTestEventHandler w;
          events = event_getArray [E_HANDLE_EVENT_OUT, E_HANDLE_EVENT_IN]
      in case th_connect d ''/home/bfrancu/Documents/Work/myfifo2'' True ev_handler w of
           (connected, e1, w1) \<Rightarrow>
             if \<not> connected then (False, False, e1, w1)
             else (case listenerSubscribe l d events (th_init d e1 w1) w1 of
                     (subscribed, e2, w2) \<Rightarrow> (True, subscribed, e2, w2)))"

text \<open>What the reactor then hands to it: writing events.\<close>

fun write_events ::
    "('a, 'w) device \<Rightarrow> (string \<Rightarrow> 'w \<Rightarrow> int \<times> 'w) \<Rightarrow> nat \<Rightarrow> 'w client_endpoint \<times> 'w \<Rightarrow> 'w client_endpoint \<times> 'w" where
  "write_events d put 0 s = s"
| "write_events d put (Suc n) s =
     write_events d put n (snd (th_handleEvent d put (ce_sub_id (fst s)) E_HANDLE_EVENT_OUT (fst s) (snd s)))"

subsection \<open>Properties\<close>

text \<open>
  The handler is an endpoint without callbacks: for every event but that of writing it does to itself
  and to the world what the endpoint does. The answers differ in one place: an endpoint answers that
  an input event it could not read succeeded, the handler that it failed.
\<close>

definition no_callbacks :: "'w client_endpoint \<Rightarrow> bool" where
  "no_callbacks e = (ce_input_cb e = None \<and> ce_disconnected_cb e = None)"

lemma setState_silent: "no_callbacks e \<Longrightarrow> setState st e w = (th_setState st e, w)"
  by (simp add: no_callbacks_def setState_def th_setState_def ProcessDisconnection_def Let_def)

lemma no_callbacks_kept [simp]:
  "no_callbacks (th_setState st e) = no_callbacks e"
  "no_callbacks (e\<lparr>ce_local_buffer := b\<rparr>) = no_callbacks e"
  "no_callbacks (e\<lparr>ce_in_progress := p\<rparr>) = no_callbacks e"
  by (simp_all add: no_callbacks_def th_setState_def)

lemma th_state_simps [simp]: "ce_state (th_setState st e) = st" "ce_in_progress (th_setState st e) = ce_in_progress e"
    "ce_sub_id (th_setState st e) = ce_sub_id e"
  by (simp_all add: th_setState_def)

lemma error_as_endpoint: "no_callbacks e \<Longrightarrow> onErrorEvent d e w = th_onErrorEvent d e w"
  by (simp add: onErrorEvent_def client_ProcessErrorEvent_def client_disconnect_def th_onErrorEvent_def setState_silent
      split: prod.split)

lemma input_as_endpoint:
  assumes "no_callbacks e"
  shows "snd (onInputEvent d e w) = snd (th_onInputEvent d e w)"
  using assms error_as_endpoint [of "e\<lparr>ce_local_buffer := b\<rparr>" d for b]
  by (simp add: onInputEvent_def dispatcher_ProcessInputEvent_def client_ProcessInputEvent_def th_onInputEvent_def
      Let_def no_callbacks_def split: prod.split)

theorem handler_as_endpoint:
  assumes "no_callbacks e" and "event \<noteq> E_HANDLE_EVENT_OUT"
  shows "snd (th_handleEvent d put sid event e w) = snd (endpoint_handleEvent d sid event e w)"
  using assms input_as_endpoint [OF assms(1), of d w]
  by (cases event)
    (auto simp: th_handleEvent_def endpoint_handleEvent_def event_result_of_def error_as_endpoint onHangupEvent_def
      client_ProcessHangupEvent_def th_onHangupEvent_def onDisconnection_def client_ProcessDisconnectionEvent_def
      th_onDisconnection_def setState_silent ProcessDisconnection_def no_callbacks_def split: prod.split)

theorem handler_as_endpoint_witness:
  "snd (th_handleEvent quiet_device (\<lambda>data w. (0, w)) NULL_ID E_HANDLE_EVENT_SHUTDOWN (TransportEndpoint_state E_CONNECTED) []) =
    snd (endpoint_handleEvent quiet_device NULL_ID E_HANDLE_EVENT_SHUTDOWN (TransportEndpoint_state E_CONNECTED) [])"
  by (rule handler_as_endpoint) (simp_all add: no_callbacks_def TransportEndpoint_state_def)

text \<open>
  The first writing event completes a connection and writes; every later one writes again.
\<close>

lemma write_event_connected:
  assumes "ce_state e = E_CONNECTED"
  shows "th_handleEvent d put (ce_sub_id e) E_HANDLE_EVENT_OUT e w = (E_RESULT_SUCCESS, e, snd (put ping w))"
  using assms
  by (simp add: th_handleEvent_def event_result_of_def th_onWriteAvailable_def th_ProcessOutputEvent_def)

lemma write_events_connected:
  "ce_state e = E_CONNECTED \<Longrightarrow> write_events d put n (e, w) = (e, ((\<lambda>w. snd (put ping w)) ^^ n) w)"
  by (induction n arbitrary: w) (simp_all add: write_event_connected funpow_Suc_right del: funpow.simps(2))

theorem handler_pings:
  assumes "ce_state e = E_CONNECTING" and "ce_in_progress e"
  shows "write_events d put (Suc n) (e, w) =
    (e\<lparr>ce_state := E_CONNECTED, ce_in_progress := False\<rparr>, ((\<lambda>w. snd (put ping w)) ^^ Suc n) w)"
proof -
  let ?e = "e\<lparr>ce_state := E_CONNECTED, ce_in_progress := False\<rparr>"
  have "th_handleEvent d put (ce_sub_id e) E_HANDLE_EVENT_OUT e w = (E_RESULT_SUCCESS, ?e, snd (put ping w))"
    using assms
    by (simp add: th_handleEvent_def event_result_of_def th_onWriteAvailable_def th_ProcessOutputEvent_def th_setState_def)
  then show ?thesis
    by (simp add: write_events_connected funpow_Suc_right del: funpow.simps(2))
qed

theorem testReactor_subscribes:
  assumes "testReactor l d w = (connected, subscribed, e, w')" and "dv_connect d addr True w = (True, w1)"
    and "addr = ''/home/bfrancu/Documents/Work/myfifo2''"
    and "l_subscribe l (event_getArray [E_HANDLE_EVENT_OUT, E_HANDLE_EVENT_IN]) (dv_handle d w1) w1 = (sid, w2)" and "sid \<noteq> NULL_ID"
  shows "connected \<and> subscribed \<and> ce_sub_id e = sid \<and> ce_state e = E_CONNECTING \<and> w' = w2 \<and>
    write_events d put (Suc n) (e, w') =
      (e\<lparr>ce_state := E_CONNECTED, ce_in_progress := False\<rparr>, ((\<lambda>w. snd (put ping w)) ^^ Suc n) w2)"
proof -
  have e: "connected" "subscribed" "ce_sub_id e = sid" "ce_state e = E_CONNECTING" "w' = w2" "ce_in_progress e"
    using assms
    by (auto simp: testReactor_def Let_def th_connect_def listenerSubscribe_def th_init_def th_setState_def)
  then show ?thesis using handler_pings [of e d put n w'] by simp
qed


subsection \<open>The generic event handling policy\<close>

text \<open>
  The policy of EventHandlingPolicy.hpp for hosts that know their listener. Its reference to the
  listener has no default value, so no object can be made of it (\<open>None\<close> is what its default
  constructor gives); the operations are what they would do to one.
\<close>

record 'w generic_policy =
  gp_initDone :: bool
  gp_sub_id :: u64
  gp_handle :: "fd option"
  gp_listener :: "'w listener"

definition GenericEventHandlingPolicy :: "'w generic_policy option" where
  "GenericEventHandlingPolicy = None"

definition gp_init :: "'w listener \<Rightarrow> 'w generic_policy \<Rightarrow> bool \<times> 'w generic_policy" where
  "gp_init listener p =
     (if gp_initDone p then (True, p) else (True, p\<lparr>gp_listener := listener, gp_initDone := True\<rparr>))"

definition gp_subscribedToListener :: "'w generic_policy \<Rightarrow> bool" where
  "gp_subscribedToListener p = (NULL_ID \<noteq> gp_sub_id p)"

definition gp_listenerSubscribe ::
    "events_array \<Rightarrow> 'w generic_policy \<Rightarrow> 'w \<Rightarrow> bool \<times> 'w generic_policy \<times> 'w" where
  "gp_listenerSubscribe events p w =
     (if \<not> gp_initDone p then (False, p, w)
      else case gp_handle p of
             None \<Rightarrow> (False, p, w)
           | Some h \<Rightarrow>
               (case l_subscribe (gp_listener p) events h w of
                  (sid, w1) \<Rightarrow> if NULL_ID \<noteq> sid then (True, p\<lparr>gp_sub_id := sid\<rparr>, w1) else (False, p, w1)))"

definition gp_listenerUnsubscribe :: "'w generic_policy \<Rightarrow> 'w \<Rightarrow> bool \<times> 'w generic_policy \<times> 'w" where
  "gp_listenerUnsubscribe p w =
     (if \<not> gp_initDone p then (False, p, w)
      else case l_unsubscribe (gp_listener p) (gp_sub_id p) w of
             (ok, w1) \<Rightarrow> if ok then (True, p\<lparr>gp_sub_id := NULL_ID\<rparr>, w1) else (False, p, w1))"

definition gp_deinit :: "'w generic_policy \<Rightarrow> 'w \<Rightarrow> 'w generic_policy \<times> 'w" where
  "gp_deinit p w = (if gp_subscribedToListener p then snd (gp_listenerUnsubscribe p w) else (p, w))"

definition gp_destroy :: "'w generic_policy \<Rightarrow> 'w \<Rightarrow> 'w" where
  "gp_destroy p w = snd (gp_deinit p w)"

definition gp_handleEvent :: "u64 \<Rightarrow> handle_event \<Rightarrow> 'w generic_policy \<Rightarrow> event_result" where
  "gp_handleEvent sid event p = (if gp_sub_id p \<noteq> sid then E_RESULT_INVALID_REFERENCE else E_RESULT_DEFAULT)"

definition gp_setHandle :: "fd \<Rightarrow> 'w generic_policy \<Rightarrow> 'w generic_policy" where
  "gp_setHandle h p = p\<lparr>gp_handle := Some h\<rparr>"

definition gp_resetHandle :: "'w generic_policy \<Rightarrow> 'w generic_policy" where
  "gp_resetHandle p = p\<lparr>gp_handle := None\<rparr>"

text \<open>
  A policy that would be initialised and given a handle subscribes as an endpoint does, whose
  unsubscription it shares too; one that was not initialised touches nothing.
\<close>

theorem generic_policy_subscribes:
  assumes "gp_initDone p"
  shows "(case gp_listenerSubscribe events (gp_setHandle (dv_handle d w) p) w of (ok, p', w') \<Rightarrow>
      case listenerSubscribe (gp_listener p) d events (e\<lparr>ce_handle := Some (dv_handle d w), ce_sub_id := gp_sub_id p\<rparr>) w of
        (ok2, e', w2) \<Rightarrow> ok = ok2 \<and> w' = w2 \<and> gp_sub_id p' = ce_sub_id e')"
    and "gp_initDone q \<or> gp_listenerSubscribe events q w = (False, q, w) \<and> gp_listenerUnsubscribe q w = (False, q, w)"
  using assms
  by (auto simp: gp_listenerSubscribe_def gp_listenerUnsubscribe_def listenerSubscribe_def gp_setHandle_def split: prod.split)

end
