(* ===== verification/Helpers.thy ===== *)
theory Helpers
  imports TypeLists AddressOrder
begin

text \<open>
  The small parts the others rest on: the older lists of types (UtilitiesInfra/TypeList.hpp), the casts
  of owning pointers (pointer_traits.hpp), default values (default_traits.hpp), numbers in a range
  (randomizer.hpp), a member next to a base (BaseMemberPair.hpp), the test of types for equality
  (utilities.hpp), and the Unix address's comparison, text and move
  (TransportInfra/Devices/Sockets/UnixSocketAddress.h).
\<close>

subsection \<open>The older lists of types\<close>

text \<open>Types and templates have lists of their own; any other type is not a list.\<close>

datatype 't old_list = Typelist "'t list" | TemplateTypelist "'t list" | Other_type

definition old_IsEmpty :: "'t old_list \<Rightarrow> bool" where
  "old_IsEmpty l = (l = Typelist [] \<or> l = TemplateTypelist [])"

definition old_Front :: "'t old_list \<Rightarrow> 't option" where
  "old_Front l =
     (case l of Typelist (x # xs) \<Rightarrow> Some x | TemplateTypelist (x # xs) \<Rightarrow> Some x | _ \<Rightarrow> None)"

definition old_PopFront :: "'t old_list \<Rightarrow> 't old_list option" where
  "old_PopFront l =
     (case l of
        Typelist (x # xs) \<Rightarrow> Some (Typelist xs)
      | TemplateTypelist (x # xs) \<Rightarrow> Some (TemplateTypelist xs)
      | _ \<Rightarrow> None)"

subsection \<open>Owning pointers\<close>

text \<open>The object's address, if there is one, and the deleter. \<open>src\<close> is left behind without its object.\<close>

record ('p, 'd) unique_ptr =
  up_get :: "'p option"
  up_deleter :: 'd

definition up_release :: "('p, 'd) unique_ptr \<Rightarrow> 'p option \<times> ('p, 'd) unique_ptr" where
  "up_release src = (up_get src, src\<lparr>up_get := None\<rparr>)"

text \<open>
  \<open>convert\<close> is the conversion between the deleters, where there is one, and \<open>fresh\<close> a new
  deleter. Types that are not related take no part in the overload resolution.
\<close>

definition static_cast_unique_ptr ::
    "bool \<Rightarrow> ('d \<Rightarrow> 'e) option \<Rightarrow> 'e \<Rightarrow> ('p, 'd) unique_ptr \<Rightarrow> (('p, 'e) unique_ptr \<times> ('p, 'd) unique_ptr) option" where
  "static_cast_unique_ptr related convert fresh src =
     (if \<not> related then None
      else case up_release src of (p, src') \<Rightarrow>
             Some (\<lparr>up_get = p, up_deleter = (case convert of Some f \<Rightarrow> f (up_deleter src') | None \<Rightarrow> fresh)\<rparr>, src'))"

text \<open>\<open>cast\<close> is \<^verbatim>\<open>dynamic_cast\<close> of an object, by its type at run time.\<close>

definition dynamic_cast_unique_ptr ::
    "('p \<Rightarrow> bool) \<Rightarrow> 'e \<Rightarrow> ('p, 'd) unique_ptr \<Rightarrow> ('p, 'e) unique_ptr \<times> ('p, 'd) unique_ptr" where
  "dynamic_cast_unique_ptr cast fresh src =
     (case up_get src of
        Some p \<Rightarrow>
          if cast p then (\<lparr>up_get = Some p, up_deleter = fresh\<rparr>, snd (up_release src))
          else (\<lparr>up_get = None, up_deleter = fresh\<rparr>, src)
      | None \<Rightarrow> (\<lparr>up_get = None, up_deleter = fresh\<rparr>, src))"

subsection \<open>Values\<close>

datatype value_type = Bool_value | Int_value | Size_value | Other_value

text \<open>Of another type it is the value-initialised one, which is zero for a number.\<close>

definition default_value :: "value_type \<Rightarrow> int" where
  "default_value T = (case T of Bool_value \<Rightarrow> 0 | Int_value \<Rightarrow> - 1 | Size_value \<Rightarrow> 0 | Other_value \<Rightarrow> 0)"

text \<open>
  \<open>distribution\<close> is the library's uniform distribution over a range, of a state of the generator
  seeded by the machine; a range whose bounds are the wrong way round is undefined (\<open>None\<close>).
\<close>

definition getRandomNumberInRange :: "(int \<Rightarrow> int \<Rightarrow> 'g \<Rightarrow> int) \<Rightarrow> 'g \<Rightarrow> int \<Rightarrow> int \<Rightarrow> int option" where
  "getRandomNumberInRange distribution generator lower upper =
     (if upper < lower then None else Some (distribution lower upper generator))"

record ('b, 'm) base_member_pair =
  bmp_base :: 'b
  bmp_member :: 'm

definition BaseMemberPair :: "'b \<Rightarrow> 'm \<Rightarrow> ('b, 'm) base_member_pair" where
  "BaseMemberPair base member = \<lparr>bmp_base = base, bmp_member = member\<rparr>"

definition typeEquals :: "'t \<Rightarrow> 't \<Rightarrow> bool" where
  "typeEquals original_type compared_type = (compared_type = original_type)"

subsection \<open>Unix addresses\<close>

definition UnixAddress_eq :: "string \<Rightarrow> string \<Rightarrow> bool" where
  "UnixAddress_eq a b = (a = b)"

definition UnixAddress_less :: "string \<Rightarrow> string \<Rightarrow> bool" where
  "UnixAddress_less a b = string_less a b"

definition UnixAddress_print :: "string \<Rightarrow> string" where
  "UnixAddress_print pathname = ''UnixAddress: pathame = '' @ pathname"

definition unix_print :: "unix_socket_address \<Rightarrow> string" where
  "unix_print s = ''UnixSocketAddress: address = '' @ UnixAddress_print (ux_pathname s)"

definition unix_getAddressLength :: nat where "unix_getAddressLength = 110"

text \<open>
  The member comparison takes two objects that are not constant; any other pair finds only the free
  operator, which is declared and defined nowhere (\<open>None\<close>).
\<close>

definition unix_less :: "bool \<Rightarrow> bool \<Rightarrow> unix_socket_address \<Rightarrow> unix_socket_address \<Rightarrow> bool option" where
  "unix_less const_left const_right a b =
     (if const_left \<or> const_right then None else Some (UnixAddress_less (ux_pathname a) (ux_pathname b)))"

text \<open>
  A move takes the structure away: what is left has a path of any text and no structure, and only
  its text can be asked for. Every other operation looks into the structure (\<open>None\<close>).
\<close>

datatype unix_object = With_structure unix_socket_address | Without_structure string

definition unix_move :: "string \<Rightarrow> unix_socket_address \<Rightarrow> unix_object \<times> unix_object" where
  "unix_move left_path other = (With_structure other, Without_structure left_path)"

definition object_toString :: "unix_object \<Rightarrow> string" where
  "object_toString u = (case u of With_structure s \<Rightarrow> unix_toString s | Without_structure p \<Rightarrow> p)"

definition object_getAddress :: "unix_object \<Rightarrow> string option" where
  "object_getAddress u = (case u of With_structure s \<Rightarrow> Some (unix_getAddress s) | Without_structure p \<Rightarrow> None)"

definition object_setAddress :: "string \<Rightarrow> unix_object \<Rightarrow> (bool \<times> unix_object) option" where
  "object_setAddress pathname u =
     (case u of
        With_structure s \<Rightarrow> map_option (\<lambda>(ok, s'). (ok, With_structure s')) (unix_setAddress pathname s)
      | Without_structure p \<Rightarrow> if pathname = [] then Some (False, u) else None)"

definition object_assign :: "unix_object \<Rightarrow> unix_object \<Rightarrow> unix_object option" where
  "object_assign this other =
     (case (this, other) of
        (With_structure a, With_structure b) \<Rightarrow> Some (With_structure (unix_assign a b))
      | _ \<Rightarrow> None)"

definition object_move_assign :: "string \<Rightarrow> unix_object \<Rightarrow> unix_object \<Rightarrow> unix_object \<times> unix_object" where
  "object_move_assign left_path this other =
     (case other of
        With_structure s \<Rightarrow> (With_structure s, Without_structure left_path)
      | Without_structure p \<Rightarrow> (Without_structure p, Without_structure left_path))"

subsection \<open>Properties\<close>

text \<open>The older list agrees with the newer one where both are defined; nothing can be put into it.\<close>

definition old_elements :: "'t old_list \<Rightarrow> 't list" where
  "old_elements l = (case l of Typelist xs \<Rightarrow> xs | TemplateTypelist xs \<Rightarrow> xs | Other_type \<Rightarrow> [])"

theorem old_lists_agree:
  assumes "l \<noteq> Other_type"
  shows "old_IsEmpty l = (old_elements l = []) \<and> old_Front l = front (old_elements l) \<and>
    map_option old_elements (old_PopFront l) = pop_front (old_elements l)"
  using assms
  by (cases l) (auto simp: old_IsEmpty_def old_Front_def old_PopFront_def old_elements_def front_def split: list.split)

text \<open>
  A cast has one owner: the object is in exactly one of the two pointers after it, and nothing is lost.
\<close>

definition owners :: "('p, 'd) unique_ptr \<Rightarrow> ('p, 'e) unique_ptr \<Rightarrow> 'p list" where
  "owners a b = (case up_get a of None \<Rightarrow> [] | Some p \<Rightarrow> [p]) @ (case up_get b of None \<Rightarrow> [] | Some p \<Rightarrow> [p])"

theorem casts_keep_one_owner:
  assumes "dynamic_cast_unique_ptr cast fresh src = (dest, src')"
  shows "owners dest src' = (case up_get src of None \<Rightarrow> [] | Some p \<Rightarrow> [p]) \<and>
    (up_get dest \<noteq> None) = (\<exists>p. up_get src = Some p \<and> cast p) \<and>
    (static_cast_unique_ptr related convert fresh' src = Some (dest2, src2) \<longrightarrow>
       related \<and> up_get src2 = None \<and> up_get dest2 = up_get src)"
  using assms
  by (auto simp: dynamic_cast_unique_ptr_def static_cast_unique_ptr_def up_release_def owners_def
      split: option.splits if_splits)

text \<open>
  An address that was moved from cannot be set, read or assigned any more, only moved into; its
  texts compare as the paths do.
\<close>

theorem moved_unix_address:
  assumes "unix_move left_path s = (u, v)" and "pathname \<noteq> []"
  shows "object_getAddress u = Some (ux_sun_path s) \<and> object_getAddress v = None \<and> object_setAddress pathname v = None \<and>
    object_assign v u = None \<and> object_assign u v = None \<and> fst (object_move_assign p v u) = u"
  using assms
  by (auto simp: unix_move_def object_getAddress_def object_setAddress_def object_assign_def object_move_assign_def
      unix_getAddress_def)

theorem unix_order:
  "unix_less False False a b = Some True \<Longrightarrow> unix_less False False b c = Some True \<Longrightarrow>
     unix_less False False a c = Some True \<and> unix_less False False a a = Some False"
  using string_less_trans by (auto simp: unix_less_def UnixAddress_less_def)

end
