(* ===== verification/Spec2Isabelle.thy ===== *)
theory Spec2Isabelle
  imports LookupTable SharedQueue EventMasks EventHandler ReactorProperties FileStatus LinuxIO ResourceHandler
    Configuration TypeLists ServerEndpoint Connection Addresses Observers SocketDevices FileDevices IOPolicies
    DynamicEndpoint MovedReactors OlderConnector ReactorClients ReactorServers
    ReactorThreads EdgeTriggered AddressOrder SharedContainers FileReport DynamicServices
    MetaTests TransportTests Advertisers DriverTests ConfigurationProgram TestHandler Helpers
begin

text \<open>
  IPCInfra: a verification library.

  IPCInfra (C++17, Linux) lets programs talk over sockets and named pipes without naming the
  device: a reactor waits for events of descriptors and calls the handlers subscribed to them,
  transport endpoints put a device together with policies for reading, writing, connecting and
  accepting, connectors and acceptors bring endpoints to life, and a configuration file names the
  device to use. The types are put together at compile time from lists of templates. All paths
  below are under src/.

  \<^bold>\<open>How the code becomes definitions.\<close> An object is a record of its members or a value of
  the type that matters, a member function a function of that state that gives its result and the
  new state. Undefined behaviour, a null pointer that is followed and a wait that never ends are
  \<open>None\<close> or a constructor of their own (\<open>Undef\<close>, \<open>Throws\<close>, \<open>Blocked\<close>). Integers
  whose width matters are words. Output to \<^verbatim>\<open>std::cout\<close> is left out. What is not in the
  repository is a parameter: the kernel's calls are a record of functions on a kernel state of
  any type (\<open>system\<close>, \<open>fd_kernel\<close>, \<open>socket_kernel\<close>, \<open>pipe_system\<close>), the answers a loop gets from the
  kernel are a script (a list) it consumes, callbacks a user registers are functions on a world of
  any type, and \<^verbatim>\<open>std::hash\<close>, \<^verbatim>\<open>std::stable_sort\<close> under a comparator that is no
  ordering, \<^verbatim>\<open>inet_pton\<close> and \<^verbatim>\<open>inet_ntop\<close> are arguments. A compile-time type or
  template is a value; a specialisation that does not exist is \<open>None\<close>.

  \<^bold>\<open>Infrastructure (UtilitiesInfra).\<close>
  Prelude has the names of the machine integers and lemmas on association lists.
  SharedState models the mutexes of the shared containers and shows that their assignment
  operators leave both objects locked for ever; SharedContainers has the table over a vector and
  the queue as objects of that kind. LookupTable models both specialisations of
  \<^verbatim>\<open>shared_lookup_table\<close> (shared_lookup_table.hpp) and shows that they refine finite maps;
  the locale \<open>lookup_store\<close> states what their clients rely on and is interpreted for both
  (\<open>um\<close>, \<open>vec\<close>). SharedQueue (shared_queue.hpp) runs producers and consumers
  interleaved; its locale \<open>fifo\<close> is interpreted as \<open>sq\<close>. Observers models observable
  values and their publishers (Observable.hpp, ObservableStatePublisher.hpp and the advertiser
  policies). TypeLists and TemplateLists model the compile-time lists (typelist.hpp,
  template_typelist.hpp, non_typelist.hpp), the dispatch of a run-time tag (runtime_dispatcher.hpp)
  and the initialisation of a host's policies (policies_initializer.hpp).

  \<^bold>\<open>The reactor (TransportInfra/Reactor).\<close>
  EventMasks models the events and their epoll masks (EventTypes.h, EpollDemultiplexer.cpp,
  EpollDemux.cpp), EventHandler the wrappers that own a handler's bridge, over an explicit heap
  (EventHandlerSubscriber.h), Demultiplexer the epoll demultiplexer and the contract \<open>demux_contract\<close> the
  reactor asks of its policy (interpreted as \<open>epoll\<close>), Reactor the reactor itself
  (Reactor.hpp): subscribing, unsubscribing, the event thread and the cleaning of expired
  subscribers. ReactorProperties joins them: any sequence of calls is defined and keeps the
  invariant, what a subscription, an unsubscription and a notification do, and the sequences that
  lose a subscriber. MovedReactors models the move operations of the reactor and the demultiplexer
  with every mutex they touch, over stores of objects. ReactorThreads interleaves the monitoring
  thread, the event thread and the users' calls of a started reactor as a step relation: the order
  of the notifications, what a request to stop still works on, and that it is followed.

  \<^bold>\<open>Files and devices.\<close>
  FileStatus (IOInfra/FileStatusFlags, FilePermissions, FileInfo) and FileReport (what FileInfo
  prints), LinuxIO
  (UtilitiesInfra/LinuxUtils: paths, files and the loops around \<^verbatim>\<open>read\<close>, \<^verbatim>\<open>write\<close>,
  \<^verbatim>\<open>recv\<close>), ResourceHandler (the owner of a descriptor, Policies/UnixResourceHandler).
  SocketDevices (Devices/Sockets/SocketDevice.hpp with AcceptorPolicy.hpp and
  ConnectionPolicy.hpp; an inductive step relation for the life of a socket), NamedPipes
  (Devices/Pipes), FileDevices (FileDevice.hpp, TemporaryFileDevice.hpp, ProxyDevice.hpp,
  ResourceStatusPolicy.hpp, SeekableOperations.hpp), IOPolicies (StreamIOPolicy.hpp,
  DatagramIOPolicy.hpp, FifoIOPolicy.hpp, IOPolicy.hpp), Addresses (HostAddress.hpp,
  InetSocketAddress.hpp, UnixSocketAddress.cpp) and AddressOrder (the rest of the hosts, and the
  order of addresses as an instance of \<open>linorder\<close>). Configuration models the parser and the book of
  Configuration/ and the reader of device types; DeviceAddresses the factories that make an
  address from it (DeviceAddressFactory.hpp).

  \<^bold>\<open>Endpoints.\<close>
  ClientEndpoint and ServerEndpoint model TransportEndpoint.hpp with the event handling,
  dispatcher and role policies of Policies/ and the endpoint storages, as step relations with
  their invariants. Connection models EndpointConnectionInitialiserBase.hpp with the acceptor and
  the connectors; the locale \<open>initialiser_role\<close> is what the base asks of a derived class,
  \<open>completing_role\<close> extends it, and the interpretations \<open>acceptor\<close> and \<open>connector\<close>
  discharge them. OlderConnector has the rest of Connector.hpp, which that base replaced, and shows
  that both connectors do the same. ReactorClients makes the connector and its endpoint clients of
  the reactor over epoll: a run from the setup to the last message, and a refused connection.
  ReactorServers does the same for a server: any sequence of clients that come, send and break off,
  and a connection that is reset; ServedClients has what the two share, above all that a call
  under one key leaves the others alone. EdgeTriggered adds the kernel's edge-triggered reports
  and the backlog of the listening socket: a server that is told once of two clients accepts one
  and stays behind.
  DeviceTypes models what a device class declares, the traits that ask for it and
  the policy specialisations they select, and the map between tags and types (DeviceFactory.hpp);
  TransportTraits the generators of Traits/transport_traits.hpp. DynamicEndpoint models the
  adaptors over an endpoint whose device is chosen at run time
  (DynamicTransportEndpointAdaptor.h), the resolution of a tag and the connection by configuration
  (DeviceTypeSelector.hpp) and the two clients that drive all of it. DynamicServices puts the
  client's and the server's endpoint behind those adaptors and compares them with the endpoints
  themselves.

  \<^bold>\<open>Loops and bounds.\<close> The reactor's search for a free key is a
  \<open>partial_function (option)\<close>: it may run for ever, and both cases are theorems. So is the
  loop over the elements of a configured collection, which ends unless the separator is empty. The loops
  around system calls recurse over the script of answers, so the script's length bounds them, and
  a loop that needs more answers is \<open>Blocked\<close>; statements about results have no bound on the
  script. Compile-time recursion over a list ends at the index of its last element, computed in
  \<^verbatim>\<open>size_t\<close>; hence the hypotheses that lists are not empty and shorter than 2^64. All other
  recursion is structural or has a measure.

  \<^bold>\<open>Programs and tests.\<close> MetaTests has the compile-time checks of Driver/meta.cpp and its
  dispatch of calls, TransportTests those of Driver/transport.cpp with the exported file of its main
  function: every static assertion is a boolean of the model, and the theorems say that all hold.
  DriverTests has the runs of Driver/main.cpp, each what the test prints or decides on. Advertisers
  has the policies that advertise a device's state and the driver's test of them, which shows
  nothing. TestHandler has the event handler the reactor is tried with (DeviceTestEventHandler.h),
  an endpoint without callbacks, and the generic event handling policy of EventHandlingPolicy.hpp,
  of which no object can be made. ConfigurationProgram has collections with any separator and
  container, files with blank lines, and Configuration/main.cpp on the repository's example file.
  Helpers has the small headers of UtilitiesInfra/ (casts of owning pointers, the older lists of
  types, default values) and the order and the moves of Unix addresses.

  \<^bold>\<open>Not modelled.\<close> The helpers that only name types or build macros (trait_utils.hpp,
  utilitiesinfra.cpp, the \<^verbatim>\<open>_global.h\<close> headers); the two programs that start the clients of
  DynamicEndpoint and wait for ever (\<^verbatim>\<open>testConnectorClient\<close>,
  \<^verbatim>\<open>testAcceptorClient\<close>); the unused interfaces of ClientEndpointInterface.hpp and
  ConnectionParameters.hpp, which are empty classes; the broken-down
  times of FileInfo (they are the text the system makes of them); threads below the granularity of a
  member function or a round of a thread's loop (SharedQueue, ReactorThreads), except in the
  identifiers of Observers. Members that do not compile when used, such as
  \<^verbatim>\<open>FileDevice::remove\<close>, have no definition.
\<close>

end
